(* ===== verification/Prelude.thy ===== *)
theory Prelude
  imports Main "HOL-Library.Monad_Syntax"
begin

text \<open>
  What every component shares: the C integer conversions and the truncating
  division the sources use, the three-way comparison macro \<open>RD_CMP\<close> and
  \<open>strcmp\<close>, the shape of fallible operations, and the generic lemmas on
  lists and options.

  An operation that can hit an \<open>rd_assert\<close> (the library calls \<open>abort()\<close>) is a
  function into \<open>option\<close>: \<open>None\<close> is the abort, and the operations are composed in
  the option monad.
\<close>

named_theorems rd_total \<open>rules that show that an operation does not abort\<close>

section \<open>C integers\<close>

text \<open>Conversion of a wider signed integer to \<open>int32_t\<close> / \<open>int16_t\<close>.\<close>

definition to_int32 :: "int \<Rightarrow> int" where
  "to_int32 x = (x + 2 ^ 31) mod 2 ^ 32 - 2 ^ 31"

definition to_int16 :: "int \<Rightarrow> int" where
  "to_int16 x = (x + 2 ^ 15) mod 2 ^ 16 - 2 ^ 15"

lemma to_int32_id: "- (2 ^ 31) \<le> x \<Longrightarrow> x < 2 ^ 31 \<Longrightarrow> to_int32 x = x"
  by (simp add: to_int32_def)

lemma to_int32_range: "- (2 ^ 31) \<le> to_int32 x \<and> to_int32 x < 2 ^ 31"
proof -
  have "0 \<le> (x + 2 ^ 31) mod 2 ^ 32" "(x + 2 ^ 31) mod 2 ^ 32 < (2 ^ 32 :: int)"
    by simp_all
  then show ?thesis by (simp add: to_int32_def)
qed

text \<open>C division of signed integers truncates towards zero.\<close>

definition cdiv :: "int \<Rightarrow> int \<Rightarrow> int" where
  "cdiv a b = sgn a * sgn b * (\<bar>a\<bar> div \<bar>b\<bar>)"

lemma cdiv_nonneg: "0 \<le> a \<Longrightarrow> 0 < b \<Longrightarrow> cdiv a b = a div b"
  by (cases "a = 0") (auto simp: cdiv_def)

section \<open>Comparison\<close>

text \<open>\<open>RD_CMP(a,b)\<close>: \<open>(a < b) ? -1 : (a > b)\<close>.\<close>

definition RD_CMP :: "int \<Rightarrow> int \<Rightarrow> int" where
  "RD_CMP a b = (if a < b then - 1 else if b < a then 1 else 0)"

lemma RD_CMP_simps [simp]:
  "RD_CMP a b < 0 \<longleftrightarrow> a < b"
  "RD_CMP a b \<le> 0 \<longleftrightarrow> a \<le> b"
  "RD_CMP a b = 0 \<longleftrightarrow> a = b"
  "0 < RD_CMP a b \<longleftrightarrow> b < a"
  "0 \<le> RD_CMP a b \<longleftrightarrow> b \<le> a"
  by (auto simp: RD_CMP_def)

text \<open>\<open>strcmp\<close>: the C library compares the strings as unsigned characters and
  promises only the sign of the result; the difference of the first differing
  characters has that sign.\<close>

fun strcmp :: "string \<Rightarrow> string \<Rightarrow> int" where
  "strcmp [] [] = 0"
| "strcmp [] (d # ds) = - 1"
| "strcmp (c # cs) [] = 1"
| "strcmp (c # cs) (d # ds) =
     (if c = d then strcmp cs ds else of_char c - of_char d)"

lemma of_char_int_eq_iff: "(of_char c :: int) = of_char d \<longleftrightarrow> c = d"
  by simp

lemma strcmp_eq_0_iff [simp]: "strcmp a b = 0 \<longleftrightarrow> a = b"
  by (induction a b rule: strcmp.induct) auto

lemma strcmp_refl [simp]: "strcmp a a = 0"
  by simp

lemma strcmp_antisym: "0 < strcmp a b \<longleftrightarrow> strcmp b a < 0"
  by (induction a b rule: strcmp.induct) auto

lemma strcmp_Cons_le_iff:
  "strcmp (c # cs) (d # ds) \<le> 0 \<longleftrightarrow>
     (of_char c :: int) < of_char d \<or> c = d \<and> strcmp cs ds \<le> 0"
  using of_char_eq_iff [where 'a = int, of c d] by (auto simp: order_le_less)

lemma strcmp_trans: "strcmp a b \<le> 0 \<Longrightarrow> strcmp b c \<le> 0 \<Longrightarrow> strcmp a c \<le> 0"
proof (induction a b arbitrary: c rule: strcmp.induct)
  case (2 d ds)
  then show ?case by (cases c) simp_all
next
  case (4 x cs d ds)
  show ?case
  proof (cases c)
    case Nil
    then show ?thesis using "4.prems" by simp
  next
    case (Cons e es)
    then show ?thesis using "4.prems" "4.IH" [of es] unfolding Cons strcmp_Cons_le_iff
      by (auto dest: order.strict_trans)
  qed
qed simp_all

section \<open>Lists and options\<close>

lemma sorted_wrt_remove1: "sorted_wrt P xs \<Longrightarrow> sorted_wrt P (remove1 x xs)"
  by (induction xs) (auto dest: notin_set_remove1)

lemma bind_Some_iff: "Option.bind m f = Some y \<longleftrightarrow> (\<exists>x. m = Some x \<and> f x = Some y)"
  by (cases m) auto

section \<open>Operations that do not abort\<close>

lemma total_Some [rd_total]: "Some x \<noteq> None"
  by simp

lemma total_bind [rd_total]: "m \<noteq> None \<Longrightarrow> (\<And>x. m = Some x \<Longrightarrow> f x \<noteq> None) \<Longrightarrow> Option.bind m f \<noteq> None"
  by (cases m) simp_all

lemma total_map [rd_total]: "m \<noteq> None \<Longrightarrow> map_option f m \<noteq> None"
  by simp

lemma total_if [rd_total]: "(b \<Longrightarrow> x \<noteq> None) \<Longrightarrow> (\<not> b \<Longrightarrow> y \<noteq> None) \<Longrightarrow> (if b then x else y) \<noteq> None"
  by simp

lemma total_prod [rd_total]: "(\<And>a b. p = (a, b) \<Longrightarrow> f a b \<noteq> None) \<Longrightarrow> (case p of (a, b) \<Rightarrow> f a b) \<noteq> None"
  by (cases p) simp

lemma total_option [rd_total]:
  "(x = None \<Longrightarrow> f \<noteq> None) \<Longrightarrow> (\<And>y. x = Some y \<Longrightarrow> g y \<noteq> None) \<Longrightarrow>
     (case x of None \<Rightarrow> f | Some y \<Rightarrow> g y) \<noteq> None"
  by (cases x) simp_all

lemma total_sum [rd_total]:
  "(\<And>y. x = Inl y \<Longrightarrow> f y \<noteq> None) \<Longrightarrow> (\<And>y. x = Inr y \<Longrightarrow> g y \<noteq> None) \<Longrightarrow>
     (case x of Inl y \<Rightarrow> f y | Inr y \<Rightarrow> g y) \<noteq> None"
  by (cases x) simp_all

end
