(* ===== verification/Sysqueue.thy ===== *)
theory Sysqueue
  imports Prelude "HOL-Library.Multiset"
begin

text \<open>
  The sorted operations of the intrusive tail queues (\<open>src/src/rdsysqueue.h\<close>).
  A \<open>TAILQ\<close> is the list of its elements from head to tail; an element is named
  by its identity, so that \<open>TAILQ_REMOVE\<close> removes that element.

  The contract of a comparator is the locale \<open>rd_comparator\<close>; the lemmas on the sorted
  insertion are proved in it once, for every comparator of the sources that
  interprets it (timers, topic-sorted partition lists, producer ids).
\<close>

section \<open>Operations\<close>

fun TAILQ_INSERT_SORTED :: "('a \<Rightarrow> 'a \<Rightarrow> int) \<Rightarrow> 'a \<Rightarrow> 'a list \<Rightarrow> 'a list" where
  "TAILQ_INSERT_SORTED cmpfunc elm [] = [elm]"
| "TAILQ_INSERT_SORTED cmpfunc elm (tmp # rest) =
     (if cmpfunc elm tmp < 0 then elm # tmp # rest
      else if rest = [] then [tmp, elm]
      else tmp # TAILQ_INSERT_SORTED cmpfunc elm rest)"

text \<open>The result is the pair of the two queues, destination first.\<close>

definition TAILQ_CONCAT_SORTED ::
  "('a \<Rightarrow> 'a \<Rightarrow> int) \<Rightarrow> 'a list \<Rightarrow> 'a list \<Rightarrow> 'a list \<times> 'a list" where
  "TAILQ_CONCAT_SORTED cmpfunc dsthead srchead =
     (if dsthead = [] then (srchead, [])
      else (fold (TAILQ_INSERT_SORTED cmpfunc) srchead dsthead, []))"

definition TAILQ_REMOVE :: "'a \<Rightarrow> 'a list \<Rightarrow> 'a list" where
  "TAILQ_REMOVE elm head = remove1 elm head"

section \<open>What holds for every comparator\<close>

lemma TAILQ_INSERT_SORTED_mset [simp]:
  "mset (TAILQ_INSERT_SORTED cmpfunc elm xs) = add_mset elm (mset xs)"
  by (induction xs) auto

lemma TAILQ_INSERT_SORTED_set [simp]:
  "set (TAILQ_INSERT_SORTED cmpfunc elm xs) = insert elm (set xs)"
  by (induction xs) auto

lemma TAILQ_INSERT_SORTED_distinct [simp]:
  "distinct (TAILQ_INSERT_SORTED cmpfunc elm xs) \<longleftrightarrow> distinct xs \<and> elm \<notin> set xs"
  by (induction xs) auto

lemma TAILQ_INSERT_SORTED_cong:
  "(\<And>x. x \<in> set xs \<Longrightarrow> f elm x = g elm x) \<Longrightarrow>
     TAILQ_INSERT_SORTED f elm xs = TAILQ_INSERT_SORTED g elm xs"
  by (induction xs) auto

lemma fold_INSERT_SORTED_mset:
  "mset (fold (TAILQ_INSERT_SORTED cmpfunc) src dst) = mset src + mset dst"
  by (induction src arbitrary: dst) auto

lemma TAILQ_CONCAT_SORTED_mset:
  "mset (fst (TAILQ_CONCAT_SORTED cmpfunc dst src)) = mset dst + mset src"
  by (simp add: TAILQ_CONCAT_SORTED_def fold_INSERT_SORTED_mset)

lemma TAILQ_CONCAT_SORTED_src [simp]: "snd (TAILQ_CONCAT_SORTED cmpfunc dst src) = []"
  by (simp add: TAILQ_CONCAT_SORTED_def)

lemma TAILQ_CONCAT_SORTED_set [simp]:
  "set (fst (TAILQ_CONCAT_SORTED cmpfunc dst src)) = set dst \<union> set src"
  using TAILQ_CONCAT_SORTED_mset [of cmpfunc dst src] by (metis set_mset_mset set_mset_union)

lemma TAILQ_CONCAT_SORTED_distinct:
  "distinct (fst (TAILQ_CONCAT_SORTED cmpfunc dst src)) \<longleftrightarrow>
     distinct dst \<and> distinct src \<and> set dst \<inter> set src = {}"
  using TAILQ_CONCAT_SORTED_mset [of cmpfunc dst src] 
  by (metis distinct_append mset_append mset_eq_imp_distinct_iff)

section \<open>Comparators\<close>

text \<open>A comparator is a total preorder read off the sign of its result.\<close>

locale rd_comparator =
  fixes cmp :: "'a \<Rightarrow> 'a \<Rightarrow> int"
  assumes cmp_antisym: "0 < cmp a b \<longleftrightarrow> cmp b a < 0"
    and cmp_trans: "cmp a b \<le> 0 \<Longrightarrow> cmp b c \<le> 0 \<Longrightarrow> cmp a c \<le> 0"
begin

lemma cmp_refl: "cmp a a = 0"
  using cmp_antisym [of a a] by linarith

lemma cmp_total: "cmp a b \<le> 0 \<or> cmp b a \<le> 0"
  using cmp_antisym [of a b] by linarith

lemma cmp_nless: "\<not> cmp a b < 0 \<Longrightarrow> cmp b a \<le> 0"
  using cmp_antisym [of b a] by linarith

lemma insert_sorted:
  "sorted_wrt (\<lambda>a b. cmp a b \<le> 0) xs \<Longrightarrow>
     sorted_wrt (\<lambda>a b. cmp a b \<le> 0) (TAILQ_INSERT_SORTED cmp x xs)"
proof (induction xs)
  case (Cons y ys)
  then show ?case
    by (auto dest: cmp_nless intro: cmp_trans [of x y] less_imp_le)
qed simp

text \<open>The insertion is stable: the new element goes behind its equals.\<close>

lemma insert_stable:
  "sorted_wrt (\<lambda>a b. cmp a b \<le> 0) xs \<Longrightarrow>
     TAILQ_INSERT_SORTED cmp x xs = takeWhile (\<lambda>y. cmp y x \<le> 0) xs @ x # dropWhile (\<lambda>y. cmp y x \<le> 0) xs"
proof (induction xs)
  case (Cons y ys)
  then show ?case using cmp_antisym [of y x] cmp_nless [of x y] by auto
qed simp

lemma concat_sorted:
  assumes "sorted_wrt (\<lambda>a b. cmp a b \<le> 0) dst" "sorted_wrt (\<lambda>a b. cmp a b \<le> 0) src"
  shows "sorted_wrt (\<lambda>a b. cmp a b \<le> 0) (fst (TAILQ_CONCAT_SORTED cmp dst src))"
proof -
  have "sorted_wrt (\<lambda>a b. cmp a b \<le> 0) (fold (TAILQ_INSERT_SORTED cmp) src dst)"
    using assms(1) by (induction src arbitrary: dst) (simp_all add: insert_sorted)
  then show ?thesis using assms by (simp add: TAILQ_CONCAT_SORTED_def)
qed

text \<open>Among equals the order is the one they came in, the destination's first.\<close>

lemma insert_equals:
  assumes "sorted_wrt (\<lambda>a b. cmp a b \<le> 0) xs"
  shows "filter (\<lambda>y. cmp y z = 0) (TAILQ_INSERT_SORTED cmp x xs) = filter (\<lambda>y. cmp y z = 0) (xs @ [x])"
  using assms
proof (induction xs)
  case (Cons y ys)
  have "filter (\<lambda>u. cmp u z = 0) (y # ys) = []" if "cmp x y < 0" "cmp x z = 0"
  proof -
    have "\<not> cmp u z \<le> 0" if "u \<in> set (y # ys)" for u
    proof
      assume "cmp u z \<le> 0"
      moreover have "cmp z x \<le> 0" using cmp_antisym [of z x] \<open>cmp x z = 0\<close> by simp
      moreover have "cmp y u \<le> 0" using that Cons.prems cmp_refl [of y] by auto
      ultimately have "cmp y x \<le> 0" using cmp_trans by blast
      then show False using cmp_antisym [of y x] \<open>cmp x y < 0\<close> by simp
    qed
    then have "\<forall>u \<in> set (y # ys). cmp u z \<noteq> 0" by force
    then show ?thesis by (simp add: filter_empty_conv)
  qed
  then show ?case using Cons by auto
qed simp

lemma concat_equals:
  assumes "sorted_wrt (\<lambda>a b. cmp a b \<le> 0) dst"
  shows "filter (\<lambda>y. cmp y z = 0) (fst (TAILQ_CONCAT_SORTED cmp dst src)) = filter (\<lambda>y. cmp y z = 0) (dst @ src)"
proof -
  have "filter (\<lambda>y. cmp y z = 0) (fold (TAILQ_INSERT_SORTED cmp) src dst) = filter (\<lambda>y. cmp y z = 0) (dst @ src)"
    using assms by (induction src arbitrary: dst) (simp_all add: insert_sorted insert_equals)
  then show ?thesis by (simp add: TAILQ_CONCAT_SORTED_def)
qed

end

text \<open>Comparing a projection with \<open>RD_CMP\<close> or \<open>strcmp\<close> is a comparator.\<close>

lemma rd_comparator_RD_CMP: "rd_comparator (\<lambda>a b. RD_CMP (f a) (f b))"
  by unfold_locales auto

lemma rd_comparator_strcmp: "rd_comparator (\<lambda>a b. strcmp (f a) (f b))"
  by unfold_locales (auto simp: strcmp_antisym intro: strcmp_trans)

end
