(* ===== verification/Rd_Time.thy ===== *)
theory Rd_Time
  imports Prelude
begin

text \<open>
  The timeout arithmetic of \<open>src/src/rdtime.h\<close>. Every function that calls
  \<open>rd_clock()\<close> takes the clock reading as its first argument \<open>now\<close>. Times are
  microseconds (\<open>rd_ts_t\<close>, an \<open>int64_t\<close> that does not overflow for real clocks, so
  \<open>int\<close>); the narrowing to \<open>int\<close> of \<open>rd_timeout_ms\<close> is written out.
\<close>

abbreviation (input) RD_POLL_INFINITE :: int where "RD_POLL_INFINITE \<equiv> - 1"
abbreviation (input) RD_POLL_NOWAIT :: int where "RD_POLL_NOWAIT \<equiv> 0"

definition rd_timeout_us :: "int \<Rightarrow> int" where
  "rd_timeout_us timeout_ms = (if timeout_ms \<le> 0 then timeout_ms else timeout_ms * 1000)"

definition rd_timeout_ms :: "int \<Rightarrow> int" where
  "rd_timeout_ms timeout_us =
     (if timeout_us \<le> 0 then to_int32 timeout_us
      else to_int32 (cdiv (timeout_us + 999) 1000))"

definition rd_timeout_init0 :: "int \<Rightarrow> int \<Rightarrow> int" where
  "rd_timeout_init0 now timeout_ms =
     (if timeout_ms = RD_POLL_INFINITE \<or> timeout_ms = RD_POLL_NOWAIT then timeout_ms
      else now + timeout_ms * 1000)"

definition rd_timeout_init_us0 :: "int \<Rightarrow> int \<Rightarrow> int" where
  "rd_timeout_init_us0 now timeout_us =
     (if timeout_us = RD_POLL_INFINITE \<or> timeout_us = RD_POLL_NOWAIT then timeout_us
      else now + timeout_us)"

definition rd_timeout_remains_us :: "int \<Rightarrow> int \<Rightarrow> int" where
  "rd_timeout_remains_us now abs_timeout =
     (if abs_timeout = RD_POLL_INFINITE \<or> abs_timeout = RD_POLL_NOWAIT then abs_timeout
      else let timeout_us = abs_timeout - now in
        if timeout_us \<le> 0 then RD_POLL_NOWAIT else timeout_us)"

definition rd_timeout_remains :: "int \<Rightarrow> int \<Rightarrow> int" where
  "rd_timeout_remains now abs_timeout = rd_timeout_ms (rd_timeout_remains_us now abs_timeout)"

definition rd_timeout_remains_limit0 :: "int \<Rightarrow> int \<Rightarrow> int" where
  "rd_timeout_remains_limit0 remains_ms limit_ms =
     (if remains_ms = RD_POLL_INFINITE \<or> remains_ms > limit_ms then limit_ms else remains_ms)"

definition rd_timeout_remains_limit :: "int \<Rightarrow> int \<Rightarrow> int \<Rightarrow> int" where
  "rd_timeout_remains_limit now abs_timeout limit_ms =
     rd_timeout_remains_limit0 (rd_timeout_remains now abs_timeout) limit_ms"

definition rd_timeout_expired :: "int \<Rightarrow> bool" where
  "rd_timeout_expired timeout_ms = (timeout_ms = RD_POLL_NOWAIT)"

lemmas rd_timeout_defs = rd_timeout_us_def rd_timeout_ms_def rd_timeout_init0_def
  rd_timeout_init_us0_def rd_timeout_remains_us_def rd_timeout_remains_def
  rd_timeout_remains_limit0_def rd_timeout_remains_limit_def rd_timeout_expired_def

section \<open>Laws\<close>

lemma rd_timeout_ms_nonneg:
  assumes "0 \<le> us" "us \<le> 2147483647000"
  shows "rd_timeout_ms us = (us + 999) div 1000"
  using assms by (auto simp: rd_timeout_ms_def cdiv_nonneg to_int32_def)

lemma rd_timeout_ms_us:
  assumes "0 \<le> ms" "ms \<le> 2147483647"
  shows "rd_timeout_ms (rd_timeout_us ms) = ms"
  using assms by (auto simp: rd_timeout_ms_nonneg rd_timeout_us_def to_int32_id rd_timeout_ms_def cdiv_nonneg)

lemma rd_timeout_remains_us_bounds:
  assumes "abs_timeout \<noteq> RD_POLL_INFINITE"
  shows "0 \<le> rd_timeout_remains_us now abs_timeout \<or> abs_timeout < 0"
  using assms by (auto simp: rd_timeout_remains_us_def Let_def)

text \<open>A timeout armed at \<open>now\<close> for a positive number of milliseconds is reported
  as expired exactly when that time has passed: rounding up never reports an
  expired timeout early and never a busy-looping zero before it.\<close>

lemma rd_timeout_expired_iff:
  assumes "0 < ms" "ms \<le> 2147483647" "0 \<le> t0" "t0 \<le> now"
  shows "rd_timeout_expired (rd_timeout_remains now (rd_timeout_init0 t0 ms)) \<longleftrightarrow>
           t0 + ms * 1000 \<le> now"
proof -
  let ?a = "t0 + ms * 1000"
  have a: "rd_timeout_init0 t0 ms = ?a" "?a \<noteq> - 1" "?a \<noteq> 0"
    using assms by (auto simp: rd_timeout_init0_def)
  show ?thesis
  proof (cases "?a \<le> now")
    case True
    then show ?thesis using a
      by (simp add: rd_timeout_expired_def rd_timeout_remains_def rd_timeout_remains_us_def
          rd_timeout_ms_def to_int32_def)
  next
    case False
    then have r: "0 < ?a - now" "?a - now \<le> 2147483647000" using assms by auto
    have "(?a - now + 999) div 1000 > 0" using r(1) by (simp add: pos_imp_zdiv_pos_iff)
    then show ?thesis using a False r
      by (simp add: rd_timeout_expired_def rd_timeout_remains_def rd_timeout_remains_us_def
          Let_def rd_timeout_ms_nonneg)
  qed
qed

end
