(* ===== verification/Timers.thy ===== *)
theory Timers
  imports Sysqueue Rd_Time
begin

text \<open>
  The timer engine (\<open>src/src/rdkafka_timer.c\<close>, \<open>rdkafka_timer.h\<close>). Timer objects are
  named by identities \<open>'t\<close>; \<open>rkts_tmr\<close> is the store of the objects and \<open>rkts_timers\<close>
  the queue of the scheduled ones. A callback with its argument is a value of type
  \<open>'cb\<close>. Every \<open>rd_clock()\<close> reading is an argument \<open>now\<close>. The \<open>timers_lock\<close> is taken
  around each operation, so each operation is one step; \<open>rkts_signals\<close> counts the
  wake-ups (\<open>cnd_signal\<close> and \<open>rd_kafka_q_yield\<close>) sent to a sleeping dispatcher.
\<close>

section \<open>State\<close>

record 'cb rd_kafka_timer =
  rtmr_next :: int
  rtmr_interval :: int
  rtmr_oneshot :: bool
  rtmr_callback :: "'cb option"

record ('t, 'cb) rd_kafka_timers =
  rkts_timers :: "'t list"
  rkts_tmr :: "'t \<Rightarrow> 'cb rd_kafka_timer"
  rkts_enabled :: bool
  rkts_signals :: nat

definition rd_kafka_timer_zero :: "'cb rd_kafka_timer" where
  "rd_kafka_timer_zero =
     \<lparr>rtmr_next = 0, rtmr_interval = 0, rtmr_oneshot = False, rtmr_callback = None\<rparr>"

section \<open>Operations\<close>

definition rd_kafka_timer_started :: "'cb rd_kafka_timer \<Rightarrow> bool" where
  "rd_kafka_timer_started rtmr = (rtmr_interval rtmr \<noteq> 0)"

definition rd_kafka_timer_scheduled :: "'cb rd_kafka_timer \<Rightarrow> bool" where
  "rd_kafka_timer_scheduled rtmr = (rtmr_next rtmr \<noteq> 0)"

definition rd_kafka_timer_cmp :: "'cb rd_kafka_timer \<Rightarrow> 'cb rd_kafka_timer \<Rightarrow> int" where
  "rd_kafka_timer_cmp a b = RD_CMP (rtmr_next a) (rtmr_next b)"

text \<open>Updating one timer object in the store.\<close>

definition tmr_upd ::
  "'t \<Rightarrow> ('cb rd_kafka_timer \<Rightarrow> 'cb rd_kafka_timer) \<Rightarrow>
   ('t, 'cb) rd_kafka_timers \<Rightarrow> ('t, 'cb) rd_kafka_timers" where
  "tmr_upd t f rkts = rkts\<lparr>rkts_tmr := (rkts_tmr rkts)(t := f (rkts_tmr rkts t))\<rparr>"

definition rd_kafka_timer_unschedule ::
  "('t, 'cb) rd_kafka_timers \<Rightarrow> 't \<Rightarrow> ('t, 'cb) rd_kafka_timers" where
  "rd_kafka_timer_unschedule rkts t =
     tmr_upd t (\<lambda>rtmr. rtmr\<lparr>rtmr_next := 0\<rparr>)
       (rkts\<lparr>rkts_timers := TAILQ_REMOVE t (rkts_timers rkts)\<rparr>)"

definition rd_kafka_timer_schedule_next ::
  "('t, 'cb) rd_kafka_timers \<Rightarrow> 't \<Rightarrow> int \<Rightarrow> ('t, 'cb) rd_kafka_timers" where
  "rd_kafka_timer_schedule_next rkts t abs_time =
     (let rkts = tmr_upd t (\<lambda>rtmr. rtmr\<lparr>rtmr_next := abs_time\<rparr>) rkts;
          tmr = rkts_tmr rkts;
          q = rkts_timers rkts
      in if q = [] \<or> rtmr_next (tmr (hd q)) > rtmr_next (tmr t)
         then rkts\<lparr>rkts_timers := t # q, rkts_signals := rkts_signals rkts + 1\<rparr>
         else rkts\<lparr>rkts_timers :=
                TAILQ_INSERT_SORTED (\<lambda>a b. rd_kafka_timer_cmp (tmr a) (tmr b)) t q\<rparr>)"

definition rd_kafka_timer_schedule ::
  "int \<Rightarrow> ('t, 'cb) rd_kafka_timers \<Rightarrow> 't \<Rightarrow> int \<Rightarrow> ('t, 'cb) rd_kafka_timers" where
  "rd_kafka_timer_schedule now rkts t extra_us =
     (if rtmr_interval (rkts_tmr rkts t) = 0 then rkts
      else if \<not> rkts_enabled rkts then rkts
      else rd_kafka_timer_schedule_next rkts t
             (now + rtmr_interval (rkts_tmr rkts t) + extra_us))"

text \<open>\<open>rd_kafka_timer_stop\<close> returns whether the timer was started.\<close>

definition rd_kafka_timer_stop ::
  "('t, 'cb) rd_kafka_timers \<Rightarrow> 't \<Rightarrow> bool \<times> ('t, 'cb) rd_kafka_timers" where
  "rd_kafka_timer_stop rkts t =
     (if \<not> rd_kafka_timer_started (rkts_tmr rkts t) then (False, rkts)
      else
        let rkts = (if rd_kafka_timer_scheduled (rkts_tmr rkts t)
                    then rd_kafka_timer_unschedule rkts t else rkts)
        in (True, tmr_upd t (\<lambda>rtmr. rtmr\<lparr>rtmr_interval := 0\<rparr>) rkts))"

definition rd_kafka_timer_is_started :: "('t, 'cb) rd_kafka_timers \<Rightarrow> 't \<Rightarrow> bool" where
  "rd_kafka_timer_is_started rkts t = (rtmr_interval (rkts_tmr rkts t) \<noteq> 0)"

definition rd_kafka_timer_start0 ::
  "int \<Rightarrow> ('t, 'cb) rd_kafka_timers \<Rightarrow> 't \<Rightarrow> int \<Rightarrow> bool \<Rightarrow> bool \<Rightarrow> 'cb \<Rightarrow>
   ('t, 'cb) rd_kafka_timers" where
  "rd_kafka_timer_start0 now rkts t interval oneshot restart callback =
     (if \<not> restart \<and> rd_kafka_timer_scheduled (rkts_tmr rkts t) then rkts
      else
        let rkts = snd (rd_kafka_timer_stop rkts t);
            rkts = tmr_upd t (\<lambda>rtmr. rtmr
                     \<lparr>rtmr_interval := (if interval = 0 then 1 else interval),
                      rtmr_callback := Some callback,
                      rtmr_oneshot := oneshot\<rparr>) rkts
        in rd_kafka_timer_schedule now rkts t 0)"

abbreviation rd_kafka_timer_start where
  "rd_kafka_timer_start now rkts t interval callback \<equiv>
     rd_kafka_timer_start0 now rkts t interval False True callback"

abbreviation rd_kafka_timer_start_oneshot where
  "rd_kafka_timer_start_oneshot now rkts t restart interval callback \<equiv>
     rd_kafka_timer_start0 now rkts t interval True restart callback"

text \<open>The random number \<open>rd_jitter(-max_jitter, max_jitter)\<close> draws is the argument
  \<open>jit\<close>. The jitter is an \<open>int64_t\<close> that is passed on as an \<open>int\<close>.\<close>

definition rd_kafka_timer_exp_backoff ::
  "int \<Rightarrow> int \<Rightarrow> ('t, 'cb) rd_kafka_timers \<Rightarrow> 't \<Rightarrow> int \<Rightarrow> int \<Rightarrow> ('t, 'cb) rd_kafka_timers" where
  "rd_kafka_timer_exp_backoff now jit rkts t minimum_backoff maximum_backoff =
     (let rkts = (if rd_kafka_timer_scheduled (rkts_tmr rkts t)
                  then rd_kafka_timer_unschedule rkts t else rkts);
          interval = rtmr_interval (rkts_tmr rkts t) * 2;
          jitter = cdiv (jit * interval) 100;
          (interval, jitter) =
            (if interval + jitter < minimum_backoff then (minimum_backoff, 0)
             else if maximum_backoff \<noteq> - 1 \<and> interval + jitter > maximum_backoff
                  then (maximum_backoff, 0)
             else (interval, jitter));
          rkts = tmr_upd t (\<lambda>rtmr. rtmr\<lparr>rtmr_interval := interval\<rparr>) rkts
      in rd_kafka_timer_schedule now rkts t (to_int32 jitter))"

definition rd_kafka_timer_override_once ::
  "int \<Rightarrow> ('t, 'cb) rd_kafka_timers \<Rightarrow> 't \<Rightarrow> int \<Rightarrow> ('t, 'cb) rd_kafka_timers" where
  "rd_kafka_timer_override_once now rkts t interval =
     (let rkts = (if rd_kafka_timer_scheduled (rkts_tmr rkts t)
                  then rd_kafka_timer_unschedule rkts t else rkts)
      in rd_kafka_timer_schedule_next rkts t (now + interval))"

definition rd_kafka_timer_next :: "int \<Rightarrow> ('t, 'cb) rd_kafka_timers \<Rightarrow> 't \<Rightarrow> int" where
  "rd_kafka_timer_next now rkts t =
     (if rd_kafka_timer_scheduled (rkts_tmr rkts t)
      then let delta = rtmr_next (rkts_tmr rkts t) - now in (if delta < 0 then 0 else delta)
      else - 1)"

definition rd_kafka_timers_interrupt ::
  "('t, 'cb) rd_kafka_timers \<Rightarrow> ('t, 'cb) rd_kafka_timers" where
  "rd_kafka_timers_interrupt rkts = rkts\<lparr>rkts_signals := rkts_signals rkts + 1\<rparr>"

definition rd_kafka_timers_next :: "int \<Rightarrow> ('t, 'cb) rd_kafka_timers \<Rightarrow> int \<Rightarrow> int" where
  "rd_kafka_timers_next now rkts timeout_us =
     (case rkts_timers rkts of
        [] \<Rightarrow> timeout_us
      | t # _ \<Rightarrow>
          let sleeptime = rtmr_next (rkts_tmr rkts t) - now
          in if sleeptime < 0 then 0
             else if sleeptime > timeout_us then timeout_us
             else sleeptime)"

definition rd_kafka_timers_init :: "('t, 'cb) rd_kafka_timers" where
  "rd_kafka_timers_init =
     \<lparr>rkts_timers = [], rkts_tmr = (\<lambda>_. rd_kafka_timer_zero), rkts_enabled = True,
      rkts_signals = 0\<rparr>"

subsection \<open>Destroying\<close>

text \<open>The loop stops the first timer until the queue is empty. It has no bound
  of its own, so not returning is the value \<open>None\<close>.\<close>

partial_function (option) rd_kafka_timers_stop_all ::
  "('t, 'cb) rd_kafka_timers \<Rightarrow> ('t, 'cb) rd_kafka_timers option" where
  "rd_kafka_timers_stop_all rkts =
     (case rkts_timers rkts of
        [] \<Rightarrow> Some rkts
      | t # _ \<Rightarrow> rd_kafka_timers_stop_all (snd (rd_kafka_timer_stop rkts t)))"

definition rd_kafka_timers_destroy ::
  "('t, 'cb) rd_kafka_timers \<Rightarrow> ('t, 'cb) rd_kafka_timers option" where
  "rd_kafka_timers_destroy rkts = rd_kafka_timers_stop_all (rkts\<lparr>rkts_enabled := False\<rparr>)"

subsection \<open>Dispatching\<close>

text \<open>
  The dispatcher's state is the number of clock readings so far, the engine, and the
  rest \<open>'w\<close> of the client's state; \<open>clk n\<close> is the n-th reading. A callback runs
  with the lock released and may use the engine itself: \<open>call\<close> is its effect,
  \<open>None\<close> where it aborts. A timer without a callback would be a call through a
  null pointer, also \<open>None\<close>.
\<close>

type_synonym ('t, 'cb, 'w) rd_disp = "nat \<times> ('t, 'cb) rd_kafka_timers \<times> 'w"

definition rd_kafka_timers_fire ::
  "('cb \<Rightarrow> ('t, 'cb, 'w) rd_disp \<Rightarrow> ('t, 'cb, 'w) rd_disp option) \<Rightarrow> (nat \<Rightarrow> int) \<Rightarrow> 't \<Rightarrow>
   ('t, 'cb, 'w) rd_disp \<Rightarrow> ('t, 'cb, 'w) rd_disp option" where
  "rd_kafka_timers_fire call clk t st =
     (let (n, rkts, w) = st;
          rkts = rd_kafka_timer_unschedule rkts t;
          oneshot = rtmr_oneshot (rkts_tmr rkts t);
          rkts = (if oneshot then tmr_upd t (\<lambda>rtmr. rtmr\<lparr>rtmr_interval := 0\<rparr>) rkts else rkts)
      in case rtmr_callback (rkts_tmr rkts t) of
           None \<Rightarrow> None
         | Some callback \<Rightarrow>
             Option.bind (call callback (n, rkts, w)) (\<lambda>(n, rkts, w).
               if \<not> oneshot \<and> rd_kafka_timer_started (rkts_tmr rkts t)
                  \<and> \<not> rd_kafka_timer_scheduled (rkts_tmr rkts t)
               then Some (n + 1, rd_kafka_timer_schedule (clk n) rkts t 0, w)
               else Some (n, rkts, w)))"

partial_function (option) rd_kafka_timers_dispatch ::
  "('cb \<Rightarrow> ('t, 'cb, 'w) rd_disp \<Rightarrow> ('t, 'cb, 'w) rd_disp option) \<Rightarrow> (nat \<Rightarrow> int) \<Rightarrow> int \<Rightarrow>
   ('t, 'cb, 'w) rd_disp \<Rightarrow> ('t, 'cb, 'w) rd_disp option" where
  "rd_kafka_timers_dispatch call clk now st =
     (case rkts_timers (fst (snd st)) of
        [] \<Rightarrow> Some st
      | t # _ \<Rightarrow>
          if rtmr_next (rkts_tmr (fst (snd st)) t) \<le> now
          then Option.bind (rd_kafka_timers_fire call clk t st)
                 (rd_kafka_timers_dispatch call clk now)
          else Some st)"

text \<open>\<open>terminating\<close> is \<open>rd_kafka_terminating()\<close>; \<open>sleep ms\<close> is what other threads do to
  the state during the \<open>cnd_timedwait_ms\<close> of \<open>ms\<close> milliseconds.\<close>

partial_function (option) rd_kafka_timers_run_loop ::
  "('cb \<Rightarrow> ('t, 'cb, 'w) rd_disp \<Rightarrow> ('t, 'cb, 'w) rd_disp option) \<Rightarrow> (nat \<Rightarrow> int) \<Rightarrow>
   ('w \<Rightarrow> bool) \<Rightarrow> (int \<Rightarrow> ('t, 'cb, 'w) rd_disp \<Rightarrow> ('t, 'cb, 'w) rd_disp) \<Rightarrow>
   int \<Rightarrow> int \<Rightarrow> int \<Rightarrow> ('t, 'cb, 'w) rd_disp \<Rightarrow> ('t, 'cb, 'w) rd_disp option" where
  "rd_kafka_timers_run_loop call clk terminating sleep timeout_us end_ts now st =
     (if terminating (snd (snd st)) \<or> end_ts < now then Some st
      else
        let st = (if timeout_us \<noteq> RD_POLL_NOWAIT
                  then let (n, rkts, w) = st;
                           sleeptime = rd_kafka_timers_next (clk n) rkts timeout_us
                       in if sleeptime > 0 then sleep (to_int32 (cdiv sleeptime 1000)) (n + 1, rkts, w)
                          else (n + 1, rkts, w)
                  else st);
            (n, rkts, w) = st;
            now = clk n
        in Option.bind (rd_kafka_timers_dispatch call clk now (n + 1, rkts, w))
             (\<lambda>st. if timeout_us = RD_POLL_NOWAIT then Some st
                   else rd_kafka_timers_run_loop call clk terminating sleep timeout_us
                          end_ts now st))"

definition rd_kafka_timers_run ::
  "('cb \<Rightarrow> ('t, 'cb, 'w) rd_disp \<Rightarrow> ('t, 'cb, 'w) rd_disp option) \<Rightarrow> (nat \<Rightarrow> int) \<Rightarrow>
   ('w \<Rightarrow> bool) \<Rightarrow> (int \<Rightarrow> ('t, 'cb, 'w) rd_disp \<Rightarrow> ('t, 'cb, 'w) rd_disp) \<Rightarrow>
   int \<Rightarrow> ('t, 'cb, 'w) rd_disp \<Rightarrow> ('t, 'cb, 'w) rd_disp option" where
  "rd_kafka_timers_run call clk terminating sleep timeout_us st =
     (let (n, rkts, w) = st; now = clk n
      in rd_kafka_timers_run_loop call clk terminating sleep timeout_us (now + timeout_us) now
           (n + 1, rkts, w))"

declare rd_kafka_timers_stop_all.simps [code]
declare rd_kafka_timers_dispatch.simps [code]
declare rd_kafka_timers_run_loop.simps [code]

section \<open>The invariant\<close>

text \<open>The queue holds exactly the scheduled timers, once each, in order of their
  deadlines; a scheduled timer is started, a started one has a callback, and
  intervals are not negative.\<close>

definition timers_ok :: "('t, 'cb) rd_kafka_timers \<Rightarrow> bool" where
  "timers_ok rkts \<longleftrightarrow>
     distinct (rkts_timers rkts) \<and>
     (\<forall>t. t \<in> set (rkts_timers rkts) \<longleftrightarrow> rd_kafka_timer_scheduled (rkts_tmr rkts t)) \<and>
     sorted (map (\<lambda>t. rtmr_next (rkts_tmr rkts t)) (rkts_timers rkts)) \<and>
     (\<forall>t. rd_kafka_timer_scheduled (rkts_tmr rkts t) \<longrightarrow>
        rd_kafka_timer_started (rkts_tmr rkts t)) \<and>
     (\<forall>t. rd_kafka_timer_started (rkts_tmr rkts t) \<longrightarrow> rtmr_callback (rkts_tmr rkts t) \<noteq> None) \<and>
     (\<forall>t. 0 \<le> rtmr_interval (rkts_tmr rkts t))"

interpretation tmrcmp: rd_comparator "\<lambda>a b. rd_kafka_timer_cmp (tmr a) (tmr b)" for tmr
  unfolding rd_kafka_timer_cmp_def by (rule rd_comparator_RD_CMP)

lemma tmr_upd_sel [simp]:
  "rkts_timers (tmr_upd t f rkts) = rkts_timers rkts"
  "rkts_enabled (tmr_upd t f rkts) = rkts_enabled rkts"
  "rkts_signals (tmr_upd t f rkts) = rkts_signals rkts"
  "rkts_tmr (tmr_upd t f rkts) = (rkts_tmr rkts)(t := f (rkts_tmr rkts t))"
  by (simp_all add: tmr_upd_def)

lemmas timer_defs = rd_kafka_timer_started_def rd_kafka_timer_scheduled_def
  rd_kafka_timer_is_started_def rd_kafka_timer_zero_def TAILQ_REMOVE_def

lemma map_next_other [simp]:
  "t \<notin> set q \<Longrightarrow> map (\<lambda>a. rtmr_next ((tmr(t := x)) a)) q = map (\<lambda>a. rtmr_next (tmr a)) q"
  by auto

lemma map_next_same [simp]:
  "rtmr_next x = rtmr_next (tmr t) \<Longrightarrow>
     map (\<lambda>a. rtmr_next ((tmr(t := x)) a)) q = map (\<lambda>a. rtmr_next (tmr a)) q"
  by auto

lemma timers_ok_init: "timers_ok rd_kafka_timers_init"
  by (simp add: timers_ok_def rd_kafka_timers_init_def timer_defs)

lemma timers_ok_enabled [simp]: "timers_ok (rkts\<lparr>rkts_enabled := b\<rparr>) = timers_ok rkts"
  by (simp add: timers_ok_def)

lemma timers_ok_unschedule:
  "timers_ok rkts \<Longrightarrow> timers_ok (rd_kafka_timer_unschedule rkts t)"
  unfolding timers_ok_def rd_kafka_timer_unschedule_def timer_defs
  by (auto simp: sorted_map_remove1 simp del: fun_upd_apply)
     (auto split: if_splits)

text \<open>Inserting by the comparator keeps the queue in deadline order, whether the
  engine takes the fast path at the head or not.\<close>

lemma schedule_next_sorted:
  assumes "sorted (map (\<lambda>a. rtmr_next (tmr a)) q)"
  shows "sorted (map (\<lambda>a. rtmr_next (tmr a))
           (TAILQ_INSERT_SORTED (\<lambda>a b. rd_kafka_timer_cmp (tmr a) (tmr b)) t q))"
  using tmrcmp.insert_sorted [of tmr q t] assms
  by (simp add: rd_kafka_timer_cmp_def sorted_map)

lemma timers_ok_schedule_next:
  assumes ok: "timers_ok rkts"
    and t: "\<not> rd_kafka_timer_scheduled (rkts_tmr rkts t)" "rd_kafka_timer_started (rkts_tmr rkts t)"
      "abs_time \<noteq> 0"
  shows "timers_ok (rd_kafka_timer_schedule_next rkts t abs_time)"
proof -
  let ?tmr = "(rkts_tmr rkts)(t := rkts_tmr rkts t\<lparr>rtmr_next := abs_time\<rparr>)"
  let ?q = "rkts_timers rkts"
  have notin: "t \<notin> set ?q" using ok t(1) by (auto simp: timers_ok_def)
  have s: "sorted (map (\<lambda>a. rtmr_next (?tmr a)) ?q)"
    using ok notin by (simp add: timers_ok_def del: fun_upd_apply)
  have hd: "sorted (map (\<lambda>a. rtmr_next (?tmr a)) (t # ?q))"
    if "?q = [] \<or> rtmr_next (?tmr (hd ?q)) > rtmr_next (?tmr t)"
    using s that by (cases ?q) (auto simp del: fun_upd_apply)
  show ?thesis
    using ok t notin hd schedule_next_sorted [OF s, of t]
    unfolding timers_ok_def rd_kafka_timer_schedule_next_def
    by (simp add: Let_def timer_defs del: fun_upd_apply) (auto simp: timer_defs)
qed

lemma timers_ok_schedule:
  assumes "timers_ok rkts" "\<not> rd_kafka_timer_scheduled (rkts_tmr rkts t)"
    "now + rtmr_interval (rkts_tmr rkts t) + extra_us \<noteq> 0"
  shows "timers_ok (rd_kafka_timer_schedule now rkts t extra_us)"
  using assms timers_ok_schedule_next [of rkts t]
  by (simp add: rd_kafka_timer_schedule_def rd_kafka_timer_started_def)

lemma timers_ok_upd_unscheduled:
  "timers_ok rkts \<Longrightarrow> \<not> rd_kafka_timer_scheduled (rkts_tmr rkts t) \<Longrightarrow>
     rtmr_next (f (rkts_tmr rkts t)) = rtmr_next (rkts_tmr rkts t) \<Longrightarrow>
     0 \<le> rtmr_interval (f (rkts_tmr rkts t)) \<Longrightarrow>
     (rtmr_interval (f (rkts_tmr rkts t)) \<noteq> 0 \<longrightarrow> rtmr_callback (f (rkts_tmr rkts t)) \<noteq> None) \<Longrightarrow>
     timers_ok (tmr_upd t f rkts)"
  unfolding timers_ok_def by (auto simp: timer_defs simp del: fun_upd_apply) (auto split: if_splits)

lemma unschedule_sel [simp]:
  "rkts_tmr (rd_kafka_timer_unschedule rkts t) = (rkts_tmr rkts)(t := rkts_tmr rkts t\<lparr>rtmr_next := 0\<rparr>)"
  "rkts_timers (rd_kafka_timer_unschedule rkts t) = remove1 t (rkts_timers rkts)"
  "rkts_enabled (rd_kafka_timer_unschedule rkts t) = rkts_enabled rkts"
  by (simp_all add: rd_kafka_timer_unschedule_def TAILQ_REMOVE_def)

lemma timers_ok_stop: "timers_ok rkts \<Longrightarrow> timers_ok (snd (rd_kafka_timer_stop rkts t))"
  by (auto simp: rd_kafka_timer_stop_def Let_def rd_kafka_timer_scheduled_def
      intro!: timers_ok_upd_unscheduled timers_ok_unschedule)

lemma stop_tmr:
  "timers_ok rkts \<Longrightarrow>
     rkts_tmr (snd (rd_kafka_timer_stop rkts t)) =
       (rkts_tmr rkts)(t := rkts_tmr rkts t\<lparr>rtmr_next := 0, rtmr_interval := 0\<rparr>)"
  by (auto simp: rd_kafka_timer_stop_def Let_def timer_defs timers_ok_def fun_eq_iff)

lemma stop_timers:
  "timers_ok rkts \<Longrightarrow>
     rkts_timers (snd (rd_kafka_timer_stop rkts t)) = remove1 t (rkts_timers rkts)"
  by (auto simp: rd_kafka_timer_stop_def Let_def timer_defs timers_ok_def)
     (metis remove1_idem)+

lemma stop_enabled [simp]:
  "rkts_enabled (snd (rd_kafka_timer_stop rkts t)) = rkts_enabled rkts"
  by (simp add: rd_kafka_timer_stop_def Let_def)

lemma schedule_next_tmr [simp]:
  "rkts_tmr (rd_kafka_timer_schedule_next rkts t abs_time) =
     (rkts_tmr rkts)(t := rkts_tmr rkts t\<lparr>rtmr_next := abs_time\<rparr>)"
  "rkts_enabled (rd_kafka_timer_schedule_next rkts t abs_time) = rkts_enabled rkts"
  by (simp_all add: rd_kafka_timer_schedule_next_def Let_def)

lemma timers_ok_start0:
  assumes "timers_ok rkts" "0 < now" "0 \<le> interval"
  shows "timers_ok (rd_kafka_timer_start0 now rkts t interval oneshot restart cb)"
  using assms timers_ok_stop [of rkts t]
  by (auto simp: rd_kafka_timer_start0_def Let_def stop_tmr rd_kafka_timer_scheduled_def
      intro!: timers_ok_schedule timers_ok_upd_unscheduled)

text \<open>What a started timer looks like: unless it was scheduled and may not be
  restarted, it fires \<open>interval\<close> (at least one microsecond) from now.\<close>

lemma start0_tmr:
  assumes "timers_ok rkts"
  shows "rkts_tmr (rd_kafka_timer_start0 now rkts t interval oneshot restart cb) =
    (if \<not> restart \<and> rd_kafka_timer_scheduled (rkts_tmr rkts t) then rkts_tmr rkts
     else (rkts_tmr rkts)
       (t := \<lparr>rtmr_next = (if rkts_enabled rkts then now + (if interval = 0 then 1 else interval) else 0),
              rtmr_interval = (if interval = 0 then 1 else interval),
              rtmr_oneshot = oneshot, rtmr_callback = Some cb\<rparr>))"
  using assms
  by (auto simp: rd_kafka_timer_start0_def Let_def stop_tmr rd_kafka_timer_schedule_def fun_eq_iff)

lemma start0_enabled [simp]:
  "rkts_enabled (rd_kafka_timer_start0 now rkts t interval oneshot restart cb) = rkts_enabled rkts"
  by (simp add: rd_kafka_timer_start0_def Let_def rd_kafka_timer_schedule_def)

lemma timers_ok_override_once:
  assumes "timers_ok rkts" "rd_kafka_timer_started (rkts_tmr rkts t)"
    "now + interval \<noteq> 0"
  shows "timers_ok (rd_kafka_timer_override_once now rkts t interval)"
  using assms timers_ok_unschedule [of rkts t]
  by (auto simp: rd_kafka_timer_override_once_def Let_def rd_kafka_timer_scheduled_def
      rd_kafka_timer_started_def intro!: timers_ok_schedule_next)

lemma timers_ok_exp_backoff:
  assumes ok: "timers_ok rkts" and cb: "rtmr_callback (rkts_tmr rkts t) \<noteq> None"
    and pos: "2 ^ 31 < now" "0 \<le> minb" "- 1 \<le> maxb"
  shows "timers_ok (rd_kafka_timer_exp_backoff now jit rkts t minb maxb)"
proof -
  let ?r = "if rd_kafka_timer_scheduled (rkts_tmr rkts t) then rd_kafka_timer_unschedule rkts t else rkts"
  have r: "timers_ok ?r" "\<not> rd_kafka_timer_scheduled (rkts_tmr ?r t)"
      "rtmr_callback (rkts_tmr ?r t) \<noteq> None" "rtmr_interval (rkts_tmr ?r t) = rtmr_interval (rkts_tmr rkts t)"
    using ok cb by (auto simp: timers_ok_unschedule rd_kafka_timer_scheduled_def)
  have iv: "0 \<le> rtmr_interval (rkts_tmr rkts t)" using ok by (simp add: timers_ok_def)
  have nz: "now + i + to_int32 j \<noteq> 0" if "0 \<le> i" for i j
    using that pos(1) to_int32_range [of j] by linarith
  have upd: "timers_ok (tmr_upd t (rtmr_interval_update (\<lambda>_. i)) ?r)" if "0 \<le> i" for i
    by (rule timers_ok_upd_unscheduled) (use r that in auto)
  show ?thesis
    unfolding rd_kafka_timer_exp_backoff_def Let_def prod.case_distrib
    using r upd nz pos iv
    by (auto intro!: timers_ok_schedule simp: rd_kafka_timer_scheduled_def split: if_splits prod.splits)
qed

section \<open>Sleeping and waking\<close>

text \<open>The head of the queue is the earliest deadline.\<close>

lemma timers_ok_hd_least:
  "timers_ok rkts \<Longrightarrow> rkts_timers rkts = t # ts \<Longrightarrow>
     rd_kafka_timer_scheduled (rkts_tmr rkts u) \<Longrightarrow> rtmr_next (rkts_tmr rkts t) \<le> rtmr_next (rkts_tmr rkts u)"
  by (auto simp: timers_ok_def)

lemma timers_next_upper:
  assumes "timers_ok rkts" "0 \<le> timeout_us"
  shows "0 \<le> rd_kafka_timers_next now rkts timeout_us"
    and "rd_kafka_timers_next now rkts timeout_us \<le> timeout_us"
    and "rd_kafka_timer_scheduled (rkts_tmr rkts u) \<Longrightarrow>
           rd_kafka_timers_next now rkts timeout_us \<le> rd_kafka_timer_next now rkts u"
  using assms timers_ok_hd_least [OF assms(1), of _ _ u]
  by (auto simp: rd_kafka_timers_next_def rd_kafka_timer_next_def Let_def timers_ok_def split: list.splits)

text \<open>A timer that becomes the earliest wakes the dispatcher up.\<close>

lemma schedule_next_signals:
  assumes "\<forall>u \<in> set (rkts_timers rkts). abs_time < rtmr_next (rkts_tmr rkts u)" "t \<notin> set (rkts_timers rkts)"
  shows "rkts_signals (rd_kafka_timer_schedule_next rkts t abs_time) = rkts_signals rkts + 1"
  using assms by (cases "rkts_timers rkts") (auto simp: rd_kafka_timer_schedule_next_def Let_def)

section \<open>Destroying the engine\<close>

lemma stop_all_empties:
  "timers_ok rkts \<Longrightarrow>
     \<exists>rkts'. rd_kafka_timers_stop_all rkts = Some rkts' \<and> timers_ok rkts' \<and> rkts_timers rkts' = [] \<and>
       rkts_enabled rkts' = rkts_enabled rkts \<and>
       (\<forall>t \<in> set (rkts_timers rkts). \<not> rd_kafka_timer_started (rkts_tmr rkts' t)) \<and>
       (\<forall>t. t \<notin> set (rkts_timers rkts) \<longrightarrow> rkts_tmr rkts' t = rkts_tmr rkts t)"
proof (induction "rkts_timers rkts" arbitrary: rkts)
  case Nil
  then show ?case by (subst rd_kafka_timers_stop_all.simps) (simp add: Nil.hyps [symmetric])
next
  case (Cons t ts)
  let ?r = "snd (rd_kafka_timer_stop rkts t)"
  have q: "rkts_timers ?r = ts" using Cons.prems Cons.hyps(2) [symmetric] by (simp add: stop_timers)
  have t: "t \<notin> set ts" using Cons.prems Cons.hyps(2) [symmetric] by (simp add: timers_ok_def)
  obtain r' where r': "rd_kafka_timers_stop_all ?r = Some r'" "timers_ok r'" "rkts_timers r' = []"
      "rkts_enabled r' = rkts_enabled rkts"
      "\<forall>t \<in> set ts. \<not> rd_kafka_timer_started (rkts_tmr r' t)"
      "\<forall>t. t \<notin> set ts \<longrightarrow> rkts_tmr r' t = rkts_tmr ?r t"
    using Cons.hyps(1) [OF q [symmetric]] timers_ok_stop [OF Cons.prems] q by auto
  have "rd_kafka_timers_stop_all rkts = Some r'"
    using r'(1) by (subst rd_kafka_timers_stop_all.simps) (simp add: Cons.hyps(2) [symmetric])
  then show ?case using r'(2-) t Cons.hyps(2) [symmetric] Cons.prems
    by (auto simp: stop_tmr rd_kafka_timer_started_def)
qed

text \<open>The precondition matters: a scheduled timer that is not started is never
  unscheduled by \<open>rd_kafka_timer_stop\<close>, and the loop never ends.\<close>

lemma stop_all_stuck:
  assumes "rkts_timers rkts = t # ts" "\<not> rd_kafka_timer_started (rkts_tmr rkts t)"
  shows "rd_kafka_timers_stop_all rkts = None"
proof -
  have same: "snd (rd_kafka_timer_stop rkts t) = rkts" using assms(2) by (simp add: rd_kafka_timer_stop_def)
  have "r \<noteq> rkts" if ret: "rd_kafka_timers_stop_all r = Some r'" for r r'
  proof (rule rd_kafka_timers_stop_all.raw_induct [where P = "\<lambda>r r'. r \<noteq> rkts", OF _ ret])
    fix f r1 r1'
    assume IH: "\<And>r r'. f r = Some r' \<Longrightarrow> r \<noteq> rkts"
      and step: "(case rkts_timers r1 of [] \<Rightarrow> Some r1 | t # _ \<Rightarrow> f (snd (rd_kafka_timer_stop r1 t))) = Some r1'"
    show "r1 \<noteq> rkts"
    proof
      assume "r1 = rkts"
      then have "f rkts = Some r1'" using step assms(1) same by simp
      then show False using IH by blast
    qed
  qed
  then show ?thesis by (cases "rd_kafka_timers_stop_all rkts") auto
qed

section \<open>Dispatching\<close>

definition timers_due :: "int \<Rightarrow> ('t, 'cb) rd_kafka_timers \<Rightarrow> 't set" where
  "timers_due now rkts = {t \<in> set (rkts_timers rkts). rtmr_next (rkts_tmr rkts t) \<le> now}"

lemma timers_due_finite [simp]: "finite (timers_due now rkts)"
  by (simp add: timers_due_def)

text \<open>What the dispatcher needs from the callbacks of a client: no callback aborts
  in a state of the client's invariant \<open>winv\<close>, they use the engine through its
  operations, and a timer they start is not due at the time \<open>now\<close> of the run.\<close>

locale rd_timer_callbacks =
  fixes call :: "(nat \<Rightarrow> int) \<Rightarrow> 'cb \<Rightarrow> ('t, 'cb, 'w) rd_disp \<Rightarrow> ('t, 'cb, 'w) rd_disp option"
    and winv :: "'w \<Rightarrow> bool"
  assumes call_ok: "0 < now \<Longrightarrow> \<forall>m \<ge> n. now \<le> clk m \<Longrightarrow> winv w \<Longrightarrow> timers_ok rkts \<Longrightarrow>
      \<exists>n' rkts' w'. call clk cb (n, rkts, w) = Some (n', rkts', w') \<and> n \<le> n' \<and> winv w' \<and> timers_ok rkts' \<and>
        timers_due now rkts' \<subseteq> timers_due now rkts"
begin

lemma schedule_not_due:
  assumes "timers_ok rkts" "rd_kafka_timer_started (rkts_tmr rkts t)"
    "\<not> rd_kafka_timer_scheduled (rkts_tmr rkts t)" "0 < now" "now \<le> clk n"
  shows "timers_ok (rd_kafka_timer_schedule (clk n) rkts t 0)"
    and "timers_due now (rd_kafka_timer_schedule (clk n) rkts t 0) \<subseteq> timers_due now rkts"
proof -
  have i: "0 < rtmr_interval (rkts_tmr rkts t)"
    using assms(1,2) by (auto simp: timers_ok_def rd_kafka_timer_started_def order_less_le)
  then have later: "now < clk n + rtmr_interval (rkts_tmr rkts t) + 0" using assms(5) by simp
  show "timers_ok (rd_kafka_timer_schedule (clk n) rkts t 0)"
    by (rule timers_ok_schedule) (use assms later in auto)
  show "timers_due now (rd_kafka_timer_schedule (clk n) rkts t 0) \<subseteq> timers_due now rkts"
    using later by (auto simp: rd_kafka_timer_schedule_def timers_due_def rd_kafka_timer_schedule_next_def
        Let_def split: if_splits)
qed

lemma fire_ok:
  assumes ok: "timers_ok rkts" and w: "winv w" and t: "t \<in> timers_due now rkts"
    and n: "0 < now" "\<forall>m \<ge> n. now \<le> clk m"
  shows "\<exists>n' rkts' w'. rd_kafka_timers_fire (call clk) clk t (n, rkts, w) = Some (n', rkts', w') \<and> n \<le> n' \<and> winv w' \<and>
     timers_ok rkts' \<and> timers_due now rkts' \<subseteq> timers_due now rkts - {t}"
proof -
  let ?u = "rd_kafka_timer_unschedule rkts t"
  let ?r = "if rtmr_oneshot (rkts_tmr rkts t) then tmr_upd t (\<lambda>rtmr. rtmr\<lparr>rtmr_interval := 0\<rparr>) ?u else ?u"
  have u: "timers_ok ?u" "\<not> rd_kafka_timer_scheduled (rkts_tmr ?u t)"
    using timers_ok_unschedule [OF ok] by (simp_all add: rd_kafka_timer_scheduled_def)
  have r: "timers_ok ?r" using u by (auto intro!: timers_ok_upd_unscheduled)
  have due: "timers_due now ?r \<subseteq> timers_due now rkts - {t}"
    using ok by (auto simp: timers_due_def timers_ok_def)
  obtain cb where cb: "rtmr_callback (rkts_tmr rkts t) = Some cb"
    using ok t by (auto simp: timers_ok_def timers_due_def)
  obtain n1 r1 w1 where c: "call clk cb (n, ?r, w) = Some (n1, r1, w1)" "winv w1" "timers_ok r1" "n \<le> n1"
      "timers_due now r1 \<subseteq> timers_due now ?r"
    using call_ok [OF n w r] by blast
  have "rd_kafka_timers_fire (call clk) clk t (n, rkts, w) =
     (if \<not> rtmr_oneshot (rkts_tmr rkts t) \<and> rd_kafka_timer_started (rkts_tmr r1 t)
           \<and> \<not> rd_kafka_timer_scheduled (rkts_tmr r1 t)
      then Some (n1 + 1, rd_kafka_timer_schedule (clk n1) r1 t 0, w1) else Some (n1, r1, w1))"
    using c(1) cb by (auto simp: rd_kafka_timers_fire_def Let_def)
  then show ?thesis using c schedule_not_due [OF c(3), of t now clk n1] due n by (auto split: if_splits)
qed

lemma dispatch_ok:
  assumes "timers_ok rkts" "winv w" "0 < now" "\<forall>m \<ge> n. now \<le> clk m"
  shows "\<exists>n' rkts' w'. rd_kafka_timers_dispatch (call clk) clk now (n, rkts, w) = Some (n', rkts', w') \<and>
     n \<le> n' \<and> winv w' \<and> timers_ok rkts' \<and> timers_due now rkts' = {}"
  using assms
proof (induction "card (timers_due now rkts)" arbitrary: n rkts w rule: less_induct)
  case less
  show ?case
  proof (cases "timers_due now rkts = {}")
    case True
    then have "rd_kafka_timers_dispatch (call clk) clk now (n, rkts, w) = Some (n, rkts, w)"
      by (subst rd_kafka_timers_dispatch.simps) (auto simp: timers_due_def split: list.splits)
    then show ?thesis using less True by blast
  next
    case False
    then obtain t ts where q: "rkts_timers rkts = t # ts"
      by (cases "rkts_timers rkts") (auto simp: timers_due_def)
    obtain u where "u \<in> timers_due now rkts" using False by blast
    then have t: "t \<in> timers_due now rkts"
      using timers_ok_hd_least [OF less.prems(1) q, of u] less.prems(1) q
      by (auto simp: timers_due_def timers_ok_def)
    obtain n1 r1 w1 where f: "rd_kafka_timers_fire (call clk) clk t (n, rkts, w) = Some (n1, r1, w1)" "winv w1"
        "timers_ok r1" "timers_due now r1 \<subseteq> timers_due now rkts - {t}" "n \<le> n1"
      using fire_ok [OF less.prems(1,2) t less.prems(3,4)] by blast
    have "card (timers_due now r1) < card (timers_due now rkts)"
      using f(4) t by (intro psubset_card_mono) auto
    from less.hyps [OF this f(3,2), of n1] f(5) less.prems(3,4) show ?thesis
      using f(1) q t by (subst rd_kafka_timers_dispatch.simps) (force simp: timers_due_def)
  qed
qed

text \<open>Nothing but the clock ends a blocking run, so its readings have to pass the end of the
  run; what other threads do during a sleep keeps the invariants.\<close>

lemma run_loop_ok:
  assumes mono: "\<And>i j. i \<le> j \<Longrightarrow> clk i \<le> clk j" and pos: "0 < clk 0" and last: "end_ts < clk N"
    and sleep: "\<And>ms n rkts w. timers_ok rkts \<Longrightarrow> winv w \<Longrightarrow>
      \<exists>n' rkts' w'. sleep ms (n, rkts, w) = (n', rkts', w') \<and> n \<le> n' \<and> timers_ok rkts' \<and> winv w'"
  shows "timers_ok rkts \<Longrightarrow> winv w \<Longrightarrow> k < n \<Longrightarrow>
    timers_due (clk k) rkts = {} \<or> \<not> (terminating w \<or> end_ts < clk k) \<Longrightarrow>
    \<exists>n' rkts' w' m. rd_kafka_timers_run_loop (call clk) clk terminating sleep timeout_us end_ts (clk k) (n, rkts, w) =
        Some (n', rkts', w') \<and> winv w' \<and> timers_ok rkts' \<and> m < n' \<and> timers_due (clk m) rkts' = {} \<and>
        (terminating w' \<or> timeout_us = RD_POLL_NOWAIT \<or> end_ts < clk m)"
proof (induction "N - k" arbitrary: k n rkts w rule: less_induct)
  case less
  let ?loop = "rd_kafka_timers_run_loop (call clk) clk terminating sleep timeout_us end_ts"
  show ?case
  proof (cases "terminating w \<or> end_ts < clk k")
    case True
    then have "?loop (clk k) (n, rkts, w) = Some (n, rkts, w)"
      by (subst rd_kafka_timers_run_loop.simps) simp
    then show ?thesis using True less.prems by blast
  next
    case False
    have kN: "k < N" using False last mono [of N k] by (cases "k < N") auto
    define st where "st = (if timeout_us \<noteq> RD_POLL_NOWAIT
       then if rd_kafka_timers_next (clk n) rkts timeout_us > 0
            then sleep (to_int32 (cdiv (rd_kafka_timers_next (clk n) rkts timeout_us) 1000)) (n + 1, rkts, w)
            else (n + 1, rkts, w) else (n, rkts, w))"
    obtain n1 r1 w1 where st: "st = (n1, r1, w1)" by (cases st)
    let ?ms = "to_int32 (cdiv (rd_kafka_timers_next (clk n) rkts timeout_us) 1000)"
    have "n \<le> n1 \<and> timers_ok r1 \<and> winv w1"
      using sleep [OF less.prems(1,2), of ?ms "n + 1"] st less.prems(1,2)
      by (auto simp: st_def split: if_splits)
    then have s1: "n \<le> n1" "timers_ok r1" "winv w1" by auto
    obtain n2 r2 w2 where d: "rd_kafka_timers_dispatch (call clk) clk (clk n1) (n1 + 1, r1, w1) = Some (n2, r2, w2)"
        "n1 + 1 \<le> n2" "winv w2" "timers_ok r2" "timers_due (clk n1) r2 = {}"
      using dispatch_ok [OF s1(2,3), of "clk n1" "n1 + 1" clk] mono pos mono [of 0 n1] by fastforce
    have unf: "?loop (clk k) (n, rkts, w) =
        (if timeout_us = RD_POLL_NOWAIT then Some (n2, r2, w2) else ?loop (clk n1) (n2, r2, w2))"
      using False st d(1) by (subst rd_kafka_timers_run_loop.simps) (auto simp: st_def Let_def split: if_splits)
    have "N - n1 < N - k" using kN s1(1) less.prems(3) by simp
    from less.hyps [OF this d(4,3)] d(2,5) have
      "\<exists>n' rkts' w' m. ?loop (clk n1) (n2, r2, w2) = Some (n', rkts', w') \<and> winv w' \<and> timers_ok rkts' \<and> m < n' \<and>
        timers_due (clk m) rkts' = {} \<and> (terminating w' \<or> timeout_us = RD_POLL_NOWAIT \<or> end_ts < clk m)" by simp
    then show ?thesis using unf d(2-5)
      by (cases "timeout_us = RD_POLL_NOWAIT") (auto intro: exI [of _ n1])
  qed
qed

lemma run_ok:
  assumes "\<And>i j. i \<le> j \<Longrightarrow> clk i \<le> clk j" "0 < clk 0" "clk n + timeout_us < clk N"
    "\<And>ms n rkts w. timers_ok rkts \<Longrightarrow> winv w \<Longrightarrow>
      \<exists>n' rkts' w'. sleep ms (n, rkts, w) = (n', rkts', w') \<and> n \<le> n' \<and> timers_ok rkts' \<and> winv w'"
    "timers_ok rkts" "winv w" "0 \<le> timeout_us" "\<not> terminating w"
  shows "\<exists>n' rkts' w' m. rd_kafka_timers_run (call clk) clk terminating sleep timeout_us (n, rkts, w) =
        Some (n', rkts', w') \<and> winv w' \<and> timers_ok rkts' \<and> m < n' \<and> timers_due (clk m) rkts' = {} \<and>
        (terminating w' \<or> timeout_us = RD_POLL_NOWAIT \<or> clk n + timeout_us < clk m)"
  using run_loop_ok [where k = n and n = "n + 1" and terminating = terminating and sleep = sleep and
      timeout_us = timeout_us, OF assms(1-6)] assms(7,8)
  by (simp add: rd_kafka_timers_run_def Let_def)

end

text \<open>A non-blocking run dispatches once.\<close>

lemma run_nowait:
  assumes "\<not> terminating w"
  shows "rd_kafka_timers_run call clk terminating sleep RD_POLL_NOWAIT (n, rkts, w) =
           rd_kafka_timers_dispatch call clk (clk (n + 1)) (n + 2, rkts, w)"
proof -
  have "Option.bind m Some = m" for m :: "'x option" by (cases m) simp_all
  then show ?thesis using assms unfolding rd_kafka_timers_run_def
    by (subst rd_kafka_timers_run_loop.simps) (simp add: Let_def)
qed

text \<open>The contract of the engine its clients rely on, for the timers they own:
  what starting and stopping a timer does to it and to the others.\<close>

locale rd_timer_service =
  fixes start :: "int \<Rightarrow> 's \<Rightarrow> 't \<Rightarrow> int \<Rightarrow> bool \<Rightarrow> 'cb \<Rightarrow> 's"
    and stop :: "'s \<Rightarrow> 't \<Rightarrow> 's"
    and armed :: "'s \<Rightarrow> 't \<Rightarrow> (int \<times> 'cb) option"
    and ok :: "'s \<Rightarrow> bool"
  assumes start_ok: "ok s \<Longrightarrow> 0 < now \<Longrightarrow> 0 \<le> us \<Longrightarrow> ok (start now s t us restart cb)"
    and stop_ok: "ok s \<Longrightarrow> ok (stop s t)"
    and armed_start: "ok s \<Longrightarrow> 0 < now \<Longrightarrow> 0 \<le> us \<Longrightarrow>
      armed (start now s t us restart cb) u =
        (if u = t \<and> (restart \<or> armed s t = None) then Some (now + max 1 us, cb) else armed s u)"
    and armed_stop: "ok s \<Longrightarrow> armed (stop s t) u = (if u = t then None else armed s u)"
begin

lemma start_arms: "ok s \<Longrightarrow> 0 < now \<Longrightarrow> 0 \<le> us \<Longrightarrow> armed (start now s t us restart cb) t \<noteq> None"
  by (simp add: armed_start)

lemma restart_resets:
  "ok s \<Longrightarrow> 0 < now \<Longrightarrow> 0 \<le> us \<Longrightarrow> armed (start now s t us True cb) t = Some (now + max 1 us, cb)"
  by (simp add: armed_start)

lemma no_restart_keeps:
  "ok s \<Longrightarrow> 0 < now \<Longrightarrow> 0 \<le> us \<Longrightarrow> armed s t = Some d \<Longrightarrow>
     armed (start now s t us False cb) t = Some d"
  by (simp add: armed_start)

lemma stop_start_comm:
  "ok s \<Longrightarrow> 0 < now \<Longrightarrow> 0 \<le> us \<Longrightarrow> t \<noteq> u \<Longrightarrow>
     armed (stop (start now s t us restart cb) u) v = armed (start now (stop s u) t us restart cb) v"
  by (auto simp: armed_start armed_stop start_ok stop_ok)

end

definition timer_armed :: "('t, 'cb) rd_kafka_timers \<Rightarrow> 't \<Rightarrow> (int \<times> 'cb) option" where
  "timer_armed rkts t =
     (if rd_kafka_timer_scheduled (rkts_tmr rkts t)
      then Some (rtmr_next (rkts_tmr rkts t), the (rtmr_callback (rkts_tmr rkts t))) else None)"

interpretation rkts: rd_timer_service
  "\<lambda>now rkts t us restart cb. rd_kafka_timer_start0 now rkts t us True restart cb"
  "\<lambda>rkts t. snd (rd_kafka_timer_stop rkts t)"
  timer_armed
  "\<lambda>rkts. timers_ok rkts \<and> rkts_enabled rkts"
  by unfold_locales
     (auto simp: timers_ok_start0 timers_ok_stop start0_tmr stop_tmr timer_armed_def
       rd_kafka_timer_scheduled_def max_def)

end
