(* ===== verification/Errors.thy ===== *)
theory Errors
  imports Prelude
begin

text \<open>
  Error codes (\<open>rd_kafka_resp_err_t\<close>, the values of \<open>src/src/rdkafka.h\<close>), the error
  object \<open>rd_kafka_error_t\<close> (\<open>src/src/rdkafka_error.c\<close>) and the error action flags of
  \<open>src/src/rdkafka_request.h\<close>. The human readable strings are not modelled: no
  decision of the code reads them. A pointer to an error object is an \<open>option\<close>.
\<close>

section \<open>Error codes\<close>

type_synonym rd_kafka_resp_err_t = int

abbreviation (input) RESP_ERR__BAD_MSG :: int where "RESP_ERR__BAD_MSG \<equiv> - 199"
abbreviation (input) RESP_ERR__DESTROY :: int where "RESP_ERR__DESTROY \<equiv> - 197"
abbreviation (input) RESP_ERR__TRANSPORT :: int where "RESP_ERR__TRANSPORT \<equiv> - 195"
abbreviation (input) RESP_ERR__MSG_TIMED_OUT :: int where "RESP_ERR__MSG_TIMED_OUT \<equiv> - 192"
abbreviation (input) RESP_ERR__UNKNOWN_PARTITION :: int where "RESP_ERR__UNKNOWN_PARTITION \<equiv> - 190"
abbreviation (input) RESP_ERR__INVALID_ARG :: int where "RESP_ERR__INVALID_ARG \<equiv> - 186"
abbreviation (input) RESP_ERR__TIMED_OUT :: int where "RESP_ERR__TIMED_OUT \<equiv> - 185"
abbreviation (input) RESP_ERR__SSL :: int where "RESP_ERR__SSL \<equiv> - 181"
abbreviation (input) RESP_ERR__WAIT_COORD :: int where "RESP_ERR__WAIT_COORD \<equiv> - 180"
abbreviation (input) RESP_ERR__PREV_IN_PROGRESS :: int where "RESP_ERR__PREV_IN_PROGRESS \<equiv> - 177"
abbreviation (input) RESP_ERR__CONFLICT :: int where "RESP_ERR__CONFLICT \<equiv> - 173"
abbreviation (input) RESP_ERR__STATE :: int where "RESP_ERR__STATE \<equiv> - 172"
abbreviation (input) RESP_ERR__NO_OFFSET :: int where "RESP_ERR__NO_OFFSET \<equiv> - 168"
abbreviation (input) RESP_ERR__OUTDATED :: int where "RESP_ERR__OUTDATED \<equiv> - 167"
abbreviation (input) RESP_ERR__TIMED_OUT_QUEUE :: int where "RESP_ERR__TIMED_OUT_QUEUE \<equiv> - 166"
abbreviation (input) RESP_ERR__UNSUPPORTED_FEATURE :: int where "RESP_ERR__UNSUPPORTED_FEATURE \<equiv> - 165"
abbreviation (input) RESP_ERR__RETRY :: int where "RESP_ERR__RETRY \<equiv> - 153"
abbreviation (input) RESP_ERR__PURGE_QUEUE :: int where "RESP_ERR__PURGE_QUEUE \<equiv> - 152"
abbreviation (input) RESP_ERR__PURGE_INFLIGHT :: int where "RESP_ERR__PURGE_INFLIGHT \<equiv> - 151"
abbreviation (input) RESP_ERR__FATAL :: int where "RESP_ERR__FATAL \<equiv> - 150"
abbreviation (input) RESP_ERR__INCONSISTENT :: int where "RESP_ERR__INCONSISTENT \<equiv> - 149"
abbreviation (input) RESP_ERR__GAPLESS_GUARANTEE :: int where "RESP_ERR__GAPLESS_GUARANTEE \<equiv> - 148"
abbreviation (input) RESP_ERR__UNKNOWN_BROKER :: int where "RESP_ERR__UNKNOWN_BROKER \<equiv> - 146"
abbreviation (input) RESP_ERR__NOT_CONFIGURED :: int where "RESP_ERR__NOT_CONFIGURED \<equiv> - 145"
abbreviation (input) RESP_ERR__FENCED :: int where "RESP_ERR__FENCED \<equiv> - 144"
abbreviation (input) RESP_ERR__INVALID_DIFFERENT_RECORD :: int where "RESP_ERR__INVALID_DIFFERENT_RECORD \<equiv> - 138"
abbreviation (input) RESP_ERR__DESTROY_BROKER :: int where "RESP_ERR__DESTROY_BROKER \<equiv> - 137"
abbreviation (input) RESP_ERR_NO_ERROR :: int where "RESP_ERR_NO_ERROR \<equiv> 0"
abbreviation (input) RESP_ERR_INVALID_MSG :: int where "RESP_ERR_INVALID_MSG \<equiv> 2"
abbreviation (input) RESP_ERR_UNKNOWN_TOPIC_OR_PART :: int where "RESP_ERR_UNKNOWN_TOPIC_OR_PART \<equiv> 3"
abbreviation (input) RESP_ERR_LEADER_NOT_AVAILABLE :: int where "RESP_ERR_LEADER_NOT_AVAILABLE \<equiv> 5"
abbreviation (input) RESP_ERR_NOT_LEADER_FOR_PARTITION :: int where "RESP_ERR_NOT_LEADER_FOR_PARTITION \<equiv> 6"
abbreviation (input) RESP_ERR_REQUEST_TIMED_OUT :: int where "RESP_ERR_REQUEST_TIMED_OUT \<equiv> 7"
abbreviation (input) RESP_ERR_BROKER_NOT_AVAILABLE :: int where "RESP_ERR_BROKER_NOT_AVAILABLE \<equiv> 8"
abbreviation (input) RESP_ERR_REPLICA_NOT_AVAILABLE :: int where "RESP_ERR_REPLICA_NOT_AVAILABLE \<equiv> 9"
abbreviation (input) RESP_ERR_MSG_SIZE_TOO_LARGE :: int where "RESP_ERR_MSG_SIZE_TOO_LARGE \<equiv> 10"
abbreviation (input) RESP_ERR_COORDINATOR_LOAD_IN_PROGRESS :: int where "RESP_ERR_COORDINATOR_LOAD_IN_PROGRESS \<equiv> 14"
abbreviation (input) RESP_ERR_COORDINATOR_NOT_AVAILABLE :: int where "RESP_ERR_COORDINATOR_NOT_AVAILABLE \<equiv> 15"
abbreviation (input) RESP_ERR_NOT_COORDINATOR :: int where "RESP_ERR_NOT_COORDINATOR \<equiv> 16"
abbreviation (input) RESP_ERR_NOT_ENOUGH_REPLICAS :: int where "RESP_ERR_NOT_ENOUGH_REPLICAS \<equiv> 19"
abbreviation (input) RESP_ERR_NOT_ENOUGH_REPLICAS_AFTER_APPEND :: int where "RESP_ERR_NOT_ENOUGH_REPLICAS_AFTER_APPEND \<equiv> 20"
abbreviation (input) RESP_ERR_ILLEGAL_GENERATION :: int where "RESP_ERR_ILLEGAL_GENERATION \<equiv> 22"
abbreviation (input) RESP_ERR_UNKNOWN_MEMBER_ID :: int where "RESP_ERR_UNKNOWN_MEMBER_ID \<equiv> 25"
abbreviation (input) RESP_ERR_TOPIC_AUTHORIZATION_FAILED :: int where "RESP_ERR_TOPIC_AUTHORIZATION_FAILED \<equiv> 29"
abbreviation (input) RESP_ERR_GROUP_AUTHORIZATION_FAILED :: int where "RESP_ERR_GROUP_AUTHORIZATION_FAILED \<equiv> 30"
abbreviation (input) RESP_ERR_CLUSTER_AUTHORIZATION_FAILED :: int where "RESP_ERR_CLUSTER_AUTHORIZATION_FAILED \<equiv> 31"
abbreviation (input) RESP_ERR_UNSUPPORTED_FOR_MESSAGE_FORMAT :: int where "RESP_ERR_UNSUPPORTED_FOR_MESSAGE_FORMAT \<equiv> 43"
abbreviation (input) RESP_ERR_OUT_OF_ORDER_SEQUENCE_NUMBER :: int where "RESP_ERR_OUT_OF_ORDER_SEQUENCE_NUMBER \<equiv> 45"
abbreviation (input) RESP_ERR_DUPLICATE_SEQUENCE_NUMBER :: int where "RESP_ERR_DUPLICATE_SEQUENCE_NUMBER \<equiv> 46"
abbreviation (input) RESP_ERR_INVALID_PRODUCER_EPOCH :: int where "RESP_ERR_INVALID_PRODUCER_EPOCH \<equiv> 47"
abbreviation (input) RESP_ERR_INVALID_TXN_STATE :: int where "RESP_ERR_INVALID_TXN_STATE \<equiv> 48"
abbreviation (input) RESP_ERR_INVALID_PRODUCER_ID_MAPPING :: int where "RESP_ERR_INVALID_PRODUCER_ID_MAPPING \<equiv> 49"
abbreviation (input) RESP_ERR_INVALID_TRANSACTION_TIMEOUT :: int where "RESP_ERR_INVALID_TRANSACTION_TIMEOUT \<equiv> 50"
abbreviation (input) RESP_ERR_CONCURRENT_TRANSACTIONS :: int where "RESP_ERR_CONCURRENT_TRANSACTIONS \<equiv> 51"
abbreviation (input) RESP_ERR_TRANSACTIONAL_ID_AUTHORIZATION_FAILED :: int where "RESP_ERR_TRANSACTIONAL_ID_AUTHORIZATION_FAILED \<equiv> 53"
abbreviation (input) RESP_ERR_OPERATION_NOT_ATTEMPTED :: int where "RESP_ERR_OPERATION_NOT_ATTEMPTED \<equiv> 55"
abbreviation (input) RESP_ERR_KAFKA_STORAGE_ERROR :: int where "RESP_ERR_KAFKA_STORAGE_ERROR \<equiv> 56"
abbreviation (input) RESP_ERR_UNKNOWN_PRODUCER_ID :: int where "RESP_ERR_UNKNOWN_PRODUCER_ID \<equiv> 59"
abbreviation (input) RESP_ERR_FENCED_INSTANCE_ID :: int where "RESP_ERR_FENCED_INSTANCE_ID \<equiv> 82"
abbreviation (input) RESP_ERR_INVALID_RECORD :: int where "RESP_ERR_INVALID_RECORD \<equiv> 87"
abbreviation (input) RESP_ERR_PRODUCER_FENCED :: int where "RESP_ERR_PRODUCER_FENCED \<equiv> 90"

section \<open>Error objects\<close>

record rd_kafka_error_t =
  err_code :: rd_kafka_resp_err_t
  err_fatal :: bool
  err_retriable :: bool
  err_txn_requires_abort :: bool

definition rd_kafka_error_new :: "rd_kafka_resp_err_t \<Rightarrow> rd_kafka_error_t" where
  "rd_kafka_error_new code =
     \<lparr>err_code = code, err_fatal = False, err_retriable = False, err_txn_requires_abort = False\<rparr>"

definition rd_kafka_error_set_fatal :: "rd_kafka_error_t \<Rightarrow> rd_kafka_error_t" where
  "rd_kafka_error_set_fatal error = error\<lparr>err_fatal := True\<rparr>"

definition rd_kafka_error_set_retriable :: "rd_kafka_error_t \<Rightarrow> rd_kafka_error_t" where
  "rd_kafka_error_set_retriable error = error\<lparr>err_retriable := True\<rparr>"

definition rd_kafka_error_set_txn_requires_abort :: "rd_kafka_error_t \<Rightarrow> rd_kafka_error_t" where
  "rd_kafka_error_set_txn_requires_abort error = error\<lparr>err_txn_requires_abort := True\<rparr>"

definition rd_kafka_error_new_fatal :: "rd_kafka_resp_err_t \<Rightarrow> rd_kafka_error_t" where
  "rd_kafka_error_new_fatal code = rd_kafka_error_set_fatal (rd_kafka_error_new code)"

definition rd_kafka_error_new_retriable :: "rd_kafka_resp_err_t \<Rightarrow> rd_kafka_error_t" where
  "rd_kafka_error_new_retriable code = rd_kafka_error_set_retriable (rd_kafka_error_new code)"

definition rd_kafka_error_new_txn_requires_abort :: "rd_kafka_resp_err_t \<Rightarrow> rd_kafka_error_t" where
  "rd_kafka_error_new_txn_requires_abort code =
     rd_kafka_error_set_txn_requires_abort (rd_kafka_error_new code)"

definition rd_kafka_error_copy :: "rd_kafka_error_t \<Rightarrow> rd_kafka_error_t" where
  "rd_kafka_error_copy src =
     (rd_kafka_error_new (err_code src))
       \<lparr>err_fatal := err_fatal src, err_retriable := err_retriable src,
        err_txn_requires_abort := err_txn_requires_abort src\<rparr>"

definition rd_kafka_error_code :: "rd_kafka_error_t option \<Rightarrow> rd_kafka_resp_err_t" where
  "rd_kafka_error_code error =
     (case error of Some e \<Rightarrow> err_code e | None \<Rightarrow> RESP_ERR_NO_ERROR)"

definition rd_kafka_error_is_fatal :: "rd_kafka_error_t option \<Rightarrow> bool" where
  "rd_kafka_error_is_fatal error = (case error of Some e \<Rightarrow> err_fatal e | None \<Rightarrow> False)"

definition rd_kafka_error_is_retriable :: "rd_kafka_error_t option \<Rightarrow> bool" where
  "rd_kafka_error_is_retriable error = (case error of Some e \<Rightarrow> err_retriable e | None \<Rightarrow> False)"

definition rd_kafka_error_txn_requires_abort :: "rd_kafka_error_t option \<Rightarrow> bool" where
  "rd_kafka_error_txn_requires_abort error =
     (case error of Some e \<Rightarrow> err_txn_requires_abort e | None \<Rightarrow> False)"

lemmas rd_kafka_error_defs =
  rd_kafka_error_new_def rd_kafka_error_set_fatal_def rd_kafka_error_set_retriable_def
  rd_kafka_error_set_txn_requires_abort_def rd_kafka_error_new_fatal_def
  rd_kafka_error_new_retriable_def rd_kafka_error_new_txn_requires_abort_def
  rd_kafka_error_copy_def rd_kafka_error_code_def rd_kafka_error_is_fatal_def
  rd_kafka_error_is_retriable_def rd_kafka_error_txn_requires_abort_def

lemma rd_kafka_error_copy_id [simp]: "rd_kafka_error_copy e = e"
  by (simp add: rd_kafka_error_defs)

section \<open>Error actions\<close>

text \<open>The bitmask of \<open>RD_KAFKA_ERR_ACTION_*\<close> flags is the set of its flags.\<close>

datatype rd_kafka_err_action_flag =
    ERR_ACTION_PERMANENT | ERR_ACTION_IGNORE | ERR_ACTION_REFRESH | ERR_ACTION_RETRY
  | ERR_ACTION_INFORM | ERR_ACTION_SPECIAL | ERR_ACTION_MSG_NOT_PERSISTED
  | ERR_ACTION_MSG_POSSIBLY_PERSISTED | ERR_ACTION_MSG_PERSISTED | ERR_ACTION_FATAL

type_synonym rd_kafka_err_actions = "rd_kafka_err_action_flag set"

end
