(* ===== verification/Eos_State.thy ===== *)
theory Eos_State
  imports Timers Errors
begin

text \<open>
  The state of the exactly-once producer: the members of \<open>rd_kafka_t\<close> that
  \<open>rdkafka_idempotence.c\<close> and \<open>rdkafka_txnmgr.c\<close> use (\<open>src/src/rdkafka_int.h\<close>, the
  \<open>rk_eos\<close> struct), the producer id (\<open>rdkafka_proto.h\<close>), the fatal error of the
  instance (\<open>rdkafka.c\<close>) and the predicates the rest of the library asks
  (\<open>rdkafka_txnmgr.h\<close>, \<open>rdkafka_idempotence.h\<close>).

  Locks are not modelled: each function runs under the locks the source takes and is
  one atomic step on the state. The effects on parts of the library that
  are not modelled (waking broker threads, purging queues, sending a request) are
  recorded in the state, in order. What these parts answer is the record \<open>rd_env\<close>.
\<close>

section \<open>Producer id\<close>

record rd_kafka_pid_t =
  pid_id :: int
  pid_epoch :: int

definition RD_KAFKA_PID_INITIALIZER :: rd_kafka_pid_t where
  "RD_KAFKA_PID_INITIALIZER = \<lparr>pid_id = - 1, pid_epoch = - 1\<rparr>"

definition rd_kafka_pid_valid :: "rd_kafka_pid_t \<Rightarrow> bool" where
  "rd_kafka_pid_valid pid = (pid_id pid \<noteq> - 1)"

definition rd_kafka_pid_eq :: "rd_kafka_pid_t \<Rightarrow> rd_kafka_pid_t \<Rightarrow> bool" where
  "rd_kafka_pid_eq a b = (pid_id a = pid_id b \<and> pid_epoch a = pid_epoch b)"

definition rd_kafka_pid_cmp :: "rd_kafka_pid_t \<Rightarrow> rd_kafka_pid_t \<Rightarrow> int" where
  "rd_kafka_pid_cmp a b =
     (if pid_id a < pid_id b then - 1
      else if pid_id a > pid_id b then 1
      else pid_epoch a - pid_epoch b)"

interpretation pidcmp: rd_comparator rd_kafka_pid_cmp
  by unfold_locales (auto simp: rd_kafka_pid_cmp_def split: if_splits)

definition rd_kafka_pid_reset :: "rd_kafka_pid_t \<Rightarrow> rd_kafka_pid_t" where
  "rd_kafka_pid_reset pid = pid\<lparr>pid_id := - 1, pid_epoch := - 1\<rparr>"

text \<open>\<open>x & INT16_MAX\<close> is the remainder modulo \<open>2^15\<close>, also for a negative \<open>x\<close> in
  two's complement; the cast to \<open>int16_t\<close> is the identity on it.\<close>

definition rd_kafka_pid_bump :: "rd_kafka_pid_t \<Rightarrow> rd_kafka_pid_t" where
  "rd_kafka_pid_bump old = \<lparr>pid_id = pid_id old, pid_epoch = to_int16 ((pid_epoch old + 1) mod 2 ^ 15)\<rparr>"

section \<open>States\<close>

datatype rd_kafka_type_t = RD_KAFKA_PRODUCER | RD_KAFKA_CONSUMER

datatype rd_kafka_idemp_state_t =
    IDEMP_STATE_INIT | IDEMP_STATE_TERM | IDEMP_STATE_FATAL_ERROR | IDEMP_STATE_REQ_PID
  | IDEMP_STATE_WAIT_TRANSPORT | IDEMP_STATE_WAIT_PID | IDEMP_STATE_ASSIGNED
  | IDEMP_STATE_DRAIN_RESET | IDEMP_STATE_DRAIN_BUMP | IDEMP_STATE_WAIT_TXN_ABORT

text \<open>The enumeration order, which \<open>rd_kafka_txn_coord_monitor_cb\<close> compares by.\<close>

fun idemp_state_index :: "rd_kafka_idemp_state_t \<Rightarrow> nat" where
  "idemp_state_index IDEMP_STATE_INIT = 0"
| "idemp_state_index IDEMP_STATE_TERM = 1"
| "idemp_state_index IDEMP_STATE_FATAL_ERROR = 2"
| "idemp_state_index IDEMP_STATE_REQ_PID = 3"
| "idemp_state_index IDEMP_STATE_WAIT_TRANSPORT = 4"
| "idemp_state_index IDEMP_STATE_WAIT_PID = 5"
| "idemp_state_index IDEMP_STATE_ASSIGNED = 6"
| "idemp_state_index IDEMP_STATE_DRAIN_RESET = 7"
| "idemp_state_index IDEMP_STATE_DRAIN_BUMP = 8"
| "idemp_state_index IDEMP_STATE_WAIT_TXN_ABORT = 9"

lemma idemp_state_index_inject: "idemp_state_index a = idemp_state_index b \<longleftrightarrow> a = b"
  by (cases a; cases b) simp_all

instantiation rd_kafka_idemp_state_t :: linorder
begin

definition less_eq_rd_kafka_idemp_state_t ::
  "rd_kafka_idemp_state_t \<Rightarrow> rd_kafka_idemp_state_t \<Rightarrow> bool" where
  "less_eq_rd_kafka_idemp_state_t a b \<longleftrightarrow> idemp_state_index a \<le> idemp_state_index b"

definition less_rd_kafka_idemp_state_t ::
  "rd_kafka_idemp_state_t \<Rightarrow> rd_kafka_idemp_state_t \<Rightarrow> bool" where
  "less_rd_kafka_idemp_state_t a b \<longleftrightarrow> idemp_state_index a < idemp_state_index b"

instance
  by standard
    (auto simp: less_eq_rd_kafka_idemp_state_t_def less_rd_kafka_idemp_state_t_def
      idemp_state_index_inject)

end

datatype rd_kafka_txn_state_t =
    TXN_STATE_INIT | TXN_STATE_WAIT_PID | TXN_STATE_READY_NOT_ACKED | TXN_STATE_READY
  | TXN_STATE_IN_TRANSACTION | TXN_STATE_BEGIN_COMMIT | TXN_STATE_COMMITTING_TRANSACTION
  | TXN_STATE_COMMIT_NOT_ACKED | TXN_STATE_BEGIN_ABORT | TXN_STATE_ABORTING_TRANSACTION
  | TXN_STATE_ABORT_NOT_ACKED | TXN_STATE_ABORTABLE_ERROR | TXN_STATE_FATAL_ERROR

section \<open>Partitions, brokers, requests, ops and effects\<close>

text \<open>A toppar is named by its topic name and partition id.\<close>

type_synonym toppar = "string \<times> int"

datatype toppar_flag = TOPPAR_F_PEND_TXN | TOPPAR_F_IN_TXN

definition rd_kafka_toppar_topic_cmp :: "toppar \<Rightarrow> toppar \<Rightarrow> int" where
  "rd_kafka_toppar_topic_cmp a b = strcmp (fst a) (fst b)"

interpretation topiccmp: rd_comparator rd_kafka_toppar_topic_cmp
  unfolding rd_kafka_toppar_topic_cmp_def by (rule rd_comparator_strcmp)

text \<open>The logical transaction coordinator broker and the real brokers by node id.\<close>

datatype rd_broker = TXN_COORD | BROKER int

record txn_offset =
  to_toppar :: toppar
  to_offset :: int
  to_leader_epoch :: int
  to_metadata :: "string option"

record cgmetadata_t =
  cg_group_id :: string
  cg_generation_id :: int
  cg_member_id :: string
  cg_group_instance_id :: "string option"

record txn_rko =
  rko_offsets :: "txn_offset list"
  rko_cgmetadata :: cgmetadata_t
  rko_abs_timeout :: int

datatype rd_kafka_coordtype_t = RD_KAFKA_COORD_GROUP | RD_KAFKA_COORD_TXN

text \<open>A request carries its ApiVersion and the fields written to its buffer.\<close>

datatype eos_req =
    REQ_FindCoordinator int string "rd_kafka_coordtype_t option"
  | REQ_InitProducerId int "string option" int "rd_kafka_pid_t option"
  | REQ_AddPartitionsToTxn int string rd_kafka_pid_t "(string \<times> int list) list"
  | REQ_AddOffsetsToTxn int string rd_kafka_pid_t string txn_rko
  | REQ_TxnOffsetCommit int string string rd_kafka_pid_t "(int \<times> string \<times> string option) option"
      "txn_offset list" txn_rko
  | REQ_EndTxn int string rd_kafka_pid_t bool

datatype eos_api =
    API_FindCoordinator | API_InitProducerId | API_AddPartitionsToTxn | API_AddOffsetsToTxn
  | API_TxnOffsetCommit | API_EndTxn

datatype txn_op =
    OP_init_transactions | OP_ack_init_transactions | OP_begin_transaction
  | OP_send_offsets_to_transaction txn_rko | OP_begin_commit | OP_commit_transaction
  | OP_commit_transaction_ack | OP_begin_abort | OP_abort_transaction
  | OP_abort_transaction_ack

datatype purge_flag = PURGE_F_QUEUE | PURGE_F_INFLIGHT | PURGE_F_NON_BLOCKING | PURGE_F_ABORT_TXN

datatype rk_op = RK_OP_TXN txn_op | RK_OP_PURGE "purge_flag set"

datatype eos_fx =
    FX_ALL_BROKERS_WAKEUP
  | FX_PURGE "purge_flag set"
  | FX_OP_ERR int
  | FX_CONSUMER_ERR int
  | FX_SET_NODENAME "rd_broker option"
  | FX_METADATA_REFRESH
  | FX_COORD_CACHE_EVICT "rd_broker option"
  | FX_COORD_REQ string int int txn_rko
  | FX_BUF_RETRY eos_req

datatype eos_timer = PID_TMR | TXN_COORD_TMR | TXN_REGISTER_PARTS_TMR

datatype eos_timer_cb = PID_TIMER_CB | TXN_COORD_TIMER_CB | TXN_REGISTER_PARTITIONS_TMR_CB

section \<open>The instance\<close>

record rd_kafka_conf_t =
  cf_transactional_id :: "string option"
  cf_transaction_timeout_ms :: int
  cf_socket_timeout_ms :: int
  cf_idempotence :: bool
  cf_group_instance_id :: "string option"
  cf_group_protocol_consumer :: bool
  cf_has_cgrp :: bool

record txn_curr_api_t =
  api_name :: string
  api_calling :: bool
  api_error :: "rd_kafka_error_t option"
  api_has_result :: bool

record rd_kafka_t =
  rk_type :: rd_kafka_type_t
  rk_conf :: rd_kafka_conf_t
  rk_fatal_err :: rd_kafka_resp_err_t
  rk_fatal_cnt :: nat
  idemp_state :: rd_kafka_idemp_state_t
  ts_idemp_state :: int
  pid :: rd_kafka_pid_t
  epoch_cnt :: int
  inflight_toppar_cnt :: int
  txn_may_enq :: bool
  txn_state :: rd_kafka_txn_state_t
  txn_curr_coord :: "rd_broker option"
  txn_requires_epoch_bump :: bool
  txn_curr_api :: txn_curr_api_t
  txn_req_cnt :: int
  txn_pending_rktps :: "toppar list"
  txn_waitresp_rktps :: "toppar list"
  txn_rktps :: "toppar list"
  txn_dr_fails :: int
  txn_err :: rd_kafka_resp_err_t
  txn_init_err :: rd_kafka_resp_err_t
  txn_wait_coord :: bool
  rktp_flags :: "toppar \<Rightarrow> toppar_flag set"
  rktp_wait_drain :: "toppar \<Rightarrow> bool"
  rk_timers :: "(eos_timer, eos_timer_cb) rd_kafka_timers"
  rk_ops :: "rk_op list"
  rk_reqs :: "(rd_broker \<times> eos_req) list"
  rk_fx :: "eos_fx list"
  rkb_refs :: "rd_broker \<Rightarrow> int"

text \<open>
  What the unmodelled parts answer while a function runs: the clock, whether the
  instance terminates, the result of \<open>rd_kafka_broker_any_up()\<close> with the number of
  connected brokers, which brokers are up, are known by node id, were learned from
  metadata and are being decommissioned, the supported ApiVersion of a broker in a range (-1 if none), the
  outcome of \<open>rd_kafka_buf_retry()\<close>, whether \<open>rk_ops\<close> still accepts ops, and which
  partitions the local topic objects have.
\<close>

record rd_env =
  ev_clock :: int
  ev_terminating :: bool
  ev_any_up :: "rd_broker option"
  ev_up_cnt :: int
  ev_broker_is_up :: "rd_broker \<Rightarrow> bool"
  ev_find_by_nodeid :: "int \<Rightarrow> rd_broker option"
  ev_learned :: "rd_broker \<Rightarrow> bool"
  ev_termination_in_progress :: "rd_broker \<Rightarrow> bool"
  ev_ApiVersion_supported :: "rd_broker \<Rightarrow> eos_api \<Rightarrow> int \<Rightarrow> int \<Rightarrow> int"
  ev_buf_retry :: bool
  ev_ops_enabled :: bool
  ev_toppar_known :: "toppar \<Rightarrow> bool"

end
