(* ===== verification/Eos_Core.thy ===== *)
theory Eos_Core
  imports Eos_State
begin

text \<open>
  The primitives every handler of the exactly-once producer is made of: the fatal
  error of the instance (\<open>rdkafka.c\<close>), the transaction state machine and its guards,
  the result of the current transactional API call, abortable and fatal transaction
  errors (\<open>rdkafka_txnmgr.c\<close>) and the idempotence state
  (\<open>rdkafka_idempotence.c\<close>). \<open>None\<close> is a failed \<open>rd_assert\<close>.
\<close>

section \<open>Recorded effects\<close>

definition rd_fx :: "eos_fx \<Rightarrow> rd_kafka_t \<Rightarrow> rd_kafka_t" where
  "rd_fx x rk = rk\<lparr>rk_fx := rk_fx rk @ [x]\<rparr>"

definition rd_send :: "rd_broker \<Rightarrow> eos_req \<Rightarrow> rd_kafka_t \<Rightarrow> rd_kafka_t" where
  "rd_send rkb req rk = rk\<lparr>rk_reqs := rk_reqs rk @ [(rkb, req)]\<rparr>"

definition rd_kafka_broker_keep :: "rd_broker \<Rightarrow> rd_kafka_t \<Rightarrow> rd_kafka_t" where
  "rd_kafka_broker_keep rkb rk = rk\<lparr>rkb_refs := (rkb_refs rk)(rkb := rkb_refs rk rkb + 1)\<rparr>"

definition rd_kafka_broker_destroy :: "rd_broker \<Rightarrow> rd_kafka_t \<Rightarrow> rd_kafka_t" where
  "rd_kafka_broker_destroy rkb rk = rk\<lparr>rkb_refs := (rkb_refs rk)(rkb := rkb_refs rk rkb - 1)\<rparr>"

section \<open>Configuration and the fatal error\<close>

definition rd_kafka_is_idempotent :: "rd_kafka_t \<Rightarrow> bool" where
  "rd_kafka_is_idempotent rk = cf_idempotence (rk_conf rk)"

definition rd_kafka_is_transactional :: "rd_kafka_t \<Rightarrow> bool" where
  "rd_kafka_is_transactional rk = (cf_transactional_id (rk_conf rk) \<noteq> None)"

definition transactional_id :: "rd_kafka_t \<Rightarrow> string" where
  "transactional_id rk = (case cf_transactional_id (rk_conf rk) of Some s \<Rightarrow> s | None \<Rightarrow> [])"

definition rd_kafka_fatal_error_code :: "rd_kafka_t \<Rightarrow> rd_kafka_resp_err_t" where
  "rd_kafka_fatal_error_code rk =
     (if (rk_type rk = RD_KAFKA_PRODUCER \<and> cf_idempotence (rk_conf rk)) \<or>
         (rk_type rk = RD_KAFKA_CONSUMER \<and>
          (cf_group_instance_id (rk_conf rk) \<noteq> None \<or> cf_group_protocol_consumer (rk_conf rk)))
      then rk_fatal_err rk else RESP_ERR_NO_ERROR)"

definition rd_kafka_fatal_error :: "rd_kafka_t \<Rightarrow> rd_kafka_resp_err_t" where
  "rd_kafka_fatal_error rk = rk_fatal_err rk"

definition rd_kafka_set_fatal_error0 ::
  "rd_kafka_t \<Rightarrow> rd_kafka_resp_err_t \<Rightarrow> bool \<times> rd_kafka_t" where
  "rd_kafka_set_fatal_error0 rk err =
     (let rk = rk\<lparr>rk_fatal_cnt := rk_fatal_cnt rk + 1\<rparr> in
      if rk_fatal_err rk \<noteq> RESP_ERR_NO_ERROR then (False, rk)
      else
        let rk = rk\<lparr>rk_fatal_err := err\<rparr>;
            rk = (if rk_type rk = RD_KAFKA_CONSUMER \<and> cf_has_cgrp (rk_conf rk)
                  then rd_fx (FX_CONSUMER_ERR RESP_ERR__FATAL) rk
                  else rd_fx (FX_OP_ERR RESP_ERR__FATAL) rk);
            rk = (if rk_type rk = RD_KAFKA_PRODUCER
                  then rk\<lparr>rk_ops := rk_ops rk @ [RK_OP_PURGE {PURGE_F_QUEUE, PURGE_F_NON_BLOCKING}]\<rparr>
                  else rk)
        in (True, rk))"

definition rd_kafka_get_fatal_error :: "rd_kafka_t \<Rightarrow> rd_kafka_error_t option" where
  "rd_kafka_get_fatal_error rk =
     (if rk_fatal_err rk = RESP_ERR_NO_ERROR then None
      else Some (rd_kafka_error_new_fatal (rk_fatal_err rk)))"

section \<open>What the rest of the library asks\<close>

definition rd_kafka_txn_may_enq_msg :: "rd_kafka_t \<Rightarrow> bool" where
  "rd_kafka_txn_may_enq_msg rk = (\<not> rd_kafka_is_transactional rk \<or> txn_may_enq rk)"

definition rd_kafka_txn_may_send_msg :: "rd_kafka_t \<Rightarrow> bool" where
  "rd_kafka_txn_may_send_msg rk =
     (txn_state rk = TXN_STATE_IN_TRANSACTION \<or> txn_state rk = TXN_STATE_BEGIN_COMMIT)"

definition rd_kafka_txn_toppar_may_send_msg :: "rd_kafka_t \<Rightarrow> toppar \<Rightarrow> bool" where
  "rd_kafka_txn_toppar_may_send_msg rk rktp = (TOPPAR_F_IN_TXN \<in> rktp_flags rk rktp)"

definition rd_kafka_check_produce ::
  "rd_kafka_t \<Rightarrow> rd_kafka_resp_err_t \<times> rd_kafka_error_t option" where
  "rd_kafka_check_produce rk =
     (if rd_kafka_fatal_error_code rk \<noteq> 0
      then (RESP_ERR__FATAL, Some (rd_kafka_error_new_fatal (rd_kafka_fatal_error_code rk)))
      else if rd_kafka_txn_may_enq_msg rk then (RESP_ERR_NO_ERROR, None)
      else (RESP_ERR__STATE, Some (rd_kafka_error_new RESP_ERR__STATE)))"

definition rd_kafka_idemp_get_pid0 :: "rd_kafka_t \<Rightarrow> bool \<Rightarrow> rd_kafka_pid_t" where
  "rd_kafka_idemp_get_pid0 rk bumpable =
     (if idemp_state rk = IDEMP_STATE_ASSIGNED then pid rk
      else if bumpable \<and> idemp_state rk = IDEMP_STATE_WAIT_TXN_ABORT then pid rk
      else RD_KAFKA_PID_INITIALIZER)"

section \<open>Guards\<close>

definition rd_kafka_txn_normalize_err :: "rd_kafka_resp_err_t \<Rightarrow> rd_kafka_resp_err_t" where
  "rd_kafka_txn_normalize_err err =
     (if err = RESP_ERR_INVALID_PRODUCER_EPOCH \<or> err = RESP_ERR_PRODUCER_FENCED
      then RESP_ERR__FENCED
      else if err = RESP_ERR__TIMED_OUT_QUEUE then RESP_ERR__TIMED_OUT
      else err)"

definition rd_kafka_ensure_transactional :: "rd_kafka_t \<Rightarrow> rd_kafka_error_t option" where
  "rd_kafka_ensure_transactional rk =
     (if rk_type rk \<noteq> RD_KAFKA_PRODUCER then Some (rd_kafka_error_new RESP_ERR__INVALID_ARG)
      else if cf_transactional_id (rk_conf rk) = None
      then Some (rd_kafka_error_new RESP_ERR__NOT_CONFIGURED)
      else None)"

definition rd_kafka_txn_require_states0 ::
  "rd_kafka_t \<Rightarrow> rd_kafka_txn_state_t list \<Rightarrow> rd_kafka_error_t option" where
  "rd_kafka_txn_require_states0 rk states =
     (case rd_kafka_ensure_transactional rk of
        Some error \<Rightarrow> Some error
      | None \<Rightarrow>
          if txn_state rk \<in> set states then None
          else if txn_state rk = TXN_STATE_FATAL_ERROR
          then Some (rd_kafka_error_new_fatal (txn_err rk))
          else if txn_state rk = TXN_STATE_ABORTABLE_ERROR
          then Some (rd_kafka_error_set_txn_requires_abort (rd_kafka_error_new (txn_err rk)))
          else Some (rd_kafka_error_new RESP_ERR__STATE))"

section \<open>The transaction state machine\<close>

text \<open>The result is the pair of the validity and the \<open>ignore\<close> output.\<close>

fun rd_kafka_txn_state_transition_is_valid ::
  "rd_kafka_txn_state_t \<Rightarrow> rd_kafka_txn_state_t \<Rightarrow> bool \<times> bool" where
  "rd_kafka_txn_state_transition_is_valid curr_state TXN_STATE_INIT = (False, False)"
| "rd_kafka_txn_state_transition_is_valid curr_state TXN_STATE_WAIT_PID =
     (curr_state = TXN_STATE_INIT, False)"
| "rd_kafka_txn_state_transition_is_valid curr_state TXN_STATE_READY_NOT_ACKED =
     (curr_state = TXN_STATE_WAIT_PID, False)"
| "rd_kafka_txn_state_transition_is_valid curr_state TXN_STATE_READY =
     (curr_state = TXN_STATE_READY_NOT_ACKED \<or> curr_state = TXN_STATE_COMMIT_NOT_ACKED
        \<or> curr_state = TXN_STATE_ABORT_NOT_ACKED, False)"
| "rd_kafka_txn_state_transition_is_valid curr_state TXN_STATE_IN_TRANSACTION =
     (curr_state = TXN_STATE_READY, False)"
| "rd_kafka_txn_state_transition_is_valid curr_state TXN_STATE_BEGIN_COMMIT =
     (curr_state = TXN_STATE_IN_TRANSACTION, False)"
| "rd_kafka_txn_state_transition_is_valid curr_state TXN_STATE_COMMITTING_TRANSACTION =
     (curr_state = TXN_STATE_BEGIN_COMMIT, False)"
| "rd_kafka_txn_state_transition_is_valid curr_state TXN_STATE_COMMIT_NOT_ACKED =
     (curr_state = TXN_STATE_BEGIN_COMMIT \<or> curr_state = TXN_STATE_COMMITTING_TRANSACTION, False)"
| "rd_kafka_txn_state_transition_is_valid curr_state TXN_STATE_BEGIN_ABORT =
     (curr_state = TXN_STATE_IN_TRANSACTION \<or> curr_state = TXN_STATE_ABORTING_TRANSACTION
        \<or> curr_state = TXN_STATE_ABORTABLE_ERROR, False)"
| "rd_kafka_txn_state_transition_is_valid curr_state TXN_STATE_ABORTING_TRANSACTION =
     (curr_state = TXN_STATE_BEGIN_ABORT, False)"
| "rd_kafka_txn_state_transition_is_valid curr_state TXN_STATE_ABORT_NOT_ACKED =
     (curr_state = TXN_STATE_BEGIN_ABORT \<or> curr_state = TXN_STATE_ABORTING_TRANSACTION, False)"
| "rd_kafka_txn_state_transition_is_valid curr_state TXN_STATE_ABORTABLE_ERROR =
     (if curr_state = TXN_STATE_BEGIN_ABORT \<or> curr_state = TXN_STATE_ABORTING_TRANSACTION
         \<or> curr_state = TXN_STATE_FATAL_ERROR
      then (True, True)
      else (curr_state = TXN_STATE_IN_TRANSACTION \<or> curr_state = TXN_STATE_BEGIN_COMMIT
              \<or> curr_state = TXN_STATE_COMMITTING_TRANSACTION, False))"
| "rd_kafka_txn_state_transition_is_valid curr_state TXN_STATE_FATAL_ERROR = (True, False)"

definition rd_kafka_txn_set_state ::
  "rd_kafka_t \<Rightarrow> rd_kafka_txn_state_t \<Rightarrow> rd_kafka_t option" where
  "rd_kafka_txn_set_state rk new_state =
     (if txn_state rk = new_state then Some rk
      else
        let (valid, ignore) = rd_kafka_txn_state_transition_is_valid (txn_state rk) new_state in
        if \<not> valid then None
        else if ignore then Some rk
        else
          let rk = (if txn_state rk = TXN_STATE_IN_TRANSACTION then rk\<lparr>txn_may_enq := False\<rparr>
                    else if new_state = TXN_STATE_IN_TRANSACTION then rk\<lparr>txn_may_enq := True\<rparr>
                    else rk)
          in Some (rk\<lparr>txn_state := new_state\<rparr>))"

definition rd_kafka_txn_current_timeout :: "rd_env \<Rightarrow> rd_kafka_t \<Rightarrow> int" where
  "rd_kafka_txn_current_timeout e rk =
     rd_timeout_init0 (ev_clock e) (cf_transaction_timeout_ms (rk_conf rk))"

section \<open>The result of the current API call\<close>

definition set_error_actions ::
  "rd_kafka_err_actions \<Rightarrow> rd_kafka_error_t \<Rightarrow> rd_kafka_error_t" where
  "set_error_actions actions error =
     (if ERR_ACTION_FATAL \<in> actions then rd_kafka_error_set_fatal error
      else if ERR_ACTION_PERMANENT \<in> actions then rd_kafka_error_set_txn_requires_abort error
      else if ERR_ACTION_RETRY \<in> actions then rd_kafka_error_set_retriable error
      else error)"

definition rd_kafka_txn_curr_api_set_result ::
  "rd_kafka_t \<Rightarrow> rd_kafka_err_actions \<Rightarrow> rd_kafka_error_t option \<Rightarrow> rd_kafka_t" where
  "rd_kafka_txn_curr_api_set_result rk actions error =
     (let api = txn_curr_api rk in
      if api_name api = [] then rk
      else
        let api = api\<lparr>api_has_result := True\<rparr> in
        if api_error api \<noteq> None then rk\<lparr>txn_curr_api := api\<rparr>
        else rk\<lparr>txn_curr_api := api\<lparr>api_error := map_option (set_error_actions actions) error\<rparr>\<rparr>)"

section \<open>Transaction errors\<close>

definition rd_kafka_txn_set_fatal_error ::
  "rd_kafka_t \<Rightarrow> rd_kafka_resp_err_t \<Rightarrow> rd_kafka_t option" where
  "rd_kafka_txn_set_fatal_error rk err = do {
     let rk = snd (rd_kafka_set_fatal_error0 rk err);
     let rk = rk\<lparr>txn_err := err\<rparr>;
     rk \<leftarrow> rd_kafka_txn_set_state rk TXN_STATE_FATAL_ERROR;
     Some (rd_kafka_txn_curr_api_set_result rk {} (Some (rd_kafka_error_new_fatal err)))
   }"

definition rd_kafka_txn_set_abortable_error0 ::
  "rd_kafka_t \<Rightarrow> rd_kafka_resp_err_t \<Rightarrow> bool \<Rightarrow> rd_kafka_t option" where
  "rd_kafka_txn_set_abortable_error0 rk err requires_epoch_bump =
     (if rd_kafka_fatal_error rk \<noteq> 0 then Some rk
      else
        let rk = (if requires_epoch_bump then rk\<lparr>txn_requires_epoch_bump := True\<rparr> else rk) in
        if txn_err rk \<noteq> 0 then Some rk
        else do {
          rk \<leftarrow> rd_kafka_txn_set_state (rk\<lparr>txn_err := err\<rparr>) TXN_STATE_ABORTABLE_ERROR;
          Some (rd_fx (FX_PURGE {PURGE_F_QUEUE, PURGE_F_ABORT_TXN, PURGE_F_NON_BLOCKING}) rk)
        })"

abbreviation rd_kafka_txn_set_abortable_error where
  "rd_kafka_txn_set_abortable_error rk err \<equiv> rd_kafka_txn_set_abortable_error0 rk err False"

abbreviation rd_kafka_txn_set_abortable_error_with_bump where
  "rd_kafka_txn_set_abortable_error_with_bump rk err \<equiv> rd_kafka_txn_set_abortable_error0 rk err True"

section \<open>The idempotence state\<close>

definition rd_kafka_txn_idemp_state_change ::
  "rd_kafka_t \<Rightarrow> rd_kafka_idemp_state_t \<Rightarrow> rd_kafka_t option" where
  "rd_kafka_txn_idemp_state_change rk state =
     (if state = IDEMP_STATE_ASSIGNED \<and> txn_state rk = TXN_STATE_WAIT_PID
      then do {
        rk \<leftarrow> rd_kafka_txn_set_state rk TXN_STATE_READY_NOT_ACKED;
        Some (rd_kafka_txn_curr_api_set_result rk {} None)
      }
      else if state = IDEMP_STATE_ASSIGNED \<and>
              (txn_state rk = TXN_STATE_BEGIN_ABORT \<or> txn_state rk = TXN_STATE_ABORTING_TRANSACTION)
      then do {
        rk \<leftarrow> rd_kafka_txn_set_state rk TXN_STATE_ABORT_NOT_ACKED;
        Some (rd_kafka_txn_curr_api_set_result rk {} None)
      }
      else if state = IDEMP_STATE_FATAL_ERROR \<and> txn_state rk \<noteq> TXN_STATE_FATAL_ERROR
      then rd_kafka_txn_set_state rk TXN_STATE_FATAL_ERROR
      else Some rk)"

function rd_kafka_idemp_set_state ::
  "rd_env \<Rightarrow> rd_kafka_t \<Rightarrow> rd_kafka_idemp_state_t \<Rightarrow> rd_kafka_t option" where
  "rd_kafka_idemp_set_state e rk new_state =
     (if idemp_state rk = new_state then Some rk
      else if rd_kafka_fatal_error_code rk \<noteq> 0 \<and>
              new_state \<noteq> IDEMP_STATE_FATAL_ERROR \<and> new_state \<noteq> IDEMP_STATE_TERM \<and>
              new_state \<noteq> IDEMP_STATE_DRAIN_RESET \<and> new_state \<noteq> IDEMP_STATE_DRAIN_BUMP
      then rd_kafka_idemp_set_state e rk IDEMP_STATE_FATAL_ERROR
      else
        let rk = rk\<lparr>idemp_state := new_state, ts_idemp_state := ev_clock e\<rparr> in
        if rd_kafka_is_transactional rk then rd_kafka_txn_idemp_state_change rk new_state
        else Some rk)"
  by pat_completeness auto

termination
  by (relation "measure (\<lambda>(e, rk, new_state). if new_state = IDEMP_STATE_FATAL_ERROR then 0 else 1)") auto

declare rd_kafka_idemp_set_state.simps [simp del]

end
