(* ===== verification/Txn_Requests.thy ===== *)
theory Txn_Requests
  imports Eos_Core
begin

text \<open>
  The senders of the requests of the exactly-once producer
  (\<open>src/src/rdkafka_request.c\<close>, and \<open>rd_kafka_txn_send_TxnOffsetCommitRequest\<close> of
  \<open>rdkafka_txnmgr.c\<close>). A sender returns the error code with the state; on success
  the request is the last of \<open>rk_reqs\<close>.
\<close>

section \<open>Senders\<close>

definition rd_kafka_FindCoordinatorRequest ::
  "rd_env \<Rightarrow> rd_broker \<Rightarrow> rd_kafka_coordtype_t \<Rightarrow> string \<Rightarrow> rd_kafka_t \<Rightarrow>
   rd_kafka_resp_err_t \<times> rd_kafka_t" where
  "rd_kafka_FindCoordinatorRequest e rkb coordtype coordkey rk =
     (let ApiVersion = ev_ApiVersion_supported e rkb API_FindCoordinator 0 2 in
      if coordtype \<noteq> RD_KAFKA_COORD_GROUP \<and> ApiVersion < 1 then (RESP_ERR__UNSUPPORTED_FEATURE, rk)
      else (RESP_ERR_NO_ERROR,
            rd_send rkb (REQ_FindCoordinator ApiVersion coordkey
              (if ApiVersion \<ge> 1 then Some coordtype else None)) rk))"

definition rd_kafka_InitProducerIdRequest ::
  "rd_env \<Rightarrow> rd_broker \<Rightarrow> string option \<Rightarrow> int \<Rightarrow> rd_kafka_pid_t option \<Rightarrow> rd_kafka_t \<Rightarrow>
   rd_kafka_resp_err_t \<times> rd_kafka_t" where
  "rd_kafka_InitProducerIdRequest e rkb txn_id transaction_timeout_ms current_pid rk =
     (let ApiVersion = (case current_pid of
            Some _ \<Rightarrow> ev_ApiVersion_supported e rkb API_InitProducerId 3 4
          | None \<Rightarrow> ev_ApiVersion_supported e rkb API_InitProducerId 0 4)
      in if ApiVersion = - 1 then (RESP_ERR__UNSUPPORTED_FEATURE, rk)
         else (RESP_ERR_NO_ERROR,
               rd_send rkb (REQ_InitProducerId ApiVersion txn_id transaction_timeout_ms
                 (if ApiVersion \<ge> 3
                  then Some (case current_pid of Some p \<Rightarrow> p | None \<Rightarrow> \<lparr>pid_id = - 1, pid_epoch = - 1\<rparr>)
                  else None)) rk))"

text \<open>The loop over the partitions starts a new topic entry whenever the topic is
  not the one of the previous partition; \<open>acc\<close> is what has been written.\<close>

fun add_partitions_topics ::
  "string option \<Rightarrow> (string \<times> int list) list \<Rightarrow> toppar list \<Rightarrow> (string \<times> int list) list" where
  "add_partitions_topics last_rkt acc [] = acc"
| "add_partitions_topics last_rkt acc ((topic, part) # rktps) =
     (if last_rkt \<noteq> Some topic
      then add_partitions_topics (Some topic) (acc @ [(topic, [part])]) rktps
      else add_partitions_topics last_rkt
             (butlast acc @ [(fst (last acc), snd (last acc) @ [part])]) rktps)"

definition rd_kafka_AddPartitionsToTxnRequest ::
  "rd_env \<Rightarrow> rd_broker \<Rightarrow> string \<Rightarrow> rd_kafka_pid_t \<Rightarrow> toppar list \<Rightarrow> rd_kafka_t \<Rightarrow>
   rd_kafka_resp_err_t \<times> rd_kafka_t" where
  "rd_kafka_AddPartitionsToTxnRequest e rkb txn_id p rktps rk =
     (let ApiVersion = ev_ApiVersion_supported e rkb API_AddPartitionsToTxn 0 0 in
      if ApiVersion = - 1 then (RESP_ERR__UNSUPPORTED_FEATURE, rk)
      else (RESP_ERR_NO_ERROR,
            rd_send rkb (REQ_AddPartitionsToTxn ApiVersion txn_id p
              (add_partitions_topics None [] rktps)) rk))"

definition rd_kafka_AddOffsetsToTxnRequest ::
  "rd_env \<Rightarrow> rd_broker \<Rightarrow> string \<Rightarrow> rd_kafka_pid_t \<Rightarrow> string \<Rightarrow> txn_rko \<Rightarrow> rd_kafka_t \<Rightarrow>
   rd_kafka_resp_err_t \<times> rd_kafka_t" where
  "rd_kafka_AddOffsetsToTxnRequest e rkb txn_id p group_id rko rk =
     (let ApiVersion = ev_ApiVersion_supported e rkb API_AddOffsetsToTxn 0 0 in
      if ApiVersion = - 1 then (RESP_ERR__UNSUPPORTED_FEATURE, rk)
      else (RESP_ERR_NO_ERROR,
            rd_send rkb (REQ_AddOffsetsToTxn ApiVersion txn_id p group_id rko) rk))"

definition rd_kafka_EndTxnRequest ::
  "rd_env \<Rightarrow> rd_broker \<Rightarrow> string \<Rightarrow> rd_kafka_pid_t \<Rightarrow> bool \<Rightarrow> rd_kafka_t \<Rightarrow>
   rd_kafka_resp_err_t \<times> rd_kafka_t" where
  "rd_kafka_EndTxnRequest e rkb txn_id p committed rk =
     (let ApiVersion = ev_ApiVersion_supported e rkb API_EndTxn 0 1 in
      if ApiVersion = - 1 then (RESP_ERR__UNSUPPORTED_FEATURE, rk)
      else (RESP_ERR_NO_ERROR, rd_send rkb (REQ_EndTxn ApiVersion txn_id p committed) rk))"

text \<open>Offsets below zero are invalid and skipped when they are written. The leader
  epoch of an offset is a field of the request from version 2 on, -1 stands for its
  absence.\<close>

definition rd_kafka_txn_send_TxnOffsetCommitRequest ::
  "rd_env \<Rightarrow> rd_broker \<Rightarrow> txn_rko \<Rightarrow> rd_kafka_t \<Rightarrow> rd_kafka_resp_err_t \<times> rd_kafka_t" where
  "rd_kafka_txn_send_TxnOffsetCommitRequest e rkb rko rk =
     (if txn_state rk \<noteq> TXN_STATE_IN_TRANSACTION then (RESP_ERR__STATE, rk)
      else
        let p = rd_kafka_idemp_get_pid0 rk False in
        if \<not> rd_kafka_pid_valid p then (RESP_ERR__STATE, rk)
        else
          let ApiVersion = ev_ApiVersion_supported e rkb API_TxnOffsetCommit 0 3 in
          if ApiVersion = - 1 then (RESP_ERR__UNSUPPORTED_FEATURE, rk)
          else
            let cg = rko_cgmetadata rko;
                offsets = filter (\<lambda>o'. to_offset o' \<ge> 0) (rko_offsets rko);
                offsets = (if ApiVersion \<ge> 2 then offsets
                           else map (\<lambda>o'. o'\<lparr>to_leader_epoch := - 1\<rparr>) offsets)
            in if offsets = [] then (RESP_ERR__NO_OFFSET, rk)
               else (RESP_ERR_NO_ERROR,
                     rd_send rkb (REQ_TxnOffsetCommit ApiVersion (transactional_id rk)
                       (cg_group_id cg) p
                       (if ApiVersion \<ge> 3
                        then Some (cg_generation_id cg, cg_member_id cg, cg_group_instance_id cg)
                        else None)
                       offsets rko) rk))"

lemmas request_defs = rd_kafka_FindCoordinatorRequest_def rd_kafka_InitProducerIdRequest_def
  rd_kafka_AddPartitionsToTxnRequest_def rd_kafka_AddOffsetsToTxnRequest_def
  rd_kafka_EndTxnRequest_def rd_kafka_txn_send_TxnOffsetCommitRequest_def

section \<open>The partition groups of an AddPartitionsToTxn request\<close>

lemma add_partitions_topics_flat:
  assumes "acc = [] \<longrightarrow> last_rkt = None" "last_rkt \<noteq> None \<longrightarrow> acc \<noteq> [] \<and> fst (last acc) = the last_rkt"
  shows "concat (map (\<lambda>(t, ps). map (Pair t) ps) (add_partitions_topics last_rkt acc rktps)) =
         concat (map (\<lambda>(t, ps). map (Pair t) ps) acc) @ rktps"
  using assms
proof (induction last_rkt acc rktps rule: add_partitions_topics.induct)
  case (2 last_rkt acc topic part rktps)
  show ?case
  proof (cases "last_rkt = Some topic")
    case True
    then have "acc \<noteq> []" "fst (last acc) = topic" using "2.prems" by simp_all
    then obtain acc' ps where acc: "acc = acc' @ [(topic, ps)]"
      by (cases acc rule: rev_cases) auto
    show ?thesis using "2.IH"(2) True by (simp add: acc)
  next
    case False
    then show ?thesis using "2.IH"(1) by simp
  qed
qed simp

lemma add_partitions_topics_fst:
  assumes "sorted_wrt (\<lambda>a b. rd_kafka_toppar_topic_cmp a b \<le> 0) rktps"
    and "distinct (map fst acc)"
    and "\<forall>t \<in> fst ` set acc. \<forall>p \<in> set rktps. strcmp t (fst p) \<le> 0"
    and "acc = [] \<longrightarrow> last_rkt = None"
    and "acc \<noteq> [] \<longrightarrow> last_rkt = Some (fst (last acc)) \<and>
           (\<forall>t \<in> fst ` set acc. strcmp t (fst (last acc)) \<le> 0)"
  shows "distinct (map fst (add_partitions_topics last_rkt acc rktps))"
  using assms
proof (induction last_rkt acc rktps rule: add_partitions_topics.induct)
  case (2 last_rkt acc topic part rktps)
  show ?case
  proof (cases "last_rkt = Some topic")
    case True
    then have "acc \<noteq> []" "fst (last acc) = topic" using "2.prems"(4,5) by auto
    then obtain acc' ps where acc: "acc = acc' @ [(topic, ps)]"
      by (cases acc rule: rev_cases) auto
    have "distinct (map fst (add_partitions_topics last_rkt (acc' @ [(topic, ps @ [part])]) rktps))"
      using "2.IH"(2) [unfolded acc] True "2.prems" [unfolded acc] by simp
    then show ?thesis using True by (simp add: acc)
  next
    case False
    have new: "topic \<notin> fst ` set acc"
    proof
      assume t: "topic \<in> fst ` set acc"
      then have ne: "acc \<noteq> []" by auto
      then have "strcmp topic (fst (last acc)) \<le> 0" using "2.prems"(5) t by blast
      moreover have "strcmp (fst (last acc)) topic \<le> 0"
        using "2.prems"(3) ne by (auto dest: last_in_set)
      ultimately have "strcmp topic (fst (last acc)) = 0"
        using strcmp_antisym [of topic "fst (last acc)"] strcmp_antisym [of "fst (last acc)" topic] by linarith
      then show False using False "2.prems"(5) ne by simp
    qed
    have "distinct (map fst (add_partitions_topics (Some topic) (acc @ [(topic, [part])]) rktps))"
    proof (rule "2.IH"(1))
      show "distinct (map fst (acc @ [(topic, [part])]))" using "2.prems"(2) new by simp
      show "\<forall>t \<in> fst ` set (acc @ [(topic, [part])]). \<forall>p \<in> set rktps. strcmp t (fst p) \<le> 0"
        using "2.prems"(1,3) by (simp add: rd_kafka_toppar_topic_cmp_def)
      show "acc @ [(topic, [part])] \<noteq> [] \<longrightarrow> Some topic = Some (fst (last (acc @ [(topic, [part])]))) \<and>
          (\<forall>t \<in> fst ` set (acc @ [(topic, [part])]). strcmp t (fst (last (acc @ [(topic, [part])]))) \<le> 0)"
        using "2.prems"(3) by simp
    qed (use False "2.prems"(1) in simp_all)
    then show ?thesis using False by simp
  qed
qed simp

end
