(* ===== verification/Idempotence.thy ===== *)
theory Idempotence
  imports Txn_Requests
begin

text \<open>
  The idempotent producer (\<open>src/src/rdkafka_idempotence.c\<close>): acquiring a producer id,
  draining, bumping and resetting it, and the part of the transaction manager it
  calls, the lookup of the transaction coordinator (\<open>rdkafka_txnmgr.c\<close>), with
  the handlers of the InitProducerId and FindCoordinator responses.
\<close>

section \<open>Brokers and errors\<close>

definition rd_kafka_idemp_broker_any ::
  "rd_env \<Rightarrow> rd_kafka_t \<Rightarrow> (rd_kafka_resp_err_t + rd_broker) \<times> rd_kafka_t" where
  "rd_kafka_idemp_broker_any e rk =
     (case ev_any_up e of
        Some rkb \<Rightarrow> (Inr rkb, rd_kafka_broker_keep rkb rk)
      | None \<Rightarrow>
          if ev_up_cnt e > 0 then (Inl RESP_ERR__UNSUPPORTED_FEATURE, rk)
          else (Inl RESP_ERR__TRANSPORT, rk))"

definition rd_kafka_idemp_check_error ::
  "rd_env \<Rightarrow> rd_kafka_t \<Rightarrow> rd_kafka_resp_err_t \<Rightarrow> bool \<Rightarrow> (bool \<times> rd_kafka_t) option" where
  "rd_kafka_idemp_check_error e rk err is_fatal =
     (let (err, is_fatal) =
        (if err \<in> {RESP_ERR__UNSUPPORTED_FEATURE, RESP_ERR_INVALID_TRANSACTION_TIMEOUT,
                    RESP_ERR_TRANSACTIONAL_ID_AUTHORIZATION_FAILED,
                    RESP_ERR_CLUSTER_AUTHORIZATION_FAILED}
         then (err, True)
         else if err \<in> {RESP_ERR_INVALID_PRODUCER_EPOCH, RESP_ERR_PRODUCER_FENCED}
         then (RESP_ERR__FENCED, True)
         else (err, is_fatal))
      in if \<not> is_fatal then Some (False, rk)
         else do {
           rk \<leftarrow> (if rd_kafka_is_transactional rk then rd_kafka_txn_set_fatal_error rk err
                   else Some (snd (rd_kafka_set_fatal_error0 rk err)));
           rk \<leftarrow> rd_kafka_idemp_set_state e rk IDEMP_STATE_FATAL_ERROR;
           Some (True, rk)
         })"

definition rd_kafka_idemp_set_fatal_error ::
  "rd_kafka_t \<Rightarrow> rd_kafka_resp_err_t \<Rightarrow> rd_kafka_t option" where
  "rd_kafka_idemp_set_fatal_error rk err =
     (if rd_kafka_is_transactional rk then rd_kafka_txn_set_fatal_error rk err
      else Some (snd (rd_kafka_set_fatal_error0 rk err)))"

section \<open>Timers\<close>

definition rd_kafka_idemp_pid_timer_restart ::
  "rd_env \<Rightarrow> rd_kafka_t \<Rightarrow> bool \<Rightarrow> rd_kafka_t" where
  "rd_kafka_idemp_pid_timer_restart e rk immediate =
     rk\<lparr>rk_timers := rd_kafka_timer_start_oneshot (ev_clock e) (rk_timers rk) PID_TMR True
          (1000 * (if immediate then 1 else 500)) PID_TIMER_CB\<rparr>"

definition rd_kafka_txn_coord_timer_start ::
  "rd_env \<Rightarrow> rd_kafka_t \<Rightarrow> int \<Rightarrow> rd_kafka_t option" where
  "rd_kafka_txn_coord_timer_start e rk timeout_ms =
     (if \<not> rd_kafka_is_transactional rk then None
      else Some (rk\<lparr>rk_timers := rd_kafka_timer_start_oneshot (ev_clock e) (rk_timers rk)
                      TXN_COORD_TMR False (1000 * timeout_ms) TXN_COORD_TIMER_CB\<rparr>))"

definition rd_kafka_txn_schedule_register_partitions ::
  "rd_env \<Rightarrow> rd_kafka_t \<Rightarrow> int \<Rightarrow> rd_kafka_t" where
  "rd_kafka_txn_schedule_register_partitions e rk backoff_ms =
     rk\<lparr>rk_timers := rd_kafka_timer_start_oneshot (ev_clock e) (rk_timers rk)
          TXN_REGISTER_PARTS_TMR False
          (if backoff_ms \<noteq> 0 then backoff_ms * 1000 else 1) TXN_REGISTER_PARTITIONS_TMR_CB\<rparr>"

section \<open>Coordinator query and the PID state machine\<close>

text \<open>The result says whether a fatal error was raised.\<close>

definition rd_kafka_txn_coord_query ::
  "rd_env \<Rightarrow> rd_kafka_t \<Rightarrow> (bool \<times> rd_kafka_t) option" where
  "rd_kafka_txn_coord_query e rk =
     (if \<not> rd_kafka_is_transactional rk then None
      else if txn_wait_coord rk then Some (False, rk)
      else case rd_kafka_idemp_broker_any e rk of
        (Inl err, rk) \<Rightarrow> do {
          (fatal, rk) \<leftarrow> rd_kafka_idemp_check_error e rk err False;
          if fatal then Some (True, rk)
          else do {
            rk \<leftarrow> rd_kafka_txn_coord_timer_start e rk 500;
            Some (False, rk)
          }
        }
      | (Inr rkb, rk) \<Rightarrow>
          let (err, rk) = rd_kafka_FindCoordinatorRequest e rkb RD_KAFKA_COORD_TXN
                            (transactional_id rk) rk;
              rk = rd_kafka_broker_destroy rkb rk
          in if err \<noteq> 0
             then do {
               (fatal, rk) \<leftarrow> rd_kafka_idemp_check_error e rk err False;
               if fatal then Some (True, rk)
               else do {
                 rk \<leftarrow> rd_kafka_txn_coord_timer_start e rk 500;
                 Some (False, rk)
               }
             }
             else Some (False, rk\<lparr>txn_wait_coord := True\<rparr>))"

text \<open>The second half of the \<open>WAIT_TRANSPORT\<close> case: the request is sent to \<open>rkb\<close>,
  which is up.\<close>

definition rd_kafka_idemp_request_pid ::
  "rd_env \<Rightarrow> rd_kafka_t \<Rightarrow> rd_broker \<Rightarrow> rd_kafka_t option" where
  "rd_kafka_idemp_request_pid e rk rkb =
     (let (err, is_fatal, rk) =
        (if rd_kafka_is_transactional rk
         then let (err, rk) = rd_kafka_InitProducerIdRequest e rkb (cf_transactional_id (rk_conf rk))
                    (cf_transaction_timeout_ms (rk_conf rk))
                    (if rd_kafka_pid_valid (pid rk) then Some (pid rk) else None) rk
              in (err, err = RESP_ERR__UNSUPPORTED_FEATURE \<and> rd_kafka_pid_valid (pid rk), rk)
         else let (err, rk) = rd_kafka_InitProducerIdRequest e rkb None (- 1) None rk
              in (err, False, rk));
          rk = rd_kafka_broker_destroy rkb rk
      in if err \<noteq> 0
         then do {
           (fatal, rk) \<leftarrow> rd_kafka_idemp_check_error e rk err is_fatal;
           if fatal then Some rk
           else Some (rd_kafka_idemp_pid_timer_restart e rk False)
         }
         else rd_kafka_idemp_set_state e rk IDEMP_STATE_WAIT_PID)"

definition rd_kafka_idemp_wait_transport :: "rd_env \<Rightarrow> rd_kafka_t \<Rightarrow> rd_kafka_t option" where
  "rd_kafka_idemp_wait_transport e rk =
     (if rd_kafka_is_transactional rk
      then
        if txn_curr_coord rk = None then map_option snd (rd_kafka_txn_coord_query e rk)
        else
          let rk = rd_kafka_broker_keep TXN_COORD rk in
          if \<not> ev_broker_is_up e TXN_COORD
          then Some (rd_kafka_broker_destroy TXN_COORD (rd_kafka_idemp_pid_timer_restart e rk False))
          else rd_kafka_idemp_request_pid e rk TXN_COORD
      else case rd_kafka_idemp_broker_any e rk of
        (Inl err, rk) \<Rightarrow> do {
          (fatal, rk) \<leftarrow> rd_kafka_idemp_check_error e rk err False;
          if fatal then Some rk
          else Some (rd_kafka_idemp_pid_timer_restart e rk False)
        }
      | (Inr rkb, rk) \<Rightarrow>
          if \<not> ev_broker_is_up e rkb
          then Some (rd_kafka_broker_destroy rkb (rd_kafka_idemp_pid_timer_restart e rk False))
          else rd_kafka_idemp_request_pid e rk rkb)"

text \<open>The \<open>switch\<close> with its \<open>goto redo\<close>: a loop, so \<open>None\<close> also where it would not
  end (it always ends: \<open>pid_fsm_redo_unfold\<close> below).\<close>

partial_function (option) rd_kafka_idemp_pid_fsm_redo ::
  "rd_env \<Rightarrow> rd_kafka_t \<Rightarrow> rd_kafka_t option" where
  "rd_kafka_idemp_pid_fsm_redo e rk =
     (case idemp_state rk of
        IDEMP_STATE_REQ_PID \<Rightarrow>
          if \<not> rd_kafka_is_transactional rk \<or> txn_curr_coord rk \<noteq> None
          then Option.bind (rd_kafka_idemp_set_state e rk IDEMP_STATE_WAIT_TRANSPORT)
                 (rd_kafka_idemp_pid_fsm_redo e)
          else map_option snd (rd_kafka_txn_coord_query e rk)
      | IDEMP_STATE_WAIT_TRANSPORT \<Rightarrow> rd_kafka_idemp_wait_transport e rk
      | _ \<Rightarrow> Some rk)"

declare rd_kafka_idemp_pid_fsm_redo.simps [code]

definition rd_kafka_idemp_pid_fsm :: "rd_env \<Rightarrow> rd_kafka_t \<Rightarrow> rd_kafka_t option" where
  "rd_kafka_idemp_pid_fsm e rk =
     (if rd_kafka_fatal_error_code rk \<noteq> 0 then Some rk
      else rd_kafka_idemp_pid_fsm_redo e rk)"

definition rd_kafka_idemp_pid_timer_cb :: "rd_env \<Rightarrow> rd_kafka_t \<Rightarrow> rd_kafka_t option" where
  "rd_kafka_idemp_pid_timer_cb e rk = rd_kafka_idemp_pid_fsm e rk"

definition rd_kafka_txn_coord_timer_cb :: "rd_env \<Rightarrow> rd_kafka_t \<Rightarrow> rd_kafka_t option" where
  "rd_kafka_txn_coord_timer_cb e rk = map_option snd (rd_kafka_txn_coord_query e rk)"

definition rd_kafka_txn_coord_set ::
  "rd_env \<Rightarrow> rd_kafka_t \<Rightarrow> rd_broker option \<Rightarrow> (bool \<times> rd_kafka_t) option" where
  "rd_kafka_txn_coord_set e rk rkb =
     (if txn_curr_coord rk = rkb
      then
        if rkb = None then map_option (Pair False) (rd_kafka_txn_coord_timer_start e rk 500)
        else Some (False, rk)
      else
        let rk = (case txn_curr_coord rk of Some b \<Rightarrow> rd_kafka_broker_destroy b rk | None \<Rightarrow> rk);
            rk = rk\<lparr>txn_curr_coord := rkb\<rparr>;
            rk = (case rkb of Some b \<Rightarrow> rd_kafka_broker_keep b rk | None \<Rightarrow> rk);
            rk = rd_fx (FX_SET_NODENAME rkb) rk
        in map_option (Pair True)
             (if rkb = None then rd_kafka_txn_coord_timer_start e rk 500
              else rd_kafka_idemp_pid_fsm e rk))"

section \<open>Responses\<close>

definition rd_kafka_idemp_request_pid_failed ::
  "rd_env \<Rightarrow> rd_kafka_t \<Rightarrow> rd_kafka_resp_err_t \<Rightarrow> rd_kafka_t option" where
  "rd_kafka_idemp_request_pid_failed e rk err =
     (if err = RESP_ERR__DESTROY then Some rk
      else do {
        (fatal, rk) \<leftarrow> rd_kafka_idemp_check_error e rk err False;
        if fatal then Some rk
        else do {
          rk \<leftarrow> (if rd_kafka_is_transactional rk \<and>
                     (err = RESP_ERR_NOT_COORDINATOR \<or> err = RESP_ERR_COORDINATOR_NOT_AVAILABLE)
                  then map_option snd (rd_kafka_txn_coord_set e rk None)
                  else Some rk);
          rk \<leftarrow> rd_kafka_idemp_set_state e (rk\<lparr>txn_init_err := err\<rparr>) IDEMP_STATE_REQ_PID;
          Some (rd_kafka_idemp_pid_timer_restart e rk False)
        }
      })"

definition rd_kafka_idemp_pid_update ::
  "rd_env \<Rightarrow> rd_kafka_t \<Rightarrow> rd_kafka_pid_t \<Rightarrow> rd_kafka_t option" where
  "rd_kafka_idemp_pid_update e rk new_pid =
     (if idemp_state rk \<noteq> IDEMP_STATE_WAIT_PID then Some rk
      else if \<not> rd_kafka_pid_valid new_pid
      then rd_kafka_idemp_request_pid_failed e rk RESP_ERR__BAD_MSG
      else do {
        let rk = rk\<lparr>pid := new_pid, epoch_cnt := epoch_cnt rk + 1\<rparr>;
        rk \<leftarrow> rd_kafka_idemp_set_state e rk IDEMP_STATE_ASSIGNED;
        Some (rd_fx FX_ALL_BROKERS_WAKEUP rk)
      })"

text \<open>A response buffer is what reading it gives, field by field: \<open>Inl\<close> is the error
  \<open>rkbuf_err\<close> of a buffer that ends early, \<open>Inr\<close> the fields up to the next point where the
  handler decides.\<close>

definition rd_kafka_handle_InitProducerId ::
  "rd_env \<Rightarrow> rd_kafka_t \<Rightarrow> rd_kafka_resp_err_t \<Rightarrow>
   (rd_kafka_resp_err_t + (rd_kafka_resp_err_t \<times> (rd_kafka_resp_err_t + rd_kafka_pid_t))) \<Rightarrow>
   rd_kafka_t option" where
  "rd_kafka_handle_InitProducerId e rk err rkbuf =
     (let r = (if err \<noteq> 0 then Inl err
               else case rkbuf of
                 Inl rkbuf_err \<Rightarrow> Inl rkbuf_err
               | Inr (error_code, rest) \<Rightarrow> if error_code \<noteq> 0 then Inl error_code else rest)
      in case r of
           Inr p \<Rightarrow> rd_kafka_idemp_pid_update e rk p
         | Inl err \<Rightarrow>
             if err = RESP_ERR__DESTROY then Some rk
             else rd_kafka_idemp_request_pid_failed e rk err)"

definition txn_find_coordinator_failed ::
  "rd_env \<Rightarrow> rd_kafka_t \<Rightarrow> rd_kafka_resp_err_t \<Rightarrow> rd_kafka_t option" where
  "txn_find_coordinator_failed e rk err =
     (if err = RESP_ERR__DESTROY then Some rk
      else if err = RESP_ERR_TRANSACTIONAL_ID_AUTHORIZATION_FAILED
              \<or> err = RESP_ERR_CLUSTER_AUTHORIZATION_FAILED
      then do {
        rk \<leftarrow> rd_kafka_txn_set_fatal_error rk err;
        rd_kafka_idemp_set_state e rk IDEMP_STATE_FATAL_ERROR
      }
      else
        let rk = (if err = RESP_ERR__UNKNOWN_BROKER then rd_fx FX_METADATA_REFRESH rk else rk)
        in map_option snd (rd_kafka_txn_coord_set e rk None))"

definition rd_kafka_txn_handle_FindCoordinator ::
  "rd_env \<Rightarrow> rd_kafka_t \<Rightarrow> rd_broker \<Rightarrow> rd_kafka_resp_err_t \<Rightarrow>
   (rd_kafka_resp_err_t + (rd_kafka_resp_err_t \<times> (rd_kafka_resp_err_t + int))) \<Rightarrow>
   rd_kafka_t option" where
  "rd_kafka_txn_handle_FindCoordinator e rk rkb err rkbuf =
     (let rk = rk\<lparr>txn_wait_coord := False\<rparr>;
          err = (if err = 0 \<and> ev_learned e rkb \<and> ev_termination_in_progress e rkb
                 then RESP_ERR__DESTROY_BROKER else err)
      in if err \<noteq> 0 then txn_find_coordinator_failed e rk err
         else case rkbuf of
           Inl rkbuf_err \<Rightarrow> txn_find_coordinator_failed e rk rkbuf_err
         | Inr (ErrorCode, rest) \<Rightarrow>
             if ErrorCode \<noteq> 0 then txn_find_coordinator_failed e rk ErrorCode
             else case rest of
               Inl rkbuf_err \<Rightarrow> txn_find_coordinator_failed e rk rkbuf_err
             | Inr NodeId \<Rightarrow>
                 let (rkb, err, rk) =
                       (if NodeId = - 1 then (Some rkb, RESP_ERR_COORDINATOR_NOT_AVAILABLE, rk)
                        else case ev_find_by_nodeid e NodeId of
                          None \<Rightarrow> (None, RESP_ERR__UNKNOWN_BROKER, rk)
                        | Some b \<Rightarrow> (Some b, RESP_ERR_NO_ERROR, rd_kafka_broker_keep b rk));
                     (rkb, err, rk) =
                       (case rkb of
                          Some b \<Rightarrow>
                            if \<not> ev_learned e b
                            then (None, RESP_ERR__UNKNOWN_BROKER, rd_kafka_broker_destroy b rk)
                            else (Some b, err, rk)
                        | None \<Rightarrow> (None, err, rk))
                 in if err \<noteq> 0 then txn_find_coordinator_failed e rk err
                    else do {
                      (_, rk) \<leftarrow> rd_kafka_txn_coord_set e rk rkb;
                      Some (case rkb of Some b \<Rightarrow> rd_kafka_broker_destroy b rk | None \<Rightarrow> rk)
                    })"

definition rd_kafka_txn_coord_monitor_cb ::
  "rd_env \<Rightarrow> rd_kafka_t \<Rightarrow> bool \<Rightarrow> rd_kafka_t option" where
  "rd_kafka_txn_coord_monitor_cb e rk is_up =
     (if \<not> is_up then rd_kafka_txn_coord_timer_start e rk 500
      else if idemp_state rk < IDEMP_STATE_ASSIGNED then rd_kafka_idemp_pid_fsm e rk
      else if idemp_state rk = IDEMP_STATE_ASSIGNED
      then Some (rd_kafka_txn_schedule_register_partitions e rk 1)
      else Some rk)"

section \<open>Draining\<close>

definition rd_kafka_idemp_drain_done :: "rd_env \<Rightarrow> rd_kafka_t \<Rightarrow> rd_kafka_t option" where
  "rd_kafka_idemp_drain_done e rk =
     (if idemp_state rk = IDEMP_STATE_DRAIN_RESET
      then do {
        rk \<leftarrow> rd_kafka_idemp_set_state e rk IDEMP_STATE_REQ_PID;
        Some (rd_kafka_idemp_pid_timer_restart e rk True)
      }
      else if idemp_state rk = IDEMP_STATE_DRAIN_BUMP \<and> rd_kafka_pid_valid (pid rk)
      then
        if rd_kafka_is_transactional rk
        then do {
          rk \<leftarrow> rd_kafka_idemp_set_state e rk IDEMP_STATE_REQ_PID;
          Some (rd_kafka_idemp_pid_timer_restart e rk True)
        }
        else do {
          rk \<leftarrow> rd_kafka_idemp_set_state e (rk\<lparr>pid := rd_kafka_pid_bump (pid rk)\<rparr>)
                 IDEMP_STATE_ASSIGNED;
          Some (rd_fx FX_ALL_BROKERS_WAKEUP rk)
        }
      else Some rk)"

definition rd_kafka_idemp_check_drain_done :: "rd_env \<Rightarrow> rd_kafka_t \<Rightarrow> rd_kafka_t option" where
  "rd_kafka_idemp_check_drain_done e rk =
     (if inflight_toppar_cnt rk = 0 then rd_kafka_idemp_drain_done e rk else Some rk)"

definition rd_kafka_idemp_drain_reset :: "rd_env \<Rightarrow> rd_kafka_t \<Rightarrow> rd_kafka_t option" where
  "rd_kafka_idemp_drain_reset e rk = do {
     rk \<leftarrow> rd_kafka_idemp_set_state e rk IDEMP_STATE_DRAIN_RESET;
     rd_kafka_idemp_check_drain_done e rk
   }"

definition rd_kafka_idemp_drain_epoch_bump0 ::
  "rd_env \<Rightarrow> rd_kafka_t \<Rightarrow> bool \<Rightarrow> rd_kafka_resp_err_t \<Rightarrow> rd_kafka_t option" where
  "rd_kafka_idemp_drain_epoch_bump0 e rk allow_txn_abort err =
     (let requires_txn_abort = (allow_txn_abort \<and> rd_kafka_is_transactional rk) in
      if requires_txn_abort
      then do {
        rk \<leftarrow> rd_kafka_idemp_set_state e rk IDEMP_STATE_WAIT_TXN_ABORT;
        rd_kafka_txn_set_abortable_error_with_bump rk err
      }
      else do {
        rk \<leftarrow> rd_kafka_idemp_set_state e rk IDEMP_STATE_DRAIN_BUMP;
        rd_kafka_idemp_check_drain_done e rk
      })"

abbreviation rd_kafka_idemp_drain_epoch_bump where
  "rd_kafka_idemp_drain_epoch_bump e rk err \<equiv> rd_kafka_idemp_drain_epoch_bump0 e rk True err"

definition rd_kafka_idemp_drain_toppar :: "rd_kafka_t \<Rightarrow> toppar \<Rightarrow> rd_kafka_t" where
  "rd_kafka_idemp_drain_toppar rk rktp =
     (if rktp_wait_drain rk rktp then rk
      else rk\<lparr>rktp_wait_drain := (rktp_wait_drain rk)(rktp := True)\<rparr>)"

definition rd_kafka_idemp_inflight_toppar_sub :: "rd_env \<Rightarrow> rd_kafka_t \<Rightarrow> rd_kafka_t option" where
  "rd_kafka_idemp_inflight_toppar_sub e rk =
     (let r = inflight_toppar_cnt rk - 1; rk = rk\<lparr>inflight_toppar_cnt := r\<rparr> in
      if r = 0 then rd_kafka_idemp_drain_done e rk
      else if r \<ge> 0 then Some rk
      else None)"

definition rd_kafka_idemp_inflight_toppar_add :: "rd_kafka_t \<Rightarrow> rd_kafka_t" where
  "rd_kafka_idemp_inflight_toppar_add rk =
     rk\<lparr>inflight_toppar_cnt := inflight_toppar_cnt rk + 1\<rparr>"

section \<open>Life cycle\<close>

definition rd_kafka_idemp_start :: "rd_env \<Rightarrow> rd_kafka_t \<Rightarrow> bool \<Rightarrow> rd_kafka_t option" where
  "rd_kafka_idemp_start e rk immediate =
     (if ev_terminating e then Some rk
      else do {
        rk \<leftarrow> (if idemp_state rk \<noteq> IDEMP_STATE_WAIT_PID
                then rd_kafka_idemp_set_state e rk IDEMP_STATE_REQ_PID else Some rk);
        Some (rd_kafka_idemp_pid_timer_restart e rk immediate)
      })"

definition rd_kafka_txn_clear_partitions_flag ::
  "toppar list \<Rightarrow> toppar_flag \<Rightarrow> (toppar \<Rightarrow> toppar_flag set) \<Rightarrow> toppar \<Rightarrow> toppar_flag set" where
  "rd_kafka_txn_clear_partitions_flag tqh flag flags =
     fold (\<lambda>rktp fl. fl(rktp := fl rktp - {flag})) tqh flags"

definition rd_kafka_txn_clear_pending_partitions :: "rd_kafka_t \<Rightarrow> rd_kafka_t" where
  "rd_kafka_txn_clear_pending_partitions rk =
     (let rk = rk\<lparr>rktp_flags := rd_kafka_txn_clear_partitions_flag (txn_pending_rktps rk)
                     TOPPAR_F_PEND_TXN (rktp_flags rk),
                   txn_pending_rktps := []\<rparr>
      in rk\<lparr>rktp_flags := rd_kafka_txn_clear_partitions_flag (txn_waitresp_rktps rk)
               TOPPAR_F_PEND_TXN (rktp_flags rk),
             txn_waitresp_rktps := []\<rparr>)"

definition rd_kafka_txn_clear_partitions :: "rd_kafka_t \<Rightarrow> rd_kafka_t" where
  "rd_kafka_txn_clear_partitions rk =
     rk\<lparr>rktp_flags := rd_kafka_txn_clear_partitions_flag (txn_rktps rk)
          TOPPAR_F_IN_TXN (rktp_flags rk),
        txn_rktps := []\<rparr>"

definition rd_kafka_txns_init :: "rd_kafka_t \<Rightarrow> rd_kafka_t" where
  "rd_kafka_txns_init rk =
     rk\<lparr>txn_may_enq := False, txn_pending_rktps := [], txn_waitresp_rktps := [],
        txn_rktps := [], txn_dr_fails := 0\<rparr>"

definition rd_kafka_idemp_init :: "rd_env \<Rightarrow> rd_kafka_t \<Rightarrow> rd_kafka_t option" where
  "rd_kafka_idemp_init e rk =
     (let rk = rk\<lparr>inflight_toppar_cnt := 0, pid := rd_kafka_pid_reset (pid rk)\<rparr> in
      if rd_kafka_is_transactional rk then Some (rd_kafka_txns_init rk)
      else rd_kafka_idemp_start e rk False)"

definition rd_kafka_txns_term :: "rd_kafka_t \<Rightarrow> rd_kafka_t" where
  "rd_kafka_txns_term rk =
     (let rk = rk\<lparr>rk_timers := snd (rd_kafka_timer_stop (rk_timers rk) TXN_COORD_TMR)\<rparr>;
          rk = rk\<lparr>rk_timers := snd (rd_kafka_timer_stop (rk_timers rk) TXN_REGISTER_PARTS_TMR)\<rparr>;
          rk = (case txn_curr_coord rk of Some b \<Rightarrow> rd_kafka_broker_destroy b rk | None \<Rightarrow> rk)
      in rd_kafka_txn_clear_partitions (rd_kafka_txn_clear_pending_partitions rk))"

definition rd_kafka_idemp_term :: "rd_env \<Rightarrow> rd_kafka_t \<Rightarrow> rd_kafka_t option" where
  "rd_kafka_idemp_term e rk = do {
     let rk = (if rd_kafka_is_transactional rk then rd_kafka_txns_term rk else rk);
     rk \<leftarrow> rd_kafka_idemp_set_state e rk IDEMP_STATE_TERM;
     Some (rk\<lparr>rk_timers := snd (rd_kafka_timer_stop (rk_timers rk) PID_TMR)\<rparr>)
   }"

end
