(* ===== verification/Txn_Manager.thy ===== *)
theory Txn_Manager
  imports Idempotence
begin

text \<open>
  The transaction manager (\<open>src/src/rdkafka_txnmgr.c\<close>, \<open>rdkafka_txnmgr.h\<close>): the
  registration of partitions, the handlers of the ops of the transactional API
  and of the responses of the transaction and group coordinators, which all run in the
  main thread.
\<close>

section \<open>Partitions\<close>

definition rd_kafka_txn_add_partition :: "rd_env \<Rightarrow> rd_kafka_t \<Rightarrow> toppar \<Rightarrow> rd_kafka_t" where
  "rd_kafka_txn_add_partition e rk rktp =
     (if rktp_flags rk rktp \<inter> {TOPPAR_F_PEND_TXN, TOPPAR_F_IN_TXN} \<noteq> {} then rk
      else
        let rk = rk\<lparr>rktp_flags := (rktp_flags rk)(rktp := insert TOPPAR_F_PEND_TXN (rktp_flags rk rktp))\<rparr>;
            schedule = (txn_pending_rktps rk = []);
            rk = rk\<lparr>txn_pending_rktps :=
                      TAILQ_INSERT_SORTED rd_kafka_toppar_topic_cmp rktp (txn_pending_rktps rk)\<rparr>
        in if schedule then rd_kafka_txn_schedule_register_partitions e rk 1 else rk)"

text \<open>Removing a partition from a queue it is not on would corrupt the queue: \<open>None\<close>.\<close>

definition rd_kafka_txn_partition_registered :: "rd_kafka_t \<Rightarrow> toppar \<Rightarrow> rd_kafka_t option" where
  "rd_kafka_txn_partition_registered rk rktp =
     (if TOPPAR_F_PEND_TXN \<notin> rktp_flags rk rktp then Some rk
      else if TOPPAR_F_IN_TXN \<in> rktp_flags rk rktp then None
      else if rktp \<notin> set (txn_waitresp_rktps rk) then None
      else Some (rk
        \<lparr>rktp_flags := (rktp_flags rk)
           (rktp := insert TOPPAR_F_IN_TXN (rktp_flags rk rktp - {TOPPAR_F_PEND_TXN})),
         txn_waitresp_rktps := TAILQ_REMOVE rktp (txn_waitresp_rktps rk),
         txn_rktps := txn_rktps rk @ [rktp]\<rparr>))"

section \<open>AddPartitionsToTxn\<close>

text \<open>The local variables of the response handler that its loops update.\<close>

record add_parts =
  ap_actions :: rd_kafka_err_actions
  ap_retry_backoff_ms :: int
  ap_reset_coord_err :: rd_kafka_resp_err_t
  ap_require_bump :: bool
  ap_err :: rd_kafka_resp_err_t
  ap_request_error :: bool

text \<open>The body of the loop over the partitions of a topic.\<close>

definition add_parts_partition ::
  "rd_env \<Rightarrow> string \<Rightarrow> int \<times> rd_kafka_resp_err_t \<Rightarrow> rd_kafka_t \<times> add_parts \<Rightarrow>
   (rd_kafka_t \<times> add_parts) option" where
  "add_parts_partition e topic p_err st =
     (let (part, ErrorCode) = p_err; (rk, ap) = st; rktp = (topic, part) in
      if \<not> ev_toppar_known e rktp then Some (rk, ap)
      else do {
        rk \<leftarrow> (if ErrorCode = RESP_ERR_NO_ERROR then rd_kafka_txn_partition_registered rk rktp
                else Some rk);
        let (p_actions, ap) =
          (if ErrorCode = RESP_ERR_NO_ERROR then ({}, ap)
           else if ErrorCode \<in> {RESP_ERR_NOT_COORDINATOR, RESP_ERR_COORDINATOR_NOT_AVAILABLE}
           then ({ERR_ACTION_RETRY},
                 ap\<lparr>ap_reset_coord_err := ErrorCode, ap_err := ErrorCode, ap_request_error := True\<rparr>)
           else if ErrorCode = RESP_ERR_CONCURRENT_TRANSACTIONS
           then ({ERR_ACTION_RETRY},
                 ap\<lparr>ap_retry_backoff_ms := 20, ap_err := ErrorCode, ap_request_error := True\<rparr>)
           else if ErrorCode \<in> {RESP_ERR_COORDINATOR_LOAD_IN_PROGRESS, RESP_ERR_UNKNOWN_TOPIC_OR_PART}
           then ({ERR_ACTION_RETRY}, ap\<lparr>ap_err := ErrorCode, ap_request_error := True\<rparr>)
           else if ErrorCode \<in> {RESP_ERR_INVALID_PRODUCER_EPOCH, RESP_ERR_PRODUCER_FENCED,
                                 RESP_ERR_TRANSACTIONAL_ID_AUTHORIZATION_FAILED,
                                 RESP_ERR_INVALID_TXN_STATE, RESP_ERR_CLUSTER_AUTHORIZATION_FAILED}
           then ({ERR_ACTION_FATAL}, ap\<lparr>ap_err := ErrorCode, ap_request_error := True\<rparr>)
           else if ErrorCode \<in> {RESP_ERR_UNKNOWN_PRODUCER_ID, RESP_ERR_INVALID_PRODUCER_ID_MAPPING}
           then ({ERR_ACTION_PERMANENT},
                 ap\<lparr>ap_require_bump := True, ap_err := ErrorCode, ap_request_error := True\<rparr>)
           else if ErrorCode = RESP_ERR_TOPIC_AUTHORIZATION_FAILED
           then ({ERR_ACTION_PERMANENT}, ap\<lparr>ap_err := ErrorCode\<rparr>)
           else if ErrorCode = RESP_ERR_OPERATION_NOT_ATTEMPTED
           then ({ERR_ACTION_PERMANENT}, (if ap_err ap = 0 then ap\<lparr>ap_err := ErrorCode\<rparr> else ap))
           else ({ERR_ACTION_PERMANENT}, ap\<lparr>ap_err := ErrorCode\<rparr>));
        Some (rk, if ErrorCode \<noteq> 0 then ap\<lparr>ap_actions := ap_actions ap \<union> p_actions\<rparr> else ap)
      })"

fun add_parts_partitions ::
  "rd_env \<Rightarrow> string \<Rightarrow> (int \<times> rd_kafka_resp_err_t) list \<Rightarrow> rd_kafka_t \<times> add_parts \<Rightarrow>
   (rd_kafka_t \<times> add_parts) option" where
  "add_parts_partitions e topic [] st = Some st"
| "add_parts_partitions e topic (p # ps) st =
     Option.bind (add_parts_partition e topic p st) (\<lambda>st'.
       if ap_request_error (snd st') then Some st' else add_parts_partitions e topic ps st')"

text \<open>\<open>request_error\<close> is a variable of the loop over the topics: it is false again for
  the next topic, which is only reached when it was not set.\<close>

fun add_parts_topics ::
  "rd_env \<Rightarrow> (string \<times> (int \<times> rd_kafka_resp_err_t) list) list \<Rightarrow> rd_kafka_t \<times> add_parts \<Rightarrow>
   (rd_kafka_t \<times> add_parts) option" where
  "add_parts_topics e [] st = Some st"
| "add_parts_topics e ((topic, ps) # topics) st =
     Option.bind (add_parts_partitions e topic ps st) (\<lambda>st'.
       if ap_request_error (snd st') then Some st' else add_parts_topics e topics st')"

text \<open>From the label \<open>done\<close> on.\<close>

definition add_parts_done :: "rd_env \<Rightarrow> rd_kafka_t \<Rightarrow> add_parts \<Rightarrow> rd_kafka_t option" where
  "add_parts_done e rk ap = do {
     let err = ap_err ap;
     rk \<leftarrow> (if err \<noteq> 0
             then if txn_req_cnt rk > 0 then Some (rk\<lparr>txn_req_cnt := txn_req_cnt rk - 1\<rparr>) else None
             else Some rk);
     if err = RESP_ERR__DESTROY \<or> err = RESP_ERR__OUTDATED then Some rk
     else do {
       let (rk, actions) =
         (if err = RESP_ERR_NO_ERROR then (rk, ap_actions ap)
          else (rk\<lparr>txn_req_cnt := txn_req_cnt rk + 1\<rparr>, insert ERR_ACTION_RETRY (ap_actions ap)));
       rk \<leftarrow> (if ap_reset_coord_err ap \<noteq> 0 then map_option snd (rd_kafka_txn_coord_set e rk None)
               else Some rk);
       let (pending, waitresp) = TAILQ_CONCAT_SORTED rd_kafka_toppar_topic_cmp
                                   (txn_pending_rktps rk) (txn_waitresp_rktps rk);
       let rk = rk\<lparr>txn_pending_rktps := pending, txn_waitresp_rktps := waitresp\<rparr>;
       let err = rd_kafka_txn_normalize_err err;
       if ERR_ACTION_FATAL \<in> actions then rd_kafka_txn_set_fatal_error rk err
       else if ERR_ACTION_PERMANENT \<in> actions
       then if ap_require_bump ap then rd_kafka_idemp_drain_epoch_bump e rk err
            else rd_kafka_txn_set_abortable_error rk err
       else Some (rd_kafka_txn_schedule_register_partitions e rk
                    (if ERR_ACTION_RETRY \<in> actions then ap_retry_backoff_ms ap else 1))
     }
   }"

text \<open>The response: the topics that could be read, and the error of the buffer if it
  ends early after them.\<close>

definition rd_kafka_txn_handle_AddPartitionsToTxn ::
  "rd_env \<Rightarrow> rd_kafka_t \<Rightarrow> rd_kafka_resp_err_t \<Rightarrow>
   (string \<times> (int \<times> rd_kafka_resp_err_t) list) list \<times> rd_kafka_resp_err_t option \<Rightarrow>
   rd_kafka_t option" where
  "rd_kafka_txn_handle_AddPartitionsToTxn e rk err rkbuf =
     (let ap = \<lparr>ap_actions = {}, ap_retry_backoff_ms = 500, ap_reset_coord_err = 0,
                ap_require_bump = False, ap_err = err, ap_request_error = False\<rparr>;
          (topics, rkbuf_err) = rkbuf
      in if err \<noteq> 0 then add_parts_done e rk ap
         else if txn_state rk = TXN_STATE_COMMITTING_TRANSACTION then None
         else if txn_state rk \<noteq> TXN_STATE_IN_TRANSACTION \<and> txn_state rk \<noteq> TXN_STATE_BEGIN_COMMIT
         then add_parts_done e rk (ap\<lparr>ap_err := RESP_ERR__OUTDATED\<rparr>)
         else do {
           (rk, ap) \<leftarrow> add_parts_topics e topics (rk, ap);
           if rkbuf_err \<noteq> None \<and> \<not> ap_request_error ap
           then add_parts_done e rk (ap\<lparr>ap_err := the rkbuf_err,
                                        ap_actions := insert ERR_ACTION_PERMANENT (ap_actions ap)\<rparr>)
           else if ap_actions ap \<noteq> {} then add_parts_done e rk ap
           else add_parts_done e (rd_fx FX_ALL_BROKERS_WAKEUP rk) ap
         })"

definition rd_kafka_txn_register_partitions :: "rd_env \<Rightarrow> rd_kafka_t \<Rightarrow> rd_kafka_t" where
  "rd_kafka_txn_register_partitions e rk =
     (if rd_kafka_txn_require_states0 rk [TXN_STATE_IN_TRANSACTION, TXN_STATE_BEGIN_COMMIT] \<noteq> None
      then rk
      else
        let p = rd_kafka_idemp_get_pid0 rk False in
        if \<not> ev_broker_is_up e TXN_COORD then rk
        else if txn_pending_rktps rk = [] then rk
        else if txn_waitresp_rktps rk \<noteq> [] then rk
        else if \<not> rd_kafka_pid_valid p then rk
        else
          let (err, rk) = rd_kafka_AddPartitionsToTxnRequest e TXN_COORD (transactional_id rk) p
                            (txn_pending_rktps rk) rk
          in if err \<noteq> 0 then rk
             else rk\<lparr>txn_waitresp_rktps := txn_waitresp_rktps rk @ txn_pending_rktps rk,
                     txn_pending_rktps := [],
                     txn_req_cnt := txn_req_cnt rk + 1\<rparr>)"

definition rd_kafka_txn_register_partitions_tmr_cb :: "rd_env \<Rightarrow> rd_kafka_t \<Rightarrow> rd_kafka_t" where
  "rd_kafka_txn_register_partitions_tmr_cb e rk = rd_kafka_txn_register_partitions e rk"

section \<open>Ops of init_transactions and begin_transaction\<close>

text \<open>Every op handler returns at once when the op is destroyed
  (\<open>rko_err == ERR__DESTROY\<close>): the argument \<open>destroy\<close>.\<close>

definition rd_kafka_txn_op_init_transactions ::
  "rd_env \<Rightarrow> rd_kafka_t \<Rightarrow> bool \<Rightarrow> rd_kafka_t option" where
  "rd_kafka_txn_op_init_transactions e rk destroy =
     (if destroy then Some rk
      else case rd_kafka_txn_require_states0 rk
             [TXN_STATE_INIT, TXN_STATE_WAIT_PID, TXN_STATE_READY_NOT_ACKED] of
        Some error \<Rightarrow> Some (rd_kafka_txn_curr_api_set_result rk {} (Some error))
      | None \<Rightarrow>
          if txn_state rk = TXN_STATE_READY_NOT_ACKED then Some rk
          else do {
            rk \<leftarrow> rd_kafka_txn_set_state rk TXN_STATE_WAIT_PID;
            rd_kafka_idemp_start e (rk\<lparr>txn_init_err := RESP_ERR_NO_ERROR\<rparr>) True
          })"

definition rd_kafka_txn_op_ack_init_transactions ::
  "rd_kafka_t \<Rightarrow> bool \<Rightarrow> rd_kafka_t option" where
  "rd_kafka_txn_op_ack_init_transactions rk destroy =
     (if destroy then Some rk
      else do {
        let error = rd_kafka_txn_require_states0 rk [TXN_STATE_READY_NOT_ACKED];
        rk \<leftarrow> (if error = None then rd_kafka_txn_set_state rk TXN_STATE_READY else Some rk);
        Some (rd_kafka_txn_curr_api_set_result rk {} error)
      })"

definition rd_kafka_txn_op_begin_transaction :: "rd_kafka_t \<Rightarrow> bool \<Rightarrow> rd_kafka_t option" where
  "rd_kafka_txn_op_begin_transaction rk destroy =
     (if destroy then Some rk
      else case rd_kafka_txn_require_states0 rk [TXN_STATE_READY] of
        Some error \<Rightarrow> Some (rd_kafka_txn_curr_api_set_result rk {} (Some error))
      | None \<Rightarrow>
          if txn_rktps rk \<noteq> [] then None
          else do {
            rk \<leftarrow> rd_kafka_txn_set_state rk TXN_STATE_IN_TRANSACTION;
            if txn_req_cnt rk \<noteq> 0 then None
            else Some (rd_kafka_txn_curr_api_set_result
                   (rd_fx FX_ALL_BROKERS_WAKEUP (rk\<lparr>txn_dr_fails := 0, txn_err := RESP_ERR_NO_ERROR\<rparr>))
                   {} None)
          })"

section \<open>Offsets\<close>

text \<open>\<open>rd_kafka_topic_partition_list_get_err\<close>: the first error of the list.\<close>

definition rd_kafka_topic_partition_list_get_err ::
  "(toppar \<times> rd_kafka_resp_err_t) list \<Rightarrow> rd_kafka_resp_err_t" where
  "rd_kafka_topic_partition_list_get_err rktparlist =
     (case filter (\<lambda>p. snd p \<noteq> 0) rktparlist of [] \<Rightarrow> RESP_ERR_NO_ERROR | p # _ \<Rightarrow> snd p)"

text \<open>The classification of the error of a TxnOffsetCommit response; the second
  component says whether the group coordinator is evicted from the cache.\<close>

definition txn_offset_commit_actions ::
  "rd_kafka_resp_err_t \<Rightarrow> rd_kafka_err_actions \<times> bool" where
  "txn_offset_commit_actions err =
     (if err = RESP_ERR_NO_ERROR then ({}, False)
      else if err \<in> {RESP_ERR_NOT_COORDINATOR, RESP_ERR_COORDINATOR_NOT_AVAILABLE,
                      RESP_ERR_REQUEST_TIMED_OUT, RESP_ERR__TRANSPORT, RESP_ERR__TIMED_OUT,
                      RESP_ERR__TIMED_OUT_QUEUE}
      then ({ERR_ACTION_RETRY}, True)
      else if err \<in> {RESP_ERR_CONCURRENT_TRANSACTIONS, RESP_ERR_COORDINATOR_LOAD_IN_PROGRESS,
                      RESP_ERR_UNKNOWN_TOPIC_OR_PART}
      then ({ERR_ACTION_RETRY}, False)
      else if err \<in> {RESP_ERR_TRANSACTIONAL_ID_AUTHORIZATION_FAILED,
                      RESP_ERR_CLUSTER_AUTHORIZATION_FAILED, RESP_ERR_INVALID_PRODUCER_ID_MAPPING,
                      RESP_ERR_INVALID_PRODUCER_EPOCH, RESP_ERR_INVALID_TXN_STATE,
                      RESP_ERR_UNSUPPORTED_FOR_MESSAGE_FORMAT}
      then ({ERR_ACTION_FATAL}, False)
      else ({ERR_ACTION_PERMANENT}, False))"

definition rd_kafka_txn_handle_TxnOffsetCommit ::
  "rd_env \<Rightarrow> rd_kafka_t \<Rightarrow> rd_broker option \<Rightarrow> rd_kafka_resp_err_t \<Rightarrow>
   (rd_kafka_resp_err_t + (toppar \<times> rd_kafka_resp_err_t) list) \<Rightarrow> txn_rko \<Rightarrow> rd_kafka_t option" where
  "rd_kafka_txn_handle_TxnOffsetCommit e rk rkb err rkbuf rko =
     (let err = (if err \<noteq> 0 then err
                 else case rkbuf of
                   Inl rkbuf_err \<Rightarrow> rkbuf_err
                 | Inr partitions \<Rightarrow> rd_kafka_topic_partition_list_get_err partitions)
      in if err = RESP_ERR__DESTROY \<or> err = RESP_ERR__OUTDATED then Some rk
         else
           let (actions, evict) = txn_offset_commit_actions err;
               rk = (if evict then rd_fx (FX_COORD_CACHE_EVICT rkb) rk else rk);
               err = rd_kafka_txn_normalize_err err;
               remains_ms = rd_timeout_remains (ev_clock e) (rko_abs_timeout rko)
           in if ERR_ACTION_RETRY \<in> actions \<and> ERR_ACTION_FATAL \<notin> actions
                 \<and> \<not> rd_timeout_expired remains_ms
              then Some (rd_fx (FX_COORD_REQ (cg_group_id (rko_cgmetadata rko)) 500
                           (rd_timeout_remains_limit0 remains_ms (cf_socket_timeout_ms (rk_conf rk)))
                           rko) rk)
              else do {
                rk \<leftarrow> (if ERR_ACTION_FATAL \<in> actions then rd_kafka_txn_set_fatal_error rk err
                        else Some rk);
                let (err, actions) =
                  (if ERR_ACTION_FATAL \<notin> actions \<and> ERR_ACTION_RETRY \<in> actions
                   then (if err = 0 then RESP_ERR__TIMED_OUT else err, insert ERR_ACTION_PERMANENT actions)
                   else (err, actions));
                rk \<leftarrow> (if ERR_ACTION_PERMANENT \<in> actions then rd_kafka_txn_set_abortable_error rk err
                        else Some rk);
                Some (if err \<noteq> 0
                      then rd_kafka_txn_curr_api_set_result rk actions (Some (rd_kafka_error_new err))
                      else rd_kafka_txn_curr_api_set_result rk {} None)
              })"

definition add_offsets_actions ::
  "rd_kafka_resp_err_t \<Rightarrow> rd_kafka_err_actions" where
  "add_offsets_actions err =
     (if err = RESP_ERR_NO_ERROR then {}
      else if err \<in> {RESP_ERR__DESTROY, RESP_ERR__OUTDATED} then {ERR_ACTION_SPECIAL}
      else if err \<in> {RESP_ERR__TRANSPORT, RESP_ERR__TIMED_OUT, RESP_ERR__TIMED_OUT_QUEUE,
                      RESP_ERR_COORDINATOR_NOT_AVAILABLE, RESP_ERR_NOT_COORDINATOR,
                      RESP_ERR_REQUEST_TIMED_OUT}
      then {ERR_ACTION_RETRY, ERR_ACTION_REFRESH}
      else if err \<in> {RESP_ERR_TRANSACTIONAL_ID_AUTHORIZATION_FAILED,
                      RESP_ERR_CLUSTER_AUTHORIZATION_FAILED, RESP_ERR_INVALID_PRODUCER_EPOCH,
                      RESP_ERR_INVALID_TXN_STATE, RESP_ERR_UNSUPPORTED_FOR_MESSAGE_FORMAT}
      then {ERR_ACTION_FATAL}
      else if err \<in> {RESP_ERR_UNKNOWN_TOPIC_OR_PART, RESP_ERR_COORDINATOR_LOAD_IN_PROGRESS,
                      RESP_ERR_CONCURRENT_TRANSACTIONS}
      then {ERR_ACTION_RETRY}
      else {ERR_ACTION_PERMANENT})"

definition rd_kafka_txn_handle_AddOffsetsToTxn ::
  "rd_env \<Rightarrow> rd_kafka_t \<Rightarrow> rd_kafka_resp_err_t \<Rightarrow> (rd_kafka_resp_err_t + rd_kafka_resp_err_t) \<Rightarrow>
   eos_req \<Rightarrow> txn_rko \<Rightarrow> rd_kafka_t option" where
  "rd_kafka_txn_handle_AddOffsetsToTxn e rk err rkbuf request rko =
     (if err = RESP_ERR__DESTROY then Some rk
      else do {
        let err = (if err \<noteq> 0 then err
                   else case rkbuf of Inl rkbuf_err \<Rightarrow> rkbuf_err | Inr ErrorCode \<Rightarrow> ErrorCode);
        rk \<leftarrow> (if err \<noteq> 0
                then if txn_req_cnt rk > 0 then Some (rk\<lparr>txn_req_cnt := txn_req_cnt rk - 1\<rparr>) else None
                else Some rk);
        let remains_ms = rd_timeout_remains (ev_clock e) (rko_abs_timeout rko);
        let err = (if rd_timeout_expired remains_ms \<and> err = 0 then RESP_ERR__TIMED_OUT else err);
        let rk = (if err = RESP_ERR__TRANSPORT \<or> err = RESP_ERR__TIMED_OUT
                  then rk\<lparr>txn_req_cnt := txn_req_cnt rk + 1\<rparr> else rk);
        let actions = add_offsets_actions err;
        let err = rd_kafka_txn_normalize_err err;
        let actions = (if err \<noteq> 0 \<and> actions = {} then {ERR_ACTION_PERMANENT} else actions);
        rk \<leftarrow> (if ERR_ACTION_FATAL \<in> actions then rd_kafka_txn_set_fatal_error rk err
                else if ERR_ACTION_REFRESH \<in> actions then rd_kafka_txn_coord_timer_start e rk 50
                else Some rk);
        if ERR_ACTION_FATAL \<notin> actions \<and> ERR_ACTION_RETRY \<in> actions
           \<and> \<not> rd_timeout_expired remains_ms \<and> ev_buf_retry e
        then Some (rd_fx (FX_BUF_RETRY request) (rk\<lparr>txn_req_cnt := txn_req_cnt rk + 1\<rparr>))
        else do {
          rk \<leftarrow> (if ERR_ACTION_PERMANENT \<in> actions then rd_kafka_txn_set_abortable_error rk err
                  else Some rk);
          Some (if err = 0
                then rd_fx (FX_COORD_REQ (cg_group_id (rko_cgmetadata rko)) 0
                       (rd_timeout_remains_limit0 remains_ms (cf_socket_timeout_ms (rk_conf rk)))
                       rko) rk
                else rd_kafka_txn_curr_api_set_result rk actions (Some (rd_kafka_error_new err)))
        }
      })"

definition rd_kafka_txn_op_send_offsets_to_transaction ::
  "rd_env \<Rightarrow> rd_kafka_t \<Rightarrow> txn_rko \<Rightarrow> bool \<Rightarrow> rd_kafka_t" where
  "rd_kafka_txn_op_send_offsets_to_transaction e rk rko destroy =
     (if destroy then rk
      else case rd_kafka_txn_require_states0 rk [TXN_STATE_IN_TRANSACTION] of
        Some error \<Rightarrow> rd_kafka_txn_curr_api_set_result rk {} (Some error)
      | None \<Rightarrow>
          let p = rd_kafka_idemp_get_pid0 rk False in
          if \<not> rd_kafka_pid_valid p
          then rd_kafka_txn_curr_api_set_result rk {} (Some (rd_kafka_error_new_retriable RESP_ERR__STATE))
          else
            let (err, rk) = rd_kafka_AddOffsetsToTxnRequest e TXN_COORD (transactional_id rk) p
                              (cg_group_id (rko_cgmetadata rko)) rko rk
            in if err \<noteq> 0
               then rd_kafka_txn_curr_api_set_result rk {} (Some (rd_kafka_error_new_retriable err))
               else rk\<lparr>txn_req_cnt := txn_req_cnt rk + 1\<rparr>)"

section \<open>Completing a transaction\<close>

definition rd_kafka_txn_complete :: "rd_kafka_t \<Rightarrow> rd_kafka_t option" where
  "rd_kafka_txn_complete rk =
     (let rk = rd_kafka_txn_clear_pending_partitions rk;
          rk = rd_kafka_txn_clear_partitions rk;
          rk = rk\<lparr>txn_requires_epoch_bump := False, txn_req_cnt := 0\<rparr>
      in rd_kafka_txn_set_state rk TXN_STATE_READY)"

definition rd_kafka_txn_endtxn_complete :: "rd_env \<Rightarrow> rd_kafka_t \<Rightarrow> rd_kafka_t option" where
  "rd_kafka_txn_endtxn_complete e rk =
     (let is_commit = (strcmp (api_name (txn_curr_api rk)) ''commit_transaction'' = 0) in
      if txn_requires_epoch_bump rk
      then rd_kafka_idemp_drain_epoch_bump0 e rk False (txn_err rk)
      else do {
        rk \<leftarrow> (if is_commit then rd_kafka_txn_set_state rk TXN_STATE_COMMIT_NOT_ACKED
                else rd_kafka_txn_set_state rk TXN_STATE_ABORT_NOT_ACKED);
        Some (rd_kafka_txn_curr_api_set_result rk {} None)
      })"

text \<open>The classification of the error of an EndTxn response; the second component
  is \<open>require_bump\<close>.\<close>

definition end_txn_actions :: "rd_kafka_resp_err_t \<Rightarrow> rd_kafka_err_actions \<times> bool" where
  "end_txn_actions err =
     (if err \<in> {RESP_ERR_NO_ERROR, RESP_ERR__DESTROY, RESP_ERR__OUTDATED} then ({}, False)
      else if err \<in> {RESP_ERR__TIMED_OUT, RESP_ERR__TIMED_OUT_QUEUE, RESP_ERR__TRANSPORT}
      then ({ERR_ACTION_RETRY, ERR_ACTION_REFRESH}, False)
      else if err \<in> {RESP_ERR_COORDINATOR_NOT_AVAILABLE, RESP_ERR_NOT_COORDINATOR,
                      RESP_ERR_COORDINATOR_LOAD_IN_PROGRESS, RESP_ERR_CONCURRENT_TRANSACTIONS}
      then ({ERR_ACTION_RETRY}, False)
      else if err \<in> {RESP_ERR_UNKNOWN_PRODUCER_ID, RESP_ERR_INVALID_PRODUCER_ID_MAPPING}
      then ({ERR_ACTION_PERMANENT}, True)
      else if err \<in> {RESP_ERR_INVALID_PRODUCER_EPOCH, RESP_ERR_PRODUCER_FENCED,
                      RESP_ERR_TRANSACTIONAL_ID_AUTHORIZATION_FAILED,
                      RESP_ERR_CLUSTER_AUTHORIZATION_FAILED, RESP_ERR_INVALID_TXN_STATE}
      then ({ERR_ACTION_FATAL}, False)
      else ({ERR_ACTION_PERMANENT}, False))"

text \<open>\<open>is_commit\<close> is the flag stored with the request.\<close>

definition rd_kafka_txn_handle_EndTxn ::
  "rd_env \<Rightarrow> rd_kafka_t \<Rightarrow> rd_kafka_resp_err_t \<Rightarrow> (rd_kafka_resp_err_t + rd_kafka_resp_err_t) \<Rightarrow>
   eos_req \<Rightarrow> bool \<Rightarrow> rd_kafka_t option" where
  "rd_kafka_txn_handle_EndTxn e rk err rkbuf request is_commit =
     (if err = RESP_ERR__DESTROY then Some rk
      else
        let err = (if err \<noteq> 0 then err
                   else case rkbuf of Inl rkbuf_err \<Rightarrow> rkbuf_err | Inr ErrorCode \<Rightarrow> ErrorCode);
            may_retry = (txn_state rk = TXN_STATE_COMMITTING_TRANSACTION
                           \<or> txn_state rk = TXN_STATE_ABORTING_TRANSACTION)
        in if \<not> may_retry \<and> txn_state rk = TXN_STATE_ABORTABLE_ERROR
           then Some (rd_kafka_txn_curr_api_set_result rk
                  (if err \<noteq> 0 \<or> \<not> is_commit then {ERR_ACTION_PERMANENT} else {ERR_ACTION_FATAL})
                  (Some (rd_kafka_error_new (txn_err rk))))
           else do {
             let err = (if \<not> may_retry \<and> err = 0 then RESP_ERR__OUTDATED else err);
             let (actions, require_bump) = end_txn_actions err;
             rk \<leftarrow> (if err = RESP_ERR_COORDINATOR_NOT_AVAILABLE \<or> err = RESP_ERR_NOT_COORDINATOR
                     then map_option snd (rd_kafka_txn_coord_set e rk None)
                     else Some rk);
             let err = rd_kafka_txn_normalize_err err;
             let result = (\<lambda>rk. if err \<noteq> 0
                  then Some (rd_kafka_txn_curr_api_set_result rk actions (Some (rd_kafka_error_new err)))
                  else rd_kafka_txn_endtxn_complete e rk);
             if ERR_ACTION_FATAL \<in> actions
             then Option.bind (rd_kafka_txn_set_fatal_error rk err) result
             else do {
               rk \<leftarrow> (if ERR_ACTION_REFRESH \<in> actions then rd_kafka_txn_coord_timer_start e rk 50
                       else Some rk);
               if ERR_ACTION_PERMANENT \<in> actions
               then
                 if require_bump \<and> \<not> is_commit
                 then rd_kafka_idemp_drain_epoch_bump0 e rk False err
                 else do {
                   rk \<leftarrow> (if txn_state rk = TXN_STATE_ABORTING_TRANSACTION
                           then rd_kafka_txn_set_state rk TXN_STATE_BEGIN_ABORT else Some rk);
                   rk \<leftarrow> rd_kafka_txn_set_abortable_error0 rk err require_bump;
                   result rk
                 }
               else if may_retry \<and> ERR_ACTION_RETRY \<in> actions \<and> ev_buf_retry e
               then Some (rd_fx (FX_BUF_RETRY request) rk)
               else result rk
             }
           })"

section \<open>Ops of commit_transaction\<close>

text \<open>From the label \<open>done\<close> of \<open>rd_kafka_txn_op_commit_transaction\<close> on.\<close>

definition txn_op_commit_done ::
  "rd_kafka_t \<Rightarrow> rd_kafka_error_t option \<Rightarrow> rd_kafka_t option" where
  "txn_op_commit_done rk error = do {
     rk \<leftarrow> (if rd_kafka_error_txn_requires_abort error
             then rd_kafka_txn_set_abortable_error rk (rd_kafka_error_code error)
             else Some rk);
     Some (rd_kafka_txn_curr_api_set_result rk {} error)
   }"

definition rd_kafka_txn_op_commit_transaction ::
  "rd_env \<Rightarrow> rd_kafka_t \<Rightarrow> bool \<Rightarrow> rd_kafka_t option" where
  "rd_kafka_txn_op_commit_transaction e rk destroy =
     (if destroy then Some rk
      else case rd_kafka_txn_require_states0 rk
             [TXN_STATE_BEGIN_COMMIT, TXN_STATE_COMMITTING_TRANSACTION, TXN_STATE_COMMIT_NOT_ACKED] of
        Some error \<Rightarrow> txn_op_commit_done rk (Some error)
      | None \<Rightarrow>
          if txn_state rk = TXN_STATE_COMMIT_NOT_ACKED then txn_op_commit_done rk None
          else if txn_state rk = TXN_STATE_COMMITTING_TRANSACTION then Some rk
          else if txn_dr_fails rk > 0
          then txn_op_commit_done rk (Some (rd_kafka_error_new_txn_requires_abort RESP_ERR__INCONSISTENT))
          else if txn_req_cnt rk = 0 then rd_kafka_txn_endtxn_complete e rk
          else
            let p = rd_kafka_idemp_get_pid0 rk False in
            if \<not> rd_kafka_pid_valid p
            then txn_op_commit_done rk (Some (rd_kafka_error_new_retriable RESP_ERR__STATE))
            else
              let (err, rk) = rd_kafka_EndTxnRequest e TXN_COORD (transactional_id rk) p True rk
              in if err \<noteq> 0 then txn_op_commit_done rk (Some (rd_kafka_error_new_retriable err))
                 else rd_kafka_txn_set_state rk TXN_STATE_COMMITTING_TRANSACTION)"

definition rd_kafka_txn_op_begin_commit :: "rd_kafka_t \<Rightarrow> bool \<Rightarrow> rd_kafka_t option" where
  "rd_kafka_txn_op_begin_commit rk destroy =
     (if destroy then Some rk
      else do {
        let error = rd_kafka_txn_require_states0 rk
              [TXN_STATE_IN_TRANSACTION, TXN_STATE_BEGIN_COMMIT,
               TXN_STATE_COMMITTING_TRANSACTION, TXN_STATE_COMMIT_NOT_ACKED];
        rk \<leftarrow> (if error = None \<and> txn_state rk = TXN_STATE_IN_TRANSACTION
                then rd_kafka_txn_set_state rk TXN_STATE_BEGIN_COMMIT else Some rk);
        Some (rd_kafka_txn_curr_api_set_result rk {} error)
      })"

definition rd_kafka_txn_op_commit_transaction_ack :: "rd_kafka_t \<Rightarrow> bool \<Rightarrow> rd_kafka_t option" where
  "rd_kafka_txn_op_commit_transaction_ack rk destroy =
     (if destroy then Some rk
      else do {
        let error = rd_kafka_txn_require_states0 rk [TXN_STATE_COMMIT_NOT_ACKED];
        rk \<leftarrow> (if error = None then rd_kafka_txn_complete rk else Some rk);
        Some (rd_kafka_txn_curr_api_set_result rk {} error)
      })"

section \<open>Ops of abort_transaction\<close>

definition rd_kafka_txn_op_begin_abort :: "rd_kafka_t \<Rightarrow> bool \<Rightarrow> rd_kafka_t option" where
  "rd_kafka_txn_op_begin_abort rk destroy =
     (if destroy then Some rk
      else do {
        let error = rd_kafka_txn_require_states0 rk
              [TXN_STATE_IN_TRANSACTION, TXN_STATE_BEGIN_ABORT, TXN_STATE_ABORTING_TRANSACTION,
               TXN_STATE_ABORTABLE_ERROR, TXN_STATE_ABORT_NOT_ACKED];
        rk \<leftarrow> (if error = None \<and> (txn_state rk = TXN_STATE_IN_TRANSACTION
                                    \<or> txn_state rk = TXN_STATE_ABORTABLE_ERROR)
                then map_option rd_kafka_txn_clear_pending_partitions
                       (rd_kafka_txn_set_state rk TXN_STATE_BEGIN_ABORT)
                else Some rk);
        Some (rd_kafka_txn_curr_api_set_result rk {} error)
      })"

definition rd_kafka_txn_op_abort_transaction ::
  "rd_env \<Rightarrow> rd_kafka_t \<Rightarrow> bool \<Rightarrow> rd_kafka_t option" where
  "rd_kafka_txn_op_abort_transaction e rk destroy =
     (if destroy then Some rk
      else case rd_kafka_txn_require_states0 rk
             [TXN_STATE_BEGIN_ABORT, TXN_STATE_ABORTING_TRANSACTION, TXN_STATE_ABORT_NOT_ACKED] of
        Some error \<Rightarrow> Some (rd_kafka_txn_curr_api_set_result rk {} (Some error))
      | None \<Rightarrow>
          if txn_state rk = TXN_STATE_ABORT_NOT_ACKED
          then Some (rd_kafka_txn_curr_api_set_result rk {} None)
          else if txn_state rk = TXN_STATE_ABORTING_TRANSACTION then Some rk
          else if txn_req_cnt rk = 0 then rd_kafka_txn_endtxn_complete e rk
          else if idemp_state rk \<noteq> IDEMP_STATE_ASSIGNED \<and> idemp_state rk \<noteq> IDEMP_STATE_WAIT_TXN_ABORT
          then Some rk
          else
            let p = rd_kafka_idemp_get_pid0 rk True in
            if \<not> rd_kafka_pid_valid p
            then Some (rd_kafka_txn_curr_api_set_result rk {}
                   (Some (rd_kafka_error_new_retriable RESP_ERR__STATE)))
            else
              let (err, rk) = rd_kafka_EndTxnRequest e TXN_COORD (transactional_id rk) p False rk
              in if err \<noteq> 0
                 then Some (rd_kafka_txn_curr_api_set_result rk {}
                        (Some (rd_kafka_error_new_retriable err)))
                 else rd_kafka_txn_set_state rk TXN_STATE_ABORTING_TRANSACTION)"

definition rd_kafka_txn_op_abort_transaction_ack :: "rd_kafka_t \<Rightarrow> bool \<Rightarrow> rd_kafka_t option" where
  "rd_kafka_txn_op_abort_transaction_ack rk destroy =
     (if destroy then Some rk
      else do {
        let error = rd_kafka_txn_require_states0 rk [TXN_STATE_ABORT_NOT_ACKED];
        rk \<leftarrow> (if error = None then rd_kafka_txn_complete rk else Some rk);
        Some (rd_kafka_txn_curr_api_set_result rk {} error)
      })"

section \<open>Dispatch\<close>

text \<open>The callback an op was created with, and the callback of a timer.\<close>

fun rd_kafka_txn_op_serve :: "rd_env \<Rightarrow> rd_kafka_t \<Rightarrow> txn_op \<Rightarrow> bool \<Rightarrow> rd_kafka_t option" where
  "rd_kafka_txn_op_serve e rk OP_init_transactions destroy =
     rd_kafka_txn_op_init_transactions e rk destroy"
| "rd_kafka_txn_op_serve e rk OP_ack_init_transactions destroy =
     rd_kafka_txn_op_ack_init_transactions rk destroy"
| "rd_kafka_txn_op_serve e rk OP_begin_transaction destroy =
     rd_kafka_txn_op_begin_transaction rk destroy"
| "rd_kafka_txn_op_serve e rk (OP_send_offsets_to_transaction rko) destroy =
     Some (rd_kafka_txn_op_send_offsets_to_transaction e rk rko destroy)"
| "rd_kafka_txn_op_serve e rk OP_begin_commit destroy = rd_kafka_txn_op_begin_commit rk destroy"
| "rd_kafka_txn_op_serve e rk OP_commit_transaction destroy =
     rd_kafka_txn_op_commit_transaction e rk destroy"
| "rd_kafka_txn_op_serve e rk OP_commit_transaction_ack destroy =
     rd_kafka_txn_op_commit_transaction_ack rk destroy"
| "rd_kafka_txn_op_serve e rk OP_begin_abort destroy = rd_kafka_txn_op_begin_abort rk destroy"
| "rd_kafka_txn_op_serve e rk OP_abort_transaction destroy =
     rd_kafka_txn_op_abort_transaction e rk destroy"
| "rd_kafka_txn_op_serve e rk OP_abort_transaction_ack destroy =
     rd_kafka_txn_op_abort_transaction_ack rk destroy"

fun eos_timer_call :: "rd_env \<Rightarrow> rd_kafka_t \<Rightarrow> eos_timer_cb \<Rightarrow> rd_kafka_t option" where
  "eos_timer_call e rk PID_TIMER_CB = rd_kafka_idemp_pid_timer_cb e rk"
| "eos_timer_call e rk TXN_COORD_TIMER_CB = rd_kafka_txn_coord_timer_cb e rk"
| "eos_timer_call e rk TXN_REGISTER_PARTITIONS_TMR_CB =
     Some (rd_kafka_txn_register_partitions_tmr_cb e rk)"

end
