(* ===== verification/Eos_Actions.thy ===== *)
theory Eos_Actions
  imports Txn_Manager
begin

text \<open>
  The protocol actions of the exactly-once producer: an abstract step relation
  whose steps are the atomic changes a handler may make, with the guard under
  which the protocol allows each of them. The actions that matter to the protocol need a
  permission; the set of permissions of a handler is its footprint. That every handler of the
  detailed model is a sequence of allowed actions is shown in \<open>Eos_Refinement\<close>; invariants
  are then proved on the actions alone (locale \<open>eos_invariant\<close> below).
\<close>

section \<open>Actions\<close>

datatype eos_perm =
    P_PID | P_BUMP | P_BEGIN | P_COMPLETE | P_REGISTERED | P_SEND_PARTS | P_SEND_OFFSETS
  | P_END bool | P_REQ_CNT | P_INFLIGHT | P_LISTS | P_DR_FAILS

definition txn_closed :: "rd_kafka_txn_state_t \<Rightarrow> bool" where
  "txn_closed s \<longleftrightarrow> s = TXN_STATE_INIT \<or> s = TXN_STATE_WAIT_PID \<or> s = TXN_STATE_READY_NOT_ACKED
     \<or> s = TXN_STATE_READY"

inductive eos_act :: "eos_perm set \<Rightarrow> rd_env \<Rightarrow> rd_kafka_t \<Rightarrow> rd_kafka_t \<Rightarrow> bool"
  for P :: "eos_perm set" and e :: rd_env where
  act_api: "eos_act P e rk (rk\<lparr>txn_curr_api := a\<rparr>)"
| act_fx: "eos_act P e rk (rd_fx x rk)"
| act_ops: "eos_act P e rk (rk\<lparr>rk_ops := ops\<rparr>)"
| act_init_err: "eos_act P e rk (rk\<lparr>txn_init_err := err\<rparr>)"
| act_wait_coord: "eos_act P e rk (rk\<lparr>txn_wait_coord := b\<rparr>)"
| act_wait_drain: "eos_act P e rk (rk\<lparr>rktp_wait_drain := f\<rparr>)"
| act_refs: "eos_act P e rk (rk\<lparr>rkb_refs := r\<rparr>)"
| act_coord: "eos_act P e rk (rk\<lparr>txn_curr_coord := c\<rparr>)"
| act_timer_start: "0 \<le> us \<Longrightarrow>
    eos_act P e rk (rk\<lparr>rk_timers :=
      rd_kafka_timer_start0 (ev_clock e) (rk_timers rk) t us True restart cb\<rparr>)"
| act_timer_stop: "eos_act P e rk (rk\<lparr>rk_timers := snd (rd_kafka_timer_stop (rk_timers rk) t)\<rparr>)"
| act_timer_fire: "eos_act P e rk (rk\<lparr>rk_timers := tmr_upd t (\<lambda>rtmr. rtmr\<lparr>rtmr_interval := 0\<rparr>)
      (rd_kafka_timer_unschedule (rk_timers rk) t)\<rparr>)"
| act_fatal: "eos_act P e rk (snd (rd_kafka_set_fatal_error0 rk err))"
| act_txn_err: "eos_act P e rk (rk\<lparr>txn_err := err\<rparr>)"
| act_require_bump: "eos_act P e rk (rk\<lparr>txn_requires_epoch_bump := True\<rparr>)"
| act_state: "rd_kafka_txn_set_state rk s = Some rk' \<Longrightarrow> s \<noteq> TXN_STATE_IN_TRANSACTION \<Longrightarrow>
    s = TXN_STATE_READY \<longrightarrow> txn_state rk = TXN_STATE_READY_NOT_ACKED \<Longrightarrow> eos_act P e rk rk'"
| act_begin: "P_BEGIN \<in> P \<Longrightarrow> txn_rktps rk = [] \<Longrightarrow> txn_req_cnt rk = 0 \<Longrightarrow>
    rd_kafka_txn_set_state rk TXN_STATE_IN_TRANSACTION = Some rk' \<Longrightarrow>
    eos_act P e rk (rk'\<lparr>txn_dr_fails := 0, txn_err := RESP_ERR_NO_ERROR\<rparr>)"
| act_complete: "P_COMPLETE \<in> P \<Longrightarrow>
    txn_state rk = TXN_STATE_COMMIT_NOT_ACKED \<or> txn_state rk = TXN_STATE_ABORT_NOT_ACKED \<Longrightarrow>
    rd_kafka_txn_complete rk = Some rk' \<Longrightarrow> eos_act P e rk rk'"
| act_idemp: "s \<noteq> IDEMP_STATE_ASSIGNED \<Longrightarrow> rd_kafka_idemp_set_state e rk s = Some rk' \<Longrightarrow>
    eos_act P e rk rk'"
| act_pid_update: "P_PID \<in> P \<Longrightarrow> idemp_state rk = IDEMP_STATE_WAIT_PID \<Longrightarrow>
    rd_kafka_pid_valid p \<Longrightarrow>
    rd_kafka_idemp_set_state e (rk\<lparr>pid := p, epoch_cnt := epoch_cnt rk + 1\<rparr>) IDEMP_STATE_ASSIGNED
      = Some rk' \<Longrightarrow> eos_act P e rk rk'"
| act_pid_bump: "P_BUMP \<in> P \<Longrightarrow> idemp_state rk = IDEMP_STATE_DRAIN_BUMP \<Longrightarrow>
    inflight_toppar_cnt rk = 0 \<Longrightarrow> \<not> rd_kafka_is_transactional rk \<Longrightarrow> rd_kafka_pid_valid (pid rk) \<Longrightarrow>
    rd_kafka_idemp_set_state e (rk\<lparr>pid := rd_kafka_pid_bump (pid rk)\<rparr>) IDEMP_STATE_ASSIGNED
      = Some rk' \<Longrightarrow> eos_act P e rk rk'"
| act_inflight: "P_INFLIGHT \<in> P \<Longrightarrow> 0 \<le> n \<Longrightarrow> eos_act P e rk (rk\<lparr>inflight_toppar_cnt := n\<rparr>)"
| act_dr_fails: "P_DR_FAILS \<in> P \<Longrightarrow> txn_dr_fails rk \<le> n \<Longrightarrow> eos_act P e rk (rk\<lparr>txn_dr_fails := n\<rparr>)"
| act_req_cnt: "P_REQ_CNT \<in> P \<Longrightarrow> 0 < txn_req_cnt rk \<or> \<not> txn_closed (txn_state rk) \<Longrightarrow> 0 \<le> n \<or> txn_req_cnt rk \<le> n \<Longrightarrow>
    eos_act P e rk (rk\<lparr>txn_req_cnt := n\<rparr>)"
| act_add: "P_LISTS \<in> P \<Longrightarrow> rktp_flags rk rktp \<inter> {TOPPAR_F_PEND_TXN, TOPPAR_F_IN_TXN} = {} \<Longrightarrow>
    eos_act P e rk (rk
      \<lparr>rktp_flags := (rktp_flags rk)(rktp := insert TOPPAR_F_PEND_TXN (rktp_flags rk rktp)),
       txn_pending_rktps :=
         TAILQ_INSERT_SORTED rd_kafka_toppar_topic_cmp rktp (txn_pending_rktps rk)\<rparr>)"
| act_concat: "P_LISTS \<in> P \<Longrightarrow>
    TAILQ_CONCAT_SORTED rd_kafka_toppar_topic_cmp (txn_pending_rktps rk) (txn_waitresp_rktps rk)
      = (pending, waitresp) \<Longrightarrow>
    eos_act P e rk (rk\<lparr>txn_pending_rktps := pending, txn_waitresp_rktps := waitresp\<rparr>)"
| act_clear_pending: "P_LISTS \<in> P \<Longrightarrow> eos_act P e rk (rd_kafka_txn_clear_pending_partitions rk)"
| act_clear: "P_LISTS \<in> P \<Longrightarrow> eos_act P e rk (rd_kafka_txn_clear_partitions rk)"
| act_registered: "P_REGISTERED \<in> P \<Longrightarrow> rd_kafka_txn_may_send_msg rk \<Longrightarrow>
    rd_kafka_txn_partition_registered rk rktp = Some rk' \<Longrightarrow> eos_act P e rk rk'"
| act_register: "P_SEND_PARTS \<in> P \<Longrightarrow> eos_act P e rk (rd_kafka_txn_register_partitions e rk)"
| act_send_offsets: "P_SEND_OFFSETS \<in> P \<Longrightarrow> txn_state rk = TXN_STATE_IN_TRANSACTION \<Longrightarrow>
    rd_kafka_pid_valid (rd_kafka_idemp_get_pid0 rk False) \<Longrightarrow>
    eos_act P e rk ((rd_send TXN_COORD (REQ_AddOffsetsToTxn v (transactional_id rk)
      (rd_kafka_idemp_get_pid0 rk False) g rko) rk)\<lparr>txn_req_cnt := txn_req_cnt rk + 1\<rparr>)"
| act_send_offset_commit: "P_SEND_OFFSETS \<in> P \<Longrightarrow> txn_state rk = TXN_STATE_IN_TRANSACTION \<Longrightarrow>
    rd_kafka_pid_valid (rd_kafka_idemp_get_pid0 rk False) \<Longrightarrow>
    eos_act P e rk (rd_send b (REQ_TxnOffsetCommit v (transactional_id rk) g
      (rd_kafka_idemp_get_pid0 rk False) m os rko) rk)"
| act_send_coord: "eos_act P e rk (rd_send b (REQ_FindCoordinator v k t) rk)"
| act_send_pid: "idemp_state rk = IDEMP_STATE_WAIT_TRANSPORT \<Longrightarrow> rd_kafka_fatal_error_code rk = 0 \<Longrightarrow>
    eos_act P e rk (rd_send b (REQ_InitProducerId v i ms q) rk)"
| act_end: "P_END c \<in> P \<Longrightarrow> txn_req_cnt rk \<noteq> 0 \<Longrightarrow>
    txn_state rk = (if c then TXN_STATE_BEGIN_COMMIT else TXN_STATE_BEGIN_ABORT) \<Longrightarrow>
    c \<longrightarrow> txn_dr_fails rk \<le> 0 \<Longrightarrow>
    rd_kafka_pid_valid (rd_kafka_idemp_get_pid0 rk (\<not> c)) \<Longrightarrow>
    rd_kafka_txn_set_state
      (rd_send TXN_COORD (REQ_EndTxn v (transactional_id rk) (rd_kafka_idemp_get_pid0 rk (\<not> c)) c) rk)
      (if c then TXN_STATE_COMMITTING_TRANSACTION else TXN_STATE_ABORTING_TRANSACTION) = Some rk' \<Longrightarrow>
    eos_act P e rk rk'"

abbreviation eos_acts :: "eos_perm set \<Rightarrow> rd_env \<Rightarrow> rd_kafka_t \<Rightarrow> rd_kafka_t \<Rightarrow> bool" where
  "eos_acts P e \<equiv> (eos_act P e)\<^sup>*\<^sup>*"

lemma eos_act_mono: "eos_act P e rk rk' \<Longrightarrow> P \<subseteq> Q \<Longrightarrow> eos_act Q e rk rk'"
  by (induction rule: eos_act.induct) (auto intro: eos_act.intros)

lemma eos_acts_mono: "eos_acts P e rk rk' \<Longrightarrow> P \<subseteq> Q \<Longrightarrow> eos_acts Q e rk rk'"
  by (metis eos_act_mono mono_rtranclp)

section \<open>Running a handler\<close>

text \<open>\<open>eos_runs P e rk m\<close>: if the handler does not abort, what it computed is reached
  from \<open>rk\<close> by actions with the permissions \<open>P\<close>.\<close>

definition eos_runs :: "eos_perm set \<Rightarrow> rd_env \<Rightarrow> rd_kafka_t \<Rightarrow> rd_kafka_t option \<Rightarrow> bool" where
  "eos_runs P e rk m \<longleftrightarrow> (\<forall>rk'. m = Some rk' \<longrightarrow> eos_acts P e rk rk')"

named_theorems eos_runs_intros \<open>rules that run a handler action by action\<close>

lemma eos_runs_Some [eos_runs_intros]: "eos_acts P e rk rk' \<Longrightarrow> eos_runs P e rk (Some rk')"
  by (simp add: eos_runs_def)

lemma eos_runs_None [eos_runs_intros]: "eos_runs P e rk None"
  by (simp add: eos_runs_def)

lemma eos_runs_bind [eos_runs_intros]:
  "eos_runs P e rk m \<Longrightarrow> (\<And>rk1. m = Some rk1 \<Longrightarrow> eos_acts P e rk rk1 \<Longrightarrow> eos_runs P e rk (f rk1)) \<Longrightarrow>
     eos_runs P e rk (Option.bind m f)"
  by (cases m) (simp_all add: eos_runs_def)

lemma eos_runs_bind_pair [eos_runs_intros]:
  "eos_runs P e rk (map_option snd m) \<Longrightarrow>
     (\<And>b rk1. m = Some (b, rk1) \<Longrightarrow> eos_acts P e rk rk1 \<Longrightarrow> eos_runs P e rk (f (b, rk1))) \<Longrightarrow>
     eos_runs P e rk (Option.bind m f)"
  by (cases m) (auto simp: eos_runs_def)

lemma eos_runs_if [eos_runs_intros]:
  "(b \<Longrightarrow> eos_runs P e rk x) \<Longrightarrow> (\<not> b \<Longrightarrow> eos_runs P e rk y) \<Longrightarrow> eos_runs P e rk (if b then x else y)"
  by simp

lemma eos_acts_if [eos_runs_intros]:
  "(b \<Longrightarrow> eos_acts P e rk x) \<Longrightarrow> (\<not> b \<Longrightarrow> eos_acts P e rk y) \<Longrightarrow> eos_acts P e rk (if b then x else y)"
  by simp

lemma eos_runs_case_prod [eos_runs_intros]:
  "(\<And>a b. p = (a, b) \<Longrightarrow> eos_runs P e rk (f a b)) \<Longrightarrow> eos_runs P e rk (case p of (a, b) \<Rightarrow> f a b)"
  by (cases p) simp

lemma eos_runs_case_option [eos_runs_intros]:
  "(x = None \<Longrightarrow> eos_runs P e rk f) \<Longrightarrow> (\<And>y. x = Some y \<Longrightarrow> eos_runs P e rk (g y)) \<Longrightarrow>
     eos_runs P e rk (case x of None \<Rightarrow> f | Some y \<Rightarrow> g y)"
  by (cases x) simp_all

lemma eos_acts_case_option [eos_runs_intros]:
  "(x = None \<Longrightarrow> eos_acts P e rk f) \<Longrightarrow> (\<And>y. x = Some y \<Longrightarrow> eos_acts P e rk (g y)) \<Longrightarrow>
     eos_acts P e rk (case x of None \<Rightarrow> f | Some y \<Rightarrow> g y)"
  by (cases x) simp_all

lemma eos_runs_case_sum [eos_runs_intros]:
  "(\<And>y. x = Inl y \<Longrightarrow> eos_runs P e rk (f y)) \<Longrightarrow> (\<And>y. x = Inr y \<Longrightarrow> eos_runs P e rk (g y)) \<Longrightarrow>
     eos_runs P e rk (case x of Inl y \<Rightarrow> f y | Inr y \<Rightarrow> g y)"
  by (cases x) simp_all

text \<open>Functions that return a flag with the state.\<close>

lemma eos_runs_snd_Some [eos_runs_intros]:
  "eos_acts P e rk rk' \<Longrightarrow> eos_runs P e rk (map_option snd (Some (b, rk')))"
  by (simp add: eos_runs_def)

lemma eos_runs_snd_None [eos_runs_intros]: "eos_runs P e rk (map_option snd None)"
  by (simp add: eos_runs_def)

lemma eos_runs_snd_Pair [eos_runs_intros]:
  "eos_runs P e rk m \<Longrightarrow> eos_runs P e rk (map_option snd (map_option (Pair b) m))"
  by (auto simp: eos_runs_def)

lemma eos_runs_snd_bind [eos_runs_intros]:
  "eos_runs P e rk (Option.bind m (\<lambda>x. map_option snd (f x))) \<Longrightarrow>
     eos_runs P e rk (map_option snd (Option.bind m f))"
  by (cases m) (simp_all add: eos_runs_def)

lemma eos_runs_snd_if [eos_runs_intros]:
  "(b \<Longrightarrow> eos_runs P e rk (map_option snd x)) \<Longrightarrow> (\<not> b \<Longrightarrow> eos_runs P e rk (map_option snd y)) \<Longrightarrow>
     eos_runs P e rk (map_option snd (if b then x else y))"
  by simp

lemma eos_runs_snd_case_prod [eos_runs_intros]:
  "(\<And>a b. p = (a, b) \<Longrightarrow> eos_runs P e rk (map_option snd (f a b))) \<Longrightarrow>
     eos_runs P e rk (map_option snd (case p of (a, b) \<Rightarrow> f a b))"
  by (cases p) simp

lemma eos_runs_snd_case_sum [eos_runs_intros]:
  "(\<And>y. x = Inl y \<Longrightarrow> eos_runs P e rk (map_option snd (f y))) \<Longrightarrow>
   (\<And>y. x = Inr y \<Longrightarrow> eos_runs P e rk (map_option snd (g y))) \<Longrightarrow>
     eos_runs P e rk (map_option snd (case x of Inl y \<Rightarrow> f y | Inr y \<Rightarrow> g y))"
  by (cases x) simp_all

lemma eos_runs_trans: "eos_acts P e rk rk1 \<Longrightarrow> eos_runs P e rk1 m \<Longrightarrow> eos_runs P e rk m"
  by (auto simp: eos_runs_def)

lemma eos_runs_mono: "eos_runs P e rk m \<Longrightarrow> P \<subseteq> Q \<Longrightarrow> eos_runs Q e rk m"
  using eos_acts_mono by (auto simp: eos_runs_def)

text \<open>An action at the end of a sequence.\<close>

lemma eos_acts_snoc: "eos_acts P e rk0 rk \<Longrightarrow> eos_act P e rk rk' \<Longrightarrow> eos_acts P e rk0 rk'"
  by (rule rtranclp.rtrancl_into_rtrancl)

lemma eos_acts_refl [eos_runs_intros]: "eos_acts P e rk rk"
  by simp

section \<open>Invariants\<close>

text \<open>A predicate that every action with the permissions \<open>P\<close> preserves in the
  environments \<open>E\<close>.\<close>

locale eos_invariant =
  fixes P :: "eos_perm set" and E :: "rd_env \<Rightarrow> bool" and I :: "rd_kafka_t \<Rightarrow> bool"
  assumes act_preserves: "E e \<Longrightarrow> I rk \<Longrightarrow> eos_act P e rk rk' \<Longrightarrow> I rk'"
begin

lemma acts_preserve: "E e \<Longrightarrow> eos_acts P e rk rk' \<Longrightarrow> I rk \<Longrightarrow> I rk'"
  by (rotate_tac, induction rule: rtranclp_induct) (auto intro: act_preserves)

lemma runs_preserve: "E e \<Longrightarrow> eos_runs P e rk m \<Longrightarrow> I rk \<Longrightarrow> m = Some rk' \<Longrightarrow> I rk'"
  by (auto simp: eos_runs_def intro: acts_preserve)

end

text \<open>A preorder between the states before and after that every action respects.\<close>

locale eos_evolution =
  fixes P :: "eos_perm set" and R :: "rd_kafka_t \<Rightarrow> rd_kafka_t \<Rightarrow> bool"
  assumes evolves_refl: "R rk rk"
    and evolves_trans: "R rk1 rk2 \<Longrightarrow> R rk2 rk3 \<Longrightarrow> R rk1 rk3"
    and act_evolves: "eos_act P e rk rk' \<Longrightarrow> R rk rk'"
begin

lemma acts_evolve: "eos_acts P e rk rk' \<Longrightarrow> R rk rk'"
  by (induction rule: rtranclp_induct) (auto intro: evolves_refl evolves_trans act_evolves)

lemma runs_evolve: "eos_runs P e rk m \<Longrightarrow> m = Some rk' \<Longrightarrow> R rk rk'"
  by (auto simp: eos_runs_def intro: acts_evolve)

end

sublocale eos_evolution \<subseteq> monotone: eos_invariant P "\<lambda>_. True" "R rk0" for rk0
  by unfold_locales (rule evolves_trans [OF _ act_evolves])

end
