(* ===== verification/Eos_Refinement.thy ===== *)
theory Eos_Refinement
  imports Eos_Actions
begin

text \<open>
  Every function of the detailed model refines the protocol actions: it is a
  sequence of them, with the permissions its lemma states. The lemmas follow the call
  graph; each is stated once and used for the callers through the collection
  \<open>eos_runs_intros\<close>.
\<close>

section \<open>Actions as continuations\<close>

lemmas eos_acts_fields [eos_runs_intros] =
  eos_acts_snoc [OF _ act_api] eos_acts_snoc [OF _ act_fx] eos_acts_snoc [OF _ act_ops]
  eos_acts_snoc [OF _ act_init_err] eos_acts_snoc [OF _ act_wait_coord]
  eos_acts_snoc [OF _ act_wait_drain] eos_acts_snoc [OF _ act_coord]
  eos_acts_snoc [OF _ act_fatal] eos_acts_snoc [OF _ act_txn_err]
  eos_acts_snoc [OF _ act_require_bump] eos_acts_snoc [OF _ act_timer_stop]

lemma eos_acts_keep [eos_runs_intros]:
  "eos_acts P e rk0 rk \<Longrightarrow> eos_acts P e rk0 (rd_kafka_broker_keep b rk)"
  unfolding rd_kafka_broker_keep_def by (rule eos_acts_snoc [OF _ act_refs])

lemma eos_acts_destroy [eos_runs_intros]:
  "eos_acts P e rk0 rk \<Longrightarrow> eos_acts P e rk0 (rd_kafka_broker_destroy b rk)"
  unfolding rd_kafka_broker_destroy_def by (rule eos_acts_snoc [OF _ act_refs])

lemma eos_acts_set_result [eos_runs_intros]:
  "eos_acts P e rk0 rk \<Longrightarrow> eos_acts P e rk0 (rd_kafka_txn_curr_api_set_result rk a er)"
  unfolding rd_kafka_txn_curr_api_set_result_def Let_def
  by (auto intro: eos_acts_snoc [OF _ act_api])

section \<open>Core\<close>

lemma eos_runs_set_state [eos_runs_intros]:
  "eos_acts P e rk0 rk \<Longrightarrow> s \<noteq> TXN_STATE_IN_TRANSACTION \<Longrightarrow>
     s = TXN_STATE_READY \<longrightarrow> txn_state rk = TXN_STATE_READY_NOT_ACKED \<Longrightarrow>
     eos_runs P e rk0 (rd_kafka_txn_set_state rk s)"
  by (auto simp: eos_runs_def intro: eos_acts_snoc act_state)

lemma eos_runs_txn_set_fatal_error [eos_runs_intros]:
  "eos_acts P e rk0 rk \<Longrightarrow> eos_runs P e rk0 (rd_kafka_txn_set_fatal_error rk err)"
  unfolding rd_kafka_txn_set_fatal_error_def Let_def
  by (intro eos_runs_intros) simp_all

lemma eos_runs_set_abortable_error [eos_runs_intros]:
  "eos_acts P e rk0 rk \<Longrightarrow> eos_runs P e rk0 (rd_kafka_txn_set_abortable_error0 rk err bump)"
  unfolding rd_kafka_txn_set_abortable_error0_def Let_def
  by (intro eos_runs_intros) simp_all

lemma eos_runs_idemp_set_state [eos_runs_intros]:
  "eos_acts P e rk0 rk \<Longrightarrow> s \<noteq> IDEMP_STATE_ASSIGNED \<Longrightarrow>
     eos_runs P e rk0 (rd_kafka_idemp_set_state e rk s)"
  by (auto simp: eos_runs_def intro: eos_acts_snoc act_idemp)

section \<open>Idempotence\<close>

lemma eos_acts_pid_timer_restart [eos_runs_intros]:
  "eos_acts P e rk0 rk \<Longrightarrow> eos_acts P e rk0 (rd_kafka_idemp_pid_timer_restart e rk immediate)"
  unfolding rd_kafka_idemp_pid_timer_restart_def
  by (rule eos_acts_snoc [OF _ act_timer_start]) simp_all

lemma eos_runs_coord_timer_start [eos_runs_intros]:
  "eos_acts P e rk0 rk \<Longrightarrow> 0 \<le> ms \<Longrightarrow> eos_runs P e rk0 (rd_kafka_txn_coord_timer_start e rk ms)"
  unfolding rd_kafka_txn_coord_timer_start_def
  by (intro eos_runs_intros) (auto intro: eos_acts_snoc [OF _ act_timer_start])

lemma eos_acts_schedule_register [eos_runs_intros]:
  "eos_acts P e rk0 rk \<Longrightarrow> 0 \<le> ms \<Longrightarrow>
     eos_acts P e rk0 (rd_kafka_txn_schedule_register_partitions e rk ms)"
  unfolding rd_kafka_txn_schedule_register_partitions_def
  by (rule eos_acts_snoc [OF _ act_timer_start]) simp_all

lemma eos_runs_check_error [eos_runs_intros]:
  "eos_acts P e rk0 rk \<Longrightarrow> eos_runs P e rk0 (map_option snd (rd_kafka_idemp_check_error e rk err is_fatal))"
  unfolding rd_kafka_idemp_check_error_def Let_def
  by (intro eos_runs_intros) simp_all

lemma eos_acts_broker_any:
  "rd_kafka_idemp_broker_any e rk = (r, rk') \<Longrightarrow> eos_acts P e rk0 rk \<Longrightarrow> eos_acts P e rk0 rk'"
  unfolding rd_kafka_idemp_broker_any_def
  by (auto split: option.splits if_splits intro: eos_runs_intros)

lemma eos_acts_FindCoordinatorRequest:
  "rd_kafka_FindCoordinatorRequest e b t k rk = (err, rk') \<Longrightarrow> eos_acts P e rk0 rk \<Longrightarrow> eos_acts P e rk0 rk'"
  unfolding rd_kafka_FindCoordinatorRequest_def Let_def
  by (auto split: if_splits intro: eos_acts_snoc [OF _ act_send_coord])

lemma eos_acts_InitProducerIdRequest:
  "rd_kafka_InitProducerIdRequest e b i ms cp rk = (err, rk') \<Longrightarrow> eos_acts P e rk0 rk \<Longrightarrow>
     idemp_state rk = IDEMP_STATE_WAIT_TRANSPORT \<Longrightarrow> rd_kafka_fatal_error_code rk = 0 \<Longrightarrow> eos_acts P e rk0 rk'"
  unfolding rd_kafka_InitProducerIdRequest_def Let_def
  by (auto split: if_splits option.splits intro: eos_acts_snoc [OF _ act_send_pid])

lemma eos_runs_coord_query [eos_runs_intros]:
  assumes "eos_acts P e rk0 rk"
  shows "eos_runs P e rk0 (map_option snd (rd_kafka_txn_coord_query e rk))"
  unfolding rd_kafka_txn_coord_query_def Let_def
  by (intro eos_runs_intros)
     (auto intro!: eos_runs_intros assms dest!: eos_acts_broker_any [OF _ assms]
       dest: eos_acts_FindCoordinatorRequest)

lemma broker_any_sel:
  assumes "rd_kafka_idemp_broker_any e rk = (r, rk')"
  shows "idemp_state rk' = idemp_state rk" "rd_kafka_fatal_error_code rk' = rd_kafka_fatal_error_code rk"
    "rd_kafka_is_transactional rk' = rd_kafka_is_transactional rk"
  using assms unfolding rd_kafka_idemp_broker_any_def
  by (auto simp: rd_kafka_broker_keep_def rd_kafka_fatal_error_code_def rd_kafka_is_transactional_def
      split: option.splits if_splits)

lemma eos_runs_request_pid [eos_runs_intros]:
  assumes "eos_acts P e rk0 rk" "idemp_state rk = IDEMP_STATE_WAIT_TRANSPORT" "rd_kafka_fatal_error_code rk = 0"
  shows "eos_runs P e rk0 (rd_kafka_idemp_request_pid e rk b)"
  unfolding rd_kafka_idemp_request_pid_def Let_def
  by (intro eos_runs_intros)
     (auto intro!: eos_runs_intros split: if_splits prod.splits
       dest!: eos_acts_InitProducerIdRequest [OF _ assms])

lemma eos_runs_wait_transport [eos_runs_intros]:
  assumes "eos_acts P e rk0 rk" "idemp_state rk = IDEMP_STATE_WAIT_TRANSPORT" "rd_kafka_fatal_error_code rk = 0"
  shows "eos_runs P e rk0 (rd_kafka_idemp_wait_transport e rk)"
  unfolding rd_kafka_idemp_wait_transport_def Let_def
  by (intro eos_runs_intros)
     (use assms in \<open>auto intro!: eos_runs_intros dest: eos_acts_broker_any broker_any_sel
       simp: rd_kafka_broker_keep_def rd_kafka_fatal_error_code_def\<close>)

text \<open>The \<open>goto redo\<close> is taken at most once: the state set before it is one
  from which the switch does not jump.\<close>

lemma txn_set_state_sel:
  assumes "rd_kafka_txn_set_state rk s = Some rk'"
  shows "idemp_state rk' = idemp_state rk" "rk_conf rk' = rk_conf rk" "rk_type rk' = rk_type rk"
    "rk_fatal_err rk' = rk_fatal_err rk" "pid rk' = pid rk" "txn_curr_coord rk' = txn_curr_coord rk"
  using assms by (auto simp: rd_kafka_txn_set_state_def Let_def split: if_splits prod.splits)

lemma set_result_sel [simp]:
  "idemp_state (rd_kafka_txn_curr_api_set_result rk a er) = idemp_state rk"
  "rk_conf (rd_kafka_txn_curr_api_set_result rk a er) = rk_conf rk"
  "rk_type (rd_kafka_txn_curr_api_set_result rk a er) = rk_type rk"
  "rk_fatal_err (rd_kafka_txn_curr_api_set_result rk a er) = rk_fatal_err rk"
  "pid (rd_kafka_txn_curr_api_set_result rk a er) = pid rk"
  "txn_curr_coord (rd_kafka_txn_curr_api_set_result rk a er) = txn_curr_coord rk"
  "txn_state (rd_kafka_txn_curr_api_set_result rk a er) = txn_state rk"
  by (simp_all add: rd_kafka_txn_curr_api_set_result_def Let_def)

lemma idemp_state_change_sel:
  assumes "rd_kafka_txn_idemp_state_change rk s = Some rk'"
  shows "idemp_state rk' = idemp_state rk" "rk_conf rk' = rk_conf rk" "rk_type rk' = rk_type rk"
    "rk_fatal_err rk' = rk_fatal_err rk" "pid rk' = pid rk" "txn_curr_coord rk' = txn_curr_coord rk"
  using assms unfolding rd_kafka_txn_idemp_state_change_def
  by (auto simp: bind_Some_iff txn_set_state_sel split: if_splits)

text \<open>The recursion of \<open>rd_kafka_idemp_set_state\<close> unfolded.\<close>

definition idemp_target :: "rd_kafka_t \<Rightarrow> rd_kafka_idemp_state_t \<Rightarrow> rd_kafka_idemp_state_t" where
  "idemp_target rk s =
     (if rd_kafka_fatal_error_code rk \<noteq> 0 \<and>
         s \<notin> {IDEMP_STATE_FATAL_ERROR, IDEMP_STATE_TERM, IDEMP_STATE_DRAIN_RESET, IDEMP_STATE_DRAIN_BUMP}
      then IDEMP_STATE_FATAL_ERROR else s)"

lemma idemp_set_state_fatal:
  "rd_kafka_idemp_set_state e rk IDEMP_STATE_FATAL_ERROR =
     (if idemp_state rk = IDEMP_STATE_FATAL_ERROR then Some rk
      else let rk = rk\<lparr>idemp_state := IDEMP_STATE_FATAL_ERROR, ts_idemp_state := ev_clock e\<rparr> in
           if rd_kafka_is_transactional rk
           then rd_kafka_txn_idemp_state_change rk IDEMP_STATE_FATAL_ERROR else Some rk)"
  by (subst rd_kafka_idemp_set_state.simps) simp

lemma idemp_set_state_unfold:
  "rd_kafka_idemp_set_state e rk s =
     (if idemp_state rk = s \<or> idemp_state rk = idemp_target rk s then Some rk
      else let t = idemp_target rk s; rk = rk\<lparr>idemp_state := t, ts_idemp_state := ev_clock e\<rparr> in
           if rd_kafka_is_transactional rk then rd_kafka_txn_idemp_state_change rk t else Some rk)"
  by (subst rd_kafka_idemp_set_state.simps)
     (auto simp: idemp_target_def idemp_set_state_fatal Let_def)

lemma idemp_set_state_sel:
  assumes "rd_kafka_idemp_set_state e rk s = Some rk'"
  shows "rk_conf rk' = rk_conf rk" "rk_type rk' = rk_type rk" "rk_fatal_err rk' = rk_fatal_err rk"
    "pid rk' = pid rk" "txn_curr_coord rk' = txn_curr_coord rk"
    "idemp_state rk' = s \<or> idemp_state rk' = idemp_target rk s"
  using assms
  by (auto simp: idemp_set_state_unfold Let_def idemp_state_change_sel split: if_splits)

lemma pid_fsm_redo_unfold:
  assumes "rd_kafka_fatal_error_code rk = 0"
  shows "rd_kafka_idemp_pid_fsm_redo e rk =
     (case idemp_state rk of
        IDEMP_STATE_REQ_PID \<Rightarrow>
          if \<not> rd_kafka_is_transactional rk \<or> txn_curr_coord rk \<noteq> None
          then Option.bind (rd_kafka_idemp_set_state e rk IDEMP_STATE_WAIT_TRANSPORT)
                 (rd_kafka_idemp_wait_transport e)
          else map_option snd (rd_kafka_txn_coord_query e rk)
      | IDEMP_STATE_WAIT_TRANSPORT \<Rightarrow> rd_kafka_idemp_wait_transport e rk
      | _ \<Rightarrow> Some rk)"
proof -
  have "rd_kafka_idemp_pid_fsm_redo e rk1 = rd_kafka_idemp_wait_transport e rk1"
    if "rd_kafka_idemp_set_state e rk IDEMP_STATE_WAIT_TRANSPORT = Some rk1" for rk1
    using idemp_set_state_sel(6) [OF that] assms
    by (subst rd_kafka_idemp_pid_fsm_redo.simps) (simp add: idemp_target_def)
  then show ?thesis
    by (subst rd_kafka_idemp_pid_fsm_redo.simps)
       (auto split: rd_kafka_idemp_state_t.splits intro: Option.bind_cong)
qed

lemma eos_runs_pid_fsm [eos_runs_intros]:
  assumes "eos_acts P e rk0 rk"
  shows "eos_runs P e rk0 (rd_kafka_idemp_pid_fsm e rk)"
proof (cases "rd_kafka_fatal_error_code rk = 0")
  case True
  have wt: "eos_runs P e rk0 (rd_kafka_idemp_wait_transport e rk1)"
    if "rd_kafka_idemp_set_state e rk IDEMP_STATE_WAIT_TRANSPORT = Some rk1" "eos_acts P e rk0 rk1" for rk1
    using idemp_set_state_sel [OF that(1)] True that(2)
    by (intro eos_runs_wait_transport) (auto simp: rd_kafka_fatal_error_code_def idemp_target_def)
  have "eos_runs P e rk0 (Option.bind (rd_kafka_idemp_set_state e rk IDEMP_STATE_WAIT_TRANSPORT)
          (rd_kafka_idemp_wait_transport e))"
    by (rule eos_runs_bind) (use assms wt in \<open>auto intro: eos_runs_intros\<close>)
  moreover have "eos_runs P e rk0 (map_option snd (rd_kafka_txn_coord_query e rk))"
    "eos_runs P e rk0 (Some rk)"
    using assms by (intro eos_runs_intros; assumption)+
  moreover have "idemp_state rk = IDEMP_STATE_WAIT_TRANSPORT \<Longrightarrow>
      eos_runs P e rk0 (rd_kafka_idemp_wait_transport e rk)"
    using assms True by (intro eos_runs_wait_transport) auto
  ultimately show ?thesis
    using True by (auto simp: rd_kafka_idemp_pid_fsm_def pid_fsm_redo_unfold split: rd_kafka_idemp_state_t.splits)
next
  case False
  then show ?thesis using assms by (auto simp: rd_kafka_idemp_pid_fsm_def intro: eos_runs_intros)
qed

lemma eos_runs_pid_timer_cb [eos_runs_intros]:
  "eos_acts P e rk0 rk \<Longrightarrow> eos_runs P e rk0 (rd_kafka_idemp_pid_timer_cb e rk)"
  unfolding rd_kafka_idemp_pid_timer_cb_def by (rule eos_runs_pid_fsm)

lemma eos_runs_coord_timer_cb [eos_runs_intros]:
  "eos_acts P e rk0 rk \<Longrightarrow> eos_runs P e rk0 (rd_kafka_txn_coord_timer_cb e rk)"
  unfolding rd_kafka_txn_coord_timer_cb_def by (rule eos_runs_coord_query)

lemma eos_runs_coord_set [eos_runs_intros]:
  "eos_acts P e rk0 rk \<Longrightarrow> eos_runs P e rk0 (map_option snd (rd_kafka_txn_coord_set e rk b))"
  unfolding rd_kafka_txn_coord_set_def Let_def
  by (intro eos_runs_intros) simp_all

lemma eos_runs_request_pid_failed [eos_runs_intros]:
  "eos_acts P e rk0 rk \<Longrightarrow> eos_runs P e rk0 (rd_kafka_idemp_request_pid_failed e rk err)"
  unfolding rd_kafka_idemp_request_pid_failed_def
  by (intro eos_runs_intros) (auto intro!: eos_runs_intros)

lemma eos_runs_pid_update [eos_runs_intros]:
  assumes "P_PID \<in> P" "eos_acts P e rk0 rk"
  shows "eos_runs P e rk0 (rd_kafka_idemp_pid_update e rk p)"
proof -
  have "eos_runs P e rk0 (rd_kafka_idemp_set_state e (rk\<lparr>pid := p, epoch_cnt := epoch_cnt rk + 1\<rparr>)
      IDEMP_STATE_ASSIGNED)" if "idemp_state rk = IDEMP_STATE_WAIT_PID" "rd_kafka_pid_valid p"
    using that assms by (auto simp: eos_runs_def intro: eos_acts_snoc act_pid_update)
  then show ?thesis unfolding rd_kafka_idemp_pid_update_def Let_def
    using assms(2)
    by (auto intro!: eos_runs_Some eos_runs_bind eos_acts_fields eos_runs_request_pid_failed)
qed

lemma eos_runs_handle_InitProducerId [eos_runs_intros]:
  "P_PID \<in> P \<Longrightarrow> eos_acts P e rk0 rk \<Longrightarrow> eos_runs P e rk0 (rd_kafka_handle_InitProducerId e rk err rkbuf)"
  unfolding rd_kafka_handle_InitProducerId_def Let_def
  by (intro eos_runs_intros) simp_all

lemma eos_runs_find_coordinator_failed [eos_runs_intros]:
  "eos_acts P e rk0 rk \<Longrightarrow> eos_runs P e rk0 (txn_find_coordinator_failed e rk err)"
  unfolding txn_find_coordinator_failed_def Let_def
  by (intro eos_runs_intros) simp_all

lemma eos_runs_handle_FindCoordinator [eos_runs_intros]:
  "eos_acts P e rk0 rk \<Longrightarrow> eos_runs P e rk0 (rd_kafka_txn_handle_FindCoordinator e rk b err rkbuf)"
  unfolding rd_kafka_txn_handle_FindCoordinator_def Let_def
  by (intro eos_runs_intros) (auto split: if_splits option.splits intro!: eos_runs_intros)

lemma eos_runs_coord_monitor_cb [eos_runs_intros]:
  "eos_acts P e rk0 rk \<Longrightarrow> eos_runs P e rk0 (rd_kafka_txn_coord_monitor_cb e rk is_up)"
  unfolding rd_kafka_txn_coord_monitor_cb_def
  by (intro eos_runs_intros) simp_all

lemma eos_runs_drain_done [eos_runs_intros]:
  assumes "P_BUMP \<in> P" "eos_acts P e rk0 rk" "inflight_toppar_cnt rk = 0"
  shows "eos_runs P e rk0 (rd_kafka_idemp_drain_done e rk)"
proof -
  have "eos_runs P e rk0 (rd_kafka_idemp_set_state e (rk\<lparr>pid := rd_kafka_pid_bump (pid rk)\<rparr>)
      IDEMP_STATE_ASSIGNED)"
    if "idemp_state rk = IDEMP_STATE_DRAIN_BUMP" "rd_kafka_pid_valid (pid rk)" "\<not> rd_kafka_is_transactional rk"
    using that assms by (auto simp: eos_runs_def intro: eos_acts_snoc act_pid_bump)
  moreover have "eos_runs P e rk0 (rd_kafka_idemp_set_state e rk IDEMP_STATE_REQ_PID)"
    using assms(2) by (rule eos_runs_idemp_set_state) simp
  ultimately show ?thesis unfolding rd_kafka_idemp_drain_done_def
    using assms(2)
    by (auto intro!: eos_runs_Some eos_runs_bind eos_acts_fields eos_acts_pid_timer_restart)
qed

lemma eos_runs_check_drain_done [eos_runs_intros]:
  "P_BUMP \<in> P \<Longrightarrow> eos_acts P e rk0 rk \<Longrightarrow> eos_runs P e rk0 (rd_kafka_idemp_check_drain_done e rk)"
  unfolding rd_kafka_idemp_check_drain_done_def by (intro eos_runs_intros) simp_all

lemma eos_runs_drain_reset [eos_runs_intros]:
  "P_BUMP \<in> P \<Longrightarrow> eos_acts P e rk0 rk \<Longrightarrow> eos_runs P e rk0 (rd_kafka_idemp_drain_reset e rk)"
  unfolding rd_kafka_idemp_drain_reset_def by (intro eos_runs_intros) simp_all

lemma eos_runs_drain_epoch_bump0 [eos_runs_intros]:
  "P_BUMP \<in> P \<Longrightarrow> eos_acts P e rk0 rk \<Longrightarrow> eos_runs P e rk0 (rd_kafka_idemp_drain_epoch_bump0 e rk allow err)"
  unfolding rd_kafka_idemp_drain_epoch_bump0_def Let_def by (intro eos_runs_intros) simp_all

lemma eos_runs_inflight_sub [eos_runs_intros]:
  assumes "P_BUMP \<in> P" "P_INFLIGHT \<in> P" "eos_acts P e rk0 rk"
  shows "eos_runs P e rk0 (rd_kafka_idemp_inflight_toppar_sub e rk)"
  unfolding rd_kafka_idemp_inflight_toppar_sub_def Let_def
  using assms by (auto intro!: eos_runs_intros eos_acts_snoc [OF _ act_inflight])

lemma eos_runs_idemp_start [eos_runs_intros]:
  "eos_acts P e rk0 rk \<Longrightarrow> eos_runs P e rk0 (rd_kafka_idemp_start e rk immediate)"
  unfolding rd_kafka_idemp_start_def by (intro eos_runs_intros) simp_all

lemma eos_runs_idemp_term [eos_runs_intros]:
  assumes "P_LISTS \<in> P" "eos_acts P e rk0 rk"
  shows "eos_runs P e rk0 (rd_kafka_idemp_term e rk)"
  unfolding rd_kafka_idemp_term_def rd_kafka_txns_term_def Let_def
  by (intro eos_runs_intros eos_acts_snoc [OF _ act_clear] eos_acts_snoc [OF _ act_clear_pending])
     (use assms in \<open>auto intro!: eos_runs_intros split: option.splits\<close>)

end
