(* ===== verification/Txn_Refinement.thy ===== *)
theory Txn_Refinement
  imports Eos_Refinement
begin

text \<open>
  The refinement lemmas of \<open>Eos_Refinement\<close> for the handlers of the transaction manager.
\<close>

section \<open>Partitions\<close>

lemma eos_acts_add_partition [eos_runs_intros]:
  assumes "P_LISTS \<in> P" "eos_acts P e rk0 rk"
  shows "eos_acts P e rk0 (rd_kafka_txn_add_partition e rk rktp)"
proof (cases "rktp_flags rk rktp \<inter> {TOPPAR_F_PEND_TXN, TOPPAR_F_IN_TXN} = {}")
  case True
  note add = eos_acts_snoc [OF assms(2) act_add [OF assms(1) True]]
  show ?thesis using add eos_acts_schedule_register [OF add, of 1] True
    by (cases "txn_pending_rktps rk = []") (simp_all add: rd_kafka_txn_add_partition_def Let_def)
next
  case False
  then show ?thesis using assms(2) by (simp add: rd_kafka_txn_add_partition_def)
qed

text \<open>The loop rule of the response handler.\<close>

lemma add_parts_topics_rule:
  assumes step: "\<And>topic p st st'. I st \<Longrightarrow> add_parts_partition e topic p st = Some st' \<Longrightarrow> I st'"
    and "add_parts_topics e ts st = Some st'" "I st"
  shows "I st'"
proof -
  have parts: "I st'" if "add_parts_partitions e topic ps st = Some st'" "I st" for topic ps st st'
    using that by (induction ps arbitrary: st) (auto simp: bind_Some_iff split: if_splits intro: step)
  show ?thesis using assms(2,3)
  proof (induction ts arbitrary: st)
    case (Cons t ts)
    then show ?case by (cases t) (auto simp: bind_Some_iff split: if_splits dest: parts)
  qed simp
qed

lemma partition_registered_state:
  "rd_kafka_txn_partition_registered rk rktp = Some rk' \<Longrightarrow> txn_state rk' = txn_state rk"
  by (auto simp: rd_kafka_txn_partition_registered_def split: if_splits)

lemma add_parts_partition_cases:
  assumes "add_parts_partition e topic p st = Some st'"
  shows "fst st' = fst st \<or> rd_kafka_txn_partition_registered (fst st) (topic, fst p) = Some (fst st')"
    and "0 \<le> ap_retry_backoff_ms (snd st) \<Longrightarrow> 0 \<le> ap_retry_backoff_ms (snd st')"
  using assms unfolding add_parts_partition_def Let_def
  by (auto simp: bind_Some_iff split: if_splits prod.splits)

lemma eos_acts_add_parts_topics:
  assumes "P_REGISTERED \<in> P" "add_parts_topics e ts st = Some st'"
    "rd_kafka_txn_may_send_msg (fst st)" "eos_acts P e rk0 (fst st)" "0 \<le> ap_retry_backoff_ms (snd st)"
  shows "eos_acts P e rk0 (fst st') \<and> 0 \<le> ap_retry_backoff_ms (snd st')"
proof -
  let ?I = "\<lambda>st. rd_kafka_txn_may_send_msg (fst st) \<and> eos_acts P e rk0 (fst st) \<and>
    0 \<le> ap_retry_backoff_ms (snd st)"
  have "?I st'"
  proof (rule add_parts_topics_rule [of ?I, OF _ assms(2)])
    fix topic p st1 st2
    assume I: "?I st1" and s: "add_parts_partition e topic p st1 = Some st2"
    from add_parts_partition_cases(1) [OF s] show "?I st2"
    proof
      assume r: "rd_kafka_txn_partition_registered (fst st1) (topic, fst p) = Some (fst st2)"
      then show ?thesis
        using I add_parts_partition_cases(2) [OF s] partition_registered_state [OF r]
          eos_acts_snoc [OF _ act_registered [OF assms(1) _ r]]
        by (auto simp: rd_kafka_txn_may_send_msg_def)
    qed (use I add_parts_partition_cases(2) [OF s] in auto)
  qed (use assms in auto)
  then show ?thesis by simp
qed

lemma eos_runs_add_parts_done [eos_runs_intros]:
  assumes P: "P_REQ_CNT \<in> P" "P_LISTS \<in> P" "P_BUMP \<in> P" and rk: "eos_acts P e rk0 rk"
    and ms: "0 \<le> ap_retry_backoff_ms ap"
  shows "eos_runs P e rk0 (add_parts_done e rk ap)"
proof -
  have dec: "eos_acts P e rk0 (rk\<lparr>txn_req_cnt := txn_req_cnt rk - 1\<rparr>)" if "txn_req_cnt rk > 0"
    using P rk that by (intro eos_acts_snoc [OF _ act_req_cnt]) auto
  show ?thesis unfolding add_parts_done_def Let_def
    by (intro eos_runs_intros)
       (use dec rk P ms in \<open>auto intro!: eos_runs_intros eos_acts_snoc [OF _ act_concat] split: if_splits\<close>)
qed

lemma eos_runs_handle_AddPartitionsToTxn [eos_runs_intros]:
  assumes P: "{P_REGISTERED, P_REQ_CNT, P_LISTS, P_BUMP} \<subseteq> P" and rk: "eos_acts P e rk0 rk"
  shows "eos_runs P e rk0 (rd_kafka_txn_handle_AddPartitionsToTxn e rk err rkbuf)"
proof -
  obtain ts rkbuf_err where b: "rkbuf = (ts, rkbuf_err)" by (cases rkbuf)
  let ?ap = "\<lparr>ap_actions = {}, ap_retry_backoff_ms = 500, ap_reset_coord_err = 0,
     ap_require_bump = False, ap_err = 0, ap_request_error = False\<rparr>"
  have loop: "eos_runs P e rk0 (Option.bind (add_parts_topics e ts (rk, ?ap)) f)"
    if "rd_kafka_txn_may_send_msg rk" and
      "\<And>rk1 ap1. eos_acts P e rk0 rk1 \<Longrightarrow> 0 \<le> ap_retry_backoff_ms ap1 \<Longrightarrow> eos_runs P e rk0 (f (rk1, ap1))" for f
    using that eos_acts_add_parts_topics [of P e ts "(rk, ?ap)" _ rk0] P rk
    by (cases "add_parts_topics e ts (rk, ?ap)") (auto intro: eos_runs_intros)
  show ?thesis
    unfolding rd_kafka_txn_handle_AddPartitionsToTxn_def Let_def b prod.case
    by (cases "err = 0")
       (use P rk in \<open>auto simp: rd_kafka_txn_may_send_msg_def
         intro!: loop eos_runs_add_parts_done eos_acts_fields eos_runs_None\<close>)
qed

lemma eos_acts_register_partitions [eos_runs_intros]:
  "P_SEND_PARTS \<in> P \<Longrightarrow> eos_acts P e rk0 rk \<Longrightarrow> eos_acts P e rk0 (rd_kafka_txn_register_partitions e rk)"
  by (rule eos_acts_snoc [OF _ act_register])

lemma eos_acts_register_partitions_tmr_cb [eos_runs_intros]:
  "P_SEND_PARTS \<in> P \<Longrightarrow> eos_acts P e rk0 rk \<Longrightarrow>
     eos_acts P e rk0 (rd_kafka_txn_register_partitions_tmr_cb e rk)"
  unfolding rd_kafka_txn_register_partitions_tmr_cb_def by (rule eos_acts_register_partitions)

section \<open>Ops\<close>

lemma require_states_None:
  "rd_kafka_txn_require_states0 rk states = None \<longleftrightarrow>
     rk_type rk = RD_KAFKA_PRODUCER \<and> rd_kafka_is_transactional rk \<and> txn_state rk \<in> set states"
  by (auto simp: rd_kafka_txn_require_states0_def rd_kafka_ensure_transactional_def
      rd_kafka_is_transactional_def split: option.splits)

lemma eos_runs_op_init [eos_runs_intros]:
  "eos_acts P e rk0 rk \<Longrightarrow> eos_runs P e rk0 (rd_kafka_txn_op_init_transactions e rk destroy)"
  unfolding rd_kafka_txn_op_init_transactions_def by (intro eos_runs_intros) simp_all

lemma eos_runs_op_ack_init [eos_runs_intros]:
  "eos_acts P e rk0 rk \<Longrightarrow> eos_runs P e rk0 (rd_kafka_txn_op_ack_init_transactions rk destroy)"
  unfolding rd_kafka_txn_op_ack_init_transactions_def Let_def
  by (intro eos_runs_intros) (simp_all add: require_states_None)

lemma eos_runs_op_begin [eos_runs_intros]:
  assumes P: "P_BEGIN \<in> P" and rk: "eos_acts P e rk0 rk"
  shows "eos_runs P e rk0 (rd_kafka_txn_op_begin_transaction rk destroy)"
proof -
  have "eos_acts P e rk0 (rk'\<lparr>txn_dr_fails := 0, txn_err := RESP_ERR_NO_ERROR\<rparr>)"
    if "rd_kafka_txn_set_state rk TXN_STATE_IN_TRANSACTION = Some rk'" "txn_rktps rk = []" "txn_req_cnt rk' = 0" for rk'
  proof -
    have "txn_req_cnt rk' = txn_req_cnt rk"
      using that(1) by (auto simp: rd_kafka_txn_set_state_def Let_def split: if_splits prod.splits)
    then show ?thesis using eos_acts_snoc [OF rk act_begin [OF P that(2) _ that(1)]] that(3) by simp
  qed
  then show ?thesis using rk unfolding rd_kafka_txn_op_begin_transaction_def
    by (auto simp: eos_runs_def bind_Some_iff split: option.splits if_splits
        intro!: eos_acts_set_result eos_acts_snoc [OF _ act_fx])
qed

lemma eos_runs_txn_complete:
  "P_COMPLETE \<in> P \<Longrightarrow> eos_acts P e rk0 rk \<Longrightarrow>
     txn_state rk = TXN_STATE_COMMIT_NOT_ACKED \<or> txn_state rk = TXN_STATE_ABORT_NOT_ACKED \<Longrightarrow>
     eos_runs P e rk0 (rd_kafka_txn_complete rk)"
  by (auto simp: eos_runs_def intro: eos_acts_snoc act_complete)

lemma eos_runs_op_commit_ack [eos_runs_intros]:
  "P_COMPLETE \<in> P \<Longrightarrow> eos_acts P e rk0 rk \<Longrightarrow>
     eos_runs P e rk0 (rd_kafka_txn_op_commit_transaction_ack rk destroy)"
  unfolding rd_kafka_txn_op_commit_transaction_ack_def Let_def
  by (intro eos_runs_intros eos_runs_txn_complete) (simp_all add: require_states_None)

lemma eos_runs_op_abort_ack [eos_runs_intros]:
  "P_COMPLETE \<in> P \<Longrightarrow> eos_acts P e rk0 rk \<Longrightarrow>
     eos_runs P e rk0 (rd_kafka_txn_op_abort_transaction_ack rk destroy)"
  unfolding rd_kafka_txn_op_abort_transaction_ack_def Let_def
  by (intro eos_runs_intros eos_runs_txn_complete) (simp_all add: require_states_None)

lemma eos_runs_op_begin_commit [eos_runs_intros]:
  "eos_acts P e rk0 rk \<Longrightarrow> eos_runs P e rk0 (rd_kafka_txn_op_begin_commit rk destroy)"
  unfolding rd_kafka_txn_op_begin_commit_def Let_def by (intro eos_runs_intros) simp_all

lemma eos_runs_map_clear_pending [eos_runs_intros]:
  "P_LISTS \<in> P \<Longrightarrow> eos_runs P e rk0 m \<Longrightarrow>
     eos_runs P e rk0 (map_option rd_kafka_txn_clear_pending_partitions m)"
  by (auto simp: eos_runs_def intro: eos_acts_snoc [OF _ act_clear_pending])

lemma eos_runs_op_begin_abort [eos_runs_intros]:
  "P_LISTS \<in> P \<Longrightarrow> eos_acts P e rk0 rk \<Longrightarrow> eos_runs P e rk0 (rd_kafka_txn_op_begin_abort rk destroy)"
  unfolding rd_kafka_txn_op_begin_abort_def Let_def by (intro eos_runs_intros) simp_all

lemma eos_runs_endtxn_complete [eos_runs_intros]:
  "P_BUMP \<in> P \<Longrightarrow> eos_acts P e rk0 rk \<Longrightarrow> eos_runs P e rk0 (rd_kafka_txn_endtxn_complete e rk)"
  unfolding rd_kafka_txn_endtxn_complete_def Let_def by (intro eos_runs_intros) simp_all

lemma eos_runs_commit_done [eos_runs_intros]:
  "eos_acts P e rk0 rk \<Longrightarrow> eos_runs P e rk0 (txn_op_commit_done rk error)"
  unfolding txn_op_commit_done_def by (intro eos_runs_intros) simp_all

lemma eos_runs_EndTxnRequest:
  assumes "rd_kafka_EndTxnRequest e TXN_COORD (transactional_id rk) (rd_kafka_idemp_get_pid0 rk (\<not> c)) c rk = (err, rk1)"
    "P_END c \<in> P" "eos_acts P e rk0 rk" "txn_req_cnt rk \<noteq> 0"
    "txn_state rk = (if c then TXN_STATE_BEGIN_COMMIT else TXN_STATE_BEGIN_ABORT)"
    "c \<longrightarrow> txn_dr_fails rk \<le> 0" "rd_kafka_pid_valid (rd_kafka_idemp_get_pid0 rk (\<not> c))"
  shows "err \<noteq> 0 \<Longrightarrow> eos_acts P e rk0 rk1"
    and "err = 0 \<Longrightarrow> eos_runs P e rk0 (rd_kafka_txn_set_state rk1
           (if c then TXN_STATE_COMMITTING_TRANSACTION else TXN_STATE_ABORTING_TRANSACTION))"
  using assms eos_acts_snoc [OF assms(3) act_end [OF assms(2,4-7)]]
  by (auto simp: rd_kafka_EndTxnRequest_def Let_def eos_runs_def split: if_splits)

lemma eos_runs_op_commit [eos_runs_intros]:
  assumes P: "P_END True \<in> P" "P_BUMP \<in> P" and rk: "eos_acts P e rk0 rk"
  shows "eos_runs P e rk0 (rd_kafka_txn_op_commit_transaction e rk destroy)"
  unfolding rd_kafka_txn_op_commit_transaction_def Let_def
  using P rk
  by (auto intro!: eos_runs_case_option eos_runs_case_prod eos_runs_Some eos_runs_commit_done
      eos_runs_endtxn_complete simp: require_states_None not_less
      dest: eos_runs_EndTxnRequest [where c = True and P = P, OF _ P(1) rk, simplified])

lemma eos_runs_op_abort [eos_runs_intros]:
  assumes P: "P_END False \<in> P" "P_BUMP \<in> P" and rk: "eos_acts P e rk0 rk"
  shows "eos_runs P e rk0 (rd_kafka_txn_op_abort_transaction e rk destroy)"
  unfolding rd_kafka_txn_op_abort_transaction_def Let_def
  using P rk
  by (auto intro!: eos_runs_case_option eos_runs_case_prod eos_runs_Some eos_acts_set_result
      eos_runs_endtxn_complete simp: require_states_None
      dest: eos_runs_EndTxnRequest [where c = False and P = P, OF _ P(1) rk, simplified])

lemma rd_send_req_cnt: "txn_req_cnt (rd_send b req rk) = txn_req_cnt rk"
  by (simp add: rd_send_def)

lemma eos_acts_op_send_offsets [eos_runs_intros]:
  assumes P: "P_SEND_OFFSETS \<in> P" and rk: "eos_acts P e rk0 rk"
  shows "eos_acts P e rk0 (rd_kafka_txn_op_send_offsets_to_transaction e rk rko destroy)"
proof (cases "rd_kafka_txn_require_states0 rk [TXN_STATE_IN_TRANSACTION]")
  case None
  then have "txn_state rk = TXN_STATE_IN_TRANSACTION" by (simp add: require_states_None)
  then show ?thesis
    using None rk eos_acts_snoc [OF rk act_send_offsets [OF P]]
    by (auto simp: rd_kafka_txn_op_send_offsets_to_transaction_def rd_kafka_AddOffsetsToTxnRequest_def
        Let_def rd_send_req_cnt intro!: eos_acts_set_result)
next
  case (Some error)
  then show ?thesis using rk
    by (auto simp: rd_kafka_txn_op_send_offsets_to_transaction_def intro!: eos_acts_set_result)
qed

lemma eos_runs_op_serve [eos_runs_intros]:
  "{P_BEGIN, P_COMPLETE, P_SEND_OFFSETS, P_END True, P_END False, P_LISTS, P_BUMP} \<subseteq> P \<Longrightarrow>
     eos_acts P e rk0 rk \<Longrightarrow> eos_runs P e rk0 (rd_kafka_txn_op_serve e rk oper destroy)"
  by (cases oper) (auto intro!: eos_runs_intros)

lemma eos_runs_timer_call [eos_runs_intros]:
  "P_SEND_PARTS \<in> P \<Longrightarrow> eos_acts P e rk0 rk \<Longrightarrow> eos_runs P e rk0 (eos_timer_call e rk cb)"
  by (cases cb) (auto intro!: eos_runs_intros)

section \<open>Responses\<close>

lemma eos_runs_handle_TxnOffsetCommit [eos_runs_intros]:
  "eos_acts P e rk0 rk \<Longrightarrow> eos_runs P e rk0 (rd_kafka_txn_handle_TxnOffsetCommit e rk b err rkbuf rko)"
  unfolding rd_kafka_txn_handle_TxnOffsetCommit_def Let_def
  by (intro eos_runs_intros) simp_all

lemma eos_acts_send_TxnOffsetCommit:
  "P_SEND_OFFSETS \<in> P \<Longrightarrow> eos_acts P e rk0 rk \<Longrightarrow>
     eos_acts P e rk0 (snd (rd_kafka_txn_send_TxnOffsetCommitRequest e b rko rk))"
  unfolding rd_kafka_txn_send_TxnOffsetCommitRequest_def Let_def
  by (auto intro!: eos_acts_snoc [OF _ act_send_offset_commit])

lemma coord_timer_start_sel:
  "rd_kafka_txn_coord_timer_start e rk ms = Some rk' \<Longrightarrow>
     txn_state rk' = txn_state rk \<and> txn_req_cnt rk' = txn_req_cnt rk"
  by (auto simp: rd_kafka_txn_coord_timer_start_def split: if_splits)

lemma eos_acts_req_cnt:
  "P_REQ_CNT \<in> P \<Longrightarrow> \<not> txn_closed (txn_state rk) \<Longrightarrow> eos_acts P e rk0 rk \<Longrightarrow>
     0 \<le> n \<or> txn_req_cnt rk \<le> n \<Longrightarrow> eos_acts P e rk0 (rk\<lparr>txn_req_cnt := n\<rparr>)"
  by (intro eos_acts_snoc [OF _ act_req_cnt]) auto

lemma eos_runs_handle_AddOffsetsToTxn [eos_runs_intros]:
  assumes P: "P_REQ_CNT \<in> P" and opened: "\<not> txn_closed (txn_state rk)" and rk: "eos_acts P e rk0 rk"
  shows "eos_runs P e rk0 (rd_kafka_txn_handle_AddOffsetsToTxn e rk err rkbuf request rko)"
  unfolding rd_kafka_txn_handle_AddOffsetsToTxn_def Let_def
  by (intro eos_runs_intros eos_acts_req_cnt [OF P])
     (use rk opened in \<open>auto split: if_splits simp: add_offsets_actions_def
       dest!: coord_timer_start_sel intro!: eos_acts_req_cnt [OF P]\<close>)

lemma eos_runs_handle_EndTxn [eos_runs_intros]:
  "P_BUMP \<in> P \<Longrightarrow> eos_acts P e rk0 rk \<Longrightarrow>
     eos_runs P e rk0 (rd_kafka_txn_handle_EndTxn e rk err rkbuf request is_commit)"
  unfolding rd_kafka_txn_handle_EndTxn_def Let_def
  by (intro eos_runs_intros) simp_all

end
