(* ===== verification/Eos_Invariants.thy ===== *)
theory Eos_Invariants
  imports Txn_Refinement
begin

text \<open>
  The invariants of the exactly-once producer, each proved on the protocol actions
  and turned into facts on every handler by interpreting the locales
  \<open>eos_evolution\<close> and \<open>eos_invariant\<close>.
\<close>

section \<open>Unfolding the actions\<close>

text \<open>What each compound primitive leaves alone and what it changes.\<close>

lemma set_fatal_error0_sel [simp]:
  "rk_conf (snd (rd_kafka_set_fatal_error0 rk err)) = rk_conf rk"
  "rk_type (snd (rd_kafka_set_fatal_error0 rk err)) = rk_type rk"
  "rk_fatal_err (snd (rd_kafka_set_fatal_error0 rk err)) =
     (if rk_fatal_err rk \<noteq> 0 then rk_fatal_err rk else err)"
  "idemp_state (snd (rd_kafka_set_fatal_error0 rk err)) = idemp_state rk"
  "pid (snd (rd_kafka_set_fatal_error0 rk err)) = pid rk"
  "inflight_toppar_cnt (snd (rd_kafka_set_fatal_error0 rk err)) = inflight_toppar_cnt rk"
  "txn_may_enq (snd (rd_kafka_set_fatal_error0 rk err)) = txn_may_enq rk"
  "txn_state (snd (rd_kafka_set_fatal_error0 rk err)) = txn_state rk"
  "txn_req_cnt (snd (rd_kafka_set_fatal_error0 rk err)) = txn_req_cnt rk"
  "txn_dr_fails (snd (rd_kafka_set_fatal_error0 rk err)) = txn_dr_fails rk"
  "txn_pending_rktps (snd (rd_kafka_set_fatal_error0 rk err)) = txn_pending_rktps rk"
  "txn_waitresp_rktps (snd (rd_kafka_set_fatal_error0 rk err)) = txn_waitresp_rktps rk"
  "txn_rktps (snd (rd_kafka_set_fatal_error0 rk err)) = txn_rktps rk"
  "rktp_flags (snd (rd_kafka_set_fatal_error0 rk err)) = rktp_flags rk"
  "rk_timers (snd (rd_kafka_set_fatal_error0 rk err)) = rk_timers rk"
  "rk_reqs (snd (rd_kafka_set_fatal_error0 rk err)) = rk_reqs rk"
  by (simp_all add: rd_kafka_set_fatal_error0_def Let_def rd_fx_def)

lemma set_result_more [simp]:
  "inflight_toppar_cnt (rd_kafka_txn_curr_api_set_result rk a er) = inflight_toppar_cnt rk"
  "txn_may_enq (rd_kafka_txn_curr_api_set_result rk a er) = txn_may_enq rk"
  "txn_req_cnt (rd_kafka_txn_curr_api_set_result rk a er) = txn_req_cnt rk"
  "txn_dr_fails (rd_kafka_txn_curr_api_set_result rk a er) = txn_dr_fails rk"
  "txn_pending_rktps (rd_kafka_txn_curr_api_set_result rk a er) = txn_pending_rktps rk"
  "txn_waitresp_rktps (rd_kafka_txn_curr_api_set_result rk a er) = txn_waitresp_rktps rk"
  "txn_rktps (rd_kafka_txn_curr_api_set_result rk a er) = txn_rktps rk"
  "rktp_flags (rd_kafka_txn_curr_api_set_result rk a er) = rktp_flags rk"
  "rk_timers (rd_kafka_txn_curr_api_set_result rk a er) = rk_timers rk"
  "rk_reqs (rd_kafka_txn_curr_api_set_result rk a er) = rk_reqs rk"
  by (simp_all add: rd_kafka_txn_curr_api_set_result_def Let_def)

text \<open>The fields that changing the transaction or the idempotence state leaves alone.\<close>

definition txn_frame :: "rd_kafka_t \<Rightarrow> rd_kafka_t \<Rightarrow> bool" where
  "txn_frame rk rk' \<longleftrightarrow>
     rk_conf rk' = rk_conf rk \<and> rk_type rk' = rk_type rk \<and> rk_fatal_err rk' = rk_fatal_err rk \<and>
     pid rk' = pid rk \<and> inflight_toppar_cnt rk' = inflight_toppar_cnt rk \<and>
     txn_req_cnt rk' = txn_req_cnt rk \<and> txn_dr_fails rk' = txn_dr_fails rk \<and>
     txn_pending_rktps rk' = txn_pending_rktps rk \<and> txn_waitresp_rktps rk' = txn_waitresp_rktps rk \<and>
     txn_rktps rk' = txn_rktps rk \<and> rktp_flags rk' = rktp_flags rk \<and> rk_timers rk' = rk_timers rk \<and>
     rk_reqs rk' = rk_reqs rk"

text \<open>One valid transition of the transaction state.\<close>

definition txn_trans :: "rd_kafka_txn_state_t \<Rightarrow> rd_kafka_txn_state_t \<Rightarrow> bool" where
  "txn_trans s s' \<longleftrightarrow> s \<noteq> s' \<and> rd_kafka_txn_state_transition_is_valid s s' = (True, False)"

text \<open>A change of the transaction state: at most one valid transition, into one of the
  states \<open>S\<close>, that keeps \<open>txn_may_enq\<close> in step with the state.\<close>

definition txn_moves :: "rd_kafka_txn_state_t set \<Rightarrow> rd_kafka_t \<Rightarrow> rd_kafka_t \<Rightarrow> bool" where
  "txn_moves S rk rk' \<longleftrightarrow> txn_frame rk rk' \<and>
     (txn_state rk' = txn_state rk \<or> txn_trans (txn_state rk) (txn_state rk') \<and> txn_state rk' \<in> S) \<and>
     ((txn_may_enq rk \<longleftrightarrow> txn_state rk = TXN_STATE_IN_TRANSACTION) \<longrightarrow>
      (txn_may_enq rk' \<longleftrightarrow> txn_state rk' = TXN_STATE_IN_TRANSACTION))"

lemma txn_moves_refl: "txn_moves S rk rk"
  by (simp add: txn_moves_def txn_frame_def)

lemma txn_moves_frame:
  "txn_moves S rk1 rk' \<Longrightarrow> txn_frame rk rk1 \<Longrightarrow> txn_state rk1 = txn_state rk \<Longrightarrow> txn_may_enq rk1 = txn_may_enq rk \<Longrightarrow>
     txn_moves S rk rk'"
  by (simp add: txn_moves_def txn_frame_def)

lemma txn_moves_mono: "txn_moves S rk rk' \<Longrightarrow> S \<subseteq> T \<Longrightarrow> txn_moves T rk rk'"
  by (auto simp: txn_moves_def)

lemma txn_set_state_moves:
  assumes "rd_kafka_txn_set_state rk s = Some rk'"
  shows "txn_moves {s} rk rk' \<and> idemp_state rk' = idemp_state rk"
  using assms
  by (auto simp: rd_kafka_txn_set_state_def txn_moves_def txn_frame_def txn_trans_def Let_def
      split: if_splits prod.splits)

lemma txn_moves_set_result:
  "txn_moves S rk rk' \<Longrightarrow> txn_moves S rk (rd_kafka_txn_curr_api_set_result rk' a er)"
  by (simp add: txn_moves_def txn_frame_def)

abbreviation idemp_driven :: "rd_kafka_txn_state_t set" where
  "idemp_driven \<equiv> {TXN_STATE_READY_NOT_ACKED, TXN_STATE_ABORT_NOT_ACKED, TXN_STATE_FATAL_ERROR}"

lemma idemp_state_change_moves:
  assumes "rd_kafka_txn_idemp_state_change rk s = Some rk'"
  shows "txn_moves idemp_driven rk rk' \<and> idemp_state rk' = idemp_state rk"
  using assms unfolding rd_kafka_txn_idemp_state_change_def
  by (auto simp: bind_Some_iff txn_moves_refl split: if_splits dest!: txn_set_state_moves
      intro!: txn_moves_set_result elim: txn_moves_mono)

lemma idemp_set_state_moves:
  assumes "rd_kafka_idemp_set_state e rk s = Some rk'"
  shows "txn_moves idemp_driven rk rk' \<and> (idemp_state rk' = s \<or> idemp_state rk' = idemp_target rk s)"
proof -
  let ?rk1 = "rk\<lparr>idemp_state := idemp_target rk s, ts_idemp_state := ev_clock e\<rparr>"
  have fr: "txn_frame rk ?rk1" "txn_state ?rk1 = txn_state rk" "txn_may_enq ?rk1 = txn_may_enq rk"
    by (simp_all add: txn_frame_def)
  show ?thesis
  proof (cases "idemp_state rk = s \<or> idemp_state rk = idemp_target rk s")
    case True
    with assms have "rk' = rk" by (simp add: idemp_set_state_unfold)
    with True show ?thesis by (simp only: txn_moves_refl)
  next
    case no: False
    show ?thesis
    proof (cases "rd_kafka_is_transactional ?rk1")
      case True
      with assms no have "rd_kafka_txn_idemp_state_change ?rk1 (idemp_target rk s) = Some rk'"
        by (simp only: idemp_set_state_unfold Let_def if_True if_False)
      from idemp_state_change_moves [OF this]
      have "txn_moves idemp_driven ?rk1 rk'" "idemp_state rk' = idemp_target rk s" by simp_all
      then show ?thesis using txn_moves_frame [OF _ fr] by blast
    next
      case False
      with assms no have "rk' = ?rk1"
        by (simp only: idemp_set_state_unfold Let_def if_True if_False) simp
      with txn_moves_frame [OF txn_moves_refl fr] show ?thesis by simp
    qed
  qed
qed

text \<open>Completing a transaction clears its partitions and its request count first.\<close>

definition txn_cleared :: "rd_kafka_t \<Rightarrow> rd_kafka_t" where
  "txn_cleared rk = (rd_kafka_txn_clear_partitions (rd_kafka_txn_clear_pending_partitions rk))
     \<lparr>txn_requires_epoch_bump := False, txn_req_cnt := 0\<rparr>"

lemma txn_complete_eq: "rd_kafka_txn_complete rk = rd_kafka_txn_set_state (txn_cleared rk) TXN_STATE_READY"
  by (simp add: rd_kafka_txn_complete_def txn_cleared_def Let_def)

lemma clear_pending_sel [simp]:
  "txn_state (rd_kafka_txn_clear_pending_partitions rk) = txn_state rk"
  "txn_may_enq (rd_kafka_txn_clear_pending_partitions rk) = txn_may_enq rk"
  "idemp_state (rd_kafka_txn_clear_pending_partitions rk) = idemp_state rk"
  "pid (rd_kafka_txn_clear_pending_partitions rk) = pid rk"
  "rk_conf (rd_kafka_txn_clear_pending_partitions rk) = rk_conf rk"
  "rk_type (rd_kafka_txn_clear_pending_partitions rk) = rk_type rk"
  "rk_fatal_err (rd_kafka_txn_clear_pending_partitions rk) = rk_fatal_err rk"
  "inflight_toppar_cnt (rd_kafka_txn_clear_pending_partitions rk) = inflight_toppar_cnt rk"
  "txn_req_cnt (rd_kafka_txn_clear_pending_partitions rk) = txn_req_cnt rk"
  "txn_pending_rktps (rd_kafka_txn_clear_pending_partitions rk) = []"
  "txn_waitresp_rktps (rd_kafka_txn_clear_pending_partitions rk) = []"
  "txn_rktps (rd_kafka_txn_clear_pending_partitions rk) = txn_rktps rk"
  "rk_timers (rd_kafka_txn_clear_pending_partitions rk) = rk_timers rk"
  "rk_reqs (rd_kafka_txn_clear_pending_partitions rk) = rk_reqs rk"
  by (simp_all add: rd_kafka_txn_clear_pending_partitions_def Let_def)

lemma clear_sel [simp]:
  "txn_state (rd_kafka_txn_clear_partitions rk) = txn_state rk"
  "txn_may_enq (rd_kafka_txn_clear_partitions rk) = txn_may_enq rk"
  "idemp_state (rd_kafka_txn_clear_partitions rk) = idemp_state rk"
  "pid (rd_kafka_txn_clear_partitions rk) = pid rk"
  "rk_conf (rd_kafka_txn_clear_partitions rk) = rk_conf rk"
  "rk_type (rd_kafka_txn_clear_partitions rk) = rk_type rk"
  "rk_fatal_err (rd_kafka_txn_clear_partitions rk) = rk_fatal_err rk"
  "inflight_toppar_cnt (rd_kafka_txn_clear_partitions rk) = inflight_toppar_cnt rk"
  "txn_req_cnt (rd_kafka_txn_clear_partitions rk) = txn_req_cnt rk"
  "txn_pending_rktps (rd_kafka_txn_clear_partitions rk) = txn_pending_rktps rk"
  "txn_waitresp_rktps (rd_kafka_txn_clear_partitions rk) = txn_waitresp_rktps rk"
  "txn_rktps (rd_kafka_txn_clear_partitions rk) = []"
  "rk_timers (rd_kafka_txn_clear_partitions rk) = rk_timers rk"
  "rk_reqs (rd_kafka_txn_clear_partitions rk) = rk_reqs rk"
  by (simp_all add: rd_kafka_txn_clear_partitions_def)

lemma txn_cleared_sel [simp]:
  "txn_state (txn_cleared rk) = txn_state rk" "txn_may_enq (txn_cleared rk) = txn_may_enq rk"
  "idemp_state (txn_cleared rk) = idemp_state rk" "pid (txn_cleared rk) = pid rk"
  "rk_conf (txn_cleared rk) = rk_conf rk" "rk_type (txn_cleared rk) = rk_type rk"
  "rk_fatal_err (txn_cleared rk) = rk_fatal_err rk"
  "inflight_toppar_cnt (txn_cleared rk) = inflight_toppar_cnt rk"
  "txn_req_cnt (txn_cleared rk) = 0" "txn_pending_rktps (txn_cleared rk) = []"
  "txn_waitresp_rktps (txn_cleared rk) = []" "txn_rktps (txn_cleared rk) = []"
  "rk_timers (txn_cleared rk) = rk_timers rk" "rk_reqs (txn_cleared rk) = rk_reqs rk"
  by (simp_all add: txn_cleared_def)

text \<open>Registering partitions moves all pending ones to the wait list, or does nothing.\<close>

definition register_sends :: "rd_env \<Rightarrow> rd_kafka_t \<Rightarrow> bool" where
  "register_sends e rk \<longleftrightarrow>
     rd_kafka_txn_require_states0 rk [TXN_STATE_IN_TRANSACTION, TXN_STATE_BEGIN_COMMIT] = None \<and>
     ev_broker_is_up e TXN_COORD \<and> txn_pending_rktps rk \<noteq> [] \<and> txn_waitresp_rktps rk = [] \<and>
     rd_kafka_pid_valid (rd_kafka_idemp_get_pid0 rk False) \<and>
     ev_ApiVersion_supported e TXN_COORD API_AddPartitionsToTxn 0 0 \<noteq> - 1"

lemma register_partitions_eq:
  "rd_kafka_txn_register_partitions e rk =
     (if register_sends e rk
      then (rd_send TXN_COORD (REQ_AddPartitionsToTxn
              (ev_ApiVersion_supported e TXN_COORD API_AddPartitionsToTxn 0 0) (transactional_id rk)
              (rd_kafka_idemp_get_pid0 rk False) (add_partitions_topics None [] (txn_pending_rktps rk))) rk)
           \<lparr>txn_waitresp_rktps := txn_pending_rktps rk, txn_pending_rktps := [],
            txn_req_cnt := txn_req_cnt rk + 1\<rparr>
      else rk)"
proof (cases "register_sends e rk")
  case True
  then show ?thesis
    by (simp add: register_sends_def rd_kafka_txn_register_partitions_def
        rd_kafka_AddPartitionsToTxnRequest_def rd_send_def)
next
  case False
  then consider
      "rd_kafka_txn_require_states0 rk [TXN_STATE_IN_TRANSACTION, TXN_STATE_BEGIN_COMMIT] \<noteq> None"
    | "\<not> ev_broker_is_up e TXN_COORD" | "txn_pending_rktps rk = []" | "txn_waitresp_rktps rk \<noteq> []"
    | "\<not> rd_kafka_pid_valid (rd_kafka_idemp_get_pid0 rk False)"
    | "ev_ApiVersion_supported e TXN_COORD API_AddPartitionsToTxn 0 0 = - 1"
    by (auto simp: register_sends_def)
  then have "rd_kafka_txn_register_partitions e rk = rk"
    by cases (simp_all add: rd_kafka_txn_register_partitions_def
        rd_kafka_AddPartitionsToTxnRequest_def Let_def)
  with False show ?thesis by simp
qed

lemma register_sends_may_send: "register_sends e rk \<Longrightarrow> rd_kafka_txn_may_send_msg rk"
  by (simp add: register_sends_def require_states_None rd_kafka_txn_may_send_msg_def)

section \<open>The transaction state\<close>

text \<open>The state follows the transition relation, and \<open>txn_may_enq\<close> follows the state.\<close>

definition txn_evolves :: "rd_kafka_t \<Rightarrow> rd_kafka_t \<Rightarrow> bool" where
  "txn_evolves rk rk' \<longleftrightarrow> txn_trans\<^sup>*\<^sup>* (txn_state rk) (txn_state rk') \<and>
     ((txn_may_enq rk \<longleftrightarrow> txn_state rk = TXN_STATE_IN_TRANSACTION) \<longrightarrow>
      (txn_may_enq rk' \<longleftrightarrow> txn_state rk' = TXN_STATE_IN_TRANSACTION))"

lemma txn_moves_evolves: "txn_moves S rk rk' \<Longrightarrow> txn_evolves rk rk'"
  by (auto simp: txn_moves_def txn_evolves_def)

lemma txn_evolves_same:
  "txn_state rk' = txn_state rk \<Longrightarrow> txn_may_enq rk' = txn_may_enq rk \<Longrightarrow> txn_evolves rk rk'"
  by (simp add: txn_evolves_def)

lemma txn_evolves_pre:
  "txn_evolves rk1 rk' \<Longrightarrow> txn_state rk1 = txn_state rk \<Longrightarrow> txn_may_enq rk1 = txn_may_enq rk \<Longrightarrow>
     txn_evolves rk rk'"
  by (simp add: txn_evolves_def)

lemma txn_evolves_post:
  "txn_evolves rk rk1 \<Longrightarrow> txn_state rk' = txn_state rk1 \<Longrightarrow> txn_may_enq rk' = txn_may_enq rk1 \<Longrightarrow>
     txn_evolves rk rk'"
  by (simp add: txn_evolves_def)

lemma partition_registered_sel:
  assumes "rd_kafka_txn_partition_registered rk tp = Some rk'"
  shows "txn_state rk' = txn_state rk \<and> txn_may_enq rk' = txn_may_enq rk \<and>
    idemp_state rk' = idemp_state rk \<and> pid rk' = pid rk \<and> rk_conf rk' = rk_conf rk \<and>
    rk_type rk' = rk_type rk \<and> rk_fatal_err rk' = rk_fatal_err rk \<and>
    inflight_toppar_cnt rk' = inflight_toppar_cnt rk \<and> txn_req_cnt rk' = txn_req_cnt rk \<and>
    rk_timers rk' = rk_timers rk \<and> rk_reqs rk' = rk_reqs rk"
  using assms by (auto simp: rd_kafka_txn_partition_registered_def split: if_splits)

lemma set_state_evolves: "rd_kafka_txn_set_state rk s = Some rk' \<Longrightarrow> txn_evolves rk rk'"
  using txn_set_state_moves txn_moves_evolves by blast

lemma idemp_set_state_evolves: "rd_kafka_idemp_set_state e rk s = Some rk' \<Longrightarrow> txn_evolves rk rk'"
  using idemp_set_state_moves txn_moves_evolves by blast

lemma act_txn_evolves: "eos_act P e rk rk' \<Longrightarrow> txn_evolves rk rk'"
proof (induction rule: eos_act.induct)
  case (act_begin rk rk')
  then show ?case using txn_evolves_post [OF set_state_evolves] by simp
next
  case (act_complete rk rk')
  then show ?case using txn_evolves_pre [OF set_state_evolves] by (simp add: txn_complete_eq)
next
  case (act_pid_update rk p rk')
  from txn_evolves_pre [OF idemp_set_state_evolves [OF act_pid_update.hyps(4)]] show ?case by simp
next
  case (act_pid_bump rk rk')
  from txn_evolves_pre [OF idemp_set_state_evolves [OF act_pid_bump.hyps(6)]] show ?case by simp
next
  case (act_end c rk v rk')
  from txn_evolves_pre [OF set_state_evolves [OF act_end.hyps(6)]] show ?case by (simp add: rd_send_def)
qed (auto intro: txn_evolves_same set_state_evolves idemp_set_state_evolves
      simp: rd_fx_def rd_send_def register_partitions_eq partition_registered_sel)

lemma txn_evolves_trans: "txn_evolves rk1 rk2 \<Longrightarrow> txn_evolves rk2 rk3 \<Longrightarrow> txn_evolves rk1 rk3"
  unfolding txn_evolves_def by (meson rtranclp_trans)

interpretation txn_path: eos_evolution P txn_evolves for P
  by unfold_locales (rule txn_evolves_same [OF refl refl], fact txn_evolves_trans, fact act_txn_evolves)

text \<open>A fatal transaction state is never left.\<close>

lemma txn_trans_fatal: "txn_trans\<^sup>*\<^sup>* s s' \<Longrightarrow> s = TXN_STATE_FATAL_ERROR \<Longrightarrow> s' = TXN_STATE_FATAL_ERROR"
proof (induction rule: rtranclp_induct)
  case (step y z)
  then show ?case by (cases z) (auto simp: txn_trans_def)
qed simp

section \<open>Configuration and the fatal error\<close>

text \<open>The configuration never changes and the first fatal error stays.\<close>

definition fatal_evolves :: "rd_kafka_t \<Rightarrow> rd_kafka_t \<Rightarrow> bool" where
  "fatal_evolves rk rk' \<longleftrightarrow> rk_conf rk' = rk_conf rk \<and> rk_type rk' = rk_type rk \<and>
     (rk_fatal_err rk \<noteq> 0 \<longrightarrow> rk_fatal_err rk' = rk_fatal_err rk)"

lemma fatal_evolves_same:
  "rk_conf rk' = rk_conf rk \<Longrightarrow> rk_type rk' = rk_type rk \<Longrightarrow> rk_fatal_err rk' = rk_fatal_err rk \<Longrightarrow>
     fatal_evolves rk rk'"
  by (simp add: fatal_evolves_def)

lemma act_fatal_evolves: "eos_act P e rk rk' \<Longrightarrow> fatal_evolves rk rk'"
proof (induction rule: eos_act.induct)
  case (act_fatal rk err)
  then show ?case by (simp add: fatal_evolves_def)
next
  case (act_begin rk rk')
  then show ?case using txn_set_state_moves [of rk] by (simp add: fatal_evolves_def txn_moves_def txn_frame_def)
next
  case (act_complete rk rk')
  then show ?case using txn_set_state_moves [of "txn_cleared rk"]
    by (simp add: txn_complete_eq fatal_evolves_def txn_moves_def txn_frame_def)
next
  case (act_end c rk v rk')
  from txn_set_state_moves [OF act_end.hyps(6)] show ?case
    by (simp add: fatal_evolves_def txn_moves_def txn_frame_def rd_send_def)
qed (auto intro!: fatal_evolves_same
      simp: rd_fx_def rd_send_def register_partitions_eq partition_registered_sel idemp_set_state_sel
      dest!: txn_set_state_moves simp: txn_moves_def txn_frame_def)

interpretation fatal: eos_evolution P fatal_evolves for P
  by unfold_locales (auto simp: fatal_evolves_def act_fatal_evolves [unfolded fatal_evolves_def])

section \<open>Requests and the producer id\<close>

text \<open>Requests are only appended, each under the permission of its kind.\<close>

fun req_allowed :: "eos_perm set \<Rightarrow> eos_req \<Rightarrow> bool" where
  "req_allowed P (REQ_EndTxn _ _ _ c) = (P_END c \<in> P)"
| "req_allowed P (REQ_AddPartitionsToTxn _ _ _ _) = (P_SEND_PARTS \<in> P)"
| "req_allowed P (REQ_AddOffsetsToTxn _ _ _ _ _) = (P_SEND_OFFSETS \<in> P)"
| "req_allowed P (REQ_TxnOffsetCommit _ _ _ _ _ _ _) = (P_SEND_OFFSETS \<in> P)"
| "req_allowed P _ = True"

definition reqs_evolve :: "eos_perm set \<Rightarrow> rd_kafka_t \<Rightarrow> rd_kafka_t \<Rightarrow> bool" where
  "reqs_evolve P rk rk' \<longleftrightarrow>
     (\<exists>rs. rk_reqs rk' = rk_reqs rk @ rs \<and> (\<forall>r \<in> set rs. req_allowed P (snd r)))"

lemma reqs_evolve_same: "rk_reqs rk' = rk_reqs rk \<Longrightarrow> reqs_evolve P rk rk'"
  by (simp add: reqs_evolve_def)

lemma reqs_evolve_trans: "reqs_evolve P rk1 rk2 \<Longrightarrow> reqs_evolve P rk2 rk3 \<Longrightarrow> reqs_evolve P rk1 rk3"
  unfolding reqs_evolve_def by (metis append_assoc Un_iff set_append)

lemma moves_frame: "txn_moves S rk rk' \<Longrightarrow> txn_frame rk rk'"
  by (simp add: txn_moves_def)

lemma set_state_frame: "rd_kafka_txn_set_state rk s = Some rk' \<Longrightarrow> txn_frame rk rk'"
  using txn_set_state_moves moves_frame by blast

lemma idemp_set_state_frame: "rd_kafka_idemp_set_state e rk s = Some rk' \<Longrightarrow> txn_frame rk rk'"
  using idemp_set_state_moves moves_frame by blast

lemma act_reqs_evolve: "eos_act P e rk rk' \<Longrightarrow> reqs_evolve P rk rk'"
proof (induction rule: eos_act.induct)
  case (act_register rk)
  then show ?case by (simp add: register_partitions_eq reqs_evolve_def rd_send_def)
next
  case (act_complete rk rk')
  then show ?case using set_state_frame [of "txn_cleared rk"]
    by (simp add: txn_complete_eq reqs_evolve_same txn_frame_def)
next
  case (act_end c rk v rk')
  from set_state_frame [OF act_end.hyps(6)] act_end.hyps(1) show ?case
    by (simp add: reqs_evolve_def txn_frame_def rd_send_def)
qed (auto simp: reqs_evolve_def rd_send_def partition_registered_sel rd_fx_def txn_frame_def
      dest!: set_state_frame idemp_set_state_frame)

interpretation reqs: eos_evolution P "reqs_evolve P" for P
  by unfold_locales (rule reqs_evolve_same [OF refl], fact reqs_evolve_trans, fact act_reqs_evolve)

text \<open>The producer id of a transactional producer changes only under its permission,
  and an assigned producer id is valid.\<close>

definition pid_evolves :: "eos_perm set \<Rightarrow> rd_kafka_t \<Rightarrow> rd_kafka_t \<Rightarrow> bool" where
  "pid_evolves P rk rk' \<longleftrightarrow> rk_conf rk' = rk_conf rk \<and>
     (P_PID \<notin> P \<and> rd_kafka_is_transactional rk \<longrightarrow> pid rk' = pid rk) \<and>
     (rd_kafka_pid_valid (pid rk) \<longrightarrow> rd_kafka_pid_valid (pid rk')) \<and>
     ((idemp_state rk = IDEMP_STATE_ASSIGNED \<longrightarrow> rd_kafka_pid_valid (pid rk)) \<longrightarrow>
      idemp_state rk' = IDEMP_STATE_ASSIGNED \<longrightarrow> rd_kafka_pid_valid (pid rk'))"

lemma pid_evolves_same:
  "rk_conf rk' = rk_conf rk \<Longrightarrow> pid rk' = pid rk \<Longrightarrow> idemp_state rk' = idemp_state rk \<Longrightarrow> pid_evolves P rk rk'"
  by (simp add: pid_evolves_def)

lemma idemp_set_state_not_assigned:
  assumes "rd_kafka_idemp_set_state e rk s = Some rk'" "s \<noteq> IDEMP_STATE_ASSIGNED"
  shows "idemp_state rk' \<noteq> IDEMP_STATE_ASSIGNED"
  using idemp_set_state_moves [OF assms(1)] assms(2) by (auto simp: idemp_target_def split: if_splits)

lemma act_pid_evolves: "eos_act P e rk rk' \<Longrightarrow> pid_evolves P rk rk'"
proof (induction rule: eos_act.induct)
  case (act_register rk)
  then show ?case by (simp add: register_partitions_eq pid_evolves_def rd_send_def)
next
  case (act_state rk s rk')
  then show ?case using txn_set_state_moves [of rk s rk']
    by (simp add: pid_evolves_same txn_moves_def txn_frame_def)
next
  case (act_begin rk rk')
  then show ?case using txn_set_state_moves [of rk _ rk']
    by (simp add: pid_evolves_same txn_moves_def txn_frame_def)
next
  case (act_complete rk rk')
  then show ?case using txn_set_state_moves [of "txn_cleared rk"]
    by (simp add: txn_complete_eq pid_evolves_same txn_moves_def txn_frame_def)
next
  case (act_end c rk v rk')
  from txn_set_state_moves [OF act_end.hyps(6)] show ?case
    by (simp add: pid_evolves_same txn_moves_def txn_frame_def rd_send_def)
next
  case (act_idemp s rk rk')
  then show ?case using idemp_set_state_not_assigned [of e rk s rk']
    by (simp add: pid_evolves_def idemp_set_state_sel)
next
  case (act_pid_update rk p rk')
  then show ?case using idemp_set_state_frame [OF act_pid_update.hyps(4)]
    by (simp add: pid_evolves_def txn_frame_def)
next
  case (act_pid_bump rk rk')
  then show ?case using idemp_set_state_frame [OF act_pid_bump.hyps(6)]
    by (simp add: pid_evolves_def txn_frame_def rd_kafka_pid_valid_def rd_kafka_pid_bump_def)
qed (auto intro!: pid_evolves_same simp: partition_registered_sel rd_fx_def rd_send_def)

interpretation pids: eos_evolution P "pid_evolves P" for P
  by unfold_locales
    (rule pid_evolves_same [OF refl refl refl],
      simp add: pid_evolves_def rd_kafka_is_transactional_def, fact act_pid_evolves)

section \<open>The partition lists\<close>

text \<open>A partition is on at most one of the three lists, once; its flags say on which;
  the lists an AddPartitionsToTxn request is built from are sorted by topic.\<close>

definition by_topic :: "toppar list \<Rightarrow> bool" where
  "by_topic rktps \<longleftrightarrow> sorted_wrt (\<lambda>a b. rd_kafka_toppar_topic_cmp a b \<le> 0) rktps"

definition lists_ok :: "rd_kafka_t \<Rightarrow> bool" where
  "lists_ok rk \<longleftrightarrow>
     distinct (txn_pending_rktps rk @ txn_waitresp_rktps rk @ txn_rktps rk) \<and>
     by_topic (txn_pending_rktps rk) \<and> by_topic (txn_waitresp_rktps rk) \<and>
     (\<forall>rktp. (TOPPAR_F_PEND_TXN \<in> rktp_flags rk rktp \<longleftrightarrow>
        rktp \<in> set (txn_pending_rktps rk) \<union> set (txn_waitresp_rktps rk)) \<and>
       (TOPPAR_F_IN_TXN \<in> rktp_flags rk rktp \<longleftrightarrow> rktp \<in> set (txn_rktps rk)))"

lemma lists_ok_same:
  "lists_ok rk \<Longrightarrow> txn_pending_rktps rk' = txn_pending_rktps rk \<Longrightarrow>
     txn_waitresp_rktps rk' = txn_waitresp_rktps rk \<Longrightarrow> txn_rktps rk' = txn_rktps rk \<Longrightarrow>
     rktp_flags rk' = rktp_flags rk \<Longrightarrow> lists_ok rk'"
  by (simp add: lists_ok_def)

lemma clear_flag_apply:
  "rd_kafka_txn_clear_partitions_flag tqh flag flags rktp =
     (if rktp \<in> set tqh then flags rktp - {flag} else flags rktp)"
  unfolding rd_kafka_txn_clear_partitions_flag_def
  by (induction tqh arbitrary: flags) auto

lemma lists_ok_clear_pending: "lists_ok rk \<Longrightarrow> lists_ok (rd_kafka_txn_clear_pending_partitions rk)"
  by (auto simp: lists_ok_def rd_kafka_txn_clear_pending_partitions_def Let_def clear_flag_apply by_topic_def)

lemma lists_ok_clear: "lists_ok rk \<Longrightarrow> lists_ok (rd_kafka_txn_clear_partitions rk)"
  by (auto simp: lists_ok_def rd_kafka_txn_clear_partitions_def clear_flag_apply)

lemma lists_ok_cleared: "lists_ok rk \<Longrightarrow> lists_ok (txn_cleared rk)"
  unfolding txn_cleared_def
  by (rule lists_ok_same [OF lists_ok_clear [OF lists_ok_clear_pending]]) simp_all

lemma lists_ok_add:
  assumes "lists_ok rk" "rktp_flags rk rktp \<inter> {TOPPAR_F_PEND_TXN, TOPPAR_F_IN_TXN} = {}"
  shows "lists_ok (rk
      \<lparr>rktp_flags := (rktp_flags rk)(rktp := insert TOPPAR_F_PEND_TXN (rktp_flags rk rktp)),
       txn_pending_rktps := TAILQ_INSERT_SORTED rd_kafka_toppar_topic_cmp rktp (txn_pending_rktps rk)\<rparr>)"
  using assms topiccmp.insert_sorted [of "txn_pending_rktps rk" rktp]
  by (auto simp: lists_ok_def by_topic_def simp del: split_paired_All)

lemma lists_ok_concat:
  assumes "lists_ok rk" "TAILQ_CONCAT_SORTED rd_kafka_toppar_topic_cmp (txn_pending_rktps rk)
    (txn_waitresp_rktps rk) = (pending, waitresp)"
  shows "lists_ok (rk\<lparr>txn_pending_rktps := pending, txn_waitresp_rktps := waitresp\<rparr>)"
proof -
  let ?r = "TAILQ_CONCAT_SORTED rd_kafka_toppar_topic_cmp (txn_pending_rktps rk) (txn_waitresp_rktps rk)"
  have "pending = fst ?r" "waitresp = []" using assms(2) TAILQ_CONCAT_SORTED_src by (metis fst_conv, metis snd_conv)
  then show ?thesis
    using assms(1) topiccmp.concat_sorted [of "txn_pending_rktps rk" "txn_waitresp_rktps rk"]
    by (auto simp: lists_ok_def by_topic_def TAILQ_CONCAT_SORTED_distinct)
qed

lemma lists_ok_registered:
  assumes "lists_ok rk" "rd_kafka_txn_partition_registered rk rktp = Some rk'"
  shows "lists_ok rk'"
  using assms
  by (auto simp: rd_kafka_txn_partition_registered_def lists_ok_def by_topic_def TAILQ_REMOVE_def
      sorted_wrt_remove1 split: if_splits dest: notin_set_remove1)

lemma lists_ok_register: "lists_ok rk \<Longrightarrow> lists_ok (rd_kafka_txn_register_partitions e rk)"
  by (auto simp: register_partitions_eq register_sends_def lists_ok_def rd_send_def by_topic_def)

lemma act_lists_ok: "eos_act P e rk rk' \<Longrightarrow> lists_ok rk \<Longrightarrow> lists_ok rk'"
proof (induction rule: eos_act.induct)
  case (act_state rk s rk')
  then show ?case using set_state_frame [of rk s rk'] by (auto simp: txn_frame_def elim: lists_ok_same)
next
  case (act_begin rk rk')
  then show ?case using set_state_frame [of rk _ rk'] by (auto simp: txn_frame_def elim: lists_ok_same)
next
  case (act_complete rk rk')
  then show ?case using set_state_frame [of "txn_cleared rk" _ rk'] lists_ok_cleared [of rk]
    by (auto simp: txn_complete_eq txn_frame_def elim: lists_ok_same)
next
  case (act_end c rk v rk')
  from set_state_frame [OF act_end.hyps(6)] act_end.prems show ?case
    by (auto simp: txn_frame_def rd_send_def elim: lists_ok_same)
next
  case (act_idemp s rk rk')
  from idemp_set_state_frame [OF act_idemp.hyps(2)] act_idemp.prems show ?case
    by (auto simp: txn_frame_def elim: lists_ok_same)
next
  case (act_pid_update rk p rk')
  from idemp_set_state_frame [OF act_pid_update.hyps(4)] act_pid_update.prems show ?case
    by (auto simp: txn_frame_def elim: lists_ok_same)
next
  case (act_pid_bump rk rk')
  from idemp_set_state_frame [OF act_pid_bump.hyps(6)] act_pid_bump.prems show ?case
    by (auto simp: txn_frame_def elim: lists_ok_same)
qed (auto simp: lists_ok_add lists_ok_concat lists_ok_clear_pending lists_ok_clear lists_ok_register
      intro: lists_ok_registered, auto simp: rd_fx_def rd_send_def elim: lists_ok_same)

interpretation lists: eos_invariant P "\<lambda>_. True" lists_ok for P
  by unfold_locales (rule act_lists_ok)

section \<open>Outside a transaction\<close>

text \<open>Before a transaction begins no partition is registered and the count of requests
  of the transaction is zero; the count is never negative.\<close>

definition closed_ok :: "rd_kafka_t \<Rightarrow> bool" where
  "closed_ok rk \<longleftrightarrow> 0 \<le> txn_req_cnt rk \<and> 0 \<le> inflight_toppar_cnt rk \<and>
     (txn_closed (txn_state rk) \<longrightarrow> txn_rktps rk = [] \<and> txn_req_cnt rk = 0)"

lemma closed_ok_same:
  "closed_ok rk \<Longrightarrow> txn_state rk' = txn_state rk \<Longrightarrow> txn_rktps rk' = txn_rktps rk \<Longrightarrow>
     txn_req_cnt rk' = txn_req_cnt rk \<Longrightarrow> inflight_toppar_cnt rk' = inflight_toppar_cnt rk \<Longrightarrow> closed_ok rk'"
  by (simp add: closed_ok_def)

text \<open>Apart from completing a transaction, a closed state is entered from a closed one.\<close>

lemma closed_ok_moves:
  assumes "closed_ok rk" "txn_moves S rk rk'" "TXN_STATE_READY \<in> S \<Longrightarrow> txn_closed (txn_state rk)"
  shows "closed_ok rk'"
  using assms by (cases "txn_state rk'") (auto simp: closed_ok_def txn_moves_def txn_frame_def txn_closed_def txn_trans_def)

lemma may_send_not_closed: "rd_kafka_txn_may_send_msg rk \<Longrightarrow> \<not> txn_closed (txn_state rk)"
  by (auto simp: rd_kafka_txn_may_send_msg_def txn_closed_def)

lemma act_closed_ok: "eos_act P e rk rk' \<Longrightarrow> closed_ok rk \<Longrightarrow> closed_ok rk'"
proof (induction rule: eos_act.induct)
  case (act_state rk s rk')
  from txn_set_state_moves [OF act_state.hyps(1)] act_state.hyps act_state.prems show ?case
    by (auto intro: closed_ok_moves simp: txn_closed_def)
next
  case (act_begin rk rk')
  from txn_set_state_moves [OF act_begin.hyps(4)] act_begin.prems have "closed_ok rk'"
    by (auto intro: closed_ok_moves)
  then show ?case by (simp add: closed_ok_def)
next
  case (act_complete rk rk')
  from txn_set_state_moves [OF act_complete.hyps(3) [unfolded txn_complete_eq]] act_complete.prems show ?case
    by (auto simp: closed_ok_def txn_moves_def txn_frame_def)
next
  case (act_end c rk v rk')
  let ?rk1 = "rd_send TXN_COORD (REQ_EndTxn v (transactional_id rk) (rd_kafka_idemp_get_pid0 rk (\<not> c)) c) rk"
  have "closed_ok ?rk1" using act_end.prems by (simp add: closed_ok_def rd_send_def)
  with txn_set_state_moves [OF act_end.hyps(6)] show ?case by (auto intro: closed_ok_moves split: if_splits)
next
  case (act_idemp s rk rk')
  from idemp_set_state_moves [OF act_idemp.hyps(2)] act_idemp.prems show ?case
    by (auto intro: closed_ok_moves)
next
  case (act_pid_update rk p rk')
  from act_pid_update.prems have "closed_ok (rk\<lparr>pid := p, epoch_cnt := epoch_cnt rk + 1\<rparr>)"
    by (simp add: closed_ok_def)
  with idemp_set_state_moves [OF act_pid_update.hyps(4)] show ?case by (auto intro: closed_ok_moves)
next
  case (act_pid_bump rk rk')
  from act_pid_bump.prems have "closed_ok (rk\<lparr>pid := rd_kafka_pid_bump (pid rk)\<rparr>)"
    by (simp add: closed_ok_def)
  with idemp_set_state_moves [OF act_pid_bump.hyps(6)] show ?case by (auto intro: closed_ok_moves)
next
  case (act_registered rk rktp rk')
  then show ?case using partition_registered_sel [OF act_registered.hyps(3)] may_send_not_closed [of rk]
    by (auto simp: closed_ok_def)
next
  case (act_register rk)
  then show ?case using register_sends_may_send may_send_not_closed
    by (auto simp: register_partitions_eq closed_ok_def rd_send_def)
qed (auto simp: closed_ok_def rd_fx_def rd_send_def txn_closed_def)

interpretation closed: eos_invariant P "\<lambda>_. True" closed_ok for P
  by unfold_locales (rule act_closed_ok)

section \<open>Timers\<close>

definition rk_timers_ok :: "rd_kafka_t \<Rightarrow> bool" where
  "rk_timers_ok rk \<longleftrightarrow> timers_ok (rk_timers rk) \<and> rkts_enabled (rk_timers rk) \<and>
     (\<forall>t. rd_kafka_timer_started (rkts_tmr (rk_timers rk) t) \<longrightarrow> rtmr_oneshot (rkts_tmr (rk_timers rk) t))"

lemma rk_timers_ok_same: "rk_timers_ok rk \<Longrightarrow> rk_timers rk' = rk_timers rk \<Longrightarrow> rk_timers_ok rk'"
  by (simp add: rk_timers_ok_def)

lemma act_timers_ok: "eos_act P e rk rk' \<Longrightarrow> 0 < ev_clock e \<Longrightarrow> rk_timers_ok rk \<Longrightarrow> rk_timers_ok rk'"
proof (induction rule: eos_act.induct)
  case (act_timer_start us rk t restart cb)
  then show ?case
    using timers_ok_start0 [of "rk_timers rk" "ev_clock e" us t True restart cb]
    by (auto simp: rk_timers_ok_def start0_tmr)
next
  case (act_timer_stop rk t)
  then show ?case using timers_ok_stop [of "rk_timers rk" t]
    by (auto simp: rk_timers_ok_def stop_tmr timer_defs)
next
  case (act_timer_fire rk t)
  then show ?case using timers_ok_unschedule [of "rk_timers rk" t]
    by (auto simp: rk_timers_ok_def timer_defs intro!: timers_ok_upd_unscheduled)
next
  case (act_state rk s rk')
  then show ?case using set_state_frame [of rk s rk'] by (auto simp: txn_frame_def elim: rk_timers_ok_same)
next
  case (act_begin rk rk')
  then show ?case using set_state_frame [of rk _ rk'] by (auto simp: txn_frame_def elim: rk_timers_ok_same)
next
  case (act_complete rk rk')
  then show ?case using set_state_frame [of "txn_cleared rk" _ rk']
    by (auto simp: txn_complete_eq txn_frame_def elim: rk_timers_ok_same)
next
  case (act_end c rk v rk')
  from set_state_frame [OF act_end.hyps(6)] act_end.prems show ?case
    by (auto simp: txn_frame_def rd_send_def elim: rk_timers_ok_same)
next
  case (act_idemp s rk rk')
  from idemp_set_state_frame [OF act_idemp.hyps(2)] act_idemp.prems show ?case
    by (auto simp: txn_frame_def elim: rk_timers_ok_same)
next
  case (act_pid_update rk p rk')
  from idemp_set_state_frame [OF act_pid_update.hyps(4)] act_pid_update.prems show ?case
    by (auto simp: txn_frame_def elim: rk_timers_ok_same)
next
  case (act_pid_bump rk rk')
  from idemp_set_state_frame [OF act_pid_bump.hyps(6)] act_pid_bump.prems show ?case
    by (auto simp: txn_frame_def elim: rk_timers_ok_same)
qed (auto elim!: rk_timers_ok_same simp: partition_registered_sel rd_fx_def rd_send_def register_partitions_eq)

interpretation eos_timers: eos_invariant P "\<lambda>e. 0 < ev_clock e" rk_timers_ok for P
  by unfold_locales (rule act_timers_ok)

section \<open>After a fatal error\<close>

text \<open>Once a fatal error is raised no producer id is requested any more.\<close>

definition is_InitProducerId :: "rd_broker \<times> eos_req \<Rightarrow> bool" where
  "is_InitProducerId r = (case snd r of REQ_InitProducerId _ _ _ _ \<Rightarrow> True | _ \<Rightarrow> False)"

definition fatal_quiet :: "rd_kafka_t \<Rightarrow> rd_kafka_t \<Rightarrow> bool" where
  "fatal_quiet rk rk' \<longleftrightarrow> fatal_evolves rk rk' \<and>
     (rd_kafka_fatal_error_code rk \<noteq> 0 \<longrightarrow>
      filter is_InitProducerId (rk_reqs rk') = filter is_InitProducerId (rk_reqs rk))"

lemma fatal_code_sticky:
  "fatal_evolves rk rk' \<Longrightarrow> rd_kafka_fatal_error_code rk \<noteq> 0 \<Longrightarrow>
     rd_kafka_fatal_error_code rk' = rd_kafka_fatal_error_code rk"
  by (auto simp: fatal_evolves_def rd_kafka_fatal_error_code_def split: if_splits)

lemma act_fatal_quiet: "eos_act P e rk rk' \<Longrightarrow> fatal_quiet rk rk'"
  unfolding fatal_quiet_def
proof (rule conjI, erule act_fatal_evolves, induction rule: eos_act.induct)
  case (act_complete rk rk')
  then show ?case using set_state_frame [of "txn_cleared rk"] by (simp add: txn_complete_eq txn_frame_def)
next
  case (act_end c rk v rk')
  from set_state_frame [OF act_end.hyps(6)] show ?case
    by (simp add: txn_frame_def rd_send_def is_InitProducerId_def)
qed (auto simp: partition_registered_sel rd_fx_def rd_send_def txn_frame_def is_InitProducerId_def
      register_partitions_eq dest!: set_state_frame idemp_set_state_frame)

interpretation fatal_stop: eos_evolution P fatal_quiet for P
  by unfold_locales
    (auto simp: fatal_quiet_def fatal.evolves_refl act_fatal_quiet [unfolded fatal_quiet_def]
      fatal_code_sticky intro: fatal.evolves_trans)

end
