(* ===== verification/Txn_Api.thy ===== *)
theory Txn_Api
  imports Txn_Manager
begin

text \<open>
  The transactional API (\<open>src/src/rdkafka_txnmgr.c\<close>): the functions the application calls.
  They run in the application's thread: they hand an op to the main thread, wait
  for its result and return it. What the other threads do while the
  application waits is the argument \<open>wait\<close> (given the absolute timeout), and what they
  do during a flush is \<open>flush\<close>.
\<close>

section \<open>The current API call\<close>

text \<open>The result is the error to return, if any, and the absolute timeout.
  \<open>abs_timeoutp\<close> says whether the caller asks for the timeout.\<close>

definition rd_kafka_txn_curr_api_begin ::
  "rd_env \<Rightarrow> rd_kafka_t \<Rightarrow> string \<Rightarrow> bool \<Rightarrow> int \<Rightarrow> bool \<Rightarrow>
   (rd_kafka_error_t option \<times> int \<times> rd_kafka_t) option" where
  "rd_kafka_txn_curr_api_begin e rk name cap_timeout timeout_ms abs_timeoutp =
     (case rd_kafka_ensure_transactional rk of
        Some error \<Rightarrow> Some (Some error, 0, rk)
      | None \<Rightarrow>
          let api = txn_curr_api rk in
          if api_name api \<noteq> [] \<and> strcmp (api_name api) name \<noteq> 0
          then Some (Some (rd_kafka_error_new_retriable RESP_ERR__CONFLICT), 0, rk)
          else if api_calling api
          then Some (Some (rd_kafka_error_new_retriable RESP_ERR__PREV_IN_PROGRESS), 0, rk)
          else do {
            api \<leftarrow> (if api_name api \<noteq> [] then Some (api\<lparr>api_calling := True\<rparr>)
                     else if api_error api \<noteq> None then None
                     else Some (api\<lparr>api_name := take 63 name, api_calling := True\<rparr>));
            let abs_timeout = (if abs_timeoutp
              then let abs_timeout = rd_timeout_init0 (ev_clock e) timeout_ms in
                   if cap_timeout
                   then let abs_txn_timeout = rd_kafka_txn_current_timeout e rk in
                        if abs_timeout > abs_txn_timeout \<or> abs_timeout = RD_POLL_INFINITE
                        then abs_txn_timeout else abs_timeout
                   else abs_timeout
              else 0);
            Some (None, abs_timeout, rk\<lparr>txn_curr_api := api\<rparr>)
          })"

definition rd_kafka_txn_curr_api_return ::
  "rd_kafka_t \<Rightarrow> bool \<Rightarrow> rd_kafka_error_t option \<Rightarrow>
   (rd_kafka_error_t option \<times> rd_kafka_t) option" where
  "rd_kafka_txn_curr_api_return rk resumable error =
     (let api = txn_curr_api rk in
      if api_name api = [] \<or> \<not> api_calling api then None
      else
        let api = api\<lparr>api_calling := False\<rparr>;
            api = (if \<not> resumable \<or> (error \<noteq> None \<and> \<not> rd_kafka_error_is_retriable error)
                   then api\<lparr>api_name := [], api_error := None\<rparr> else api)
        in Some (error, rk\<lparr>txn_curr_api := api\<rparr>))"

section \<open>Requests to the main thread\<close>

text \<open>Up to the wait: \<open>Inl\<close> an already set result, \<open>Inr\<close> the op is enqueued.
  \<open>RD_BUG\<close> (a disabled queue) is \<open>None\<close>.\<close>

definition txn_op_req_start ::
  "rd_env \<Rightarrow> rd_kafka_t \<Rightarrow> txn_op \<Rightarrow>
   ((rd_kafka_error_t option \<times> rd_kafka_t) + rd_kafka_t) option" where
  "txn_op_req_start e rk rko =
     (let api = txn_curr_api rk in
      if api_has_result api
      then Some (Inl (api_error api,
             rk\<lparr>txn_curr_api := api\<lparr>api_error := None, api_has_result := False\<rparr>\<rparr>))
      else if \<not> ev_ops_enabled e then None
      else Some (Inr (rk\<lparr>rk_ops := rk_ops rk @ [RK_OP_TXN rko]\<rparr>)))"

text \<open>After the wait: the result that was set, or a retriable time-out.\<close>

definition txn_op_req_finish :: "rd_kafka_t \<Rightarrow> rd_kafka_error_t option \<times> rd_kafka_t" where
  "txn_op_req_finish rk =
     (let api = txn_curr_api rk in
      if api_has_result api
      then (api_error api, rk\<lparr>txn_curr_api := api\<lparr>api_error := None, api_has_result := False\<rparr>\<rparr>)
      else (Some (rd_kafka_error_new_retriable RESP_ERR__TIMED_OUT), rk))"

definition rd_kafka_txn_op_req0 ::
  "rd_env \<Rightarrow> rd_kafka_t \<Rightarrow> txn_op \<Rightarrow> int \<Rightarrow> (int \<Rightarrow> rd_kafka_t \<Rightarrow> rd_kafka_t option) \<Rightarrow>
   (rd_kafka_error_t option \<times> rd_kafka_t) option" where
  "rd_kafka_txn_op_req0 e rk rko abs_timeout wait = do {
     r \<leftarrow> txn_op_req_start e rk rko;
     (case r of
        Inl result \<Rightarrow> Some result
      | Inr rk \<Rightarrow> map_option txn_op_req_finish (wait abs_timeout rk))
   }"

section \<open>The API\<close>

definition rd_kafka_init_transactions ::
  "rd_env \<Rightarrow> (int \<Rightarrow> rd_kafka_t \<Rightarrow> rd_kafka_t option) \<Rightarrow> rd_kafka_t \<Rightarrow> int \<Rightarrow>
   (rd_kafka_error_t option \<times> rd_kafka_t) option" where
  "rd_kafka_init_transactions e wait rk timeout_ms = do {
     let timeout_ms = (if timeout_ms = RD_POLL_INFINITE \<and>
                          cf_transaction_timeout_ms (rk_conf rk) < 2147483647 div 2
                       then cf_transaction_timeout_ms (rk_conf rk) * 2 else timeout_ms);
     (error, abs_timeout, rk) \<leftarrow>
       rd_kafka_txn_curr_api_begin e rk ''init_transactions'' False timeout_ms True;
     if error \<noteq> None then Some (error, rk)
     else do {
       (error, rk) \<leftarrow> rd_kafka_txn_op_req0 e rk OP_init_transactions abs_timeout wait;
       if error \<noteq> None
       then
         let err = rd_kafka_txn_normalize_err (txn_init_err rk);
             error = (if rd_kafka_error_code error = RESP_ERR__TIMED_OUT \<and> err \<noteq> 0
                         \<and> err \<noteq> RESP_ERR__TIMED_OUT
                      then Some (rd_kafka_error_new_retriable err) else error)
         in rd_kafka_txn_curr_api_return rk True error
       else do {
         (error, rk) \<leftarrow> rd_kafka_txn_op_req0 e rk OP_ack_init_transactions RD_POLL_INFINITE wait;
         rd_kafka_txn_curr_api_return rk False error
       }
     }
   }"

definition rd_kafka_begin_transaction ::
  "rd_env \<Rightarrow> (int \<Rightarrow> rd_kafka_t \<Rightarrow> rd_kafka_t option) \<Rightarrow> rd_kafka_t \<Rightarrow>
   (rd_kafka_error_t option \<times> rd_kafka_t) option" where
  "rd_kafka_begin_transaction e wait rk = do {
     (error, _, rk) \<leftarrow> rd_kafka_txn_curr_api_begin e rk ''begin_transaction'' False 0 False;
     if error \<noteq> None then Some (error, rk)
     else do {
       (error, rk) \<leftarrow> rd_kafka_txn_op_req0 e rk OP_begin_transaction RD_POLL_INFINITE wait;
       rd_kafka_txn_curr_api_return rk False error
     }
   }"

text \<open>\<open>rd_kafka_topic_partition_list_sort_by_topic\<close>: by topic, then by partition.\<close>

definition rd_kafka_topic_partition_cmp :: "txn_offset \<Rightarrow> txn_offset \<Rightarrow> int" where
  "rd_kafka_topic_partition_cmp a b =
     (let r = strcmp (fst (to_toppar a)) (fst (to_toppar b)) in
      if r \<noteq> 0 then r else RD_CMP (snd (to_toppar a)) (snd (to_toppar b)))"

interpretation tpcmp: rd_comparator rd_kafka_topic_partition_cmp
proof
  fix a b c
  show "0 < rd_kafka_topic_partition_cmp a b \<longleftrightarrow> rd_kafka_topic_partition_cmp b a < 0"
    using strcmp_antisym by (auto simp: rd_kafka_topic_partition_cmp_def Let_def)
  assume "rd_kafka_topic_partition_cmp a b \<le> 0" "rd_kafka_topic_partition_cmp b c \<le> 0"
  then show "rd_kafka_topic_partition_cmp a c \<le> 0"
    using strcmp_trans [of "fst (to_toppar a)" "fst (to_toppar b)" "fst (to_toppar c)"]
      strcmp_trans [of "fst (to_toppar b)" "fst (to_toppar c)" "fst (to_toppar a)"]
      strcmp_trans [of "fst (to_toppar c)" "fst (to_toppar a)" "fst (to_toppar b)"]
      strcmp_antisym [of "fst (to_toppar a)" "fst (to_toppar b)"]
      strcmp_antisym [of "fst (to_toppar b)" "fst (to_toppar c)"]
      strcmp_antisym [of "fst (to_toppar a)" "fst (to_toppar c)"]
    by (auto simp: rd_kafka_topic_partition_cmp_def Let_def split: if_splits)
qed

definition rd_kafka_send_offsets_to_transaction ::
  "rd_env \<Rightarrow> (int \<Rightarrow> rd_kafka_t \<Rightarrow> rd_kafka_t option) \<Rightarrow> rd_kafka_t \<Rightarrow>
   txn_offset list option \<Rightarrow> cgmetadata_t option \<Rightarrow> int \<Rightarrow>
   (rd_kafka_error_t option \<times> rd_kafka_t) option" where
  "rd_kafka_send_offsets_to_transaction e wait rk offsets cgmetadata timeout_ms =
     (case (cgmetadata, offsets) of
        (Some cg, Some offs) \<Rightarrow> do {
          (error, abs_timeout, rk) \<leftarrow>
            rd_kafka_txn_curr_api_begin e rk ''send_offsets_to_transaction'' True timeout_ms True;
          if error \<noteq> None then Some (error, rk)
          else
            let valid_offsets = filter (\<lambda>o'. to_offset o' \<ge> 0) offs in
            if valid_offsets = [] then rd_kafka_txn_curr_api_return rk False None
            else do {
              let rko = \<lparr>rko_offsets = fold (TAILQ_INSERT_SORTED rd_kafka_topic_partition_cmp)
                                        valid_offsets [],
                         rko_cgmetadata = cg, rko_abs_timeout = abs_timeout\<rparr>;
              (error, rk) \<leftarrow> rd_kafka_txn_op_req0 e rk (OP_send_offsets_to_transaction rko)
                               RD_POLL_INFINITE wait;
              rd_kafka_txn_curr_api_return rk False error
            }
        }
      | _ \<Rightarrow> Some (Some (rd_kafka_error_new RESP_ERR__INVALID_ARG), rk))"

definition rd_kafka_commit_transaction ::
  "rd_env \<Rightarrow> (int \<Rightarrow> rd_kafka_t \<Rightarrow> rd_kafka_t option) \<Rightarrow>
   (int \<Rightarrow> rd_kafka_t \<Rightarrow> (rd_kafka_resp_err_t \<times> rd_kafka_t) option) \<Rightarrow> rd_kafka_t \<Rightarrow> int \<Rightarrow>
   (rd_kafka_error_t option \<times> rd_kafka_t) option" where
  "rd_kafka_commit_transaction e wait flush rk timeout_ms = do {
     (error, abs_timeout, rk) \<leftarrow>
       rd_kafka_txn_curr_api_begin e rk ''commit_transaction'' False timeout_ms True;
     if error \<noteq> None then Some (error, rk)
     else do {
       (error, rk) \<leftarrow> rd_kafka_txn_op_req0 e rk OP_begin_commit abs_timeout wait;
       if error \<noteq> None then rd_kafka_txn_curr_api_return rk False error
       else do {
         (err, rk) \<leftarrow> flush (rd_timeout_remains (ev_clock e) abs_timeout) rk;
         if err \<noteq> 0
         then rd_kafka_txn_curr_api_return rk True (Some (rd_kafka_error_new_retriable err))
         else do {
           (error, rk) \<leftarrow> rd_kafka_txn_op_req0 e rk OP_commit_transaction abs_timeout wait;
           if error \<noteq> None then rd_kafka_txn_curr_api_return rk True error
           else do {
             (error, rk) \<leftarrow> rd_kafka_txn_op_req0 e rk OP_commit_transaction_ack RD_POLL_INFINITE wait;
             rd_kafka_txn_curr_api_return rk False error
           }
         }
       }
     }
   }"

definition rd_kafka_abort_transaction ::
  "rd_env \<Rightarrow> (int \<Rightarrow> rd_kafka_t \<Rightarrow> rd_kafka_t option) \<Rightarrow>
   (int \<Rightarrow> rd_kafka_t \<Rightarrow> (rd_kafka_resp_err_t \<times> rd_kafka_t) option) \<Rightarrow> rd_kafka_t \<Rightarrow> int \<Rightarrow>
   (rd_kafka_error_t option \<times> rd_kafka_t) option" where
  "rd_kafka_abort_transaction e wait flush rk timeout_ms = do {
     (error, abs_timeout, rk) \<leftarrow>
       rd_kafka_txn_curr_api_begin e rk ''abort_transaction'' False timeout_ms True;
     if error \<noteq> None then Some (error, rk)
     else do {
       (error, rk) \<leftarrow> rd_kafka_txn_op_req0 e rk OP_begin_abort abs_timeout wait;
       if error \<noteq> None then rd_kafka_txn_curr_api_return rk False error
       else do {
         let rk = rd_fx (FX_PURGE {PURGE_F_QUEUE, PURGE_F_ABORT_TXN}) rk;
         (err, rk) \<leftarrow> flush (rd_timeout_remains (ev_clock e) abs_timeout) rk;
         if err \<noteq> 0
         then rd_kafka_txn_curr_api_return rk True (Some (rd_kafka_error_new_retriable err))
         else do {
           (error, rk) \<leftarrow> rd_kafka_txn_op_req0 e rk OP_abort_transaction abs_timeout wait;
           if error \<noteq> None then rd_kafka_txn_curr_api_return rk True error
           else do {
             (error, rk) \<leftarrow> rd_kafka_txn_op_req0 e rk OP_abort_transaction_ack RD_POLL_INFINITE wait;
             rd_kafka_txn_curr_api_return rk False error
           }
         }
       }
     }
   }"

end
