(* ===== verification/Eos_System.thy ===== *)
theory Eos_System
  imports Eos_Invariants Txn_Api
begin

text \<open>
  The exactly-once producer as a whole: its initial state (\<open>rd_kafka_new\<close> and
  \<open>rd_kafka_thread_main\<close> of \<open>src/src/rdkafka.c\<close>) and one step for every call the rest of
  the library and the application make into it, in any order. A response is only
  delivered for a request that was sent. Every step refines to protocol actions, so the
  invariants of \<open>Eos_Invariants\<close> hold in every reachable state.
\<close>

section \<open>Initial state\<close>

text \<open>The zeroed instance with its configuration and an empty timer service, and what
  the main thread does when it starts.\<close>

definition rd_kafka_calloc :: "rd_kafka_type_t \<Rightarrow> rd_kafka_conf_t \<Rightarrow> rd_kafka_t" where
  "rd_kafka_calloc type conf =
     \<lparr>rk_type = type, rk_conf = conf, rk_fatal_err = 0, rk_fatal_cnt = 0,
      idemp_state = IDEMP_STATE_INIT, ts_idemp_state = 0, pid = \<lparr>pid_id = 0, pid_epoch = 0\<rparr>,
      epoch_cnt = 0, inflight_toppar_cnt = 0, txn_may_enq = False, txn_state = TXN_STATE_INIT,
      txn_curr_coord = None, txn_requires_epoch_bump = False,
      txn_curr_api = \<lparr>api_name = [], api_calling = False, api_error = None, api_has_result = False\<rparr>,
      txn_req_cnt = 0, txn_pending_rktps = [], txn_waitresp_rktps = [], txn_rktps = [],
      txn_dr_fails = 0, txn_err = 0, txn_init_err = 0, txn_wait_coord = False,
      rktp_flags = (\<lambda>_. {}), rktp_wait_drain = (\<lambda>_. False), rk_timers = rd_kafka_timers_init,
      rk_ops = [], rk_reqs = [], rk_fx = [], rkb_refs = (\<lambda>_. 0)\<rparr>"

definition rd_kafka_thread_main_start :: "rd_env \<Rightarrow> rd_kafka_t \<Rightarrow> rd_kafka_t option" where
  "rd_kafka_thread_main_start e rk =
     (if rd_kafka_is_idempotent rk then rd_kafka_idemp_init e rk else Some rk)"

section \<open>Steps\<close>

text \<open>What \<open>rd_kafka_timers_run\<close> does to a due one-shot timer before it calls it back.\<close>

definition eos_timer_fired :: "eos_timer \<Rightarrow> rd_kafka_t \<Rightarrow> rd_kafka_t" where
  "eos_timer_fired t rk = rk\<lparr>rk_timers := tmr_upd t (\<lambda>rtmr. rtmr\<lparr>rtmr_interval := 0\<rparr>)
     (rd_kafka_timer_unschedule (rk_timers rk) t)\<rparr>"

inductive eos_step :: "rd_env \<Rightarrow> rd_kafka_t \<Rightarrow> rd_kafka_t \<Rightarrow> bool" for e :: rd_env where
  step_op: "rk_ops rk = RK_OP_TXN rko # ops \<Longrightarrow>
    rd_kafka_txn_op_serve e (rk\<lparr>rk_ops := ops\<rparr>) rko destroy = Some rk' \<Longrightarrow> eos_step e rk rk'"
| step_purge: "rk_ops rk = RK_OP_PURGE fl # ops \<Longrightarrow>
    eos_step e rk (rd_fx (FX_PURGE fl) (rk\<lparr>rk_ops := ops\<rparr>))"
| step_timer: "t \<in> timers_due (ev_clock e) (rk_timers rk) \<Longrightarrow>
    rtmr_callback (rkts_tmr (rk_timers rk) t) = Some cb \<Longrightarrow>
    eos_timer_call e (eos_timer_fired t rk) cb = Some rk' \<Longrightarrow> eos_step e rk rk'"
| step_AddPartitions: "(b, REQ_AddPartitionsToTxn v i p ts) \<in> set (rk_reqs rk) \<Longrightarrow>
    rd_kafka_txn_handle_AddPartitionsToTxn e rk err rkbuf1 = Some rk' \<Longrightarrow> eos_step e rk rk'"
| step_AddOffsets: "(b, REQ_AddOffsetsToTxn v i p g rko) \<in> set (rk_reqs rk) \<Longrightarrow>
    \<not> txn_closed (txn_state rk) \<Longrightarrow>
    rd_kafka_txn_handle_AddOffsetsToTxn e rk err rkbuf2 (REQ_AddOffsetsToTxn v i p g rko) rko = Some rk' \<Longrightarrow>
    eos_step e rk rk'"
| step_coord_req: "FX_COORD_REQ g delay timeout rko \<in> set (rk_fx rk) \<Longrightarrow>
    eos_step e rk (snd (rd_kafka_txn_send_TxnOffsetCommitRequest e b rko rk))"
| step_TxnOffsetCommit: "FX_COORD_REQ g delay timeout rko \<in> set (rk_fx rk) \<Longrightarrow>
    rd_kafka_txn_handle_TxnOffsetCommit e rk rkb err rkbuf3 rko = Some rk' \<Longrightarrow> eos_step e rk rk'"
| step_EndTxn: "(b, REQ_EndTxn v i p c) \<in> set (rk_reqs rk) \<Longrightarrow>
    rd_kafka_txn_handle_EndTxn e rk err rkbuf2 (REQ_EndTxn v i p c) c = Some rk' \<Longrightarrow> eos_step e rk rk'"
| step_InitProducerId: "(b, REQ_InitProducerId v i' ms q) \<in> set (rk_reqs rk) \<Longrightarrow>
    rd_kafka_handle_InitProducerId e rk err rkbuf4 = Some rk' \<Longrightarrow> eos_step e rk rk'"
| step_FindCoordinator: "(b, REQ_FindCoordinator v k ct) \<in> set (rk_reqs rk) \<Longrightarrow>
    rd_kafka_txn_handle_FindCoordinator e rk b err rkbuf5 = Some rk' \<Longrightarrow> eos_step e rk rk'"
| step_coord_monitor: "rd_kafka_txn_coord_monitor_cb e rk up = Some rk' \<Longrightarrow> eos_step e rk rk'"
| step_metadata: "rd_kafka_is_idempotent rk \<Longrightarrow> rd_kafka_idemp_pid_fsm e rk = Some rk' \<Longrightarrow> eos_step e rk rk'"
| step_decommission: "rd_kafka_is_transactional rk \<Longrightarrow>
    rd_kafka_txn_coord_set e rk None = Some (r, rk') \<Longrightarrow> eos_step e rk rk'"
| step_produce: "rd_kafka_is_transactional rk \<Longrightarrow> eos_step e rk (rd_kafka_txn_add_partition e rk rktp)"
| step_dr_fails: "eos_step e rk (rk\<lparr>txn_dr_fails := txn_dr_fails rk + int n\<rparr>)"
| step_inflight_add: "eos_step e rk (rd_kafka_idemp_inflight_toppar_add rk)"
| step_inflight_sub: "rd_kafka_idemp_inflight_toppar_sub e rk = Some rk' \<Longrightarrow> eos_step e rk rk'"
| step_drain_toppar: "eos_step e rk (rd_kafka_idemp_drain_toppar rk rktp)"
| step_drained: "eos_step e rk (rk\<lparr>rktp_wait_drain := (rktp_wait_drain rk)(rktp := False)\<rparr>)"
| step_drain_reset: "rd_kafka_idemp_drain_reset e rk = Some rk' \<Longrightarrow> eos_step e rk rk'"
| step_drain_bump: "rd_kafka_idemp_drain_epoch_bump e rk err = Some rk' \<Longrightarrow> eos_step e rk rk'"
| step_fatal: "rd_kafka_idemp_set_fatal_error rk err = Some rk' \<Longrightarrow> eos_step e rk rk'"
| step_instance_fatal: "eos_step e rk (snd (rd_kafka_set_fatal_error0 rk err))"
| step_abortable: "rd_kafka_is_transactional rk \<Longrightarrow>
    rd_kafka_txn_set_abortable_error0 rk err bump = Some rk' \<Longrightarrow> eos_step e rk rk'"
| step_api_begin: "rd_kafka_txn_curr_api_begin e rk name cap ms tp = Some (er, abs_timeout, rk') \<Longrightarrow>
    eos_step e rk rk'"
| step_req_result: "txn_op_req_start e rk rko' = Some (Inl (er, rk')) \<Longrightarrow> eos_step e rk rk'"
| step_req_enq: "txn_op_req_start e rk rko' = Some (Inr rk') \<Longrightarrow> eos_step e rk rk'"
| step_req_finish: "eos_step e rk (snd (txn_op_req_finish rk))"
| step_api_return: "rd_kafka_txn_curr_api_return rk resumable er = Some (er', rk') \<Longrightarrow> eos_step e rk rk'"
| step_term: "rd_kafka_idemp_term e rk = Some rk' \<Longrightarrow> eos_step e rk rk'"

inductive eos_reachable :: "rd_kafka_conf_t \<Rightarrow> rd_kafka_t \<Rightarrow> bool" for conf :: rd_kafka_conf_t where
  reach_start: "0 < ev_clock e \<Longrightarrow>
    rd_kafka_thread_main_start e (rd_kafka_calloc RD_KAFKA_PRODUCER conf) = Some rk \<Longrightarrow> eos_reachable conf rk"
| reach_step: "eos_reachable conf rk \<Longrightarrow> 0 < ev_clock e \<Longrightarrow> eos_step e rk rk' \<Longrightarrow> eos_reachable conf rk'"

section \<open>Refinement to protocol actions\<close>

lemma eos_runs_set_fatal: "eos_runs P e rk (rd_kafka_idemp_set_fatal_error rk err)"
  unfolding rd_kafka_idemp_set_fatal_error_def by (intro eos_runs_intros)

lemma eos_acts_inflight_add:
  "P_INFLIGHT \<in> P \<Longrightarrow> 0 \<le> inflight_toppar_cnt rk \<Longrightarrow> eos_acts P e rk (rd_kafka_idemp_inflight_toppar_add rk)"
  unfolding rd_kafka_idemp_inflight_toppar_add_def by (rule r_into_rtranclp, rule act_inflight) simp_all

lemma eos_acts_drain_toppar: "eos_acts P e rk (rd_kafka_idemp_drain_toppar rk rktp)"
  unfolding rd_kafka_idemp_drain_toppar_def by (auto intro: act_wait_drain)

lemma eos_acts_curr_api_begin:
  "rd_kafka_txn_curr_api_begin e rk name cap ms b = Some (er, to, rk') \<Longrightarrow> eos_acts P e rk rk'"
  by (auto simp: rd_kafka_txn_curr_api_begin_def Let_def bind_Some_iff
      split: option.splits if_splits intro: r_into_rtranclp act_api)

lemma eos_acts_curr_api_return:
  "rd_kafka_txn_curr_api_return rk resumable er = Some (er', rk') \<Longrightarrow> eos_acts P e rk rk'"
  by (auto simp: rd_kafka_txn_curr_api_return_def Let_def split: if_splits intro: r_into_rtranclp act_api)

lemma eos_acts_req_start:
  "txn_op_req_start e rk rko = Some (Inl (er, rk')) \<Longrightarrow> eos_acts P e rk rk'"
  "txn_op_req_start e rk rko = Some (Inr rk') \<Longrightarrow> eos_acts P e rk rk'"
  by (auto simp: txn_op_req_start_def Let_def split: if_splits intro: r_into_rtranclp act_api act_ops)

lemma eos_acts_req_finish: "eos_acts P e rk (snd (txn_op_req_finish rk))"
  by (auto simp: txn_op_req_finish_def Let_def intro: r_into_rtranclp act_api)

lemma eos_acts_timer_fired: "eos_acts P e rk (eos_timer_fired t rk)"
  unfolding eos_timer_fired_def by (rule r_into_rtranclp, rule act_timer_fire)

text \<open>Only serving an op of the transactional API can begin, complete or end a transaction,
  and only the response to an InitProducerId request can bring a new producer id.\<close>

abbreviation outside_perms :: "eos_perm set" where
  "outside_perms \<equiv> UNIV - {P_PID, P_BEGIN, P_COMPLETE, P_END True, P_END False}"

lemma eos_runs_D: "eos_runs P e rk m \<Longrightarrow> m = Some rk' \<Longrightarrow> eos_acts P e rk rk'"
  by (simp add: eos_runs_def)

lemma step_op_acts:
  assumes "rd_kafka_txn_op_serve e (rk\<lparr>rk_ops := ops\<rparr>) rko destroy = Some rk'"
  shows "eos_acts (UNIV - {P_PID}) e rk rk'"
  using assms by (rule eos_runs_D [rotated]) (rule eos_runs_op_serve, auto intro: act_ops)

lemma step_pid_acts:
  assumes "rd_kafka_handle_InitProducerId e rk err rkbuf = Some rk'"
  shows "eos_acts (UNIV - {P_BEGIN, P_COMPLETE, P_END True, P_END False}) e rk rk'"
  using assms by (rule eos_runs_D [rotated]) (intro eos_runs_intros, simp_all)

lemma step_cases_acts:
  assumes "eos_step e rk rk'" "closed_ok rk"
  shows "(\<exists>rko ops destroy. rk_ops rk = RK_OP_TXN rko # ops \<and>
      rd_kafka_txn_op_serve e (rk\<lparr>rk_ops := ops\<rparr>) rko destroy = Some rk') \<or>
    (\<exists>err rkbuf. rd_kafka_handle_InitProducerId e rk err rkbuf = Some rk') \<or>
    eos_acts outside_perms e rk rk'"
  using assms
proof (induction rule: eos_step.induct)
  case (step_purge rk fl ops)
  have "eos_acts outside_perms e rk (rd_fx (FX_PURGE fl) (rk\<lparr>rk_ops := ops\<rparr>))"
    by (intro eos_runs_intros)
  then show ?case by blast
next
  case (step_timer t rk cb rk')
  have "eos_runs outside_perms e rk (eos_timer_call e (eos_timer_fired t rk) cb)"
    by (intro eos_runs_intros eos_acts_timer_fired) simp_all
  with step_timer.hyps(3) show ?case using eos_runs_D by blast
next
  case (step_coord_req g delay timeout rko rk b)
  have "eos_acts outside_perms e rk (snd (rd_kafka_txn_send_TxnOffsetCommitRequest e b rko rk))"
    by (rule eos_acts_send_TxnOffsetCommit) simp_all
  then show ?case by blast
next
  case (step_decommission rk r rk')
  have "eos_runs outside_perms e rk (map_option snd (rd_kafka_txn_coord_set e rk None))"
    by (intro eos_runs_intros)
  with step_decommission.hyps(2) show ?case by (auto simp: eos_runs_def)
next
  case (step_produce rk rktp)
  have "eos_acts outside_perms e rk (rd_kafka_txn_add_partition e rk rktp)"
    by (intro eos_runs_intros) simp_all
  then show ?case by blast
next
  case (step_dr_fails rk n)
  have "eos_act outside_perms e rk (rk\<lparr>txn_dr_fails := txn_dr_fails rk + int n\<rparr>)"
    by (rule act_dr_fails) simp_all
  then show ?case by blast
next
  case (step_drained rk rktp)
  have "eos_act outside_perms e rk (rk\<lparr>rktp_wait_drain := (rktp_wait_drain rk)(rktp := False)\<rparr>)"
    by (rule act_wait_drain)
  then show ?case by blast
next
  case (step_instance_fatal rk err)
  have "eos_act outside_perms e rk (snd (rd_kafka_set_fatal_error0 rk err))" by (rule act_fatal)
  then show ?case by blast
next
  case (step_inflight_add rk)
  then show ?case using eos_acts_inflight_add [of outside_perms rk e] by (simp add: closed_ok_def)
next
  case (step_AddOffsets b v i p g rko rk err rkbuf2 rk')
  have "eos_runs outside_perms e rk
      (rd_kafka_txn_handle_AddOffsetsToTxn e rk err rkbuf2 (REQ_AddOffsetsToTxn v i p g rko) rko)"
    by (rule eos_runs_handle_AddOffsetsToTxn) (use step_AddOffsets.hyps in simp_all)
  with step_AddOffsets.hyps(3) show ?case using eos_runs_D by blast
qed (blast dest: eos_acts_curr_api_begin eos_acts_curr_api_return eos_acts_req_start
      intro: eos_acts_req_finish eos_acts_drain_toppar
    | rule disjI2, rule disjI2, erule eos_runs_D [rotated], (intro eos_runs_intros eos_runs_set_fatal; simp))+

lemma step_acts: "eos_step e rk rk' \<Longrightarrow> closed_ok rk \<Longrightarrow> eos_acts UNIV e rk rk'"
  using step_cases_acts step_op_acts step_pid_acts eos_acts_mono [OF _ subset_UNIV] by metis

section \<open>Reachable states\<close>

lemma start_acts:
  assumes "rd_kafka_thread_main_start e (rd_kafka_calloc RD_KAFKA_PRODUCER conf) = Some rk"
  obtains p where "eos_acts P e ((rd_kafka_calloc RD_KAFKA_PRODUCER conf)\<lparr>pid := p\<rparr>) rk"
proof -
  let ?rk0 = "rd_kafka_calloc RD_KAFKA_PRODUCER conf"
  let ?rk1 = "?rk0\<lparr>pid := rd_kafka_pid_reset (pid ?rk0)\<rparr>"
  have same: "?rk0\<lparr>inflight_toppar_cnt := 0, pid := rd_kafka_pid_reset (pid ?rk0)\<rparr> = ?rk1"
    "rd_kafka_txns_init ?rk1 = ?rk1" "?rk0\<lparr>pid := pid ?rk0\<rparr> = ?rk0"
    by (simp_all add: rd_kafka_calloc_def rd_kafka_txns_init_def)
  have "rk = ?rk0 \<or> rk = ?rk1 \<or> rd_kafka_idemp_start e ?rk1 False = Some rk"
    using assms
    by (auto simp: rd_kafka_thread_main_start_def rd_kafka_idemp_init_def Let_def same split: if_splits)
  moreover have "eos_runs P e ?rk1 (rd_kafka_idemp_start e ?rk1 False)"
    by (intro eos_runs_intros)
  ultimately show ?thesis using that [of "pid ?rk0"] that [of "rd_kafka_pid_reset (pid ?rk0)"]
    by (auto simp: same(3) dest: eos_runs_D)
qed

text \<open>The number of requests is one of the invariants, which the steps themselves rely on.\<close>

lemma calloc_closed_ok: "closed_ok ((rd_kafka_calloc type conf)\<lparr>pid := p\<rparr>)"
  by (simp add: closed_ok_def rd_kafka_calloc_def)

lemma reachable_closed_ok: "eos_reachable conf rk \<Longrightarrow> closed_ok rk"
proof (induction rule: eos_reachable.induct)
  case (reach_start e rk)
  then show ?case using closed.acts_preserve calloc_closed_ok by (metis start_acts)
next
  case (reach_step rk e rk')
  then show ?case using closed.acts_preserve step_acts by blast
qed

text \<open>An invariant of the actions that holds initially holds in every reachable state.\<close>

locale eos_safety = eos_invariant UNIV "\<lambda>e. 0 < ev_clock e" I
  for I :: "rd_kafka_t \<Rightarrow> bool" +
  fixes conf :: rd_kafka_conf_t
  assumes start_inv: "I ((rd_kafka_calloc RD_KAFKA_PRODUCER conf)\<lparr>pid := p\<rparr>)"
begin

lemma reachable_inv: "eos_reachable conf rk \<Longrightarrow> I rk"
proof (induction rule: eos_reachable.induct)
  case (reach_start e rk)
  then show ?case by (metis start_acts start_inv acts_preserve)
next
  case (reach_step rk e rk')
  then show ?case using step_acts [OF _ reachable_closed_ok] acts_preserve by blast
qed

end

interpretation lists_safe: eos_safety lists_ok conf for conf
  by unfold_locales (rule act_lists_ok, simp_all add: lists_ok_def rd_kafka_calloc_def by_topic_def)

interpretation timers_safe: eos_safety rk_timers_ok conf for conf
  by unfold_locales
    (rule act_timers_ok, simp_all add: rk_timers_ok_def rd_kafka_calloc_def timers_ok_init
      rd_kafka_timers_init_def timer_defs timers_ok_def)

interpretation path_safe: eos_safety
  "\<lambda>rk. txn_evolves (rd_kafka_calloc RD_KAFKA_PRODUCER conf) rk" conf for conf
  by unfold_locales (rule txn_path.monotone.act_preserves, simp_all add: txn_evolves_same)

interpretation conf_safe: eos_safety
  "\<lambda>rk. fatal_evolves (rd_kafka_calloc RD_KAFKA_PRODUCER conf) rk" conf for conf
  by unfold_locales (rule fatal.monotone.act_preserves, simp_all add: fatal_evolves_same)

text \<open>An assigned producer id is valid.\<close>

definition pid_ok :: "rd_kafka_t \<Rightarrow> bool" where
  "pid_ok rk \<longleftrightarrow> (idemp_state rk = IDEMP_STATE_ASSIGNED \<longrightarrow> rd_kafka_pid_valid (pid rk))"

interpretation pid_safe: eos_safety pid_ok conf for conf
  by unfold_locales
    (auto dest!: act_pid_evolves simp: pid_ok_def pid_evolves_def rd_kafka_calloc_def)

text \<open>What a reachable state satisfies, in one place.\<close>

lemma reachable_facts:
  assumes "eos_reachable conf rk"
  shows "txn_trans\<^sup>*\<^sup>* TXN_STATE_INIT (txn_state rk)"
    "txn_may_enq rk \<longleftrightarrow> txn_state rk = TXN_STATE_IN_TRANSACTION"
    "rk_conf rk = conf" "rk_type rk = RD_KAFKA_PRODUCER" "closed_ok rk" "lists_ok rk" "rk_timers_ok rk" "pid_ok rk"
  using path_safe.reachable_inv [OF assms] conf_safe.reachable_inv [OF assms] reachable_closed_ok [OF assms]
    lists_safe.reachable_inv [OF assms] timers_safe.reachable_inv [OF assms] pid_safe.reachable_inv [OF assms]
  by (simp_all add: txn_evolves_def fatal_evolves_def rd_kafka_calloc_def)

end
