(* ===== verification/Eos_Dispatch.thy ===== *)
theory Eos_Dispatch
  imports Eos_System
begin

text \<open>
  The timers of a transactional producer under the dispatcher of
  \<open>src/src/rdkafka_timer.c\<close>: its callbacks meet the contract
  \<open>rd_timer_callbacks\<close>, so a run of the timers never aborts and leaves no timer due.
\<close>

section \<open>The callbacks never abort\<close>

lemma set_state_fatal_total [rd_total]: "rd_kafka_txn_set_state rk TXN_STATE_FATAL_ERROR \<noteq> None"
  by (simp add: rd_kafka_txn_set_state_def Let_def)

lemma txn_set_fatal_error_total [rd_total]: "rd_kafka_txn_set_fatal_error rk err \<noteq> None"
  unfolding rd_kafka_txn_set_fatal_error_def Let_def by (intro rd_total)

lemma idemp_set_state_total [rd_total]: "rd_kafka_idemp_set_state e rk s \<noteq> None"
proof -
  have "rd_kafka_txn_idemp_state_change rk s \<noteq> None" for rk s
    by (auto simp: rd_kafka_txn_idemp_state_change_def rd_kafka_txn_set_state_def Let_def)
  then show ?thesis by (simp add: idemp_set_state_unfold Let_def)
qed

lemma check_error_total [rd_total]: "rd_kafka_idemp_check_error e rk err is_fatal \<noteq> None"
  unfolding rd_kafka_idemp_check_error_def Let_def by (intro rd_total)

lemma coord_timer_start_total [rd_total]:
  "rd_kafka_is_transactional rk \<Longrightarrow> rd_kafka_txn_coord_timer_start e rk ms \<noteq> None"
  by (simp add: rd_kafka_txn_coord_timer_start_def)

lemma acts_transactional:
  "eos_acts UNIV e rk rk' \<Longrightarrow> rd_kafka_is_transactional rk' = rd_kafka_is_transactional rk"
  using fatal.acts_evolve [of UNIV e rk rk'] by (auto simp: fatal_evolves_def rd_kafka_is_transactional_def)

lemma check_error_transactional:
  "rd_kafka_idemp_check_error e rk err is_fatal = Some (r, rk') \<Longrightarrow>
     rd_kafka_is_transactional rk' = rd_kafka_is_transactional rk"
  using acts_transactional [OF eos_runs_D [OF eos_runs_check_error [OF eos_acts_refl]], of e rk err is_fatal rk']
  by simp

lemma broker_any_transactional:
  "rd_kafka_idemp_broker_any e rk = (r, rk') \<Longrightarrow> rd_kafka_is_transactional rk' = rd_kafka_is_transactional rk"
  by (auto simp: rd_kafka_idemp_broker_any_def rd_kafka_broker_keep_def rd_kafka_is_transactional_def
      split: option.splits if_splits)

lemma FindCoordinatorRequest_transactional:
  "rd_kafka_FindCoordinatorRequest e rkb ct key rk = (err, rk') \<Longrightarrow>
     rd_kafka_is_transactional (rd_kafka_broker_destroy b rk') = rd_kafka_is_transactional rk"
  by (auto simp: rd_kafka_FindCoordinatorRequest_def rd_send_def rd_kafka_broker_destroy_def
      rd_kafka_is_transactional_def Let_def split: if_splits)

lemma coord_query_total [rd_total]:
  assumes "rd_kafka_is_transactional rk"
  shows "rd_kafka_txn_coord_query e rk \<noteq> None"
  unfolding rd_kafka_txn_coord_query_def Let_def
  by (intro rd_total)
     (use assms check_error_transactional broker_any_transactional
        FindCoordinatorRequest_transactional in \<open>metis (full_types)\<close>)+

lemma request_pid_total [rd_total]: "rd_kafka_idemp_request_pid e rk rkb \<noteq> None"
  unfolding rd_kafka_idemp_request_pid_def Let_def by (intro rd_total)

lemma wait_transport_total [rd_total]: "rd_kafka_idemp_wait_transport e rk \<noteq> None"
  unfolding rd_kafka_idemp_wait_transport_def Let_def by (intro rd_total)

lemma pid_fsm_total [rd_total]: "rd_kafka_idemp_pid_fsm e rk \<noteq> None"
proof (cases "rd_kafka_fatal_error_code rk = 0")
  case True
  have "Option.bind (rd_kafka_idemp_set_state e rk IDEMP_STATE_WAIT_TRANSPORT)
      (rd_kafka_idemp_wait_transport e) \<noteq> None"
    "rd_kafka_is_transactional rk \<Longrightarrow> map_option snd (rd_kafka_txn_coord_query e rk) \<noteq> None"
    by (intro rd_total; assumption)+
  then show ?thesis using True wait_transport_total [of e rk]
    by (auto simp: rd_kafka_idemp_pid_fsm_def pid_fsm_redo_unfold split: rd_kafka_idemp_state_t.splits)
qed (simp add: rd_kafka_idemp_pid_fsm_def)

lemma idemp_start_total [rd_total]: "rd_kafka_idemp_start e rk i \<noteq> None"
  unfolding rd_kafka_idemp_start_def Let_def by (intro rd_total)

lemma drain_done_total [rd_total]: "rd_kafka_idemp_drain_done e rk \<noteq> None"
  unfolding rd_kafka_idemp_drain_done_def Let_def by (intro rd_total)

lemma check_drain_done_total [rd_total]: "rd_kafka_idemp_check_drain_done e rk \<noteq> None"
  unfolding rd_kafka_idemp_check_drain_done_def by (intro rd_total)

lemma drain_bump_total [rd_total]: "rd_kafka_idemp_drain_epoch_bump0 e rk False err \<noteq> None"
  unfolding rd_kafka_idemp_drain_epoch_bump0_def Let_def simp_thms if_False by (intro rd_total)

lemma timer_call_total:
  "rd_kafka_is_transactional rk \<Longrightarrow> eos_timer_call e rk cb \<noteq> None"
  using coord_query_total [of rk e] pid_fsm_total [of e rk]
  by (cases cb) (auto simp: rd_kafka_idemp_pid_timer_cb_def rd_kafka_txn_coord_timer_cb_def)

section \<open>What a callback starts is not due\<close>

lemma due_start0:
  assumes "timers_ok rkts" "now \<le> clk" "0 < clk" "0 \<le> us"
  shows "timers_due now (rd_kafka_timer_start0 clk rkts t us True restart cb) \<subseteq> timers_due now rkts"
  using assms timers_ok_start0 [OF assms(1,3,4), of t True restart cb]
  by (auto simp: timers_due_def start0_tmr timers_ok_def rd_kafka_timer_scheduled_def
      split: if_splits)

lemma act_due:
  assumes "eos_act P e rk rk'" "0 < now \<and> now \<le> ev_clock e"
    "timers_ok (rk_timers rk) \<and> timers_due now (rk_timers rk) \<subseteq> D"
  shows "timers_ok (rk_timers rk') \<and> timers_due now (rk_timers rk') \<subseteq> D"
  using assms
proof (induction rule: eos_act.induct)
  case (act_timer_start us rk t restart cb)
  then show ?case using due_start0 [of "rk_timers rk" now "ev_clock e" us t restart cb]
      timers_ok_start0 [of "rk_timers rk" "ev_clock e" us t True restart cb] by auto
next
  case (act_timer_stop rk t)
  then have "t \<notin> set (remove1 t (rkts_timers (rk_timers rk)))" by (simp add: timers_ok_def)
  then show ?case using act_timer_stop timers_ok_stop [of "rk_timers rk" t]
    by (auto simp: stop_tmr stop_timers timers_due_def split: if_splits dest: notin_set_remove1)
next
  case (act_timer_fire rk t)
  then have "timers_ok (rk_timers rk)" by simp
  then have "t \<notin> set (remove1 t (rkts_timers (rk_timers rk)))" by (simp add: timers_ok_def)
  then show ?case using act_timer_fire timers_ok_unschedule [of "rk_timers rk" t]
    by (auto simp: timers_due_def rd_kafka_timer_scheduled_def intro!: timers_ok_upd_unscheduled
        split: if_splits dest: notin_set_remove1)
next
  case (act_complete rk rk')
  then show ?case using set_state_frame [of "txn_cleared rk"] by (simp add: txn_complete_eq txn_frame_def)
next
  case (act_end c rk v rk')
  from set_state_frame [OF act_end.hyps(6)] act_end.prems show ?case by (simp add: txn_frame_def rd_send_def)
qed (auto simp: partition_registered_sel rd_fx_def rd_send_def txn_frame_def register_partitions_eq
      dest!: set_state_frame idemp_set_state_frame)

interpretation due: eos_invariant P "\<lambda>e. 0 < now \<and> now \<le> ev_clock e"
  "\<lambda>rk. timers_ok (rk_timers rk) \<and> timers_due now (rk_timers rk) \<subseteq> D" for P now D
  by unfold_locales (rule act_due)

section \<open>The dispatcher\<close>

text \<open>A callback of the producer reads the clock once; the rest \<open>'w\<close> of the
  dispatcher's state is the instance, whose timers are the ones dispatched.\<close>

definition eos_disp_call ::
  "rd_env \<Rightarrow> (nat \<Rightarrow> int) \<Rightarrow> eos_timer_cb \<Rightarrow> (eos_timer, eos_timer_cb, rd_kafka_t) rd_disp \<Rightarrow>
   (eos_timer, eos_timer_cb, rd_kafka_t) rd_disp option" where
  "eos_disp_call e clk cb st =
     (let (n, rkts, rk) = st
      in map_option (\<lambda>rk'. (n + 1, rk_timers rk', rk'))
           (eos_timer_call (e\<lparr>ev_clock := clk n\<rparr>) (rk\<lparr>rk_timers := rkts\<rparr>) cb))"

interpretation eosdisp: rd_timer_callbacks "eos_disp_call e" rd_kafka_is_transactional for e
proof
  fix now :: int and n :: nat and clk :: "nat \<Rightarrow> int" and w :: rd_kafka_t and rkts cb
  let ?e = "e\<lparr>ev_clock := clk n\<rparr>" and ?rk = "w\<lparr>rk_timers := rkts\<rparr>"
  assume a: "0 < now" "\<forall>m \<ge> n. now \<le> clk m" "rd_kafka_is_transactional w" "timers_ok rkts"
  have tr: "rd_kafka_is_transactional ?rk" using a(3) by (simp add: rd_kafka_is_transactional_def)
  from timer_call_total [OF this] obtain rk' where c: "eos_timer_call ?e ?rk cb = Some rk'" by blast
  have acts: "eos_acts UNIV ?e ?rk rk'"
    by (rule eos_runs_D [OF _ c]) (intro eos_runs_intros, simp_all)
  have "timers_ok (rk_timers rk') \<and> timers_due now (rk_timers rk') \<subseteq> timers_due now rkts"
    by (rule due.acts_preserve [OF _ acts]) (use a in simp_all)
  moreover have "rd_kafka_is_transactional rk'" using acts_transactional [OF acts] tr by simp
  ultimately show "\<exists>n' rkts' w'. eos_disp_call e clk cb (n, rkts, w) = Some (n', rkts', w') \<and> n \<le> n' \<and>
      rd_kafka_is_transactional w' \<and> timers_ok rkts' \<and> timers_due now rkts' \<subseteq> timers_due now rkts"
    using c by (auto simp: eos_disp_call_def)
qed

end
