(* ===== verification/Eos_Exec.thy ===== *)
theory Eos_Exec
  imports Eos_Dispatch
begin

text \<open>
  An executable form of the step relation of \<open>Eos_System\<close>: an input names the step and
  what the rest of the library supplies, and a run is a list of inputs. Every run is a
  path of reachable states. A sample run takes a transactional producer from its
  creation through one committed transaction.
\<close>

section \<open>Inputs\<close>

datatype eos_input =
    In_op bool
  | In_purge
  | In_timer eos_timer
  | In_AddPartitions rd_kafka_resp_err_t
      "(string \<times> (int \<times> rd_kafka_resp_err_t) list) list \<times> rd_kafka_resp_err_t option"
  | In_EndTxn rd_kafka_resp_err_t "rd_kafka_resp_err_t + rd_kafka_resp_err_t"
  | In_InitProducerId rd_kafka_resp_err_t
      "rd_kafka_resp_err_t + (rd_kafka_resp_err_t \<times> (rd_kafka_resp_err_t + rd_kafka_pid_t))"
  | In_FindCoordinator rd_kafka_resp_err_t
      "rd_kafka_resp_err_t + (rd_kafka_resp_err_t \<times> (rd_kafka_resp_err_t + int))"
  | In_produce toppar
  | In_dr_fails nat
  | In_fatal rd_kafka_resp_err_t
  | In_abortable rd_kafka_resp_err_t bool
  | In_api_begin string int
  | In_req txn_op
  | In_req_finish
  | In_api_return bool "rd_kafka_error_t option"

text \<open>The last request of a kind, which a response answers.\<close>

fun is_AddPartitions :: "rd_broker \<times> eos_req \<Rightarrow> bool" where
  "is_AddPartitions (b, REQ_AddPartitionsToTxn v i p ts) = True"
| "is_AddPartitions _ = False"

fun is_EndTxn :: "rd_broker \<times> eos_req \<Rightarrow> bool" where
  "is_EndTxn (b, REQ_EndTxn v i p c) = True"
| "is_EndTxn _ = False"

fun is_InitPid :: "rd_broker \<times> eos_req \<Rightarrow> bool" where
  "is_InitPid (b, REQ_InitProducerId v i ms q) = True"
| "is_InitPid _ = False"

fun is_FindCoord :: "rd_broker \<times> eos_req \<Rightarrow> bool" where
  "is_FindCoord (b, REQ_FindCoordinator v k ct) = True"
| "is_FindCoord _ = False"

definition last_req :: "(rd_broker \<times> eos_req \<Rightarrow> bool) \<Rightarrow> rd_kafka_t \<Rightarrow> (rd_broker \<times> eos_req) option" where
  "last_req f rk = (case filter f (rk_reqs rk) of [] \<Rightarrow> None | r # rs \<Rightarrow> Some (last (r # rs)))"

fun eos_do :: "rd_env \<Rightarrow> eos_input \<Rightarrow> rd_kafka_t \<Rightarrow> rd_kafka_t option" where
  "eos_do e (In_op destroy) rk =
     (case rk_ops rk of
        RK_OP_TXN rko # ops \<Rightarrow> rd_kafka_txn_op_serve e (rk\<lparr>rk_ops := ops\<rparr>) rko destroy
      | _ \<Rightarrow> None)"
| "eos_do e In_purge rk =
     (case rk_ops rk of
        RK_OP_PURGE fl # ops \<Rightarrow> Some (rd_fx (FX_PURGE fl) (rk\<lparr>rk_ops := ops\<rparr>))
      | _ \<Rightarrow> None)"
| "eos_do e (In_timer t) rk =
     (if t \<in> set (rkts_timers (rk_timers rk)) \<and> rtmr_next (rkts_tmr (rk_timers rk) t) \<le> ev_clock e
      then case rtmr_callback (rkts_tmr (rk_timers rk) t) of
             Some cb \<Rightarrow> eos_timer_call e (eos_timer_fired t rk) cb
           | None \<Rightarrow> None
      else None)"
| "eos_do e (In_AddPartitions err rkbuf) rk =
     (case last_req is_AddPartitions rk of
        Some r \<Rightarrow> rd_kafka_txn_handle_AddPartitionsToTxn e rk err rkbuf | None \<Rightarrow> None)"
| "eos_do e (In_EndTxn err rkbuf) rk =
     (case last_req is_EndTxn rk of
        Some (b, REQ_EndTxn v i p c) \<Rightarrow> rd_kafka_txn_handle_EndTxn e rk err rkbuf (REQ_EndTxn v i p c) c
      | _ \<Rightarrow> None)"
| "eos_do e (In_InitProducerId err rkbuf) rk =
     (case last_req is_InitPid rk of
        Some r \<Rightarrow> rd_kafka_handle_InitProducerId e rk err rkbuf | None \<Rightarrow> None)"
| "eos_do e (In_FindCoordinator err rkbuf) rk =
     (case last_req is_FindCoord rk of
        Some (b, r) \<Rightarrow> rd_kafka_txn_handle_FindCoordinator e rk b err rkbuf | None \<Rightarrow> None)"
| "eos_do e (In_produce rktp) rk =
     (if rd_kafka_is_transactional rk then Some (rd_kafka_txn_add_partition e rk rktp) else None)"
| "eos_do e (In_dr_fails n) rk = Some (rk\<lparr>txn_dr_fails := txn_dr_fails rk + int n\<rparr>)"
| "eos_do e (In_fatal err) rk = rd_kafka_idemp_set_fatal_error rk err"
| "eos_do e (In_abortable err bump) rk =
     (if rd_kafka_is_transactional rk then rd_kafka_txn_set_abortable_error0 rk err bump else None)"
| "eos_do e (In_api_begin name ms) rk =
     map_option (\<lambda>(er, abs_timeout, rk). rk) (rd_kafka_txn_curr_api_begin e rk name False ms True)"
| "eos_do e (In_req rko) rk =
     (case txn_op_req_start e rk rko of
        Some (Inl (er, rk')) \<Rightarrow> Some rk' | Some (Inr rk') \<Rightarrow> Some rk' | None \<Rightarrow> None)"
| "eos_do e In_req_finish rk = Some (snd (txn_op_req_finish rk))"
| "eos_do e (In_api_return resumable er) rk = map_option snd (rd_kafka_txn_curr_api_return rk resumable er)"

fun eos_run :: "(rd_env \<times> eos_input) list \<Rightarrow> rd_kafka_t \<Rightarrow> rd_kafka_t option" where
  "eos_run [] rk = Some rk"
| "eos_run ((e, i) # is) rk = (if 0 < ev_clock e then Option.bind (eos_do e i rk) (eos_run is) else None)"

definition eos_exec :: "rd_kafka_conf_t \<Rightarrow> rd_env \<Rightarrow> (rd_env \<times> eos_input) list \<Rightarrow> rd_kafka_t option" where
  "eos_exec conf e is =
     (if 0 < ev_clock e
      then Option.bind (rd_kafka_thread_main_start e (rd_kafka_calloc RD_KAFKA_PRODUCER conf)) (eos_run is)
      else None)"

section \<open>A run is a path of reachable states\<close>

lemma last_req_in:
  assumes "last_req f rk = Some r"
  shows "r \<in> set (rk_reqs rk) \<and> f r"
proof -
  obtain x xs where "filter f (rk_reqs rk) = x # xs" "r = last (x # xs)"
    using assms by (auto simp: last_req_def split: list.splits)
  then have "r \<in> set (filter f (rk_reqs rk))" by (metis last_in_set list.distinct(1))
  then show ?thesis by simp
qed

lemma eos_do_step: "eos_do e i rk = Some rk' \<Longrightarrow> eos_step e rk rk'"
proof (cases i)
  case (In_AddPartitions err rkbuf)
  assume "eos_do e i rk = Some rk'"
  then obtain r where "last_req is_AddPartitions rk = Some r"
      "rd_kafka_txn_handle_AddPartitionsToTxn e rk err rkbuf = Some rk'"
    using In_AddPartitions by (auto split: option.splits)
  then show ?thesis using last_req_in [of is_AddPartitions rk r]
    by (cases r rule: is_AddPartitions.cases) (auto intro: step_AddPartitions)
next
  case (In_InitProducerId err rkbuf)
  assume "eos_do e i rk = Some rk'"
  then obtain r where "last_req is_InitPid rk = Some r" "rd_kafka_handle_InitProducerId e rk err rkbuf = Some rk'"
    using In_InitProducerId by (auto split: option.splits)
  then show ?thesis using last_req_in [of is_InitPid rk r]
    by (cases r rule: is_InitPid.cases) (auto intro: step_InitProducerId)
next
  case (In_FindCoordinator err rkbuf)
  assume "eos_do e i rk = Some rk'"
  then obtain b r where "last_req is_FindCoord rk = Some (b, r)"
      "rd_kafka_txn_handle_FindCoordinator e rk b err rkbuf = Some rk'"
    using In_FindCoordinator by (auto split: option.splits)
  then show ?thesis using last_req_in [of is_FindCoord rk "(b, r)"]
    by (cases "(b, r)" rule: is_FindCoord.cases) (auto intro: step_FindCoordinator)
next
  case (In_EndTxn err rkbuf)
  assume "eos_do e i rk = Some rk'"
  then obtain b v i' p c where "last_req is_EndTxn rk = Some (b, REQ_EndTxn v i' p c)"
      "rd_kafka_txn_handle_EndTxn e rk err rkbuf (REQ_EndTxn v i' p c) c = Some rk'"
    using In_EndTxn by (auto split: option.splits eos_req.splits prod.splits)
  then show ?thesis using last_req_in [of is_EndTxn rk] by (blast intro: step_EndTxn)
next
  case (In_timer t)
  assume "eos_do e i rk = Some rk'"
  then show ?thesis using In_timer
    by (auto split: if_splits option.splits simp: timers_due_def intro: step_timer)
qed (auto intro: eos_step.intros split: list.splits rk_op.splits if_splits option.splits sum.splits)

lemma eos_run_reachable: "eos_reachable conf rk \<Longrightarrow> eos_run is rk = Some rk' \<Longrightarrow> eos_reachable conf rk'"
proof (induction "is" arbitrary: rk)
  case (Cons ei "is")
  obtain e i where ei: "ei = (e, i)" by fastforce
  then obtain rk1 where "0 < ev_clock e" "eos_do e i rk = Some rk1" "eos_run is rk1 = Some rk'"
    using Cons.prems(2) by (auto split: if_splits simp: bind_eq_Some_conv)
  then show ?case using Cons.IH Cons.prems(1) reach_step eos_do_step by blast
qed simp

lemma eos_exec_reachable: "eos_exec conf e is = Some rk \<Longrightarrow> eos_reachable conf rk"
  unfolding eos_exec_def
  by (auto simp: bind_eq_Some_conv split: if_splits intro: eos_run_reachable [OF reach_start])

section \<open>A sample run\<close>

definition ex_conf :: rd_kafka_conf_t where
  "ex_conf = \<lparr>cf_transactional_id = Some ''tid'', cf_transaction_timeout_ms = 60000,
     cf_socket_timeout_ms = 60000, cf_idempotence = True, cf_group_instance_id = None,
     cf_group_protocol_consumer = False, cf_has_cgrp = False\<rparr>"

text \<open>All brokers are up, learned and support the newest version of every request.\<close>

definition ex_env :: "int \<Rightarrow> rd_env" where
  "ex_env clock = \<lparr>ev_clock = clock, ev_terminating = False, ev_any_up = Some (BROKER 1),
     ev_up_cnt = 1, ev_broker_is_up = (\<lambda>_. True), ev_find_by_nodeid = (\<lambda>i. Some (BROKER i)),
     ev_learned = (\<lambda>_. True), ev_termination_in_progress = (\<lambda>_. False),
     ev_ApiVersion_supported = (\<lambda>_ _ _ maxver. maxver), ev_buf_retry = True,
     ev_ops_enabled = True, ev_toppar_known = (\<lambda>_. True)\<rparr>"

abbreviation ex_pid :: rd_kafka_pid_t where
  "ex_pid \<equiv> \<lparr>pid_id = 4000, pid_epoch = 0\<rparr>"

text \<open>An API call that hands over one op and returns its result.\<close>

definition ex_call :: "txn_op \<Rightarrow> (rd_env \<times> eos_input) list" where
  "ex_call rko = map (Pair (ex_env 1000000)) [In_req rko, In_op False, In_req_finish]"

definition ex_init :: "(rd_env \<times> eos_input) list" where
  "ex_init =
     [(ex_env 1000000, In_api_begin ''init_transactions'' 10000),
      (ex_env 1000000, In_req OP_init_transactions),
      (ex_env 1000000, In_op False),
      (ex_env 2000000, In_timer PID_TMR),
      (ex_env 2000000, In_FindCoordinator 0 (Inr (0, Inr 1))),
      (ex_env 2000000, In_InitProducerId 0 (Inr (0, Inr ex_pid))),
      (ex_env 2000000, In_req_finish)] @
     ex_call OP_ack_init_transactions @ [(ex_env 2000000, In_api_return False None)]"

definition ex_begin :: "(rd_env \<times> eos_input) list" where
  "ex_begin = (ex_env 2000000, In_api_begin ''begin_transaction'' 0) # ex_call OP_begin_transaction @
     [(ex_env 2000000, In_api_return False None)]"

definition ex_produce :: "(rd_env \<times> eos_input) list" where
  "ex_produce =
     [(ex_env 2000000, In_produce (''b'', 0)), (ex_env 2000000, In_produce (''a'', 1)),
      (ex_env 2000000, In_produce (''b'', 2)), (ex_env 3000000, In_timer TXN_REGISTER_PARTS_TMR)]"

definition ex_registered :: "(rd_env \<times> eos_input) list" where
  "ex_registered =
     [(ex_env 3000000, In_AddPartitions 0
        ([(''a'', [(1, 0)]), (''b'', [(0, 0), (2, 0)])], None))]"

definition ex_begin_commit :: "(rd_env \<times> eos_input) list" where
  "ex_begin_commit = (ex_env 3000000, In_api_begin ''commit_transaction'' 10000) # ex_call OP_begin_commit"

definition ex_commit :: "(rd_env \<times> eos_input) list" where
  "ex_commit =
     [(ex_env 3000000, In_req OP_commit_transaction), (ex_env 3000000, In_op False),
      (ex_env 3000000, In_EndTxn 0 (Inr 0)), (ex_env 3000000, In_req_finish)] @
     ex_call OP_commit_transaction_ack @ [(ex_env 3000000, In_api_return False None)]"

abbreviation ex_at :: "(rd_env \<times> eos_input) list \<Rightarrow> rd_kafka_t option" where
  "ex_at is \<equiv> eos_exec ex_conf (ex_env 1) is"

text \<open>What is evaluated of a state or a step of the sample run.\<close>

definition ex_check :: "(rd_env \<times> eos_input) list \<Rightarrow> (rd_kafka_t \<Rightarrow> bool) \<Rightarrow> bool" where
  "ex_check is Q = (case ex_at is of None \<Rightarrow> False | Some rk \<Rightarrow> Q rk)"

definition ex_check_step ::
  "(rd_env \<times> eos_input) list \<Rightarrow> rd_env \<Rightarrow> eos_input \<Rightarrow> (rd_kafka_t \<Rightarrow> rd_kafka_t \<Rightarrow> bool) \<Rightarrow> bool" where
  "ex_check_step is e i Q =
     ex_check is (\<lambda>rk. case eos_do e i rk of None \<Rightarrow> False | Some rk' \<Rightarrow> Q rk rk')"

lemma ex_checkE:
  assumes "ex_check is Q"
  obtains rk where "ex_at is = Some rk" "eos_reachable ex_conf rk" "Q rk"
  using assms that eos_exec_reachable by (auto simp: ex_check_def split: option.splits)

lemma ex_check_stepE:
  assumes "ex_check_step is e i Q"
  obtains rk rk' where "ex_at is = Some rk" "eos_reachable ex_conf rk" "eos_do e i rk = Some rk'" "Q rk rk'"
proof -
  from assms obtain rk where rk: "ex_at is = Some rk" "eos_reachable ex_conf rk"
      "case eos_do e i rk of None \<Rightarrow> False | Some rk' \<Rightarrow> Q rk rk'"
    unfolding ex_check_step_def by (rule ex_checkE)
  then show ?thesis using that by (cases "eos_do e i rk") simp_all
qed

end
