(* ===== verification/Eos_Theorems.thy ===== *)
theory Eos_Theorems
  imports Eos_Exec
begin

text \<open>
  What holds of the exactly-once producer in every reachable state and on every step,
  whatever the application, the brokers and the timers do.
\<close>

section \<open>The transaction state machine\<close>

text \<open>C1: whatever happens, one step of the producer moves the transaction state only along
  transitions that \<open>rd_kafka_txn_state_transition_is_valid\<close> allows, a fatal transaction state is
  never left, and messages may be enqueued exactly while a transaction is open.\<close>

theorem txn_state_only_valid_transitions:
  assumes "eos_reachable conf rk" "0 < ev_clock e" "eos_step e rk rk'"
  shows "(\<lambda>s s'. rd_kafka_txn_state_transition_is_valid s s' = (True, False))\<^sup>*\<^sup>* (txn_state rk) (txn_state rk') \<and>
    (txn_state rk = TXN_STATE_FATAL_ERROR \<longrightarrow> txn_state rk' = TXN_STATE_FATAL_ERROR) \<and>
    (txn_may_enq rk' \<longleftrightarrow> txn_state rk' = TXN_STATE_IN_TRANSACTION)"
proof -
  have "txn_evolves rk rk'"
    by (rule txn_path.acts_evolve [OF step_acts [OF assms(3) reachable_closed_ok [OF assms(1)]]])
  then have path: "txn_trans\<^sup>*\<^sup>* (txn_state rk) (txn_state rk')" by (simp add: txn_evolves_def)
  then have "(\<lambda>s s'. rd_kafka_txn_state_transition_is_valid s s' = (True, False))\<^sup>*\<^sup>*
      (txn_state rk) (txn_state rk')"
    by (rule rtranclp_mono [THEN predicate2D, rotated]) (auto simp: txn_trans_def)
  then show ?thesis
    using txn_trans_fatal [OF path] reachable_facts(2) [OF reach_step [OF assms]] by simp
qed

theorem txn_state_only_valid_transitions_witness:
  "\<exists>rk rk'. ex_at (ex_init @ take 2 ex_begin) = Some rk \<and> eos_do (ex_env 2000000) (In_op False) rk = Some rk' \<and>
     txn_state rk = TXN_STATE_READY \<and> txn_state rk' = TXN_STATE_IN_TRANSACTION \<and> txn_may_enq rk' \<and>
     (\<lambda>s s'. rd_kafka_txn_state_transition_is_valid s s' = (True, False))\<^sup>*\<^sup>* (txn_state rk) (txn_state rk')"
proof -
  have "ex_check_step (ex_init @ take 2 ex_begin) (ex_env 2000000) (In_op False)
     (\<lambda>rk rk'. txn_state rk = TXN_STATE_READY \<and> txn_state rk' = TXN_STATE_IN_TRANSACTION)"
    by code_simp
  then obtain rk rk' where r: "ex_at (ex_init @ take 2 ex_begin) = Some rk" "eos_reachable ex_conf rk"
      "eos_do (ex_env 2000000) (In_op False) rk = Some rk'"
      "txn_state rk = TXN_STATE_READY \<and> txn_state rk' = TXN_STATE_IN_TRANSACTION"
    by (rule ex_check_stepE)
  from txn_state_only_valid_transitions [OF r(2) _ eos_do_step [OF r(3)]] r show ?thesis
    by (auto simp: ex_env_def)
qed

section \<open>Ending a transaction\<close>

lemma acts_no_end:
  assumes "eos_acts P e rk rk'" "P_END True \<notin> P" "P_END False \<notin> P"
  shows "filter is_EndTxn (rk_reqs rk') = filter is_EndTxn (rk_reqs rk)"
proof -
  obtain rs where rs: "rk_reqs rk' = rk_reqs rk @ rs" "\<forall>r \<in> set rs. req_allowed P (snd r)"
    using reqs.acts_evolve [OF assms(1)] by (auto simp: reqs_evolve_def)
  have "\<not> is_EndTxn r" if "r \<in> set rs" for r
  proof -
    obtain b q where "r = (b, q)" by fastforce
    moreover have "req_allowed P (snd r)" using rs(2) that by blast
    ultimately show ?thesis using assms(2,3) by (cases q) (auto, metis (full_types))
  qed
  then show ?thesis using rs(1) by simp
qed

lemma op_no_end:
  assumes "rd_kafka_txn_op_serve e rk rko destroy = Some rk'" "rko \<noteq> OP_commit_transaction" "rko \<noteq> OP_abort_transaction"
  shows "filter is_EndTxn (rk_reqs rk') = filter is_EndTxn (rk_reqs rk)"
proof -
  have "eos_runs (UNIV - {P_END True, P_END False}) e rk (rd_kafka_txn_op_serve e rk rko destroy)"
    using assms(2,3) by (cases rko) (simp_all, (intro eos_runs_intros; simp)+)
  from eos_runs_D [OF this assms(1)] show ?thesis by (rule acts_no_end) simp_all
qed

lemma endtxn_complete_no_end:
  "rd_kafka_txn_endtxn_complete e rk = Some rk' \<Longrightarrow> filter is_EndTxn (rk_reqs rk') = filter is_EndTxn (rk_reqs rk)"
  by (rule acts_no_end [OF eos_runs_D [OF eos_runs_endtxn_complete [of "{P_BUMP}" e rk rk]]]) simp_all

lemma commit_done_no_end:
  "txn_op_commit_done rk er = Some rk' \<Longrightarrow> filter is_EndTxn (rk_reqs rk') = filter is_EndTxn (rk_reqs rk)"
  by (rule acts_no_end [OF eos_runs_D [OF eos_runs_commit_done [of "{}" undefined rk rk]]]) simp_all

lemma set_state_target:
  "rd_kafka_txn_set_state rk s = Some rk' \<Longrightarrow> s \<noteq> TXN_STATE_ABORTABLE_ERROR \<Longrightarrow> txn_state rk' = s \<and> rk_reqs rk' = rk_reqs rk"
  using set_state_frame [of rk s rk']
  by (cases s) (auto simp: rd_kafka_txn_set_state_def Let_def txn_frame_def split: if_splits)

text \<open>The request one op of the API sends to end the transaction.\<close>

definition end_sent :: "rd_kafka_t \<Rightarrow> rd_kafka_t \<Rightarrow> bool \<Rightarrow> bool" where
  "end_sent rk rk' c \<longleftrightarrow>
     (\<exists>v. filter is_EndTxn (rk_reqs rk') = filter is_EndTxn (rk_reqs rk) @
        [(TXN_COORD, REQ_EndTxn v (transactional_id rk) (pid rk) c)]) \<and>
     rd_kafka_pid_valid (pid rk) \<and> txn_req_cnt rk \<noteq> 0 \<and>
     (if c then txn_state rk = TXN_STATE_BEGIN_COMMIT \<and> idemp_state rk = IDEMP_STATE_ASSIGNED \<and>
        txn_dr_fails rk \<le> 0 \<and> txn_state rk' = TXN_STATE_COMMITTING_TRANSACTION
      else txn_state rk = TXN_STATE_BEGIN_ABORT \<and> txn_state rk' = TXN_STATE_ABORTING_TRANSACTION)"

lemma get_pid_valid:
  "rd_kafka_pid_valid (rd_kafka_idemp_get_pid0 rk b) \<Longrightarrow> rd_kafka_idemp_get_pid0 rk b = pid rk \<and>
     (\<not> b \<longrightarrow> idemp_state rk = IDEMP_STATE_ASSIGNED)"
  by (auto simp: rd_kafka_idemp_get_pid0_def rd_kafka_pid_valid_def RD_KAFKA_PID_INITIALIZER_def split: if_splits)

lemma EndTxnRequest_cases:
  assumes "rd_kafka_EndTxnRequest e TXN_COORD i p c rk = (err, rk1)"
  obtains "err \<noteq> 0" "rk1 = rk" | v where "err = 0" "rk1 = rd_send TXN_COORD (REQ_EndTxn v i p c) rk"
  using assms by (auto simp: rd_kafka_EndTxnRequest_def Let_def split: if_splits)

lemma op_commit_end:
  assumes "rd_kafka_txn_op_commit_transaction e rk destroy = Some rk'"
  shows "filter is_EndTxn (rk_reqs rk') = filter is_EndTxn (rk_reqs rk) \<or> end_sent rk rk' True"
proof (cases "destroy \<or> rd_kafka_txn_require_states0 rk [TXN_STATE_BEGIN_COMMIT,
    TXN_STATE_COMMITTING_TRANSACTION, TXN_STATE_COMMIT_NOT_ACKED] \<noteq> None")
  case True
  then show ?thesis using assms unfolding rd_kafka_txn_op_commit_transaction_def
    by (auto split: if_splits dest: commit_done_no_end)
next
  case False
  then have r: "rd_kafka_txn_require_states0 rk [TXN_STATE_BEGIN_COMMIT,
      TXN_STATE_COMMITTING_TRANSACTION, TXN_STATE_COMMIT_NOT_ACKED] = None" "\<not> destroy" by simp_all
  have st: "txn_state rk \<in> {TXN_STATE_BEGIN_COMMIT, TXN_STATE_COMMITTING_TRANSACTION, TXN_STATE_COMMIT_NOT_ACKED}"
    using r(1) by (simp add: require_states_None)
  let ?p = "rd_kafka_idemp_get_pid0 rk False"
  obtain err rk1 where q: "rd_kafka_EndTxnRequest e TXN_COORD (transactional_id rk) ?p True rk = (err, rk1)"
    by fastforce
  have body: "(if txn_state rk = TXN_STATE_COMMIT_NOT_ACKED then txn_op_commit_done rk None
      else if txn_state rk = TXN_STATE_COMMITTING_TRANSACTION then Some rk
      else if txn_dr_fails rk > 0
      then txn_op_commit_done rk (Some (rd_kafka_error_new_txn_requires_abort RESP_ERR__INCONSISTENT))
      else if txn_req_cnt rk = 0 then rd_kafka_txn_endtxn_complete e rk
      else if \<not> rd_kafka_pid_valid ?p
      then txn_op_commit_done rk (Some (rd_kafka_error_new_retriable RESP_ERR__STATE))
      else if err \<noteq> 0 then txn_op_commit_done rk1 (Some (rd_kafka_error_new_retriable err))
      else rd_kafka_txn_set_state rk1 TXN_STATE_COMMITTING_TRANSACTION) = Some rk'"
    using assms r by (simp only: rd_kafka_txn_op_commit_transaction_def q Let_def prod.case option.case if_False)
  from q show ?thesis
  proof (cases rule: EndTxnRequest_cases)
    case 1
    then show ?thesis using body by (auto split: if_splits dest: commit_done_no_end endtxn_complete_no_end)
  next
    case (2 v)
    then show ?thesis using body st get_pid_valid [of rk False]
      by (auto split: if_splits simp: end_sent_def rd_send_def
          dest: commit_done_no_end endtxn_complete_no_end dest!: set_state_target)
  qed
qed

lemma op_abort_end:
  assumes "rd_kafka_txn_op_abort_transaction e rk destroy = Some rk'"
  shows "filter is_EndTxn (rk_reqs rk') = filter is_EndTxn (rk_reqs rk) \<or> end_sent rk rk' False"
proof (cases "destroy \<or> rd_kafka_txn_require_states0 rk [TXN_STATE_BEGIN_ABORT,
    TXN_STATE_ABORTING_TRANSACTION, TXN_STATE_ABORT_NOT_ACKED] \<noteq> None")
  case True
  then show ?thesis using assms unfolding rd_kafka_txn_op_abort_transaction_def by (auto split: if_splits)
next
  case False
  then have r: "rd_kafka_txn_require_states0 rk [TXN_STATE_BEGIN_ABORT,
      TXN_STATE_ABORTING_TRANSACTION, TXN_STATE_ABORT_NOT_ACKED] = None" "\<not> destroy" by simp_all
  have st: "txn_state rk \<in> {TXN_STATE_BEGIN_ABORT, TXN_STATE_ABORTING_TRANSACTION, TXN_STATE_ABORT_NOT_ACKED}"
    using r(1) by (simp add: require_states_None)
  let ?p = "rd_kafka_idemp_get_pid0 rk True"
  obtain err rk1 where q: "rd_kafka_EndTxnRequest e TXN_COORD (transactional_id rk) ?p False rk = (err, rk1)"
    by fastforce
  have body: "(if txn_state rk = TXN_STATE_ABORT_NOT_ACKED
      then Some (rd_kafka_txn_curr_api_set_result rk {} None)
      else if txn_state rk = TXN_STATE_ABORTING_TRANSACTION then Some rk
      else if txn_req_cnt rk = 0 then rd_kafka_txn_endtxn_complete e rk
      else if idemp_state rk \<noteq> IDEMP_STATE_ASSIGNED \<and> idemp_state rk \<noteq> IDEMP_STATE_WAIT_TXN_ABORT then Some rk
      else if \<not> rd_kafka_pid_valid ?p
      then Some (rd_kafka_txn_curr_api_set_result rk {} (Some (rd_kafka_error_new_retriable RESP_ERR__STATE)))
      else if err \<noteq> 0
      then Some (rd_kafka_txn_curr_api_set_result rk1 {} (Some (rd_kafka_error_new_retriable err)))
      else rd_kafka_txn_set_state rk1 TXN_STATE_ABORTING_TRANSACTION) = Some rk'"
    using assms r by (simp only: rd_kafka_txn_op_abort_transaction_def q Let_def prod.case option.case if_False)
  from q show ?thesis
  proof (cases rule: EndTxnRequest_cases)
    case 1
    then show ?thesis using body by (auto split: if_splits dest: endtxn_complete_no_end)
  next
    case (2 v)
    then show ?thesis using body st get_pid_valid [of rk True]
      by (auto split: if_splits simp: end_sent_def rd_send_def
          dest: endtxn_complete_no_end dest!: set_state_target)
  qed
qed



section \<open>Partitions of the transaction\<close>

text \<open>C3: in every reachable state a partition is on at most one of the pending, waiting and
  registered lists and at most once, its flags say on which one, and the two lists that
  AddPartitionsToTxn requests are built from are sorted by topic.\<close>

theorem partition_lists_consistent:
  assumes "eos_reachable conf rk"
  shows "distinct (txn_pending_rktps rk @ txn_waitresp_rktps rk @ txn_rktps rk) \<and>
    (\<forall>rktp. (TOPPAR_F_PEND_TXN \<in> rktp_flags rk rktp \<longleftrightarrow>
        rktp \<in> set (txn_pending_rktps rk) \<union> set (txn_waitresp_rktps rk)) \<and>
      (rd_kafka_txn_toppar_may_send_msg rk rktp \<longleftrightarrow> rktp \<in> set (txn_rktps rk))) \<and>
    sorted_wrt (\<lambda>a b. rd_kafka_toppar_topic_cmp a b \<le> 0) (txn_pending_rktps rk) \<and>
    sorted_wrt (\<lambda>a b. rd_kafka_toppar_topic_cmp a b \<le> 0) (txn_waitresp_rktps rk)"
  using reachable_facts(6) [OF assms]
  by (simp add: lists_ok_def by_topic_def rd_kafka_txn_toppar_may_send_msg_def)

theorem partition_lists_consistent_witness:
  "\<exists>rk. ex_at (ex_init @ ex_begin @ ex_produce) = Some rk \<and>
     txn_waitresp_rktps rk = [(''a'', 1), (''b'', 0), (''b'', 2)] \<and>
     TOPPAR_F_PEND_TXN \<in> rktp_flags rk (''b'', 0) \<and> \<not> rd_kafka_txn_toppar_may_send_msg rk (''b'', 0)"
proof -
  have "ex_check (ex_init @ ex_begin @ ex_produce)
     (\<lambda>rk. txn_waitresp_rktps rk = [(''a'', 1), (''b'', 0), (''b'', 2)])" by code_simp
  then obtain rk where r: "ex_at (ex_init @ ex_begin @ ex_produce) = Some rk" "eos_reachable ex_conf rk"
      "txn_waitresp_rktps rk = [(''a'', 1), (''b'', 0), (''b'', 2)]" by (rule ex_checkE)
  from partition_lists_consistent [OF r(2)] r show ?thesis by auto
qed

section \<open>Producing\<close>

text \<open>C4: a transactional producer accepts a message exactly while a transaction is open and no
  fatal error was raised; the error it returns otherwise says which of the two it is.\<close>

theorem produce_only_in_transaction:
  assumes "eos_reachable conf rk" "cf_transactional_id conf \<noteq> None" "cf_idempotence conf"
  shows "fst (rd_kafka_check_produce rk) =
     (if rk_fatal_err rk \<noteq> 0 then RESP_ERR__FATAL
      else if txn_state rk = TXN_STATE_IN_TRANSACTION then RESP_ERR_NO_ERROR else RESP_ERR__STATE)"
  using reachable_facts(2,3,4) [OF assms(1)] assms(2,3)
  by (simp add: rd_kafka_check_produce_def rd_kafka_fatal_error_code_def rd_kafka_txn_may_enq_msg_def
      rd_kafka_is_transactional_def)

theorem produce_only_in_transaction_witness:
  "\<exists>rk rk'. ex_at ex_init = Some rk \<and> ex_at (ex_init @ ex_begin) = Some rk' \<and>
     fst (rd_kafka_check_produce rk) = RESP_ERR__STATE \<and> fst (rd_kafka_check_produce rk') = RESP_ERR_NO_ERROR"
proof -
  have "ex_check ex_init (\<lambda>rk. txn_state rk = TXN_STATE_READY \<and> rk_fatal_err rk = 0)" by code_simp
  then obtain rk where r: "ex_at ex_init = Some rk" "eos_reachable ex_conf rk"
      "txn_state rk = TXN_STATE_READY \<and> rk_fatal_err rk = 0" by (rule ex_checkE)
  have "ex_check (ex_init @ ex_begin) (\<lambda>rk. txn_state rk = TXN_STATE_IN_TRANSACTION \<and> rk_fatal_err rk = 0)"
    by code_simp
  then obtain rk' where r': "ex_at (ex_init @ ex_begin) = Some rk'" "eos_reachable ex_conf rk'"
      "txn_state rk' = TXN_STATE_IN_TRANSACTION \<and> rk_fatal_err rk' = 0" by (rule ex_checkE)
  from produce_only_in_transaction [OF r(2)] produce_only_in_transaction [OF r'(2)] r r' show ?thesis
    by (auto simp: ex_conf_def)
qed

section \<open>Fatal errors\<close>

text \<open>Any number of steps.\<close>

inductive eos_steps :: "rd_kafka_t \<Rightarrow> rd_kafka_t \<Rightarrow> bool" where
  steps_refl: "eos_steps rk rk"
| steps_step: "eos_steps rk rk1 \<Longrightarrow> 0 < ev_clock e \<Longrightarrow> eos_step e rk1 rk' \<Longrightarrow> eos_steps rk rk'"

lemma reachable_steps: "eos_steps rk rk' \<Longrightarrow> eos_reachable conf rk \<Longrightarrow> eos_reachable conf rk'"
  by (induction rule: eos_steps.induct) (auto intro: reach_step)

lemma steps_fatal_quiet: "eos_steps rk rk' \<Longrightarrow> eos_reachable conf rk \<Longrightarrow> fatal_quiet rk rk'"
proof (induction rule: eos_steps.induct)
  case (steps_step rk rk1 e rk')
  have "fatal_quiet rk1 rk'"
    by (rule fatal_stop.acts_evolve [OF step_acts [OF steps_step.hyps(3)
            reachable_closed_ok [OF reachable_steps [OF steps_step.hyps(1) steps_step.prems]]]])
  with steps_step show ?case using fatal_stop.evolves_trans by blast
qed (rule fatal_stop.evolves_refl)

text \<open>C5: a fatal error is for ever. Whatever happens after it, the error code stays the
  first one, every attempt to produce is refused with it, and no producer id is requested
  again.\<close>

theorem fatal_error_is_final:
  assumes "eos_reachable conf rk" "rd_kafka_fatal_error_code rk \<noteq> 0" "eos_steps rk rk'"
  shows "rd_kafka_fatal_error_code rk' = rd_kafka_fatal_error_code rk \<and>
    rd_kafka_check_produce rk' =
      (RESP_ERR__FATAL, Some (rd_kafka_error_new_fatal (rd_kafka_fatal_error_code rk))) \<and>
    filter is_InitProducerId (rk_reqs rk') = filter is_InitProducerId (rk_reqs rk)"
proof -
  have q: "fatal_quiet rk rk'" by (rule steps_fatal_quiet [OF assms(3,1)])
  then have "rd_kafka_fatal_error_code rk' = rd_kafka_fatal_error_code rk"
    using fatal_code_sticky assms(2) by (auto simp: fatal_quiet_def)
  then show ?thesis using q assms(2) by (simp add: fatal_quiet_def rd_kafka_check_produce_def)
qed

theorem fatal_error_is_final_witness:
  "\<exists>rk rk'. ex_at (ex_init @ ex_begin @ [(ex_env 2000000, In_fatal 47)]) = Some rk \<and>
     eos_do (ex_env 3000000) (In_fatal 48) rk = Some rk' \<and>
     rd_kafka_check_produce rk' = (RESP_ERR__FATAL, Some (rd_kafka_error_new_fatal 47))"
proof -
  let ?is = "ex_init @ ex_begin @ [(ex_env 2000000, In_fatal 47)]"
  have "ex_check_step ?is (ex_env 3000000) (In_fatal 48) (\<lambda>rk rk'. rd_kafka_fatal_error_code rk = 47)"
    by code_simp
  then obtain rk rk' where r: "ex_at ?is = Some rk" "eos_reachable ex_conf rk"
      "eos_do (ex_env 3000000) (In_fatal 48) rk = Some rk'" "rd_kafka_fatal_error_code rk = 47"
    by (rule ex_check_stepE)
  have "eos_steps rk rk'"
    by (rule steps_step [OF steps_refl _ eos_do_step [OF r(3)]]) (simp add: ex_env_def)
  from fatal_error_is_final [OF r(2) _ this] r show ?thesis by auto
qed

section \<open>Beginning a transaction\<close>

lemma api_result_set:
  "api_name (txn_curr_api rk) \<noteq> [] \<Longrightarrow> api_error (txn_curr_api rk) = None \<Longrightarrow>
     txn_curr_api (rd_kafka_txn_curr_api_set_result rk a er) =
       (txn_curr_api rk)\<lparr>api_has_result := True, api_error := map_option (set_error_actions a) er\<rparr>"
  by (simp add: rd_kafka_txn_curr_api_set_result_def Let_def)

text \<open>C6: in every reachable state in which the producer is ready, beginning a transaction passes
  the assertions of its handler and starts it clean: no partition may send yet, nothing was sent to
  the coordinator, no delivery has failed, no error is recorded, and messages may be enqueued.\<close>

theorem begin_transaction_starts_clean:
  assumes "eos_reachable conf rk" "txn_state rk = TXN_STATE_READY" "cf_transactional_id conf \<noteq> None"
  shows "\<exists>rk'. rd_kafka_txn_op_begin_transaction rk False = Some rk' \<and>
    txn_state rk' = TXN_STATE_IN_TRANSACTION \<and> txn_may_enq rk' \<and> txn_req_cnt rk' = 0 \<and>
    txn_dr_fails rk' = 0 \<and> txn_err rk' = 0 \<and> (\<forall>rktp. \<not> rd_kafka_txn_toppar_may_send_msg rk' rktp)"
proof -
  note f = reachable_facts [OF assms(1)]
  have c: "txn_rktps rk = []" "txn_req_cnt rk = 0" "rktp_flags rk rktp \<inter> {TOPPAR_F_IN_TXN} = {}" for rktp
    using f(5,6) assms(2) by (auto simp: closed_ok_def txn_closed_def lists_ok_def simp del: split_paired_All)
  have "rd_kafka_txn_require_states0 rk [TXN_STATE_READY] = None"
    using f(3,4) assms(2,3) by (simp add: rd_kafka_txn_require_states0_def rd_kafka_ensure_transactional_def)
  then show ?thesis using c assms(2)
    by (auto simp: rd_kafka_txn_op_begin_transaction_def rd_kafka_txn_set_state_def rd_fx_def
        rd_kafka_txn_toppar_may_send_msg_def rd_kafka_txn_curr_api_set_result_def Let_def)
qed

theorem begin_transaction_starts_clean_witness:
  "\<exists>rk rk'. ex_at ex_init = Some rk \<and> rd_kafka_txn_op_begin_transaction rk False = Some rk' \<and>
     txn_state rk' = TXN_STATE_IN_TRANSACTION \<and> txn_req_cnt rk' = 0"
proof -
  have "ex_check ex_init (\<lambda>rk. txn_state rk = TXN_STATE_READY)" by code_simp
  then obtain rk where r: "ex_at ex_init = Some rk" "eos_reachable ex_conf rk" "txn_state rk = TXN_STATE_READY"
    by (rule ex_checkE)
  from begin_transaction_starts_clean [OF r(2,3)] r(1) show ?thesis by (auto simp: ex_conf_def)
qed

section \<open>The producer id\<close>

lemma handle_InitProducerId_cases:
  assumes "rd_kafka_handle_InitProducerId e rk err rkbuf = Some rk'"
  shows "rk' = rk \<or> (\<exists>er. rd_kafka_idemp_request_pid_failed e rk er = Some rk') \<or>
    (\<exists>p. err = 0 \<and> rkbuf = Inr (0, Inr p) \<and> rd_kafka_idemp_pid_update e rk p = Some rk')"
proof -
  have fail: "rk' = rk \<or> (\<exists>er. rd_kafka_idemp_request_pid_failed e rk er = Some rk')"
    if "(if er = RESP_ERR__DESTROY then Some rk else rd_kafka_idemp_request_pid_failed e rk er) = Some rk'" for er
    using that by (cases "er = RESP_ERR__DESTROY") auto
  note d = assms [unfolded rd_kafka_handle_InitProducerId_def Let_def]
  show ?thesis
  proof (cases "err = 0")
    case e0: True
    show ?thesis
    proof (cases rkbuf)
      case (Inl er)
      then show ?thesis using fail [of er] d e0 by simp
    next
      case (Inr x)
      obtain ec rest where x: "x = (ec, rest)" by fastforce
      show ?thesis
      proof (cases "ec = 0")
        case True
        then show ?thesis using fail d e0 Inr x by (cases rest) simp_all
      next
        case False
        then show ?thesis using fail [of ec] d e0 Inr x by simp
      qed
    qed
  next
    case False
    then show ?thesis using fail [of err] d by simp
  qed
qed

lemma handle_InitProducerId_pid:
  assumes "rd_kafka_handle_InitProducerId e rk err rkbuf = Some rk'" "rd_kafka_is_transactional rk" "pid rk' \<noteq> pid rk"
  shows "idemp_state rk = IDEMP_STATE_WAIT_PID \<and> rd_kafka_pid_valid (pid rk') \<and> err = 0 \<and> rkbuf = Inr (0, Inr (pid rk'))"
proof -
  have "pid rk1 = pid rk" if "eos_acts (UNIV - {P_PID}) e rk rk1" for rk1
    using pids.acts_evolve [OF that] assms(2) by (simp add: pid_evolves_def)
  then have failed: "rd_kafka_idemp_request_pid_failed e rk er \<noteq> Some rk'" for er
    using eos_runs_D [OF eos_runs_request_pid_failed [OF eos_acts_refl]] assms(3) by blast
  from handle_InitProducerId_cases [OF assms(1)] failed assms(3) obtain p where
    3: "err = 0" "rkbuf = Inr (0, Inr p)" "rd_kafka_idemp_pid_update e rk p = Some rk'" by blast
  have u: "idemp_state rk = IDEMP_STATE_WAIT_PID" "rd_kafka_pid_valid p"
    using 3(3) assms(3) failed by (auto simp: rd_kafka_idemp_pid_update_def split: if_splits)
  then obtain rk1 where "rd_kafka_idemp_set_state e (rk\<lparr>pid := p, epoch_cnt := epoch_cnt rk + 1\<rparr>)
      IDEMP_STATE_ASSIGNED = Some rk1" "rk' = rd_fx FX_ALL_BROKERS_WAKEUP rk1"
    using 3(3) by (auto simp: rd_kafka_idemp_pid_update_def bind_eq_Some_conv Let_def)
  then have "pid rk' = p" using idemp_set_state_sel(4) by (fastforce simp: rd_fx_def)
  then show ?thesis using 3 u by simp
qed

text \<open>C7: the producer id of a transactional producer changes only while it waits for one, by a
  successful InitProducerId response that carries a valid id, and then to that id.\<close>

theorem pid_changes_only_by_response:
  assumes "eos_reachable conf rk" "eos_step e rk rk'" "cf_transactional_id conf \<noteq> None" "pid rk' \<noteq> pid rk"
  shows "idemp_state rk = IDEMP_STATE_WAIT_PID \<and> rd_kafka_pid_valid (pid rk') \<and>
    rd_kafka_handle_InitProducerId e rk 0 (Inr (0, Inr (pid rk'))) = Some rk'"
proof -
  have t: "rd_kafka_is_transactional rk"
    using reachable_facts(3) [OF assms(1)] assms(3) by (simp add: rd_kafka_is_transactional_def)
  have "\<not> eos_acts (UNIV - {P_PID}) e rk rk'"
    using pids.acts_evolve [of "UNIV - {P_PID}" e rk rk'] assms(4) t by (auto simp: pid_evolves_def)
  then have "\<exists>err rkbuf. rd_kafka_handle_InitProducerId e rk err rkbuf = Some rk'"
    using step_cases_acts [OF assms(2) reachable_closed_ok [OF assms(1)]] step_op_acts
      eos_acts_mono [of outside_perms e rk rk' "UNIV - {P_PID}"] by blast
  then show ?thesis using handle_InitProducerId_pid [OF _ t assms(4)] by metis
qed

theorem pid_changes_only_by_response_witness:
  "\<exists>rk rk'. ex_at (take 5 ex_init) = Some rk \<and>
     eos_do (ex_env 2000000) (In_InitProducerId 0 (Inr (0, Inr ex_pid))) rk = Some rk' \<and>
     idemp_state rk = IDEMP_STATE_WAIT_PID \<and> pid rk \<noteq> pid rk' \<and> rd_kafka_pid_valid (pid rk')"
proof -
  have "ex_check_step (take 5 ex_init) (ex_env 2000000) (In_InitProducerId 0 (Inr (0, Inr ex_pid)))
     (\<lambda>rk rk'. pid rk' \<noteq> pid rk)" by code_simp
  then obtain rk rk' where r: "ex_at (take 5 ex_init) = Some rk" "eos_reachable ex_conf rk"
      "eos_do (ex_env 2000000) (In_InitProducerId 0 (Inr (0, Inr ex_pid))) rk = Some rk'" "pid rk' \<noteq> pid rk"
    by (rule ex_check_stepE)
  from pid_changes_only_by_response [OF r(2) eos_do_step [OF r(3)] _ r(4)] r show ?thesis
    by (auto simp: ex_conf_def)
qed

section \<open>Refinement\<close>

text \<open>C8: every step of the detailed model, whichever handler, API call, timer or response it is,
  is a sequence of actions the abstract protocol allows; a step that is neither an op of the
  transactional API nor an InitProducerId response even without the permissions to begin,
  complete or end a transaction and to change the producer id.\<close>

theorem steps_refine_protocol:
  assumes "eos_reachable conf rk" "eos_step e rk rk'"
  shows "eos_acts UNIV e rk rk' \<and>
    (eos_acts (UNIV - {P_PID, P_BEGIN, P_COMPLETE, P_END True, P_END False}) e rk rk' \<or>
     (\<exists>rko ops destroy. rk_ops rk = RK_OP_TXN rko # ops \<and>
        rd_kafka_txn_op_serve e (rk\<lparr>rk_ops := ops\<rparr>) rko destroy = Some rk') \<or>
     (\<exists>err rkbuf. rd_kafka_handle_InitProducerId e rk err rkbuf = Some rk'))"
  using step_acts [OF assms(2) reachable_closed_ok [OF assms(1)]]
    step_cases_acts [OF assms(2) reachable_closed_ok [OF assms(1)]] by blast

theorem steps_refine_protocol_witness:
  "\<exists>rk rk'. ex_at (ex_init @ ex_begin) = Some rk \<and> eos_do (ex_env 2000000) (In_produce (''a'', 1)) rk = Some rk' \<and>
     eos_acts UNIV (ex_env 2000000) rk rk' \<and> txn_pending_rktps rk' = [(''a'', 1)]"
proof -
  have "ex_check_step (ex_init @ ex_begin) (ex_env 2000000) (In_produce (''a'', 1))
     (\<lambda>rk rk'. txn_pending_rktps rk' = [(''a'', 1)])" by code_simp
  then obtain rk rk' where r: "ex_at (ex_init @ ex_begin) = Some rk" "eos_reachable ex_conf rk"
      "eos_do (ex_env 2000000) (In_produce (''a'', 1)) rk = Some rk'" "txn_pending_rktps rk' = [(''a'', 1)]"
    by (rule ex_check_stepE)
  from steps_refine_protocol [OF r(2) eos_do_step [OF r(3)]] r show ?thesis by auto
qed

end
