(* ===== verification/Txn_Theorems.thy ===== *)
theory Txn_Theorems
  imports Eos_Theorems
begin

text \<open>
  The functional behaviour of the transaction manager: what committing and
  aborting do, how errors of the coordinator are classified, and how the transactional API
  serialises its callers.
\<close>

section \<open>Committing\<close>

text \<open>An instance the transactional operations accept, and the call in progress.\<close>

definition txn_producer :: "rd_kafka_t \<Rightarrow> bool" where
  "txn_producer rk \<longleftrightarrow> rk_type rk = RD_KAFKA_PRODUCER \<and> cf_transactional_id (rk_conf rk) \<noteq> None"

definition api_waits :: "rd_kafka_t \<Rightarrow> string \<Rightarrow> bool" where
  "api_waits rk name \<longleftrightarrow> api_name (txn_curr_api rk) = name \<and> name \<noteq> [] \<and> api_error (txn_curr_api rk) = None"

lemma require_states_producer:
  "txn_producer rk \<Longrightarrow> txn_state rk \<in> set states \<Longrightarrow> rd_kafka_txn_require_states0 rk states = None"
  by (simp add: txn_producer_def rd_kafka_txn_require_states0_def rd_kafka_ensure_transactional_def)

lemma set_state_eq:
  assumes "rd_kafka_txn_state_transition_is_valid (txn_state rk) s = (True, False)" "txn_state rk \<noteq> s"
    "txn_state rk \<noteq> TXN_STATE_IN_TRANSACTION" "s \<noteq> TXN_STATE_IN_TRANSACTION"
  shows "rd_kafka_txn_set_state rk s = Some (rk\<lparr>txn_state := s\<rparr>)"
  using assms by (simp add: rd_kafka_txn_set_state_def)

lemma op_commit_sends:
  assumes "txn_producer rk" "txn_state rk = TXN_STATE_BEGIN_COMMIT" "txn_dr_fails rk \<le> 0" "txn_req_cnt rk \<noteq> 0"
    "idemp_state rk = IDEMP_STATE_ASSIGNED" "rd_kafka_pid_valid (pid rk)"
    "ev_ApiVersion_supported e TXN_COORD API_EndTxn 0 1 \<noteq> - 1"
  shows "rd_kafka_txn_op_commit_transaction e rk False =
    Some ((rd_send TXN_COORD (REQ_EndTxn (ev_ApiVersion_supported e TXN_COORD API_EndTxn 0 1)
      (transactional_id rk) (pid rk) True) rk)\<lparr>txn_state := TXN_STATE_COMMITTING_TRANSACTION\<rparr>)"
  using assms require_states_producer [OF assms(1)]
  by (simp add: rd_kafka_txn_op_commit_transaction_def rd_kafka_idemp_get_pid0_def
      rd_kafka_EndTxnRequest_def set_state_eq rd_send_def)

lemma end_txn_success:
  assumes "txn_state rk = (if c then TXN_STATE_COMMITTING_TRANSACTION else TXN_STATE_ABORTING_TRANSACTION)"
  shows "rd_kafka_txn_handle_EndTxn e rk 0 (Inr 0) req c = rd_kafka_txn_endtxn_complete e rk"
  using assms by (simp add: rd_kafka_txn_handle_EndTxn_def end_txn_actions_def rd_kafka_txn_normalize_err_def)

lemma endtxn_complete_commit:
  assumes "txn_state rk = TXN_STATE_COMMITTING_TRANSACTION" "\<not> txn_requires_epoch_bump rk"
    "api_waits rk ''commit_transaction''"
  shows "rd_kafka_txn_endtxn_complete e rk =
    Some (rd_kafka_txn_curr_api_set_result (rk\<lparr>txn_state := TXN_STATE_COMMIT_NOT_ACKED\<rparr>) {} None)"
  using assms by (simp add: rd_kafka_txn_endtxn_complete_def api_waits_def set_state_eq)

lemma commit_ack_completes:
  assumes "txn_producer rk" "txn_state rk = TXN_STATE_COMMIT_NOT_ACKED"
  shows "rd_kafka_txn_op_commit_transaction_ack rk False =
    Some (rd_kafka_txn_curr_api_set_result ((txn_cleared rk)\<lparr>txn_state := TXN_STATE_READY\<rparr>) {} None)"
  using assms require_states_producer [OF assms(1)]
  by (simp add: rd_kafka_txn_op_commit_transaction_ack_def txn_complete_eq set_state_eq)

text \<open>C9: committing, end to end. From BEGIN_COMMIT with all messages delivered and a registered
  transaction, the commit op sends exactly one EndTxn request (a commit, for the current producer
  id); the coordinator's success completes the call with success and leaves the transaction committed
  but not acknowledged; and the acknowledgement clears the transaction and makes the producer
  ready, whatever API state it is served in.\<close>

theorem commit_end_to_end:
  assumes "txn_producer rk" "txn_state rk = TXN_STATE_BEGIN_COMMIT" "txn_dr_fails rk \<le> 0" "txn_req_cnt rk \<noteq> 0"
    "idemp_state rk = IDEMP_STATE_ASSIGNED" "rd_kafka_pid_valid (pid rk)" "\<not> txn_requires_epoch_bump rk"
    "ev_ApiVersion_supported e TXN_COORD API_EndTxn 0 1 \<noteq> - 1" "api_waits rk ''commit_transaction''"
  shows "\<exists>rk1 rk2 rk3 req.
    rd_kafka_txn_op_commit_transaction e rk False = Some rk1 \<and>
    req = REQ_EndTxn (ev_ApiVersion_supported e TXN_COORD API_EndTxn 0 1) (transactional_id rk) (pid rk) True \<and>
    rk_reqs rk1 = rk_reqs rk @ [(TXN_COORD, req)] \<and> txn_state rk1 = TXN_STATE_COMMITTING_TRANSACTION \<and>
    rd_kafka_txn_handle_EndTxn e rk1 0 (Inr 0) req True = Some rk2 \<and>
    txn_state rk2 = TXN_STATE_COMMIT_NOT_ACKED \<and> rk_reqs rk2 = rk_reqs rk1 \<and>
    fst (txn_op_req_finish rk2) = None \<and>
    rd_kafka_txn_op_commit_transaction_ack (rk2\<lparr>txn_curr_api := api\<rparr>) False = Some rk3 \<and>
    txn_state rk3 = TXN_STATE_READY \<and> txn_req_cnt rk3 = 0 \<and> rk_reqs rk3 = rk_reqs rk1 \<and>
    txn_pending_rktps rk3 = [] \<and> txn_waitresp_rktps rk3 = [] \<and> txn_rktps rk3 = []"
proof -
  let ?req = "REQ_EndTxn (ev_ApiVersion_supported e TXN_COORD API_EndTxn 0 1) (transactional_id rk) (pid rk) True"
  let ?rk1 = "(rd_send TXN_COORD ?req rk)\<lparr>txn_state := TXN_STATE_COMMITTING_TRANSACTION\<rparr>"
  let ?rk2 = "rd_kafka_txn_curr_api_set_result (?rk1\<lparr>txn_state := TXN_STATE_COMMIT_NOT_ACKED\<rparr>) {} None"
  let ?rk4 = "?rk2\<lparr>txn_curr_api := api\<rparr>"
  have 1: "rd_kafka_txn_op_commit_transaction e rk False = Some ?rk1"
    using op_commit_sends [OF assms(1-6,8)] .
  have 2: "rd_kafka_txn_handle_EndTxn e ?rk1 0 (Inr 0) ?req True = Some ?rk2"
    using assms(7,9) by (simp add: end_txn_success endtxn_complete_commit api_waits_def rd_send_def)
  have 3: "rd_kafka_txn_op_commit_transaction_ack ?rk4 False =
      Some (rd_kafka_txn_curr_api_set_result ((txn_cleared ?rk4)\<lparr>txn_state := TXN_STATE_READY\<rparr>) {} None)"
    using assms(1) by (intro commit_ack_completes) (simp_all add: txn_producer_def rd_send_def)
  have "fst (txn_op_req_finish ?rk2) = None"
    using assms(9) by (simp add: api_result_set api_waits_def txn_op_req_finish_def rd_send_def)
  then show ?thesis using 1 2 3 by (simp add: rd_send_def)
qed

text \<open>The state of the sample run just before the commit op is served.\<close>

definition ex_committing :: "rd_kafka_t option" where
  "ex_committing = ex_at (ex_init @ ex_begin @ ex_produce @ ex_registered @ ex_begin_commit)"

theorem commit_end_to_end_witness:
  "\<exists>rk rk1 rk2 rk3. ex_committing = Some rk \<and>
     rd_kafka_txn_op_commit_transaction (ex_env 3000000) rk False = Some rk1 \<and>
     rd_kafka_txn_handle_EndTxn (ex_env 3000000) rk1 0 (Inr 0) (REQ_EndTxn 1 ''tid'' ex_pid True) True = Some rk2 \<and>
     rd_kafka_txn_op_commit_transaction_ack rk2 False = Some rk3 \<and> txn_state rk3 = TXN_STATE_READY"
proof -
  let ?Q = "\<lambda>rk. txn_producer rk \<and> txn_state rk = TXN_STATE_BEGIN_COMMIT \<and> txn_dr_fails rk \<le> 0 \<and>
     txn_req_cnt rk \<noteq> 0 \<and> idemp_state rk = IDEMP_STATE_ASSIGNED \<and> rd_kafka_pid_valid (pid rk) \<and>
     \<not> txn_requires_epoch_bump rk \<and> api_waits rk ''commit_transaction'' \<and>
     transactional_id rk = ''tid'' \<and> pid rk = ex_pid"
  have "ex_check (ex_init @ ex_begin @ ex_produce @ ex_registered @ ex_begin_commit) ?Q" by code_simp
  then obtain rk where r: "ex_committing = Some rk" "?Q rk"
    unfolding ex_committing_def by (rule ex_checkE)
  have v: "ev_ApiVersion_supported (ex_env 3000000) TXN_COORD API_EndTxn 0 1 = 1" by (simp add: ex_env_def)
  from r v obtain rk1 where "rd_kafka_txn_op_commit_transaction (ex_env 3000000) rk False = Some rk1"
    using op_commit_sends [of rk "ex_env 3000000"] by auto
  moreover from r v this obtain rk2 where
      "rd_kafka_txn_handle_EndTxn (ex_env 3000000) rk1 0 (Inr 0) (REQ_EndTxn 1 ''tid'' ex_pid True) True = Some rk2"
    using commit_end_to_end [of rk "ex_env 3000000"] by fastforce
  moreover from r v calculation obtain rk3 where
      "rd_kafka_txn_op_commit_transaction_ack (rk2\<lparr>txn_curr_api := txn_curr_api rk2\<rparr>) False = Some rk3"
      "txn_state rk3 = TXN_STATE_READY"
    using commit_end_to_end [of rk "ex_env 3000000" "txn_curr_api rk2"] by auto
  ultimately show ?thesis using r by auto
qed

text \<open>C10: a transaction with failed deliveries is never committed. The commit op sends no request;
  it puts the transaction in the abortable error state with the error INCONSISTENT, purges the
  messages of the transaction and fails the call with an error that says the transaction must be
  aborted.\<close>

theorem commit_with_failed_deliveries:
  assumes "txn_producer rk" "txn_state rk = TXN_STATE_BEGIN_COMMIT" "0 < txn_dr_fails rk"
    "rk_fatal_err rk = 0" "txn_err rk = 0" "api_waits rk ''commit_transaction''"
  shows "\<exists>rk'. rd_kafka_txn_op_commit_transaction e rk False = Some rk' \<and>
    txn_state rk' = TXN_STATE_ABORTABLE_ERROR \<and> txn_err rk' = RESP_ERR__INCONSISTENT \<and>
    rk_reqs rk' = rk_reqs rk \<and>
    rk_fx rk' = rk_fx rk @ [FX_PURGE {PURGE_F_QUEUE, PURGE_F_ABORT_TXN, PURGE_F_NON_BLOCKING}] \<and>
    fst (txn_op_req_finish rk') = Some (rd_kafka_error_new_txn_requires_abort RESP_ERR__INCONSISTENT)"
proof -
  have "rd_kafka_txn_require_states0 rk [TXN_STATE_BEGIN_COMMIT,
      TXN_STATE_COMMITTING_TRANSACTION, TXN_STATE_COMMIT_NOT_ACKED] = None"
    using require_states_producer [OF assms(1)] assms(2) by simp
  then show ?thesis using assms(2-6)
    by (simp add: rd_kafka_txn_op_commit_transaction_def txn_op_commit_done_def rd_kafka_error_defs
        rd_kafka_txn_set_abortable_error0_def rd_kafka_fatal_error_def rd_kafka_txn_set_state_def Let_def
        rd_fx_def rd_kafka_txn_curr_api_set_result_def api_waits_def txn_op_req_finish_def set_error_actions_def)
qed

theorem commit_with_failed_deliveries_witness:
  "\<exists>rk rk'. ex_at (ex_init @ ex_begin @ ex_produce @ ex_registered @ (ex_env 3000000, In_dr_fails 2) # ex_begin_commit)
       = Some rk \<and>
     rd_kafka_txn_op_commit_transaction (ex_env 3000000) rk False = Some rk' \<and>
     txn_state rk' = TXN_STATE_ABORTABLE_ERROR \<and> rk_reqs rk' = rk_reqs rk"
proof -
  let ?Q = "\<lambda>rk. txn_producer rk \<and> txn_state rk = TXN_STATE_BEGIN_COMMIT \<and> 0 < txn_dr_fails rk \<and>
     rk_fatal_err rk = 0 \<and> txn_err rk = 0 \<and> api_waits rk ''commit_transaction''"
  let ?is = "ex_init @ ex_begin @ ex_produce @ ex_registered @ (ex_env 3000000, In_dr_fails 2) # ex_begin_commit"
  have "ex_check ?is ?Q" by code_simp
  then obtain rk where r: "ex_at ?is = Some rk" "?Q rk" by (rule ex_checkE)
  from commit_with_failed_deliveries [of rk "ex_env 3000000"] r show ?thesis by auto
qed

section \<open>No op handler fails an assertion\<close>

text \<open>The transitions the op handlers make, given the states they require.\<close>

lemma set_state_total:
  assumes "txn_state rk = s \<or> fst (rd_kafka_txn_state_transition_is_valid (txn_state rk) s)"
  shows "rd_kafka_txn_set_state rk s \<noteq> None"
  using assms by (auto simp: rd_kafka_txn_set_state_def Let_def split: prod.splits)

lemma abortable_error_total [rd_total]:
  assumes "txn_state rk \<in> {TXN_STATE_BEGIN_COMMIT, TXN_STATE_ABORTABLE_ERROR, TXN_STATE_IN_TRANSACTION,
    TXN_STATE_COMMITTING_TRANSACTION, TXN_STATE_BEGIN_ABORT, TXN_STATE_ABORTING_TRANSACTION, TXN_STATE_FATAL_ERROR}"
  shows "rd_kafka_txn_set_abortable_error0 rk err b \<noteq> None"
proof -
  have "rd_kafka_txn_set_state (rk1\<lparr>txn_err := err\<rparr>) TXN_STATE_ABORTABLE_ERROR \<noteq> None"
    if "txn_state rk1 = txn_state rk" for rk1
    using assms that by (intro set_state_total) auto
  then show ?thesis
    unfolding rd_kafka_txn_set_abortable_error0_def Let_def by (intro rd_total) auto
qed

lemma complete_total:
  "txn_state rk = TXN_STATE_COMMIT_NOT_ACKED \<or> txn_state rk = TXN_STATE_ABORT_NOT_ACKED \<Longrightarrow>
     rd_kafka_txn_complete rk \<noteq> None"
  unfolding txn_complete_eq by (intro set_state_total) auto

lemma endtxn_complete_total:
  assumes "if api_name (txn_curr_api rk) = ''commit_transaction''
    then txn_state rk \<in> {TXN_STATE_BEGIN_COMMIT, TXN_STATE_COMMITTING_TRANSACTION}
    else txn_state rk \<in> {TXN_STATE_BEGIN_ABORT, TXN_STATE_ABORTING_TRANSACTION}"
  shows "rd_kafka_txn_endtxn_complete e rk \<noteq> None"
  unfolding rd_kafka_txn_endtxn_complete_def Let_def
  by (intro rd_total set_state_total) (use assms in \<open>auto split: if_splits\<close>)

lemma require_states_error:
  assumes "rd_kafka_txn_require_states0 rk states = Some er" "err_txn_requires_abort er"
  shows "txn_state rk = TXN_STATE_ABORTABLE_ERROR"
  using assms by (auto simp: rd_kafka_txn_require_states0_def rd_kafka_ensure_transactional_def
      rd_kafka_error_defs split: if_splits)

lemma commit_done_total:
  assumes "rd_kafka_error_txn_requires_abort er \<Longrightarrow>
    txn_state rk = TXN_STATE_ABORTABLE_ERROR \<or> txn_state rk = TXN_STATE_BEGIN_COMMIT"
  shows "txn_op_commit_done rk er \<noteq> None"
  unfolding txn_op_commit_done_def by (intro rd_total) (use assms in auto)

lemma op_commit_total:
  assumes "api_name (txn_curr_api rk) = ''commit_transaction''"
  shows "rd_kafka_txn_op_commit_transaction e rk destroy \<noteq> None"
proof (cases "rd_kafka_txn_require_states0 rk [TXN_STATE_BEGIN_COMMIT,
      TXN_STATE_COMMITTING_TRANSACTION, TXN_STATE_COMMIT_NOT_ACKED]")
  case None
  then have "txn_state rk \<in> {TXN_STATE_BEGIN_COMMIT, TXN_STATE_COMMITTING_TRANSACTION, TXN_STATE_COMMIT_NOT_ACKED}"
    by (simp add: require_states_None)
  then show ?thesis unfolding rd_kafka_txn_op_commit_transaction_def None option.case Let_def
    by (intro rd_total commit_done_total endtxn_complete_total set_state_total)
       (use assms in \<open>auto simp: rd_kafka_error_defs rd_kafka_EndTxnRequest_def rd_send_def Let_def split: if_splits\<close>)
next
  case (Some er)
  then show ?thesis unfolding rd_kafka_txn_op_commit_transaction_def Some option.case
    by (intro rd_total commit_done_total)
       (auto simp: rd_kafka_error_txn_requires_abort_def dest: require_states_error [OF Some])
qed

lemma op_abort_total:
  assumes "api_name (txn_curr_api rk) \<noteq> ''commit_transaction''"
  shows "rd_kafka_txn_op_abort_transaction e rk destroy \<noteq> None"
proof (cases "rd_kafka_txn_require_states0 rk [TXN_STATE_BEGIN_ABORT,
      TXN_STATE_ABORTING_TRANSACTION, TXN_STATE_ABORT_NOT_ACKED]")
  case None
  then have "txn_state rk \<in> {TXN_STATE_BEGIN_ABORT, TXN_STATE_ABORTING_TRANSACTION, TXN_STATE_ABORT_NOT_ACKED}"
    by (simp add: require_states_None)
  then show ?thesis unfolding rd_kafka_txn_op_abort_transaction_def None option.case Let_def
    by (intro rd_total endtxn_complete_total set_state_total)
       (use assms in \<open>auto simp: rd_kafka_EndTxnRequest_def rd_send_def Let_def split: if_splits\<close>)
next
  case (Some er)
  show ?thesis unfolding rd_kafka_txn_op_abort_transaction_def Some option.case by (intro rd_total)
qed

text \<open>The ops that only check the state and move it.\<close>

lemma state_ops_total:
  "rd_kafka_txn_op_init_transactions e rk destroy \<noteq> None"
  "rd_kafka_txn_op_ack_init_transactions rk destroy \<noteq> None"
  "rd_kafka_txn_op_begin_commit rk destroy \<noteq> None"
  "rd_kafka_txn_op_commit_transaction_ack rk destroy \<noteq> None"
  "rd_kafka_txn_op_begin_abort rk destroy \<noteq> None"
  "rd_kafka_txn_op_abort_transaction_ack rk destroy \<noteq> None"
  unfolding rd_kafka_txn_op_init_transactions_def rd_kafka_txn_op_ack_init_transactions_def
    rd_kafka_txn_op_begin_commit_def rd_kafka_txn_op_commit_transaction_ack_def
    rd_kafka_txn_op_begin_abort_def rd_kafka_txn_op_abort_transaction_ack_def Let_def
  by (intro rd_total complete_total set_state_total; auto simp: require_states_None)+



section \<open>Registering partitions\<close>

text \<open>C12: when partitions are registered with the coordinator, the request names every topic once, with
  exactly the pending partitions in their order; these then wait for the response, none is left
  pending, the request carries the valid current producer id and a transaction is open.\<close>

theorem register_request_groups:
  assumes "eos_reachable conf rk" "rd_kafka_txn_register_partitions e rk \<noteq> rk"
  shows "\<exists>v ts rk'. rd_kafka_txn_register_partitions e rk = rk' \<and>
    rk_reqs rk' = rk_reqs rk @ [(TXN_COORD, REQ_AddPartitionsToTxn v (transactional_id rk) (pid rk) ts)] \<and>
    distinct (map fst ts) \<and> concat (map (\<lambda>(t, ps). map (Pair t) ps) ts) = txn_pending_rktps rk \<and>
    txn_waitresp_rktps rk' = txn_pending_rktps rk \<and> txn_pending_rktps rk' = [] \<and>
    txn_req_cnt rk' = txn_req_cnt rk + 1 \<and> rd_kafka_pid_valid (pid rk) \<and> rd_kafka_txn_may_send_msg rk"
proof -
  have r: "register_sends e rk" using assms(2) unfolding register_partitions_eq by argo
  then have p: "rd_kafka_idemp_get_pid0 rk False = pid rk" "rd_kafka_pid_valid (pid rk)"
    using get_pid_valid [of rk False] by (auto simp: register_sends_def)
  have "by_topic (txn_pending_rktps rk)" using reachable_facts(6) [OF assms(1)] by (simp add: lists_ok_def)
  then have "distinct (map fst (add_partitions_topics None [] (txn_pending_rktps rk)))"
    by (intro add_partitions_topics_fst) (simp_all add: by_topic_def)
  moreover have "concat (map (\<lambda>(t, ps). map (Pair t) ps) (add_partitions_topics None [] (txn_pending_rktps rk))) =
      txn_pending_rktps rk"
    using add_partitions_topics_flat [of "[]" None "txn_pending_rktps rk"] by simp
  ultimately show ?thesis using r p register_sends_may_send [OF r]
    by (auto simp: register_partitions_eq rd_send_def)
qed

theorem register_request_groups_witness:
  "\<exists>rk. ex_at (ex_init @ ex_begin @ butlast ex_produce) = Some rk \<and>
     txn_pending_rktps rk = [(''a'', 1), (''b'', 0), (''b'', 2)] \<and>
     txn_waitresp_rktps (rd_kafka_txn_register_partitions (ex_env 3000000) rk) =
       [(''a'', 1), (''b'', 0), (''b'', 2)]"
proof -
  let ?is = "ex_init @ ex_begin @ butlast ex_produce"
  have "ex_check ?is (\<lambda>rk. txn_pending_rktps rk = [(''a'', 1), (''b'', 0), (''b'', 2)] \<and>
     length (rk_reqs (rd_kafka_txn_register_partitions (ex_env 3000000) rk)) \<noteq> length (rk_reqs rk))" by code_simp
  then obtain rk where r: "ex_at ?is = Some rk" "eos_reachable ex_conf rk"
      "txn_pending_rktps rk = [(''a'', 1), (''b'', 0), (''b'', 2)]"
      "length (rk_reqs (rd_kafka_txn_register_partitions (ex_env 3000000) rk)) \<noteq> length (rk_reqs rk)"
    by (auto elim: ex_checkE)
  then have "rd_kafka_txn_register_partitions (ex_env 3000000) rk \<noteq> rk" by auto
  from register_request_groups [OF r(2) this] r show ?thesis by auto
qed

section \<open>Fencing\<close>

lemma txn_set_fatal_error_sel:
  assumes "rk_fatal_err rk = 0"
  shows "\<exists>rk'. rd_kafka_txn_set_fatal_error rk err = Some rk' \<and> rk_fatal_err rk' = err \<and>
    txn_state rk' = TXN_STATE_FATAL_ERROR \<and> txn_err rk' = err \<and> rk_conf rk' = rk_conf rk \<and> rk_type rk' = rk_type rk \<and>
    (api_waits rk name \<longrightarrow> fst (txn_op_req_finish rk') = Some (rd_kafka_error_new_fatal err))"
  using assms
  by (auto simp: rd_kafka_txn_set_fatal_error_def rd_kafka_txn_set_state_def Let_def rd_kafka_set_fatal_error0_def
      rd_fx_def api_waits_def txn_op_req_finish_def rd_kafka_txn_curr_api_set_result_def set_error_actions_def)



section \<open>One API call at a time\<close>

text \<open>C14: transactional API calls exclude each other. While a call is in progress any other call, of the
  same or another function, is refused with a retriable error and changes nothing; a call that returns
  success, or a non-retriable error, opens the API again for every function.\<close>

theorem api_calls_exclude_each_other:
  assumes "rd_kafka_txn_curr_api_begin e rk name cap ms p = Some (None, t, rk')" "name \<noteq> []" "length name \<le> 63"
  shows "(\<forall>name' cap' ms' p'. \<exists>er. rd_kafka_txn_curr_api_begin e' rk' name' cap' ms' p' = Some (Some er, 0, rk') \<and>
       err_retriable er \<and>
       err_code er = (if name' = name then RESP_ERR__PREV_IN_PROGRESS else RESP_ERR__CONFLICT)) \<and>
    (\<exists>rk2. rd_kafka_txn_curr_api_return rk' False er' = Some (er', rk2) \<and>
       (\<forall>name' cap' ms' p'. \<exists>t' rk3. rd_kafka_txn_curr_api_begin e' rk2 name' cap' ms' p' = Some (None, t', rk3)))"
proof -
  have en: "rd_kafka_ensure_transactional rk = None"
    using assms(1) by (auto simp: rd_kafka_txn_curr_api_begin_def split: option.splits)
  obtain api where api: "rk' = rk\<lparr>txn_curr_api := api\<rparr>" "api_name api = name" "api_calling api"
    using assms en
    by (auto simp: rd_kafka_txn_curr_api_begin_def Let_def bind_eq_Some_conv split: if_splits)
  have en': "rd_kafka_ensure_transactional (rk\<lparr>txn_curr_api := a\<rparr>) = None" for a
    using en by (simp add: rd_kafka_ensure_transactional_def split: if_splits)
  show ?thesis using api en' assms(2)
    by (auto simp: rd_kafka_txn_curr_api_begin_def rd_kafka_txn_curr_api_return_def Let_def rd_kafka_error_defs)
qed

theorem api_calls_exclude_each_other_witness:
  "\<exists>rk rk' t er. ex_at ex_init = Some rk \<and>
     rd_kafka_txn_curr_api_begin (ex_env 2000000) rk ''begin_transaction'' False 0 True = Some (None, t, rk') \<and>
     rd_kafka_txn_curr_api_begin (ex_env 2000000) rk' ''abort_transaction'' False 0 True = Some (Some er, 0, rk') \<and>
     err_code er = RESP_ERR__CONFLICT"
proof -
  have "ex_check ex_init (\<lambda>rk. case rd_kafka_txn_curr_api_begin (ex_env 2000000) rk ''begin_transaction'' False 0 True of
      Some (None, t, rk') \<Rightarrow> True | _ \<Rightarrow> False)" by code_simp
  then obtain rk where r: "ex_at ex_init = Some rk"
      "case rd_kafka_txn_curr_api_begin (ex_env 2000000) rk ''begin_transaction'' False 0 True of
      Some (None, t, rk') \<Rightarrow> True | _ \<Rightarrow> False" by (rule ex_checkE)
  from r(2) obtain t rk' where
    "rd_kafka_txn_curr_api_begin (ex_env 2000000) rk ''begin_transaction'' False 0 True = Some (None, t, rk')"
    by (auto split: option.splits)
  from api_calls_exclude_each_other [OF this, of "ex_env 2000000" None] this r(1) show ?thesis by fastforce
qed

end
