(* ===== verification/Timer_Theorems.thy ===== *)
theory Timer_Theorems
  imports Txn_Theorems
begin

text \<open>
  The properties of the engines under the exactly-once producer: the timer engine (\<open>rdkafka_timer.c\<close>),
  alone and running the producer's own timers, the timeout arithmetic (\<open>rdtime.h\<close>) and the sorted
  queues (\<open>rdsysqueue.h\<close>).
\<close>

section \<open>Dispatching the producer's timers\<close>

text \<open>C15: running the timers of a producer returns. Whatever the producer's callbacks do to the timers
  themselves, and whatever other threads do while the dispatcher sleeps, a run of any length ends
  once the clock, which never goes back, passes its end; no callback aborts; every timer that was due at
  the last reading has been dispatched; and the run does not end early unless the client terminates or the
  caller does not wait.\<close>

theorem timers_run_returns:
  assumes "eos_reachable conf rk" "cf_transactional_id conf \<noteq> None"
    "\<And>i j. i \<le> j \<Longrightarrow> clk i \<le> clk j" "0 < clk 0" "clk n + timeout_us < clk N"
    "\<And>ms n rkts w. timers_ok rkts \<Longrightarrow> rd_kafka_is_transactional w \<Longrightarrow>
      \<exists>n' rkts' w'. sleep ms (n, rkts, w) = (n', rkts', w') \<and> n \<le> n' \<and> timers_ok rkts' \<and>
        rd_kafka_is_transactional w'"
    "0 \<le> timeout_us" "\<not> terminating rk"
  shows "\<exists>n' rkts' rk' m.
    rd_kafka_timers_run (eos_disp_call e clk) clk terminating sleep timeout_us (n, rk_timers rk, rk) =
      Some (n', rkts', rk') \<and> timers_ok rkts' \<and> m < n' \<and> timers_due (clk m) rkts' = {} \<and>
    (terminating rk' \<or> timeout_us = RD_POLL_NOWAIT \<or> clk n + timeout_us < clk m)"
proof -
  have "timers_ok (rk_timers rk)" "rd_kafka_is_transactional rk"
    using reachable_facts [OF assms(1)] assms(2) by (auto simp: rk_timers_ok_def rd_kafka_is_transactional_def)
  from eosdisp.run_ok [where sleep = sleep and terminating = terminating, OF assms(3-6) this assms(7,8)]
  show ?thesis by blast
qed

theorem timers_run_returns_witness:
  "\<exists>rk n' rkts' rk'. ex_at (ex_init @ ex_begin @ butlast ex_produce) = Some rk \<and> rkts_timers (rk_timers rk) \<noteq> [] \<and>
     rd_kafka_timers_run (eos_disp_call (ex_env 1) (\<lambda>n. 3000000 + int n)) (\<lambda>n. 3000000 + int n)
       (\<lambda>_. False) (\<lambda>_ st. st) 10 (0, rk_timers rk, rk) = Some (n', rkts', rk')"
proof -
  let ?is = "ex_init @ ex_begin @ butlast ex_produce" and ?clk = "\<lambda>n. 3000000 + int n"
  have "ex_check ?is (\<lambda>rk. rkts_timers (rk_timers rk) \<noteq> [])" by code_simp
  then obtain rk where r: "ex_at ?is = Some rk" "eos_reachable ex_conf rk" "rkts_timers (rk_timers rk) \<noteq> []"
    by (rule ex_checkE)
  have "\<exists>n' rkts' rk' m.
    rd_kafka_timers_run (eos_disp_call (ex_env 1) ?clk) ?clk (\<lambda>_. False) (\<lambda>_ st. st) 10 (0, rk_timers rk, rk) =
      Some (n', rkts', rk') \<and> timers_ok rkts' \<and> m < n' \<and> timers_due (?clk m) rkts' = {} \<and>
    (False \<or> 10 = RD_POLL_NOWAIT \<or> ?clk 0 + 10 < ?clk m)"
    by (rule timers_run_returns [OF r(2), where N = 11]) (simp_all add: ex_conf_def)
  then show ?thesis using r by blast
qed

section \<open>Starting, stopping and sleeping\<close>

text \<open>An engine with one pending timer, for the examples.\<close>

definition ex_timers :: "(eos_timer, eos_timer_cb) rd_kafka_timers" where
  "ex_timers = rd_kafka_timer_start_oneshot 1 rd_kafka_timers_init PID_TMR True 100 PID_TIMER_CB"

lemma ex_timers_ok: "timers_ok ex_timers" "rkts_enabled ex_timers"
  unfolding ex_timers_def
  by (intro timers_ok_start0 timers_ok_init) (simp_all add: rd_kafka_timers_init_def)

text \<open>C16: what the producer relies on when it starts and stops a timer. A restart sets the deadline to
  the interval (at least one microsecond) from now, a start without restart leaves a pending deadline
  alone, a stop cancels it, and no other timer is affected; each keeps the queue exactly the pending
  timers in deadline order.\<close>

theorem timer_start_stop_contract:
  assumes "timers_ok rkts" "rkts_enabled rkts" "0 < now" "0 \<le> us"
  shows "timer_armed (rd_kafka_timer_start_oneshot now rkts t True us cb) =
      (timer_armed rkts)(t \<mapsto> (now + max 1 us, cb)) \<and>
    timer_armed (rd_kafka_timer_start_oneshot now rkts t False us cb) =
      (if timer_armed rkts t = None then (timer_armed rkts)(t \<mapsto> (now + max 1 us, cb)) else timer_armed rkts) \<and>
    timer_armed (snd (rd_kafka_timer_stop rkts t)) = (timer_armed rkts)(t := None) \<and>
    (rd_kafka_timer_is_started (snd (rd_kafka_timer_stop rkts t)) u \<longleftrightarrow>
       u \<noteq> t \<and> rd_kafka_timer_is_started rkts u) \<and>
    timers_ok (rd_kafka_timer_start_oneshot now rkts t restart us cb) \<and> timers_ok (snd (rd_kafka_timer_stop rkts t))"
  using rkts.armed_start [of rkts now us t] rkts.armed_stop [of rkts t] rkts.start_ok [of rkts now us t restart cb]
    rkts.stop_ok [of rkts t] assms
  by (auto simp: fun_eq_iff rd_kafka_timer_is_started_def stop_tmr)

theorem timer_start_stop_contract_witness:
  "timer_armed (rd_kafka_timer_start_oneshot 5 ex_timers TXN_COORD_TMR False 0 TXN_COORD_TIMER_CB) =
     (timer_armed ex_timers)(TXN_COORD_TMR \<mapsto> (6, TXN_COORD_TIMER_CB)) \<and>
   timer_armed (rd_kafka_timer_start_oneshot 5 ex_timers PID_TMR False 0 PID_TIMER_CB) = timer_armed ex_timers"
proof -
  have "timer_armed ex_timers TXN_COORD_TMR = None" "timer_armed ex_timers PID_TMR \<noteq> None" by code_simp+
  then show ?thesis using timer_start_stop_contract [OF ex_timers_ok, of 5 0] by fastforce
qed

text \<open>C17: the dispatcher never oversleeps. The time it sleeps is never negative nor longer than the
  caller's timeout and never reaches past the deadline of any pending timer, and a timer that is
  scheduled before all pending ones wakes the dispatcher up.\<close>

theorem timers_never_oversleep:
  assumes "timers_ok rkts" "0 \<le> timeout_us"
  shows "0 \<le> rd_kafka_timers_next now rkts timeout_us \<and> rd_kafka_timers_next now rkts timeout_us \<le> timeout_us \<and>
    (\<forall>u. rd_kafka_timer_next now rkts u \<noteq> - 1 \<longrightarrow>
       rd_kafka_timers_next now rkts timeout_us \<le> rd_kafka_timer_next now rkts u) \<and>
    (\<forall>t d. \<not> rd_kafka_timer_scheduled (rkts_tmr rkts t) \<and>
       (\<forall>u. rd_kafka_timer_scheduled (rkts_tmr rkts u) \<longrightarrow> d < rtmr_next (rkts_tmr rkts u)) \<longrightarrow>
       rkts_signals (rd_kafka_timer_schedule_next rkts t d) = rkts_signals rkts + 1)"
proof -
  have n: "rd_kafka_timer_next now rkts u \<noteq> - 1 \<longleftrightarrow> rd_kafka_timer_scheduled (rkts_tmr rkts u)" for u
    by (auto simp: rd_kafka_timer_next_def Let_def)
  have q: "u \<in> set (rkts_timers rkts) \<longleftrightarrow> rd_kafka_timer_scheduled (rkts_tmr rkts u)" for u
    using assms(1) by (auto simp: timers_ok_def)
  show ?thesis using timers_next_upper [OF assms] n q schedule_next_signals [of rkts] by auto
qed

theorem timers_never_oversleep_witness:
  "rd_kafka_timers_next 31 ex_timers 500 \<le> 70"
proof -
  have "rd_kafka_timer_next 31 ex_timers PID_TMR = 70" by code_simp
  then show ?thesis using timers_never_oversleep [OF ex_timers_ok(1), of 500 31, THEN conjunct2, THEN conjunct2, THEN conjunct1,
      THEN spec [of _ PID_TMR]] by simp
qed



section \<open>Exponential backoff\<close>

lemma cdiv_percent:
  assumes "\<bar>p\<bar> \<le> 50" "0 \<le> i"
  shows "\<bar>cdiv (p * i) 100\<bar> * 2 \<le> i"
proof -
  have "\<bar>cdiv (p * i) 100\<bar> = \<bar>p * i\<bar> div 100"
    by (auto simp: cdiv_def abs_mult sgn_if zero_le_mult_iff abs_if pos_imp_zdiv_nonneg_iff)
  moreover have "\<bar>p * i\<bar> \<le> 50 * i" using assms by (simp add: abs_mult mult_mono)
  ultimately show ?thesis by linarith
qed



section \<open>Timeouts\<close>

text \<open>C20: a timeout of a positive number of milliseconds expires exactly when it has passed: the
  remaining time is the time left rounded up to whole milliseconds, so it reaches zero neither early nor
  late, is never longer than the timeout, and an infinite timeout never expires.\<close>

theorem timeout_expires_on_time:
  assumes "0 < ms" "ms \<le> 2147483647" "0 \<le> t0" "t0 \<le> now"
  shows "rd_timeout_remains now (rd_timeout_init0 t0 ms) = max 0 ((t0 + ms * 1000 - now + 999) div 1000) \<and>
    rd_timeout_remains now (rd_timeout_init0 t0 ms) \<le> ms \<and>
    (rd_timeout_expired (rd_timeout_remains now (rd_timeout_init0 t0 ms)) \<longleftrightarrow> t0 + ms * 1000 \<le> now) \<and>
    \<not> rd_timeout_expired (rd_timeout_remains now (rd_timeout_init0 t0 RD_POLL_INFINITE))"
proof -
  let ?a = "t0 + ms * 1000"
  have a: "rd_timeout_init0 t0 ms = ?a" "?a \<noteq> - 1" "?a \<noteq> 0"
    using assms by (auto simp: rd_timeout_init0_def)
  have "rd_timeout_remains now ?a = max 0 ((?a - now + 999) div 1000)"
  proof (cases "?a \<le> now")
    case True
    then have "(?a - now + 999) div 1000 \<le> 0" by linarith
    then show ?thesis using a True
      by (simp add: rd_timeout_remains_def rd_timeout_remains_us_def rd_timeout_ms_def to_int32_def Let_def)
  next
    case False
    then show ?thesis using a assms
      by (simp add: rd_timeout_remains_def rd_timeout_remains_us_def Let_def rd_timeout_ms_nonneg)
  qed
  moreover have "max 0 ((?a - now + 999) div 1000) \<le> ms" using assms by linarith
  moreover have "\<not> rd_timeout_expired (rd_timeout_remains now (rd_timeout_init0 t0 RD_POLL_INFINITE))"
    by (simp add: rd_timeout_defs to_int32_def)
  ultimately show ?thesis using rd_timeout_expired_iff [OF assms] a(1) by simp
qed

theorem timeout_expires_on_time_witness:
  "rd_timeout_expired (rd_timeout_remains 7001000 (rd_timeout_init0 7000000 1)) \<and>
   \<not> rd_timeout_expired (rd_timeout_remains 7000999 (rd_timeout_init0 7000000 1))"
  using timeout_expires_on_time [of 1 7000000 7001000, THEN conjunct2, THEN conjunct2, THEN conjunct1]
    timeout_expires_on_time [of 1 7000000 7000999, THEN conjunct2, THEN conjunct2, THEN conjunct1] by simp

section \<open>Merging partition lists\<close>

text \<open>C21: merging one topic-sorted partition list into another is a stable merge: it loses and adds
  nothing, the result is sorted by topic again, partitions of a topic keep their order with the
  destination's first, and the source is left empty.\<close>

theorem concat_sorted_stable_merge:
  assumes "sorted_wrt (\<lambda>a b. rd_kafka_toppar_topic_cmp a b \<le> 0) dst"
    "sorted_wrt (\<lambda>a b. rd_kafka_toppar_topic_cmp a b \<le> 0) src"
  shows "\<exists>xs. TAILQ_CONCAT_SORTED rd_kafka_toppar_topic_cmp dst src = (xs, []) \<and> mset xs = mset dst + mset src \<and>
    sorted_wrt (\<lambda>a b. rd_kafka_toppar_topic_cmp a b \<le> 0) xs \<and>
    (\<forall>topic. filter (\<lambda>p. fst p = topic) xs = filter (\<lambda>p. fst p = topic) dst @ filter (\<lambda>p. fst p = topic) src)"
proof -
  have eq: "rd_kafka_toppar_topic_cmp y (topic, 0) = 0 \<longleftrightarrow> fst y = topic" for y topic
    by (simp add: rd_kafka_toppar_topic_cmp_def)
  show ?thesis
    using topiccmp.concat_sorted [OF assms] topiccmp.concat_equals [OF assms(1), of "(_, 0)" src]
      TAILQ_CONCAT_SORTED_mset [of rd_kafka_toppar_topic_cmp dst src] TAILQ_CONCAT_SORTED_src [of rd_kafka_toppar_topic_cmp dst src]
    by (cases "TAILQ_CONCAT_SORTED rd_kafka_toppar_topic_cmp dst src") (auto simp: eq)
qed

theorem concat_sorted_stable_merge_witness:
  "\<exists>xs. TAILQ_CONCAT_SORTED rd_kafka_toppar_topic_cmp [(''a'', 1), (''c'', 0)] [(''a'', 0), (''b'', 7)] = (xs, []) \<and>
     filter (\<lambda>p. fst p = ''a'') xs = [(''a'', 1), (''a'', 0)]"
  using concat_sorted_stable_merge [of "[(''a'', 1), (''c'', 0)]" "[(''a'', 0), (''b'', 7)]"]
  by (auto simp: rd_kafka_toppar_topic_cmp_def)

end
