(* ===== verification/Pid_Theorems.thy ===== *)
theory Pid_Theorems
  imports Timer_Theorems
begin

text \<open>
  The properties of the transactional API as the application sees it (\<open>rdkafka_txnmgr.c\<close>) and of the
  producer id's life (\<open>rdkafka_idempotence.c\<close>): acquiring it, bumping its epoch after an abort or a
  drain, and the paths on which the code loses track of the coordinator's state.
\<close>

section \<open>API calls return\<close>

text \<open>What a call leaves behind: it is no longer in progress, and only a retriable error of a
  call that may be resumed keeps the API reserved for resuming it.\<close>

definition api_released :: "bool \<Rightarrow> rd_kafka_error_t option \<times> rd_kafka_t \<Rightarrow> bool" where
  "api_released resumable r \<longleftrightarrow>
     \<not> api_calling (txn_curr_api (snd r)) \<and>
     (api_name (txn_curr_api (snd r)) \<noteq> [] \<longrightarrow> resumable \<and> (fst r = None \<or> rd_kafka_error_is_retriable (fst r)))"

text \<open>What the threads the application waits for keep: the main thread sets results, it never starts
  or ends a call.\<close>

definition api_kept :: "rd_kafka_t \<Rightarrow> rd_kafka_t \<Rightarrow> bool" where
  "api_kept rk rk' \<longleftrightarrow> api_name (txn_curr_api rk') = api_name (txn_curr_api rk) \<and>
     api_calling (txn_curr_api rk') = api_calling (txn_curr_api rk)"

definition api_in_call :: "rd_kafka_t \<Rightarrow> bool" where
  "api_in_call rk \<longleftrightarrow> api_name (txn_curr_api rk) \<noteq> [] \<and> api_calling (txn_curr_api rk)"

text \<open>An operation that returns, with a result that has a property.\<close>

definition yields :: "('a \<Rightarrow> bool) \<Rightarrow> 'a option \<Rightarrow> bool" where
  "yields Q m \<longleftrightarrow> (\<exists>r. m = Some r \<and> Q r)"

lemma yields_bind: "yields P m \<Longrightarrow> (\<And>x. P x \<Longrightarrow> yields Q (f x)) \<Longrightarrow> yields Q (Option.bind m f)"
  by (auto simp: yields_def)

lemma yields_if: "(b \<Longrightarrow> yields Q x) \<Longrightarrow> (\<not> b \<Longrightarrow> yields Q y) \<Longrightarrow> yields Q (if b then x else y)"
  by simp

lemma yields_prod: "yields Q (f (fst p) (snd p)) \<Longrightarrow> yields Q (case p of (a, b) \<Rightarrow> f a b)"
  by (cases p) simp

abbreviation result_in_call :: "'a \<times> rd_kafka_t \<Rightarrow> bool" where
  "result_in_call \<equiv> \<lambda>r. api_in_call (snd r)"

lemma yields_return:
  "api_in_call rk \<Longrightarrow> resumable \<or> \<not> resumable' \<Longrightarrow>
     yields (api_released resumable) (rd_kafka_txn_curr_api_return rk resumable' error)"
  by (auto simp: yields_def rd_kafka_txn_curr_api_return_def api_in_call_def api_released_def Let_def)

lemma yields_op_req:
  assumes "\<And>t rk. \<exists>rk'. wait t rk = Some rk' \<and> api_kept rk rk'" "ev_ops_enabled e" "api_in_call rk"
  shows "yields result_in_call (rd_kafka_txn_op_req0 e rk rko abs_timeout wait)"
proof (cases "api_has_result (txn_curr_api rk)")
  case True
  then show ?thesis using assms(3)
    by (auto simp: yields_def rd_kafka_txn_op_req0_def txn_op_req_start_def api_in_call_def Let_def)
next
  case False
  obtain rk' where "wait abs_timeout (rk\<lparr>rk_ops := rk_ops rk @ [RK_OP_TXN rko]\<rparr>) = Some rk'"
      "api_kept (rk\<lparr>rk_ops := rk_ops rk @ [RK_OP_TXN rko]\<rparr>) rk'" using assms(1) by blast
  then show ?thesis using False assms(2,3)
    by (auto simp: yields_def rd_kafka_txn_op_req0_def txn_op_req_start_def txn_op_req_finish_def
        api_in_call_def api_kept_def Let_def)
qed

lemma in_call_fx: "api_in_call rk \<Longrightarrow> api_in_call (rd_fx x rk)"
  by (simp add: api_in_call_def rd_fx_def)

lemma api_begin_cases:
  assumes "api_name (txn_curr_api rk) = [] \<longrightarrow> api_error (txn_curr_api rk) = None" "name \<noteq> []"
  shows "(\<exists>error. rd_kafka_txn_curr_api_begin e rk name cap ms p = Some (Some error, 0, rk)) \<or>
    (\<exists>t rk'. rd_kafka_txn_curr_api_begin e rk name cap ms p = Some (None, t, rk') \<and> api_in_call rk')"
proof (cases "rd_kafka_ensure_transactional rk")
  case None
  then show ?thesis using assms
    by (simp add: rd_kafka_txn_curr_api_begin_def Let_def api_in_call_def)
qed (simp add: rd_kafka_txn_curr_api_begin_def)



section \<open>Acquiring a producer id\<close>

text \<open>C23: a valid producer id in the response to InitProducerId is taken over exactly when one is
  being waited for: it becomes the current one, usable for transactional requests, and what waited
  for it completes successfully - \<open>init_transactions()\<close> reaches READY_NOT_ACKED, an abort that bumped the
  epoch ABORT_NOT_ACKED - while any other transaction state is left alone.\<close>

theorem init_producer_id_acquires:
  assumes "txn_producer rk" "cf_idempotence (rk_conf rk)" "rk_fatal_err rk = 0" "idemp_state rk = IDEMP_STATE_WAIT_PID"
    "rd_kafka_pid_valid p"
  shows "\<exists>rk'. rd_kafka_handle_InitProducerId e rk 0 (Inr (0, Inr p)) = Some rk' \<and>
    idemp_state rk' = IDEMP_STATE_ASSIGNED \<and> rd_kafka_idemp_get_pid0 rk' False = p \<and> epoch_cnt rk' = epoch_cnt rk + 1 \<and>
    rk_fx rk' = rk_fx rk @ [FX_ALL_BROKERS_WAKEUP] \<and>
    txn_state rk' = (if txn_state rk = TXN_STATE_WAIT_PID then TXN_STATE_READY_NOT_ACKED
      else if txn_state rk = TXN_STATE_BEGIN_ABORT \<or> txn_state rk = TXN_STATE_ABORTING_TRANSACTION
      then TXN_STATE_ABORT_NOT_ACKED else txn_state rk) \<and>
    (api_waits rk name \<longrightarrow>
       (if txn_state rk' = txn_state rk then txn_curr_api rk' = txn_curr_api rk
        else fst (txn_op_req_finish rk') = None))"
  using assms
  by (cases "txn_state rk")
     (auto simp: rd_kafka_handle_InitProducerId_def rd_kafka_idemp_pid_update_def rd_kafka_idemp_set_state.simps
        rd_kafka_fatal_error_code_def rd_kafka_is_transactional_def txn_producer_def rd_kafka_txn_idemp_state_change_def
        rd_kafka_txn_set_state_def rd_kafka_idemp_get_pid0_def rd_fx_def rd_kafka_txn_curr_api_set_result_def
        api_waits_def txn_op_req_finish_def Let_def)

theorem init_producer_id_acquires_witness:
  "\<exists>rk rk'. ex_at (take 5 ex_init) = Some rk \<and>
     rd_kafka_handle_InitProducerId (ex_env 2000000) rk 0 (Inr (0, Inr ex_pid)) = Some rk' \<and>
     txn_state rk' = TXN_STATE_READY_NOT_ACKED \<and> fst (txn_op_req_finish rk') = None"
proof -
  let ?Q = "\<lambda>rk. txn_producer rk \<and> cf_idempotence (rk_conf rk) \<and> rk_fatal_err rk = 0 \<and>
    idemp_state rk = IDEMP_STATE_WAIT_PID \<and> txn_state rk = TXN_STATE_WAIT_PID \<and> api_waits rk ''init_transactions''"
  have "ex_check (take 5 ex_init) ?Q" by code_simp
  then obtain rk where r: "ex_at (take 5 ex_init) = Some rk" "?Q rk" by (rule ex_checkE)
  have "rd_kafka_pid_valid ex_pid" by (simp add: rd_kafka_pid_valid_def)
  from init_producer_id_acquires [OF _ _ _ _ this, of rk "ex_env 2000000" "''init_transactions''"] r
  show ?thesis by auto
qed

section \<open>Bumping the epoch\<close>

text \<open>C24: an abort that has to bump the epoch is not over when the coordinator has ended the
  transaction: the producer stays in ABORTING with no result for the application, keeps its id, and
  once no partition has messages in flight asks for a new one right away (a PID timer of one millisecond);
  until then it drains.\<close>

theorem abort_bumps_epoch:
  assumes "txn_producer rk" "cf_idempotence (rk_conf rk)" "rk_fatal_err rk = 0" "rd_kafka_pid_valid (pid rk)"
    "txn_state rk = TXN_STATE_ABORTING_TRANSACTION" "txn_requires_epoch_bump rk" "idemp_state rk \<noteq> IDEMP_STATE_DRAIN_BUMP"
    "timers_ok (rk_timers rk)" "rkts_enabled (rk_timers rk)" "0 < ev_clock e"
  shows "\<exists>rk'. rd_kafka_txn_handle_EndTxn e rk 0 (Inr 0) req False = Some rk' \<and>
    txn_state rk' = TXN_STATE_ABORTING_TRANSACTION \<and> txn_curr_api rk' = txn_curr_api rk \<and> pid rk' = pid rk \<and>
    rk_reqs rk' = rk_reqs rk \<and>
    (if inflight_toppar_cnt rk = 0
     then idemp_state rk' = IDEMP_STATE_REQ_PID \<and>
       timer_armed (rk_timers rk') PID_TMR = Some (ev_clock e + 1000, PID_TIMER_CB)
     else idemp_state rk' = IDEMP_STATE_DRAIN_BUMP)"
  using assms rkts.restart_resets [of "rk_timers rk" "ev_clock e" 1000 PID_TMR PID_TIMER_CB]
  by (auto simp: rd_kafka_txn_handle_EndTxn_def rd_kafka_txn_endtxn_complete_def end_txn_actions_def
      rd_kafka_txn_normalize_err_def rd_kafka_idemp_drain_epoch_bump0_def rd_kafka_idemp_check_drain_done_def
      rd_kafka_idemp_drain_done_def rd_kafka_idemp_set_state.simps rd_kafka_fatal_error_code_def
      rd_kafka_is_transactional_def txn_producer_def rd_kafka_txn_idemp_state_change_def
      rd_kafka_idemp_pid_timer_restart_def Let_def)

definition ex_aborting :: "(rd_env \<times> eos_input) list" where
  "ex_aborting = ex_init @ ex_begin @ ex_produce @ ex_registered @
     [(ex_env 3000000, In_abortable RESP_ERR_UNKNOWN_PRODUCER_ID True),
      (ex_env 3000000, In_api_begin ''abort_transaction'' 10000)] @ ex_call OP_begin_abort @
     [(ex_env 3000000, In_req OP_abort_transaction), (ex_env 3000000, In_op False)]"

theorem abort_bumps_epoch_witness:
  "\<exists>rk rk'. ex_at ex_aborting = Some rk \<and>
     rd_kafka_txn_handle_EndTxn (ex_env 3000000) rk 0 (Inr 0) (REQ_EndTxn 1 ''tid'' ex_pid False) False = Some rk' \<and>
     idemp_state rk' = IDEMP_STATE_REQ_PID \<and> timer_armed (rk_timers rk') PID_TMR = Some (3001000, PID_TIMER_CB)"
proof -
  let ?Q = "\<lambda>rk. txn_producer rk \<and> cf_idempotence (rk_conf rk) \<and> rk_fatal_err rk = 0 \<and> rd_kafka_pid_valid (pid rk) \<and>
    txn_state rk = TXN_STATE_ABORTING_TRANSACTION \<and> txn_requires_epoch_bump rk \<and>
    idemp_state rk = IDEMP_STATE_ASSIGNED \<and> rkts_enabled (rk_timers rk) \<and> inflight_toppar_cnt rk = 0"
  have "ex_check ex_aborting ?Q" by code_simp
  then obtain rk where r: "ex_at ex_aborting = Some rk" "eos_reachable ex_conf rk" "?Q rk" by (rule ex_checkE)
  have t: "timers_ok (rk_timers rk)" using reachable_facts [OF r(2)] by (simp add: rk_timers_ok_def)
  have c: "ev_clock (ex_env 3000000) = 3000000" by (simp add: ex_env_def)
  have "txn_producer rk" "cf_idempotence (rk_conf rk)" "rk_fatal_err rk = 0" "rd_kafka_pid_valid (pid rk)"
    "txn_state rk = TXN_STATE_ABORTING_TRANSACTION" "txn_requires_epoch_bump rk"
    "idemp_state rk \<noteq> IDEMP_STATE_DRAIN_BUMP" "rkts_enabled (rk_timers rk)" using r(3) by simp_all
  from abort_bumps_epoch [OF this(1-7) t this(8), of "ex_env 3000000" "REQ_EndTxn 1 ''tid'' ex_pid False"] r c
  show ?thesis by auto
qed

text \<open>C25: an idempotent producer without transactions bumps its epoch locally when the last partition
  has drained: the id stays, the epoch goes up by one and from its largest value, 32767, back to zero,
  so it is always a valid one, and all brokers are woken up to send with it.\<close>

theorem drain_bumps_epoch_locally:
  assumes "cf_idempotence (rk_conf rk)" "rk_fatal_err rk = 0" "cf_transactional_id (rk_conf rk) = None"
    "idemp_state rk = IDEMP_STATE_DRAIN_BUMP" "rd_kafka_pid_valid (pid rk)"
    "0 \<le> pid_epoch (pid rk)" "pid_epoch (pid rk) \<le> 32767" "inflight_toppar_cnt rk = 1"
  shows "\<exists>rk'. rd_kafka_idemp_inflight_toppar_sub e rk = Some rk' \<and> inflight_toppar_cnt rk' = 0 \<and>
    idemp_state rk' = IDEMP_STATE_ASSIGNED \<and> pid_id (pid rk') = pid_id (pid rk) \<and>
    pid_epoch (pid rk') = (if pid_epoch (pid rk) = 32767 then 0 else pid_epoch (pid rk) + 1) \<and>
    rd_kafka_pid_valid (pid rk') \<and> rk_fx rk' = rk_fx rk @ [FX_ALL_BROKERS_WAKEUP] \<and> rk_reqs rk' = rk_reqs rk"
  using assms
  by (auto simp: rd_kafka_idemp_inflight_toppar_sub_def rd_kafka_idemp_drain_done_def rd_kafka_is_transactional_def
      rd_kafka_idemp_set_state.simps rd_kafka_fatal_error_code_def rd_kafka_pid_bump_def to_int16_def rd_fx_def
      rd_kafka_pid_valid_def Let_def)

theorem drain_bumps_epoch_locally_witness:
  "\<exists>rk'. rd_kafka_idemp_inflight_toppar_sub (ex_env 1)
      ((rd_kafka_calloc RD_KAFKA_PRODUCER (ex_conf\<lparr>cf_transactional_id := None\<rparr>))
        \<lparr>idemp_state := IDEMP_STATE_DRAIN_BUMP, pid := \<lparr>pid_id = 4000, pid_epoch = 32767\<rparr>, inflight_toppar_cnt := 1\<rparr>) =
      Some rk' \<and> pid rk' = \<lparr>pid_id = 4000, pid_epoch = 0\<rparr>"
  using drain_bumps_epoch_locally [of "(rd_kafka_calloc RD_KAFKA_PRODUCER (ex_conf\<lparr>cf_transactional_id := None\<rparr>))
        \<lparr>idemp_state := IDEMP_STATE_DRAIN_BUMP, pid := \<lparr>pid_id = 4000, pid_epoch = 32767\<rparr>, inflight_toppar_cnt := 1\<rparr>"
      "ex_env 1"]
  by (auto simp: rd_kafka_calloc_def ex_conf_def rd_kafka_pid_valid_def intro: rd_kafka_pid_t.equality)

section \<open>Where the code loses track\<close>

text \<open>C26: a successful response to AddPartitionsToTxn that arrives after the application began to abort is
  dismissed as outdated and no longer counted, so that the abort completes without telling the coordinator,
  which has the partitions registered; without the response the same abort sends EndTxn.\<close>

theorem late_registration_skips_end_txn:
  assumes "txn_producer rk" "txn_state rk = TXN_STATE_BEGIN_ABORT" "txn_req_cnt rk = 1" "\<not> txn_requires_epoch_bump rk"
    "api_waits rk name" "name \<noteq> ''commit_transaction''" "idemp_state rk = IDEMP_STATE_ASSIGNED"
    "rd_kafka_pid_valid (pid rk)" "ev_ApiVersion_supported e TXN_COORD API_EndTxn 0 1 \<noteq> - 1"
  shows "\<exists>rk1 rk2 rk2' v. rd_kafka_txn_handle_AddPartitionsToTxn e rk 0 (topics, None) = Some rk1 \<and>
    rd_kafka_txn_op_abort_transaction e rk1 False = Some rk2 \<and> txn_state rk2 = TXN_STATE_ABORT_NOT_ACKED \<and>
    rk_reqs rk2 = rk_reqs rk \<and> fst (txn_op_req_finish rk2) = None \<and>
    rd_kafka_txn_op_abort_transaction e rk False = Some rk2' \<and>
    rk_reqs rk2' = rk_reqs rk @ [(TXN_COORD, REQ_EndTxn v (transactional_id rk) (pid rk) False)]"
proof -
  let ?rk1 = "rk\<lparr>txn_req_cnt := 0\<rparr>"
  have "rd_kafka_txn_handle_AddPartitionsToTxn e rk 0 (topics, None) = Some ?rk1"
    using assms(2,3) by (simp add: rd_kafka_txn_handle_AddPartitionsToTxn_def add_parts_done_def)
  moreover have "txn_producer ?rk1" using assms(1) by (simp add: txn_producer_def)
  ultimately show ?thesis
    using assms require_states_producer [OF assms(1)] require_states_producer [of ?rk1]
    by (auto simp: rd_kafka_txn_op_abort_transaction_def rd_kafka_txn_endtxn_complete_def set_state_eq api_waits_def
        rd_kafka_txn_curr_api_set_result_def txn_op_req_finish_def rd_kafka_idemp_get_pid0_def
        rd_kafka_EndTxnRequest_def rd_send_def Let_def)
qed

definition ex_late :: "(rd_env \<times> eos_input) list" where
  "ex_late = ex_init @ ex_begin @ ex_produce @
     (ex_env 3000000, In_api_begin ''abort_transaction'' 10000) # ex_call OP_begin_abort"

theorem late_registration_skips_end_txn_witness:
  "\<exists>rk rk1 rk2. ex_at ex_late = Some rk \<and>
     rd_kafka_txn_handle_AddPartitionsToTxn (ex_env 3000000) rk 0
       ([(''a'', [(1, 0)]), (''b'', [(0, 0), (2, 0)])], None) = Some rk1 \<and>
     rd_kafka_txn_op_abort_transaction (ex_env 3000000) rk1 False = Some rk2 \<and> rk_reqs rk2 = rk_reqs rk"
proof -
  let ?Q = "\<lambda>rk. txn_producer rk \<and> txn_state rk = TXN_STATE_BEGIN_ABORT \<and> txn_req_cnt rk = 1 \<and>
    \<not> txn_requires_epoch_bump rk \<and> api_waits rk ''abort_transaction'' \<and> idemp_state rk = IDEMP_STATE_ASSIGNED \<and>
    rd_kafka_pid_valid (pid rk) \<and> ev_ApiVersion_supported (ex_env 3000000) TXN_COORD API_EndTxn 0 1 \<noteq> - 1"
  have "ex_check ex_late ?Q" by code_simp
  then obtain rk where r: "ex_at ex_late = Some rk" "?Q rk" by (rule ex_checkE)
  then have "txn_producer rk" "txn_state rk = TXN_STATE_BEGIN_ABORT" "txn_req_cnt rk = 1"
    "\<not> txn_requires_epoch_bump rk" "api_waits rk ''abort_transaction''" "idemp_state rk = IDEMP_STATE_ASSIGNED"
    "rd_kafka_pid_valid (pid rk)" "ev_ApiVersion_supported (ex_env 3000000) TXN_COORD API_EndTxn 0 1 \<noteq> - 1" by simp_all
  from late_registration_skips_end_txn [OF this(1-5) _ this(6-8)] r(1) show ?thesis by fastforce
qed

lemma txn_set_fatal_error_api:
  "\<exists>rk'. rd_kafka_txn_set_fatal_error rk err = Some rk' \<and> txn_state rk' = TXN_STATE_FATAL_ERROR \<and>
     rk_conf rk' = rk_conf rk \<and> rk_type rk' = rk_type rk \<and>
     txn_curr_api rk' = txn_curr_api (rd_kafka_txn_curr_api_set_result rk {} (Some (rd_kafka_error_new_fatal err)))"
proof -
  define rk0 where "rk0 = (snd (rd_kafka_set_fatal_error0 rk err))\<lparr>txn_err := err\<rparr>"
  have k: "rk_conf rk0 = rk_conf rk" "rk_type rk0 = rk_type rk" "txn_curr_api rk0 = txn_curr_api rk"
    by (simp_all add: rk0_def rd_kafka_set_fatal_error0_def rd_fx_def Let_def)
  have "rd_kafka_txn_set_fatal_error rk err =
      Option.bind (rd_kafka_txn_set_state rk0 TXN_STATE_FATAL_ERROR)
        (\<lambda>rk. Some (rd_kafka_txn_curr_api_set_result rk {} (Some (rd_kafka_error_new_fatal err))))"
    by (simp add: rd_kafka_txn_set_fatal_error_def rk0_def)
  then show ?thesis using k
    by (auto simp: rd_kafka_txn_set_state_def rd_kafka_txn_curr_api_set_result_def Let_def)
qed

text \<open>C27: a fatal error that is raised after a call has taken its result and before it returns is lost: the
  call releases the API but leaves the mark that a result is there, without the error, so the next call of
  \<open>begin_transaction()\<close> reports success in the fatal state.\<close>

theorem stale_result_reported_as_success:
  assumes "txn_producer rk" "api_in_call rk" "api_error (txn_curr_api rk) = None"
  shows "\<exists>rk1 rk2 rk3. rd_kafka_txn_set_fatal_error rk err = Some rk1 \<and>
    rd_kafka_txn_curr_api_return rk1 False None = Some (None, rk2) \<and>
    rd_kafka_begin_transaction e wait rk2 = Some (None, rk3) \<and> txn_state rk3 = TXN_STATE_FATAL_ERROR"
proof -
  obtain rk1 where r: "rd_kafka_txn_set_fatal_error rk err = Some rk1" "txn_state rk1 = TXN_STATE_FATAL_ERROR"
      "api_in_call rk1" "api_has_result (txn_curr_api rk1)" "txn_producer rk1"
    using assms txn_set_fatal_error_api [of rk err]
    by (auto simp: rd_kafka_txn_curr_api_set_result_def api_in_call_def txn_producer_def Let_def)
  then show ?thesis
    by (auto simp: rd_kafka_txn_curr_api_return_def api_in_call_def rd_kafka_begin_transaction_def
        rd_kafka_txn_curr_api_begin_def rd_kafka_ensure_transactional_def txn_producer_def
        rd_kafka_txn_op_req0_def txn_op_req_start_def Let_def)
qed

theorem stale_result_reported_as_success_witness:
  "\<exists>rk rk1 rk2 rk3. ex_at (ex_init @ butlast ex_begin) = Some rk \<and> rd_kafka_txn_set_fatal_error rk 47 = Some rk1 \<and>
     rd_kafka_txn_curr_api_return rk1 False None = Some (None, rk2) \<and>
     rd_kafka_begin_transaction (ex_env 3000000) (\<lambda>t rk. None) rk2 = Some (None, rk3) \<and>
     txn_state rk3 = TXN_STATE_FATAL_ERROR"
proof -
  have "ex_check (ex_init @ butlast ex_begin)
      (\<lambda>rk. txn_producer rk \<and> api_in_call rk \<and> api_error (txn_curr_api rk) = None)" by code_simp
  then obtain rk where r: "ex_at (ex_init @ butlast ex_begin) = Some rk"
      "txn_producer rk \<and> api_in_call rk \<and> api_error (txn_curr_api rk) = None" by (rule ex_checkE)
  then show ?thesis using stale_result_reported_as_success [of rk 47 "ex_env 3000000" "\<lambda>t rk. None"] by auto
qed

text \<open>C28: a FindCoordinator response without a coordinator (node id -1) that comes from a broker of the
  configuration, not learned from metadata, makes the handler release a reference to that broker it
  never acquired.\<close>

theorem find_coordinator_over_release:
  assumes "rd_kafka_is_transactional rk" "txn_curr_coord rk = None" "\<not> ev_learned e rkb"
  shows "\<exists>rk'. rd_kafka_txn_handle_FindCoordinator e rk rkb 0 (Inr (0, Inr (- 1))) = Some rk' \<and>
    rkb_refs rk' rkb = rkb_refs rk rkb - 1"
  using assms
  by (simp add: rd_kafka_txn_handle_FindCoordinator_def txn_find_coordinator_failed_def rd_kafka_txn_coord_set_def
      rd_kafka_txn_coord_timer_start_def rd_kafka_is_transactional_def rd_kafka_broker_destroy_def rd_fx_def Let_def)

theorem find_coordinator_over_release_witness:
  "\<exists>rk rk'. ex_at (take 4 ex_init) = Some rk \<and>
     rd_kafka_txn_handle_FindCoordinator ((ex_env 2000000)\<lparr>ev_learned := \<lambda>_. False\<rparr>) rk (BROKER 1) 0 (Inr (0, Inr (- 1))) =
       Some rk' \<and> rkb_refs rk' (BROKER 1) < rkb_refs rk (BROKER 1)"
proof -
  have "ex_check (take 4 ex_init) (\<lambda>rk. rd_kafka_is_transactional rk \<and> txn_curr_coord rk = None)" by code_simp
  then obtain rk where r: "ex_at (take 4 ex_init) = Some rk"
      "rd_kafka_is_transactional rk \<and> txn_curr_coord rk = None" by (rule ex_checkE)
  then show ?thesis
    using find_coordinator_over_release [of rk "(ex_env 2000000)\<lparr>ev_learned := \<lambda>_. False\<rparr>" "BROKER 1"] by auto
qed

end
