(* ===== verification/Msgq.thy ===== *)
theory Msgq
  imports Sysqueue Rd_Time Errors
begin

text \<open>
  Messages and message queues of the producer (\<open>src/src/rdkafka_msg.h\<close>, \<open>rdkafka_msg.c\<close>) and the
  operations that move messages between queues (\<open>rdkafka_partition.c\<close>): sorted and bulk
  insertion, splitting, timing out, acknowledging and retrying.

  A queue is the list of its messages with the two counters the code keeps beside it and the
  wake-up thresholds. A position in a queue, a pointer to a message in the sources, is an index.
  A failed \<open>rd_assert\<close> and an undefined C operation are \<open>None\<close>. Payload, key and headers are
  represented by their sizes.
\<close>

section \<open>Messages\<close>

datatype rd_kafka_msg_status_t =
    MSG_STATUS_NOT_PERSISTED | MSG_STATUS_POSSIBLY_PERSISTED | MSG_STATUS_PERSISTED

datatype rd_kafka_timestamp_type_t =
    TIMESTAMP_NOT_AVAILABLE | TIMESTAMP_CREATE_TIME | TIMESTAMP_LOG_APPEND_TIME

record rd_kafka_msg =
  rkm_len :: int
  rkm_key_len :: int
  rkm_hdrs_size :: int
  rkm_offset :: int
  rkm_err :: rd_kafka_resp_err_t
  rkm_tstype :: rd_kafka_timestamp_type_t
  rkm_timestamp :: int
  rkm_status :: rd_kafka_msg_status_t
  rkm_broker_id :: int
  rkm_ts_timeout :: int
  rkm_ts_enq :: int
  rkm_ts_backoff :: int
  rkm_msgid :: int
  rkm_last_msgid :: int
  rkm_retries :: int
  rkm_errstr :: "string option"

definition rkm_size :: "rd_kafka_msg \<Rightarrow> int" where
  "rkm_size rkm = rkm_len rkm + rkm_key_len rkm"

text \<open>The largest size of a message on the wire: the framing of its MsgVersion, the payload, the key
  and, since version 2, the serialized headers. \<open>V2_MAX_OVERHEAD\<close> takes every varint at its
  largest.\<close>

abbreviation (input) RD_KAFKAP_MESSAGE_V0_OVERHEAD :: int where
  "RD_KAFKAP_MESSAGE_V0_OVERHEAD \<equiv> (8 + 4) + (4 + 1 + 1 + 4 + 4)"
abbreviation (input) RD_KAFKAP_MESSAGE_V1_OVERHEAD :: int where
  "RD_KAFKAP_MESSAGE_V1_OVERHEAD \<equiv> (8 + 4) + (4 + 1 + 1 + 8 + 4 + 4)"
abbreviation (input) RD_KAFKAP_MESSAGE_V2_MAX_OVERHEAD :: int where
  "RD_KAFKAP_MESSAGE_V2_MAX_OVERHEAD \<equiv> 5 + 1 + 10 + 5 + 5 + 5 + 5"

definition rd_kafka_msg_wire_size :: "rd_kafka_msg \<Rightarrow> nat \<Rightarrow> int" where
  "rd_kafka_msg_wire_size rkm MsgVersion =
     (if MsgVersion = 0 then RD_KAFKAP_MESSAGE_V0_OVERHEAD
      else if MsgVersion = 1 then RD_KAFKAP_MESSAGE_V1_OVERHEAD
      else RD_KAFKAP_MESSAGE_V2_MAX_OVERHEAD)
     + rkm_len rkm + rkm_key_len rkm + (if MsgVersion = 2 then rkm_hdrs_size rkm else 0)"

definition rd_kafka_msg_max_wire_size :: "int \<Rightarrow> int \<Rightarrow> int \<Rightarrow> int" where
  "rd_kafka_msg_max_wire_size keylen valuelen hdrslen =
     RD_KAFKAP_MESSAGE_V2_MAX_OVERHEAD + keylen + valuelen + hdrslen"

text \<open>\<open>seq & INT32_MAX\<close> is the remainder modulo \<open>2^31\<close>.\<close>

definition rd_kafka_seq_wrap :: "int \<Rightarrow> int" where
  "rd_kafka_seq_wrap seq = seq mod 2 ^ 31"

definition rd_kafka_msg_cmp_msgid :: "rd_kafka_msg \<Rightarrow> rd_kafka_msg \<Rightarrow> int" where
  "rd_kafka_msg_cmp_msgid a b = RD_CMP (rkm_msgid a) (rkm_msgid b)"

definition rd_kafka_msg_cmp_msgid_lifo :: "rd_kafka_msg \<Rightarrow> rd_kafka_msg \<Rightarrow> int" where
  "rd_kafka_msg_cmp_msgid_lifo a b = RD_CMP (rkm_msgid b) (rkm_msgid a)"

section \<open>Queues\<close>

record rd_kafka_msgq_wakeup =
  wk_abstime :: int
  wk_msg_cnt :: int
  wk_msg_bytes :: int
  wk_on_first :: bool
  wk_signalled :: bool

record rd_kafka_msgq =
  rkmq_msgs :: "rd_kafka_msg list"
  rkmq_msg_cnt :: int
  rkmq_msg_bytes :: int
  rkmq_wakeup :: rd_kafka_msgq_wakeup

definition RD_KAFKA_MSGQ_INITIALIZER :: rd_kafka_msgq where
  "RD_KAFKA_MSGQ_INITIALIZER =
     \<lparr>rkmq_msgs = [], rkmq_msg_cnt = 0, rkmq_msg_bytes = 0,
      rkmq_wakeup = \<lparr>wk_abstime = 0, wk_msg_cnt = 0, wk_msg_bytes = 0, wk_on_first = False,
        wk_signalled = False\<rparr>\<rparr>"

definition rd_kafka_msgq_len :: "rd_kafka_msgq \<Rightarrow> int" where
  "rd_kafka_msgq_len rkmq = rkmq_msg_cnt rkmq"

definition rd_kafka_msgq_size :: "rd_kafka_msgq \<Rightarrow> int" where
  "rd_kafka_msgq_size rkmq = rkmq_msg_bytes rkmq"

definition rd_kafka_msgq_init :: "rd_kafka_msgq \<Rightarrow> rd_kafka_msgq" where
  "rd_kafka_msgq_init rkmq = rkmq\<lparr>rkmq_msgs := [], rkmq_msg_cnt := 0, rkmq_msg_bytes := 0\<rparr>"

text \<open>The result of an operation on two queues is the pair of both.\<close>

definition rd_kafka_msgq_concat :: "rd_kafka_msgq \<Rightarrow> rd_kafka_msgq \<Rightarrow> rd_kafka_msgq \<times> rd_kafka_msgq" where
  "rd_kafka_msgq_concat dst src =
     (dst\<lparr>rkmq_msgs := rkmq_msgs dst @ rkmq_msgs src,
          rkmq_msg_cnt := rkmq_msg_cnt dst + rkmq_msg_cnt src,
          rkmq_msg_bytes := rkmq_msg_bytes dst + rkmq_msg_bytes src\<rparr>,
      rd_kafka_msgq_init src)"

definition rd_kafka_msgq_move :: "rd_kafka_msgq \<Rightarrow> rd_kafka_msgq \<Rightarrow> rd_kafka_msgq \<times> rd_kafka_msgq" where
  "rd_kafka_msgq_move dst src =
     (dst\<lparr>rkmq_msgs := rkmq_msgs src, rkmq_msg_cnt := rkmq_msg_cnt src,
          rkmq_msg_bytes := rkmq_msg_bytes src\<rparr>,
      rd_kafka_msgq_init src)"

definition rd_kafka_msgq_prepend :: "rd_kafka_msgq \<Rightarrow> rd_kafka_msgq \<Rightarrow> rd_kafka_msgq \<times> rd_kafka_msgq" where
  "rd_kafka_msgq_prepend dst src =
     (let (src, dst) = rd_kafka_msgq_concat src dst in rd_kafka_msgq_move dst src)"

text \<open>Removing the message at an index, which must be counted.\<close>

definition rd_kafka_msgq_deq :: "rd_kafka_msgq \<Rightarrow> nat \<Rightarrow> (rd_kafka_msg \<times> rd_kafka_msgq) option" where
  "rd_kafka_msgq_deq rkmq i =
     (if length (rkmq_msgs rkmq) \<le> i then None
      else
        let rkm = rkmq_msgs rkmq ! i in
        if rkmq_msg_cnt rkmq \<le> 0 \<or> rkmq_msg_bytes rkmq < rkm_size rkm then None
        else Some (rkm, rkmq\<lparr>rkmq_msgs := take i (rkmq_msgs rkmq) @ drop (Suc i) (rkmq_msgs rkmq),
                             rkmq_msg_cnt := rkmq_msg_cnt rkmq - 1,
                             rkmq_msg_bytes := rkmq_msg_bytes rkmq - rkm_size rkm\<rparr>))"

definition rd_kafka_msgq_first :: "rd_kafka_msgq \<Rightarrow> rd_kafka_msg option" where
  "rd_kafka_msgq_first rkmq = (case rkmq_msgs rkmq of [] \<Rightarrow> None | rkm # _ \<Rightarrow> Some rkm)"

definition rd_kafka_msgq_last :: "rd_kafka_msgq \<Rightarrow> rd_kafka_msg option" where
  "rd_kafka_msgq_last rkmq = (case rkmq_msgs rkmq of [] \<Rightarrow> None | rkm # rkms \<Rightarrow> Some (last (rkm # rkms)))"

definition rd_kafka_msgq_first_msgid :: "rd_kafka_msgq \<Rightarrow> int" where
  "rd_kafka_msgq_first_msgid rkmq =
     (case rd_kafka_msgq_first rkmq of Some rkm \<Rightarrow> rkm_msgid rkm | None \<Rightarrow> 0)"

text \<open>\<open>Some None\<close> is the empty queue, \<open>None\<close> a failed assertion.\<close>

definition rd_kafka_msgq_pop :: "rd_kafka_msgq \<Rightarrow> (rd_kafka_msg option \<times> rd_kafka_msgq) option" where
  "rd_kafka_msgq_pop rkmq =
     (if rkmq_msgs rkmq = [] then Some (None, rkmq)
      else map_option (\<lambda>(rkm, rkmq). (Some rkm, rkmq)) (rd_kafka_msgq_deq rkmq 0))"

definition rd_kafka_msgq_insert :: "rd_kafka_msgq \<Rightarrow> rd_kafka_msg \<Rightarrow> rd_kafka_msgq" where
  "rd_kafka_msgq_insert rkmq rkm =
     rkmq\<lparr>rkmq_msgs := rkm # rkmq_msgs rkmq, rkmq_msg_cnt := rkmq_msg_cnt rkmq + 1,
          rkmq_msg_bytes := rkmq_msg_bytes rkmq + rkm_size rkm\<rparr>"

definition rd_kafka_msgq_enq :: "rd_kafka_msgq \<Rightarrow> rd_kafka_msg \<Rightarrow> rd_kafka_msgq" where
  "rd_kafka_msgq_enq rkmq rkm =
     rkmq\<lparr>rkmq_msgs := rkmq_msgs rkmq @ [rkm], rkmq_msg_cnt := rkmq_msg_cnt rkmq + 1,
          rkmq_msg_bytes := rkmq_msg_bytes rkmq + rkm_size rkm\<rparr>"

definition rd_kafka_msgq_enq_sorted0 ::
  "rd_kafka_msgq \<Rightarrow> rd_kafka_msg \<Rightarrow> (rd_kafka_msg \<Rightarrow> rd_kafka_msg \<Rightarrow> int) \<Rightarrow> rd_kafka_msgq" where
  "rd_kafka_msgq_enq_sorted0 rkmq rkm order_cmp =
     rkmq\<lparr>rkmq_msgs := TAILQ_INSERT_SORTED order_cmp rkm (rkmq_msgs rkmq),
          rkmq_msg_cnt := rkmq_msg_cnt rkmq + 1,
          rkmq_msg_bytes := rkmq_msg_bytes rkmq + rkm_size rkm\<rparr>"

definition rd_kafka_msgq_overlap :: "rd_kafka_msgq \<Rightarrow> rd_kafka_msgq \<Rightarrow> bool" where
  "rd_kafka_msgq_overlap a b =
     (case (rkmq_msgs a, rkmq_msgs b) of
        (fa # _, fb # _) \<Rightarrow>
          rkm_msgid fa \<le> rkm_msgid (last (rkmq_msgs b)) \<and> rkm_msgid fb \<le> rkm_msgid (last (rkmq_msgs a))
      | _ \<Rightarrow> False)"

section \<open>Waking up\<close>

definition rd_kafka_msgq_may_wakeup :: "rd_kafka_msgq \<Rightarrow> int \<Rightarrow> bool" where
  "rd_kafka_msgq_may_wakeup rkmq now =
     (let wk = rkmq_wakeup rkmq in
      if wk_signalled wk then False
      else if now \<ge> wk_abstime wk then True
      else if rkmq_msg_cnt rkmq = 1 \<and> wk_on_first wk then True
      else rkmq_msg_cnt rkmq \<ge> wk_msg_cnt wk \<or> rkmq_msg_bytes rkmq > wk_msg_bytes wk)"

text \<open>The result: whether the batch is ready, the queue and the caller's \<open>next_wakeup\<close>,
  which may be absent.\<close>

definition rd_kafka_msgq_allow_wakeup_at ::
  "rd_kafka_msgq \<Rightarrow> rd_kafka_msgq \<Rightarrow> int option \<Rightarrow> int \<Rightarrow> int \<Rightarrow> int \<Rightarrow> int \<Rightarrow>
   bool \<times> rd_kafka_msgq \<times> int option" where
  "rd_kafka_msgq_allow_wakeup_at rkmq dest_rkmq next_wakeup now linger_us batch_msg_cnt batch_msg_bytes =
     (let (wk, next_wakeup, msg_cnt, msg_bytes) =
        (case rkmq_msgs dest_rkmq of
           [] \<Rightarrow> ((rkmq_wakeup rkmq)\<lparr>wk_on_first := True, wk_abstime := now + linger_us\<rparr>, next_wakeup, 0, 0)
         | rkm # _ \<Rightarrow>
             let abstime = (if rkm_ts_backoff rkm > now then rkm_ts_backoff rkm
                            else if rkm_ts_enq rkm + linger_us \<le> now then now
                            else rkm_ts_enq rkm + linger_us)
             in ((rkmq_wakeup rkmq)\<lparr>wk_on_first := False, wk_abstime := abstime\<rparr>,
                 map_option (\<lambda>next. if abstime < next then abstime else next) next_wakeup,
                 rd_kafka_msgq_len dest_rkmq, rd_kafka_msgq_size dest_rkmq))
      in if msg_cnt \<ge> batch_msg_cnt \<or> msg_bytes \<ge> batch_msg_bytes \<or> (msg_cnt > 0 \<and> now \<ge> wk_abstime wk)
         then (True, rkmq\<lparr>rkmq_wakeup := wk\<lparr>wk_signalled := True\<rparr>\<rparr>, next_wakeup)
         else (False, rkmq\<lparr>rkmq_wakeup := wk\<lparr>wk_signalled := False, wk_msg_cnt := batch_msg_cnt - msg_cnt,
                             wk_msg_bytes := batch_msg_bytes - msg_bytes\<rparr>\<rparr>, next_wakeup))"

section \<open>Inserting a queue into another\<close>

text \<open>The scan of \<open>rd_kafka_msgq_find_pos\<close> from an index on: the position and the counters, if one is
  found. The byte counter adds the size of the message to insert, not of the ones it passes.\<close>

fun msgq_find_pos_loop ::
  "(rd_kafka_msg \<Rightarrow> rd_kafka_msg \<Rightarrow> int) \<Rightarrow> rd_kafka_msg \<Rightarrow> rd_kafka_msg list \<Rightarrow> nat \<Rightarrow> int \<Rightarrow> int \<Rightarrow>
   (nat \<times> int \<times> int) option" where
  "msgq_find_pos_loop cmp rkm [] i cnt bytes = None"
| "msgq_find_pos_loop cmp rkm (cur # rest) i cnt bytes =
     (if cmp rkm cur < 0 then Some (i, cnt, bytes)
      else msgq_find_pos_loop cmp rkm rest (Suc i) (cnt + 1) (bytes + rkm_size rkm))"

definition rd_kafka_msgq_find_pos ::
  "rd_kafka_msgq \<Rightarrow> nat option \<Rightarrow> rd_kafka_msg \<Rightarrow> (rd_kafka_msg \<Rightarrow> rd_kafka_msg \<Rightarrow> int) \<Rightarrow>
   (nat \<times> int \<times> int) option" where
  "rd_kafka_msgq_find_pos rkmq start_pos rkm cmp =
     (let i = (case start_pos of Some i \<Rightarrow> i | None \<Rightarrow> 0)
      in msgq_find_pos_loop cmp rkm (drop i (rkmq_msgs rkmq)) i 0 0)"

text \<open>The result is the left and the right queue.\<close>

definition rd_kafka_msgq_split ::
  "rd_kafka_msgq \<Rightarrow> nat \<Rightarrow> int \<Rightarrow> int \<Rightarrow> (rd_kafka_msgq \<times> rd_kafka_msgq) option" where
  "rd_kafka_msgq_split leftq first_right cnt bytes =
     (if first_right = 0 then None
      else Some (leftq\<lparr>rkmq_msgs := take first_right (rkmq_msgs leftq), rkmq_msg_cnt := cnt,
                       rkmq_msg_bytes := bytes\<rparr>,
                 RD_KAFKA_MSGQ_INITIALIZER
                   \<lparr>rkmq_msgs := drop first_right (rkmq_msgs leftq),
                    rkmq_msg_cnt := rkmq_msg_cnt leftq - cnt,
                    rkmq_msg_bytes := rkmq_msg_bytes leftq - bytes\<rparr>))"

definition rd_kafka_msgq_insert_msgq_before ::
  "rd_kafka_msgq \<Rightarrow> nat option \<Rightarrow> rd_kafka_msgq \<Rightarrow> (rd_kafka_msg \<Rightarrow> rd_kafka_msg \<Rightarrow> int) \<Rightarrow>
   (rd_kafka_msgq \<times> rd_kafka_msgq) option" where
  "rd_kafka_msgq_insert_msgq_before destq insert_before srcq cmp =
     (case insert_before of
        None \<Rightarrow> Some (rd_kafka_msgq_concat destq srcq)
      | Some i \<Rightarrow> do {
          let ib = rkmq_msgs destq ! i;
          (srcq, tmpq) \<leftarrow>
            (if cmp (last (rkmq_msgs srcq)) ib > 0
             then case rd_kafka_msgq_find_pos srcq None ib cmp of
                    None \<Rightarrow> None
                  | Some (new_sfirst, cnt, bytes) \<Rightarrow> rd_kafka_msgq_split srcq new_sfirst cnt bytes
             else Some (srcq, RD_KAFKA_MSGQ_INITIALIZER));
          Some (destq\<lparr>rkmq_msgs := take i (rkmq_msgs destq) @ rkmq_msgs srcq @ drop i (rkmq_msgs destq),
                      rkmq_msg_cnt := rkmq_msg_cnt destq + rkmq_msg_cnt srcq,
                      rkmq_msg_bytes := rkmq_msg_bytes destq + rkmq_msg_bytes srcq\<rparr>,
                fst (rd_kafka_msgq_move srcq tmpq))
        })"

text \<open>The loop ends when the source is empty; \<open>start_pos\<close> is the message the last chunk was
  inserted before, so its index grows by the size of the chunk.\<close>

partial_function (option) msgq_insert_msgq_loop ::
  "(rd_kafka_msg \<Rightarrow> rd_kafka_msg \<Rightarrow> int) \<Rightarrow> nat option \<Rightarrow> rd_kafka_msgq \<Rightarrow> rd_kafka_msgq \<Rightarrow>
   (rd_kafka_msgq \<times> rd_kafka_msgq) option" where
  "msgq_insert_msgq_loop cmp start_pos destq srcq =
     (case rkmq_msgs srcq of
        [] \<Rightarrow> Some (destq, srcq)
      | sfirst # _ \<Rightarrow>
          let insert_before = map_option fst (rd_kafka_msgq_find_pos destq start_pos sfirst cmp)
          in Option.bind (rd_kafka_msgq_insert_msgq_before destq insert_before srcq cmp)
               (\<lambda>(destq', srcq').
                  msgq_insert_msgq_loop cmp
                    (map_option (\<lambda>i. i + (length (rkmq_msgs srcq) - length (rkmq_msgs srcq'))) insert_before)
                    destq' srcq'))"

declare msgq_insert_msgq_loop.simps [code]

definition rd_kafka_msgq_insert_msgq ::
  "rd_kafka_msgq \<Rightarrow> rd_kafka_msgq \<Rightarrow> (rd_kafka_msg \<Rightarrow> rd_kafka_msg \<Rightarrow> int) \<Rightarrow>
   (rd_kafka_msgq \<times> rd_kafka_msgq) option" where
  "rd_kafka_msgq_insert_msgq destq srcq cmp =
     (if rkmq_msgs srcq = [] then Some (destq, srcq)
      else if rkmq_msgs destq = [] then Some (rd_kafka_msgq_move destq srcq)
      else if cmp (last (rkmq_msgs destq)) (hd (rkmq_msgs srcq)) < 0
      then Some (rd_kafka_msgq_concat destq srcq)
      else do {
        (destq, srcq) \<leftarrow> msgq_insert_msgq_loop cmp None destq srcq;
        if rkmq_msgs srcq = [] then Some (destq, srcq) else None
      })"

section \<open>Scans\<close>

text \<open>The loop over the queue from its head: the head is dequeued while its time is up.
  The result: the queue, the timed out messages and the next timeout.\<close>

fun msgq_age_scan_loop ::
  "int \<Rightarrow> rd_kafka_msg list \<Rightarrow> rd_kafka_msgq \<Rightarrow> rd_kafka_msgq \<Rightarrow> (rd_kafka_msgq \<times> rd_kafka_msgq \<times> int) option" where
  "msgq_age_scan_loop now [] rkmq timedout = Some (rkmq, timedout, 0)"
| "msgq_age_scan_loop now (rkm # rest) rkmq timedout =
     (if rkm_ts_timeout rkm > now then Some (rkmq, timedout, rkm_ts_timeout rkm)
      else do {
        (rkm, rkmq) \<leftarrow> rd_kafka_msgq_deq rkmq 0;
        msgq_age_scan_loop now rest rkmq (rd_kafka_msgq_enq timedout rkm)
      })"

text \<open>The result starts with the number of messages timed out.\<close>

definition rd_kafka_msgq_age_scan ::
  "rd_kafka_msgq \<Rightarrow> rd_kafka_msgq \<Rightarrow> int \<Rightarrow> (int \<times> rd_kafka_msgq \<times> rd_kafka_msgq \<times> int) option" where
  "rd_kafka_msgq_age_scan rkmq timedout now = do {
     let cnt = rkmq_msg_cnt timedout;
     (rkmq, timedout, abs_next_timeout) \<leftarrow> msgq_age_scan_loop now (rkmq_msgs rkmq) rkmq timedout;
     Some (rkmq_msg_cnt timedout - cnt, rkmq, timedout, abs_next_timeout)
   }"

text \<open>The result is the pair of the destination and the source.\<close>

fun msgq_move_acked_loop ::
  "rd_kafka_msg list \<Rightarrow> rd_kafka_msgq \<Rightarrow> rd_kafka_msgq \<Rightarrow> int \<Rightarrow> rd_kafka_msg_status_t \<Rightarrow>
   (rd_kafka_msgq \<times> rd_kafka_msgq) option" where
  "msgq_move_acked_loop [] dest src last_msgid status = Some (dest, src)"
| "msgq_move_acked_loop (rkm # rest) dest src last_msgid status =
     (if rkm_msgid rkm \<le> last_msgid
      then do {
        (rkm, src) \<leftarrow> rd_kafka_msgq_deq src 0;
        msgq_move_acked_loop rest (rd_kafka_msgq_enq dest (rkm\<lparr>rkm_status := status\<rparr>)) src last_msgid status
      }
      else Some (dest, src))"

definition rd_kafka_msgq_move_acked ::
  "rd_kafka_msgq \<Rightarrow> rd_kafka_msgq \<Rightarrow> int \<Rightarrow> rd_kafka_msg_status_t \<Rightarrow> (rd_kafka_msgq \<times> rd_kafka_msgq) option" where
  "rd_kafka_msgq_move_acked dest src last_msgid status =
     msgq_move_acked_loop (rkmq_msgs src) dest src last_msgid status"

text \<open>A status is not downgraded from any form of persisted to not persisted.\<close>

definition rkm_set_status :: "rd_kafka_msg_status_t \<Rightarrow> rd_kafka_msg \<Rightarrow> rd_kafka_msg" where
  "rkm_set_status status rkm =
     (if status = MSG_STATUS_NOT_PERSISTED \<and> rkm_status rkm \<noteq> MSG_STATUS_NOT_PERSISTED then rkm
      else rkm\<lparr>rkm_status := status\<rparr>)"

fun msgq_set_metadata_loop ::
  "int \<Rightarrow> int \<Rightarrow> int \<Rightarrow> rd_kafka_msg_status_t \<Rightarrow> rd_kafka_msg list \<Rightarrow> rd_kafka_msg list" where
  "msgq_set_metadata_loop broker_id base_offset timestamp status [] = []"
| "msgq_set_metadata_loop broker_id base_offset timestamp status (rkm # rest) =
     (let rkm = rkm\<lparr>rkm_broker_id := broker_id, rkm_offset := base_offset\<rparr>;
          rkm = (if timestamp \<noteq> - 1
                 then rkm\<lparr>rkm_timestamp := timestamp, rkm_tstype := TIMESTAMP_LOG_APPEND_TIME\<rparr> else rkm)
      in rkm_set_status status rkm # msgq_set_metadata_loop broker_id (base_offset + 1) timestamp status rest)"

definition rd_kafka_msgq_set_metadata ::
  "rd_kafka_msgq \<Rightarrow> int \<Rightarrow> int \<Rightarrow> int \<Rightarrow> rd_kafka_msg_status_t \<Rightarrow> rd_kafka_msgq" where
  "rd_kafka_msgq_set_metadata rkmq broker_id base_offset timestamp status =
     rkmq\<lparr>rkmq_msgs := msgq_set_metadata_loop broker_id base_offset timestamp status (rkmq_msgs rkmq)\<rparr>"

section \<open>Retrying\<close>

text \<open>\<open>(1 << (retries - 1)) * retry_ms\<close> is computed in \<open>int\<close>: it is undefined when the shift or the
  product does not fit.\<close>

definition retry_backoff_ms :: "int \<Rightarrow> int \<Rightarrow> int option" where
  "retry_backoff_ms retries retry_ms =
     (if retries > 0
      then if retries > 31 \<or> 2 ^ nat (retries - 1) * retry_ms \<ge> 2 ^ 31 then None
           else Some (2 ^ nat (retries - 1) * retry_ms)
      else Some retry_ms)"

text \<open>One message that is retried; \<open>jitter\<close> is the percentage \<open>rd_jitter()\<close> drew, \<open>now\<close> the clock. The
  result is the message and the variable \<open>backoff\<close>, which the loop carries on.\<close>

definition retry_msg ::
  "int \<Rightarrow> int \<Rightarrow> int \<Rightarrow> rd_kafka_msg_status_t \<Rightarrow> bool \<Rightarrow> int \<Rightarrow> int \<Rightarrow> int \<Rightarrow> rd_kafka_msg \<Rightarrow>
   (rd_kafka_msg \<times> int) option" where
  "retry_msg now jitter incr_retry status exponential_backoff retry_ms retry_max_ms backoff rkm = do {
     let rkm = rkm\<lparr>rkm_retries := rkm_retries rkm + incr_retry\<rparr>;
     backoff \<leftarrow> (if exponential_backoff
                 then map_option (\<lambda>backoff. now + min (jitter * backoff * 10) (retry_max_ms * 1000))
                        (retry_backoff_ms (rkm_retries rkm) retry_ms)
                 else Some backoff);
     Some (rkm_set_status status (rkm\<lparr>rkm_ts_backoff := backoff\<rparr>), backoff)
   }"

text \<open>The loop over the messages of the source: \<open>i\<close> is the index of the current one in what is left
  of the source queue.\<close>

fun retry_msgq_loop ::
  "int \<Rightarrow> int \<Rightarrow> int \<Rightarrow> int \<Rightarrow> rd_kafka_msg_status_t \<Rightarrow> bool \<Rightarrow> int \<Rightarrow> int \<Rightarrow> int \<Rightarrow> rd_kafka_msg list \<Rightarrow> nat \<Rightarrow>
   rd_kafka_msgq \<Rightarrow> rd_kafka_msgq \<Rightarrow> (rd_kafka_msgq \<times> rd_kafka_msgq) option" where
  "retry_msgq_loop now jitter incr_retry max_retries status expo retry_ms retry_max_ms backoff [] i srcq retryable =
     Some (srcq, retryable)"
| "retry_msgq_loop now jitter incr_retry max_retries status expo retry_ms retry_max_ms backoff (rkm # rest) i srcq retryable =
     (if rkm_retries rkm + incr_retry > max_retries
      then retry_msgq_loop now jitter incr_retry max_retries status expo retry_ms retry_max_ms backoff
             rest (Suc i) srcq retryable
      else do {
        (rkm, srcq) \<leftarrow> rd_kafka_msgq_deq srcq i;
        (rkm, backoff) \<leftarrow> retry_msg now jitter incr_retry status expo retry_ms retry_max_ms backoff rkm;
        retry_msgq_loop now jitter incr_retry max_retries status expo retry_ms retry_max_ms backoff
          rest i srcq (rd_kafka_msgq_enq retryable rkm)
      })"

text \<open>The result: the return value, the destination and the source queue.\<close>

definition rd_kafka_retry_msgq ::
  "int \<Rightarrow> int \<Rightarrow> rd_kafka_msgq \<Rightarrow> rd_kafka_msgq \<Rightarrow> int \<Rightarrow> int \<Rightarrow> int \<Rightarrow> rd_kafka_msg_status_t \<Rightarrow>
   (rd_kafka_msg \<Rightarrow> rd_kafka_msg \<Rightarrow> int) \<Rightarrow> bool \<Rightarrow> int \<Rightarrow> int \<Rightarrow> (int \<times> rd_kafka_msgq \<times> rd_kafka_msgq) option" where
  "rd_kafka_retry_msgq now jitter destq srcq incr_retry max_retries backoff status cmp exponential_backoff
     retry_ms retry_max_ms = do {
     (srcq, retryable) \<leftarrow> retry_msgq_loop now jitter incr_retry max_retries status exponential_backoff
                             retry_ms retry_max_ms backoff (rkmq_msgs srcq) 0 srcq RD_KAFKA_MSGQ_INITIALIZER;
     if rkmq_msgs retryable = [] then Some (0, destq, srcq)
     else do {
       (destq, _) \<leftarrow> rd_kafka_msgq_insert_msgq destq retryable cmp;
       Some (1, destq, srcq)
     }
   }"

section \<open>The counters are right\<close>

text \<open>The counters say how many messages and bytes the queue holds.\<close>

definition msgq_ok :: "rd_kafka_msgq \<Rightarrow> bool" where
  "msgq_ok rkmq \<longleftrightarrow> rkmq_msg_cnt rkmq = int (length (rkmq_msgs rkmq)) \<and>
     rkmq_msg_bytes rkmq = sum_list (map rkm_size (rkmq_msgs rkmq)) \<and> (\<forall>rkm \<in> set (rkmq_msgs rkmq). 0 \<le> rkm_size rkm)"

lemma msgq_ok_initializer [simp]: "msgq_ok RD_KAFKA_MSGQ_INITIALIZER" "rkmq_msgs RD_KAFKA_MSGQ_INITIALIZER = []"
  "rkmq_msg_cnt RD_KAFKA_MSGQ_INITIALIZER = 0" "rkmq_msg_bytes RD_KAFKA_MSGQ_INITIALIZER = 0"
  by (simp_all add: msgq_ok_def RD_KAFKA_MSGQ_INITIALIZER_def)

lemma msgq_init_sel [simp]: "rkmq_msgs (rd_kafka_msgq_init q) = []" "rkmq_msg_cnt (rd_kafka_msgq_init q) = 0"
  "rkmq_msg_bytes (rd_kafka_msgq_init q) = 0" "msgq_ok (rd_kafka_msgq_init q)"
  by (simp_all add: msgq_ok_def rd_kafka_msgq_init_def)

lemma msgq_len: "msgq_ok q \<Longrightarrow> rd_kafka_msgq_len q = int (length (rkmq_msgs q))"
  by (simp add: msgq_ok_def rd_kafka_msgq_len_def)

lemma enq_sel [simp]: "rkmq_msgs (rd_kafka_msgq_enq q rkm) = rkmq_msgs q @ [rkm]"
  by (simp add: rd_kafka_msgq_enq_def)

lemma msgq_ok_enq: "msgq_ok q \<Longrightarrow> 0 \<le> rkm_size rkm \<Longrightarrow> msgq_ok (rd_kafka_msgq_enq q rkm)"
  by (auto simp: msgq_ok_def rd_kafka_msgq_enq_def)

lemma sum_list_take_drop: "i < length xs \<Longrightarrow>
   sum_list (map f (take i xs @ drop (Suc i) xs)) = sum_list (map f xs) - (f (xs ! i) :: int)"
  by (subst (3) id_take_nth_drop [of i]) simp_all

lemma deq_ok:
  assumes "msgq_ok q" "i < length (rkmq_msgs q)"
  shows "\<exists>q'. rd_kafka_msgq_deq q i = Some (rkmq_msgs q ! i, q') \<and> msgq_ok q' \<and>
    rkmq_msgs q' = take i (rkmq_msgs q) @ drop (Suc i) (rkmq_msgs q) \<and> rkmq_wakeup q' = rkmq_wakeup q"
proof -
  have "rkm_size (rkmq_msgs q ! i) \<le> sum_list (map rkm_size (rkmq_msgs q))"
    using assms by (intro member_le_sum_list) (auto simp: msgq_ok_def)
  moreover have "set (take i (rkmq_msgs q) @ drop (Suc i) (rkmq_msgs q)) \<subseteq> set (rkmq_msgs q)"
    by (auto dest: in_set_takeD in_set_dropD)
  ultimately show ?thesis using assms
    by (auto simp: rd_kafka_msgq_deq_def msgq_ok_def Let_def sum_list_take_drop simp del: map_append)
qed

lemma deq_hd_ok:
  assumes "msgq_ok q" "rkmq_msgs q = rkm # rest"
  shows "\<exists>q'. rd_kafka_msgq_deq q 0 = Some (rkm, q') \<and> msgq_ok q' \<and> rkmq_msgs q' = rest \<and> 0 \<le> rkm_size rkm"
  using deq_ok [OF assms(1), of 0] assms by (auto simp: msgq_ok_def)

lemma counters_mset:
  assumes "rkmq_msg_cnt q = rkmq_msg_cnt a + rkmq_msg_cnt b" "rkmq_msg_bytes q = rkmq_msg_bytes a + rkmq_msg_bytes b"
    "mset (rkmq_msgs q) = mset (rkmq_msgs a) + mset (rkmq_msgs b)" "msgq_ok a" "msgq_ok b"
  shows "msgq_ok q"
proof -
  have p: "mset (rkmq_msgs q) = mset (rkmq_msgs a @ rkmq_msgs b)" using assms(3) by simp
  have "length (rkmq_msgs q) = length (rkmq_msgs a @ rkmq_msgs b)" using p by (rule mset_eq_length)
  moreover have "set (rkmq_msgs q) = set (rkmq_msgs a @ rkmq_msgs b)" using p by (rule mset_eq_setD)
  moreover have "sum_list (map rkm_size (rkmq_msgs q)) = sum_list (map rkm_size (rkmq_msgs a @ rkmq_msgs b))"
    using p by (metis mset_map sum_mset_sum_list)
  ultimately show ?thesis using assms(1,2,4,5) by (auto simp: msgq_ok_def)
qed

lemma fold_enq_sorted0_sel:
  "rkmq_msgs (fold (\<lambda>rkm q. rd_kafka_msgq_enq_sorted0 q rkm cmp) ms q) = fold (TAILQ_INSERT_SORTED cmp) ms (rkmq_msgs q)"
  "rkmq_wakeup (fold (\<lambda>rkm q. rd_kafka_msgq_enq_sorted0 q rkm cmp) ms q) = rkmq_wakeup q"
  by (induction ms arbitrary: q) (simp_all add: rd_kafka_msgq_enq_sorted0_def)

lemma enq_sorted0_ok: "msgq_ok q \<Longrightarrow> 0 \<le> rkm_size rkm \<Longrightarrow> msgq_ok (rd_kafka_msgq_enq_sorted0 q rkm cmp)"
proof -
  assume "msgq_ok q" "0 \<le> rkm_size rkm"
  moreover have "mset (rkmq_msgs (rd_kafka_msgq_enq_sorted0 q rkm cmp)) = mset (rkm # rkmq_msgs q)"
    by (simp add: rd_kafka_msgq_enq_sorted0_def)
  ultimately show ?thesis
    by (intro counters_mset [of "rd_kafka_msgq_enq_sorted0 q rkm cmp" q "rd_kafka_msgq_enq RD_KAFKA_MSGQ_INITIALIZER rkm"])
       (simp_all add: msgq_ok_enq rd_kafka_msgq_enq_sorted0_def, simp_all add: rd_kafka_msgq_enq_def)
qed

lemma fold_enq_sorted0_ok:
  "msgq_ok q \<Longrightarrow> \<forall>rkm \<in> set ms. 0 \<le> rkm_size rkm \<Longrightarrow>
     msgq_ok (fold (\<lambda>rkm q. rd_kafka_msgq_enq_sorted0 q rkm cmp) ms q)"
  by (induction ms arbitrary: q) (simp_all add: enq_sorted0_ok)

section \<open>Bulk insertion\<close>

lemma find_pos_loop_eq:
  "msgq_find_pos_loop cmp rkm xs i cnt bytes =
     (let n = length (takeWhile (\<lambda>x. \<not> cmp rkm x < 0) xs)
      in if n < length xs then Some (i + n, cnt + int n, bytes + int n * rkm_size rkm) else None)"
  by (induction xs arbitrary: i cnt bytes) (auto simp: Let_def algebra_simps)

text \<open>The contract of the order of messages: a comparator, interpreted for both queuing strategies.\<close>

locale msg_order = rd_comparator cmp
  for cmp :: "rd_kafka_msg \<Rightarrow> rd_kafka_msg \<Rightarrow> int" +
  assumes cmp_by_msgid: "cmp a b = 0 \<longleftrightarrow> rkm_msgid a = rkm_msgid b"
begin

lemma lt_trans: "cmp a b < 0 \<Longrightarrow> cmp b c < 0 \<Longrightarrow> cmp a c < 0"
  using cmp_trans [of a b c] cmp_trans [of c a b] cmp_antisym [of a c] cmp_antisym [of c b] cmp_antisym [of b c]
    cmp_antisym [of c a] by (smt (verit))

lemma lt_cases: "cmp a b \<noteq> 0 \<Longrightarrow> \<not> cmp a b < 0 \<Longrightarrow> cmp b a < 0"
  using cmp_antisym [of a b] by linarith

text \<open>Two queues whose messages are all different.\<close>

definition apart :: "rd_kafka_msg list \<Rightarrow> rd_kafka_msg list \<Rightarrow> bool" where
  "apart xs ys \<longleftrightarrow> sorted_wrt (\<lambda>a b. cmp a b < 0) xs \<and> sorted_wrt (\<lambda>a b. cmp a b < 0) ys \<and>
     (\<forall>x \<in> set xs. \<forall>y \<in> set ys. cmp x y \<noteq> 0)"

lemma sorted_last: "sorted_wrt (\<lambda>a b. cmp a b < 0) ys \<Longrightarrow> y \<in> set ys \<Longrightarrow> y = last ys \<or> cmp y (last ys) < 0"
  by (induction ys) (auto split: if_splits)

lemma sorted_hd: "sorted_wrt (\<lambda>a b. cmp a b < 0) (s # ys) \<Longrightarrow> y \<in> set (s # ys) \<Longrightarrow> y = s \<or> cmp s y < 0"
  by auto

lemma takeWhile_below:
  assumes "apart xs ys" "s \<in> set ys" "x \<in> set (takeWhile (\<lambda>x. \<not> cmp s x < 0) xs)"
  shows "cmp x s < 0"
  using assms set_takeWhileD [OF assms(3)] lt_cases [of s x] cmp_antisym [of x s] by (fastforce simp: apart_def)

lemma takeWhile_prefix_below:
  assumes "apart (drop st d) (s # ss)" "\<forall>x \<in> set (take st d). \<forall>y \<in> set (s # ss). cmp x y < 0"
  shows "\<forall>x \<in> set (take (st + length (takeWhile (\<lambda>x. \<not> cmp s x < 0) (drop st d))) d). \<forall>y \<in> set (s # ss). cmp x y < 0"
proof -
  have "take (st + length (takeWhile (\<lambda>x. \<not> cmp s x < 0) (drop st d))) d =
      take st d @ takeWhile (\<lambda>x. \<not> cmp s x < 0) (drop st d)"
    by (simp only: take_add takeWhile_eq_take [symmetric])
  moreover have "cmp x y < 0" if "x \<in> set (takeWhile (\<lambda>x. \<not> cmp s x < 0) (drop st d))" "y \<in> set (s # ss)" for x y
  proof -
    have "cmp x s < 0" using takeWhile_below [OF assms(1) _ that(1)] by simp
    moreover have "y = s \<or> cmp s y < 0" using assms(1) that(2) by (auto simp: apart_def)
    ultimately show ?thesis using lt_trans by blast
  qed
  ultimately show ?thesis using assms(2) by auto
qed

lemma dropWhile_above:
  assumes "sorted_wrt (\<lambda>a b. cmp a b < 0) xs" "x \<in> set (dropWhile (\<lambda>x. \<not> cmp s x < 0) xs)"
  shows "cmp s x < 0"
proof -
  obtain d ds where d: "dropWhile (\<lambda>x. \<not> cmp s x < 0) xs = d # ds" using assms(2) by (cases "dropWhile (\<lambda>x. \<not> cmp s x < 0) xs") auto
  then have "cmp s d < 0" using hd_dropWhile [of "\<lambda>x. \<not> cmp s x < 0" xs] by simp
  moreover have "sorted_wrt (\<lambda>a b. cmp a b < 0) (d # ds)"
    using assms(1) d by (metis sorted_wrt_append takeWhile_dropWhile_id)
  ultimately show ?thesis using assms(2) d lt_trans by auto
qed

text \<open>One chunk: the messages of the source up to the insert position go in front of it, what is left
  of the source comes after it, and no counter is lost, however the split has divided the bytes.\<close>

lemma insert_before_chunk:
  assumes "apart (rkmq_msgs dst) (rkmq_msgs src)" "rkmq_msgs src = s # ss" "i < length (rkmq_msgs dst)"
    "cmp s (rkmq_msgs dst ! i) < 0"
  shows "\<exists>k dst' src'. rd_kafka_msgq_insert_msgq_before dst (Some i) src cmp = Some (dst', src') \<and> 0 < k \<and>
    rkmq_msgs dst' = take i (rkmq_msgs dst) @ take k (rkmq_msgs src) @ drop i (rkmq_msgs dst) \<and>
    rkmq_msgs src' = drop k (rkmq_msgs src) \<and> k \<le> length (rkmq_msgs src) \<and>
    rkmq_msg_cnt dst' + rkmq_msg_cnt src' = rkmq_msg_cnt dst + rkmq_msg_cnt src \<and>
    rkmq_msg_bytes dst' + rkmq_msg_bytes src' = rkmq_msg_bytes dst + rkmq_msg_bytes src \<and>
    (rkmq_msgs src' = [] \<longrightarrow> rkmq_msg_cnt src' = 0 \<and> rkmq_msg_bytes src' = 0) \<and> rkmq_wakeup dst' = rkmq_wakeup dst \<and>
    (\<forall>y \<in> set (take k (rkmq_msgs src)). cmp y (rkmq_msgs dst ! i) < 0) \<and>
    (\<forall>y \<in> set (drop k (rkmq_msgs src)). cmp (rkmq_msgs dst ! i) y < 0)"
proof -
  let ?ib = "rkmq_msgs dst ! i" and ?s = "rkmq_msgs src"
  define k where "k = length (takeWhile (\<lambda>x. \<not> cmp ?ib x < 0) ?s)"
  have srcs: "sorted_wrt (\<lambda>a b. cmp a b < 0) ?s" using assms(1) by (simp add: apart_def)
  have nz: "cmp ?ib y \<noteq> 0" if "y \<in> set ?s" for y using assms(1,3) that by (auto simp: apart_def)
  have take: "take k ?s = takeWhile (\<lambda>x. \<not> cmp ?ib x < 0) ?s" and drop: "drop k ?s = dropWhile (\<lambda>x. \<not> cmp ?ib x < 0) ?s"
    by (simp_all only: k_def takeWhile_eq_take [symmetric] dropWhile_eq_drop [symmetric])
  have left: "\<forall>y \<in> set (take k ?s). cmp y ?ib < 0"
    using nz lt_cases [of ?ib] unfolding take by (blast dest: set_takeWhileD)
  have right: "\<forall>y \<in> set (drop k ?s). cmp ?ib y < 0" using dropWhile_above [OF srcs] unfolding drop by blast
  have k: "0 < k" "k \<le> length ?s" using assms(2,4) cmp_antisym [of ?ib s] length_takeWhile_le by (auto simp: k_def)
  have fp: "rd_kafka_msgq_find_pos src None ?ib cmp = (if k < length ?s then Some (k, int k, int k * rkm_size ?ib) else None)"
    by (simp add: rd_kafka_msgq_find_pos_def find_pos_loop_eq k_def Let_def)
  have split: "cmp (last ?s) ?ib > 0 \<longleftrightarrow> k < length ?s"
  proof -
    have l: "last ?s \<in> set ?s" using assms(2) by (metis last_in_set list.distinct(1))
    have "k < length ?s" if "cmp (last ?s) ?ib > 0"
    proof (rule ccontr)
      assume "\<not> k < length ?s"
      then have "last ?s \<in> set (take k ?s)" using l by simp
      then show False using left that by force
    qed
    moreover have "cmp (last ?s) ?ib > 0" if "k < length ?s"
      using right that cmp_antisym [of "last ?s" ?ib] last_drop [of k ?s] last_in_set [of "drop k ?s"] by fastforce
    ultimately show ?thesis by blast
  qed
  show ?thesis
  proof (cases "k < length ?s")
    case True
    let ?d1 = "dst\<lparr>rkmq_msgs := take i (rkmq_msgs dst) @ take k ?s @ drop i (rkmq_msgs dst),
      rkmq_msg_cnt := rkmq_msg_cnt dst + int k, rkmq_msg_bytes := rkmq_msg_bytes dst + int k * rkm_size ?ib\<rparr>"
    let ?s1 = "src\<lparr>rkmq_msgs := drop k ?s, rkmq_msg_cnt := rkmq_msg_cnt src - int k,
      rkmq_msg_bytes := rkmq_msg_bytes src - int k * rkm_size ?ib\<rparr>"
    have "rd_kafka_msgq_insert_msgq_before dst (Some i) src cmp = Some (?d1, ?s1)"
      using True split fp k(1)
      by (simp add: rd_kafka_msgq_insert_msgq_before_def rd_kafka_msgq_split_def rd_kafka_msgq_move_def Let_def)
    then show ?thesis using True k left right
      by - (rule exI [of _ k], rule exI [of _ ?d1], rule exI [of _ ?s1], simp)
  next
    case False
    let ?d1 = "dst\<lparr>rkmq_msgs := take i (rkmq_msgs dst) @ take k ?s @ drop i (rkmq_msgs dst),
      rkmq_msg_cnt := rkmq_msg_cnt dst + rkmq_msg_cnt src, rkmq_msg_bytes := rkmq_msg_bytes dst + rkmq_msg_bytes src\<rparr>"
    let ?s1 = "src\<lparr>rkmq_msgs := [], rkmq_msg_cnt := 0, rkmq_msg_bytes := 0\<rparr>"
    have "rd_kafka_msgq_insert_msgq_before dst (Some i) src cmp = Some (?d1, ?s1)"
      using False split by (simp add: rd_kafka_msgq_insert_msgq_before_def rd_kafka_msgq_move_def)
    then show ?thesis using False k left
      by - (rule exI [of _ k], rule exI [of _ ?d1], rule exI [of _ ?s1], simp)
  qed
qed

lemma chunk_apart:
  assumes "apart d s" "i < length d" "\<forall>x \<in> set (take i d). \<forall>y \<in> set s. cmp x y < 0"
    "\<forall>y \<in> set (take k s). cmp y (d ! i) < 0" "k \<le> length s"
  shows "apart (take i d @ take k s @ drop i d) (drop k s)"
    and "\<forall>x \<in> set (take (i + k) (take i d @ take k s @ drop i d)). \<forall>y \<in> set (drop k s). cmp x y < 0"
proof -
  have s: "sorted_wrt (\<lambda>a b. cmp a b < 0) (take k s @ drop k s)" using assms(1) by (simp add: apart_def)
  then have lr: "\<forall>x \<in> set (take k s). \<forall>y \<in> set (drop k s). cmp x y < 0" unfolding sorted_wrt_append by blast
  have d: "sorted_wrt (\<lambda>a b. cmp a b < 0) (take i d @ d ! i # drop (Suc i) d)"
    using assms(1,2) by (simp add: apart_def id_take_nth_drop [symmetric])
  then have "\<forall>y \<in> set (take k s). \<forall>x \<in> set (drop i d). cmp y x < 0"
    using assms(2,4) lt_trans by (auto simp: sorted_wrt_append Cons_nth_drop_Suc [symmetric])
  then have srt: "sorted_wrt (\<lambda>a b. cmp a b < 0) (take i d @ take k s @ drop i d)"
    using d s assms(2,3) by (auto simp: sorted_wrt_append Cons_nth_drop_Suc [symmetric] dest: in_set_takeD)
  have "cmp x y \<noteq> 0" if "x \<in> set (take i d @ take k s @ drop i d)" "y \<in> set (drop k s)" for x y
    using that lr assms(1) by (fastforce simp: apart_def dest: in_set_takeD in_set_dropD)
  then show "apart (take i d @ take k s @ drop i d) (drop k s)"
    using srt s by (auto simp: apart_def sorted_wrt_append)
  have "length (take i d) = i" "length (take k s) = k" using assms(2,5) by simp_all
  then have "take (i + k) (take i d @ take k s @ drop i d) = take i d @ take k s" by simp
  then show "\<forall>x \<in> set (take (i + k) (take i d @ take k s @ drop i d)). \<forall>y \<in> set (drop k s). cmp x y < 0"
    using lr assms(3) by (auto dest: in_set_dropD)
qed

text \<open>The whole loop ends with every message in its place and the counters added up.\<close>

lemma insert_loop_ok:
  assumes "apart (rkmq_msgs dst) (rkmq_msgs src)" "rkmq_msgs src = [] \<longrightarrow> rkmq_msg_cnt src = 0 \<and> rkmq_msg_bytes src = 0"
    "(case start of Some i \<Rightarrow> i | None \<Rightarrow> 0) \<le> length (rkmq_msgs dst)"
    "\<forall>x \<in> set (take (case start of Some i \<Rightarrow> i | None \<Rightarrow> 0) (rkmq_msgs dst)). \<forall>y \<in> set (rkmq_msgs src). cmp x y < 0"
  shows "\<exists>dst' src'. msgq_insert_msgq_loop cmp start dst src = Some (dst', src') \<and> rkmq_msgs src' = [] \<and>
    rkmq_msg_cnt src' = 0 \<and> rkmq_msg_bytes src' = 0 \<and>
    sorted_wrt (\<lambda>a b. cmp a b < 0) (rkmq_msgs dst') \<and> mset (rkmq_msgs dst') = mset (rkmq_msgs dst) + mset (rkmq_msgs src) \<and>
    rkmq_msg_cnt dst' = rkmq_msg_cnt dst + rkmq_msg_cnt src \<and>
    rkmq_msg_bytes dst' = rkmq_msg_bytes dst + rkmq_msg_bytes src \<and> rkmq_wakeup dst' = rkmq_wakeup dst"
  using assms
proof (induction "length (rkmq_msgs src)" arbitrary: start dst src rule: less_induct)
  case less
  let ?st = "case start of Some i \<Rightarrow> i | None \<Rightarrow> 0" and ?d = "rkmq_msgs dst"
  note loop = msgq_insert_msgq_loop.simps
  show ?case
  proof (cases "rkmq_msgs src")
    case Nil
    then show ?thesis using less.prems by (subst loop) (simp add: apart_def)
  next
    case (Cons s ss)
    define i where "i = ?st + length (takeWhile (\<lambda>x. \<not> cmp s x < 0) (drop ?st ?d))"
    have fp: "map_option fst (rd_kafka_msgq_find_pos dst start s cmp) = (if i < length ?d then Some i else None)"
      using less.prems(3) by (auto simp: rd_kafka_msgq_find_pos_def find_pos_loop_eq i_def Let_def)
    have "apart (drop ?st ?d) (s # ss)"
      using less.prems(1) Cons by (auto simp: apart_def sorted_wrt_drop dest: in_set_dropD)
    then have below: "\<forall>x \<in> set (take i ?d). \<forall>y \<in> set (rkmq_msgs src). cmp x y < 0"
      unfolding Cons i_def by (rule takeWhile_prefix_below) (use less.prems(4) Cons in simp)
    show ?thesis
    proof (cases "i < length ?d")
      case False
      then have "\<forall>x \<in> set ?d. \<forall>y \<in> set (rkmq_msgs src). cmp x y < 0" using below by simp
      then have "sorted_wrt (\<lambda>a b. cmp a b < 0) (?d @ rkmq_msgs src)"
        using less.prems(1) unfolding apart_def sorted_wrt_append by blast
      then show ?thesis using False fp Cons
        by (subst loop) (simp add: Let_def rd_kafka_msgq_insert_msgq_before_def rd_kafka_msgq_concat_def, subst loop, simp)
    next
      case True
      have "cmp s (?d ! i) < 0"
        using True nth_length_takeWhile [of "\<lambda>x. \<not> cmp s x < 0" "drop ?st ?d"] less.prems(3) by (auto simp: i_def)
      from insert_before_chunk [OF less.prems(1) Cons True this] obtain k dst1 src1 where
        c: "rd_kafka_msgq_insert_msgq_before dst (Some i) src cmp = Some (dst1, src1)" "0 < k"
          "rkmq_msgs dst1 = take i ?d @ take k (rkmq_msgs src) @ drop i ?d" "rkmq_msgs src1 = drop k (rkmq_msgs src)"
          "k \<le> length (rkmq_msgs src)" "rkmq_msg_cnt dst1 + rkmq_msg_cnt src1 = rkmq_msg_cnt dst + rkmq_msg_cnt src"
          "rkmq_msg_bytes dst1 + rkmq_msg_bytes src1 = rkmq_msg_bytes dst + rkmq_msg_bytes src"
          "rkmq_msgs src1 = [] \<longrightarrow> rkmq_msg_cnt src1 = 0 \<and> rkmq_msg_bytes src1 = 0" "rkmq_wakeup dst1 = rkmq_wakeup dst"
          "\<forall>y \<in> set (take k (rkmq_msgs src)). cmp y (?d ! i) < 0" by blast
      note ap = chunk_apart [OF less.prems(1) True below c(10,5), folded c(3,4)]
      have step: "msgq_insert_msgq_loop cmp start dst src = msgq_insert_msgq_loop cmp (Some (i + k)) dst1 src1"
        using fp True Cons c(1,4,5) by (subst loop) (auto simp: Let_def)
      have len: "length (rkmq_msgs src1) < length (rkmq_msgs src)" "i + k \<le> length (rkmq_msgs dst1)"
        using c(2-5) Cons True by simp_all
      have "mset (rkmq_msgs dst1) + mset (rkmq_msgs src1) = mset ?d + mset (rkmq_msgs src)"
        unfolding c(3,4) by (metis (no_types, lifting) append_take_drop_id mset_append union_assoc union_commute)
      moreover obtain dst' src' where "msgq_insert_msgq_loop cmp (Some (i + k)) dst1 src1 = Some (dst', src')"
          "rkmq_msgs src' = []" "rkmq_msg_cnt src' = 0" "rkmq_msg_bytes src' = 0"
          "sorted_wrt (\<lambda>a b. cmp a b < 0) (rkmq_msgs dst')"
          "mset (rkmq_msgs dst') = mset (rkmq_msgs dst1) + mset (rkmq_msgs src1)"
          "rkmq_msg_cnt dst' = rkmq_msg_cnt dst1 + rkmq_msg_cnt src1"
          "rkmq_msg_bytes dst' = rkmq_msg_bytes dst1 + rkmq_msg_bytes src1" "rkmq_wakeup dst' = rkmq_wakeup dst1"
        using less.hyps [OF len(1) ap(1) c(8), of "Some (i + k)", unfolded option.case, OF len(2) ap(2)] by blast
      ultimately show ?thesis using step c(6,7,9) by simp
    qed
  qed
qed

lemma insert_msgq_ok:
  assumes "apart (rkmq_msgs dst) (rkmq_msgs src)" "msgq_ok dst" "msgq_ok src"
  shows "\<exists>dst' src'. rd_kafka_msgq_insert_msgq dst src cmp = Some (dst', src') \<and> rkmq_msgs src' = [] \<and>
    rkmq_msg_cnt src' = 0 \<and> rkmq_msg_bytes src' = 0 \<and> msgq_ok dst' \<and>
    sorted_wrt (\<lambda>a b. cmp a b < 0) (rkmq_msgs dst') \<and> mset (rkmq_msgs dst') = mset (rkmq_msgs dst) + mset (rkmq_msgs src) \<and>
    rkmq_wakeup dst' = rkmq_wakeup dst"
proof -
  let ?d = "rkmq_msgs dst" and ?s = "rkmq_msgs src"
  have ok: "msgq_ok q" if "rkmq_msg_cnt q = rkmq_msg_cnt dst + rkmq_msg_cnt src"
    "rkmq_msg_bytes q = rkmq_msg_bytes dst + rkmq_msg_bytes src" "mset (rkmq_msgs q) = mset ?d + mset ?s" for q
    using that assms(2,3) by (rule counters_mset)
  consider "?s = []" | "?s \<noteq> []" "?d = []" | "?s \<noteq> []" "?d \<noteq> []" "cmp (last ?d) (hd ?s) < 0"
    | "?s \<noteq> []" "?d \<noteq> []" "\<not> cmp (last ?d) (hd ?s) < 0" by blast
  then show ?thesis
  proof cases
    case 1
    then show ?thesis using assms by (simp add: rd_kafka_msgq_insert_msgq_def apart_def msgq_ok_def)
  next
    case 2
    then show ?thesis using assms
      by (simp add: rd_kafka_msgq_insert_msgq_def rd_kafka_msgq_move_def apart_def msgq_ok_def)
  next
    case 3
    have "cmp x y < 0" if "x \<in> set ?d" "y \<in> set ?s" for x y
    proof -
      have "y = hd ?s \<or> cmp (hd ?s) y < 0"
        using sorted_hd [of "hd ?s" "tl ?s" y] that(2) 3 assms(1) by (simp add: apart_def)
      then have y: "cmp (last ?d) y < 0" using 3(3) lt_trans [of "last ?d" "hd ?s" y] by metis
      have "x = last ?d \<or> cmp x (last ?d) < 0" using sorted_last [of ?d x] that(1) assms(1) by (simp add: apart_def)
      then show ?thesis using y lt_trans [of x "last ?d" y] by metis
    qed
    then show ?thesis using 3 assms
      by (auto simp: rd_kafka_msgq_insert_msgq_def rd_kafka_msgq_concat_def apart_def msgq_ok_def sorted_wrt_append)
  next
    case 4
    obtain dst' src' where "msgq_insert_msgq_loop cmp None dst src = Some (dst', src')" "rkmq_msgs src' = []"
        "rkmq_msg_cnt src' = 0" "rkmq_msg_bytes src' = 0"
        "sorted_wrt (\<lambda>a b. cmp a b < 0) (rkmq_msgs dst')" "mset (rkmq_msgs dst') = mset ?d + mset ?s"
        "rkmq_msg_cnt dst' = rkmq_msg_cnt dst + rkmq_msg_cnt src"
        "rkmq_msg_bytes dst' = rkmq_msg_bytes dst + rkmq_msg_bytes src" "rkmq_wakeup dst' = rkmq_wakeup dst"
      using insert_loop_ok [OF assms(1), of None] 4 by auto
    then show ?thesis using 4 ok [of dst'] by (simp add: rd_kafka_msgq_insert_msgq_def)
  qed
qed

text \<open>A sorted queue without equals is determined by its messages, so the bulk insertion does what
  inserting the messages one by one does.\<close>

lemma sorted_unique:
  assumes "sorted_wrt (\<lambda>a b. cmp a b < 0) xs" "sorted_wrt (\<lambda>a b. cmp a b < 0) ys" "mset xs = mset ys"
  shows "xs = ys"
  using assms
proof (induction xs arbitrary: ys)
  case (Cons x xs)
  then obtain y ys' where ys: "ys = y # ys'" by (cases ys) auto
  have "x = y"
  proof (rule ccontr)
    assume "x \<noteq> y"
    then have "y \<in> set xs" "x \<in> set ys'" using Cons.prems(3) ys mset_eq_setD [OF Cons.prems(3)] by auto
    then have "cmp x y < 0" "cmp y x < 0" using Cons.prems(1,2) ys by auto
    then show False using cmp_antisym [of x y] by simp
  qed
  then show ?case using Cons ys by simp
qed simp

lemma insert_strict:
  "sorted_wrt (\<lambda>a b. cmp a b < 0) xs \<Longrightarrow> \<forall>y \<in> set xs. cmp y x \<noteq> 0 \<Longrightarrow>
     sorted_wrt (\<lambda>a b. cmp a b < 0) (TAILQ_INSERT_SORTED cmp x xs)"
proof (induction xs)
  case (Cons y ys)
  have "cmp y x < 0" if "\<not> cmp x y < 0" using lt_cases [of x y] cmp_antisym [of y x] that Cons.prems(2) by auto
  moreover have "cmp x z < 0" if "cmp x y < 0" "z \<in> set ys" for z using that Cons.prems(1) lt_trans [of x y z] by simp
  ultimately show ?case using Cons by auto
qed simp

lemma fold_insert_strict:
  "apart xs ys \<Longrightarrow> sorted_wrt (\<lambda>a b. cmp a b < 0) (fold (TAILQ_INSERT_SORTED cmp) ys xs)"
proof (induction ys arbitrary: xs)
  case (Cons y ys)
  have "apart (TAILQ_INSERT_SORTED cmp y xs) ys"
    using Cons.prems by (auto simp: apart_def insert_strict)
  then show ?case using Cons.IH by simp
qed (simp add: apart_def)

lemma insert_msgq_one_by_one:
  assumes "apart (rkmq_msgs dst) (rkmq_msgs src)" "msgq_ok dst" "msgq_ok src"
  shows "\<exists>src'. rd_kafka_msgq_insert_msgq dst src cmp =
      Some (fold (\<lambda>rkm q. rd_kafka_msgq_enq_sorted0 q rkm cmp) (rkmq_msgs src) dst, src') \<and>
    rkmq_msgs src' = [] \<and> rkmq_msg_cnt src' = 0 \<and> rkmq_msg_bytes src' = 0"
proof -
  obtain dst' src' where r: "rd_kafka_msgq_insert_msgq dst src cmp = Some (dst', src')" "rkmq_msgs src' = []"
      "rkmq_msg_cnt src' = 0" "rkmq_msg_bytes src' = 0" "msgq_ok dst'" "sorted_wrt (\<lambda>a b. cmp a b < 0) (rkmq_msgs dst')"
      "mset (rkmq_msgs dst') = mset (rkmq_msgs dst) + mset (rkmq_msgs src)" "rkmq_wakeup dst' = rkmq_wakeup dst"
    using insert_msgq_ok [OF assms] by blast
  let ?f = "fold (\<lambda>rkm q. rd_kafka_msgq_enq_sorted0 q rkm cmp) (rkmq_msgs src) dst"
  have "rkmq_msgs dst' = rkmq_msgs ?f"
    using r(6) fold_insert_strict [OF assms(1)] r(7)
    by (intro sorted_unique) (simp_all add: fold_enq_sorted0_sel fold_INSERT_SORTED_mset)
  moreover have "msgq_ok ?f" using assms(2,3) by (intro fold_enq_sorted0_ok) (auto simp: msgq_ok_def)
  ultimately have "dst' = ?f" using r(5,8) fold_enq_sorted0_sel(2) [of cmp "rkmq_msgs src" dst]
    by (intro rd_kafka_msgq.equality) (auto simp: msgq_ok_def)
  then show ?thesis using r(1-4) by blast
qed

text \<open>Messages that keep their ids keep their places.\<close>

lemma cmp_cong:
  assumes "rkm_msgid a = rkm_msgid a'" "rkm_msgid b = rkm_msgid b'"
  shows "cmp a b < 0 \<longleftrightarrow> cmp a' b' < 0"
proof -
  have imp: "cmp a' b' < 0" if "rkm_msgid a = rkm_msgid a'" "rkm_msgid b = rkm_msgid b'" "cmp a b < 0" for a a' b b'
  proof -
    have "cmp a' a \<le> 0" "cmp b b' \<le> 0" using that(1,2) cmp_by_msgid [of a' a] cmp_by_msgid [of b b'] by simp_all
    then have "cmp a' b' \<le> 0" using cmp_trans [of a' a b] cmp_trans [of a' b b'] that(3) by simp
    moreover have "cmp a' b' \<noteq> 0" using that cmp_by_msgid [of a b] cmp_by_msgid [of a' b'] by auto
    ultimately show ?thesis by simp
  qed
  from imp [of a a' b b'] imp [of a' a b' b] assms show ?thesis by metis
qed

lemma apart_map:
  assumes "apart xs ys" "\<And>y. rkm_msgid (f y) = rkm_msgid y"
  shows "apart xs (map f (filter P ys))"
proof -
  have "sorted_wrt (\<lambda>a b. cmp a b < 0) (filter P ys)" using assms(1) by (simp add: apart_def sorted_wrt_filter)
  then have "sorted_wrt (\<lambda>a b. cmp (f a) (f b) < 0) (filter P ys)"
    by (rule sorted_wrt_mono_rel [rotated]) (use cmp_cong assms(2) in blast)
  then show ?thesis using assms by (simp add: apart_def sorted_wrt_map cmp_by_msgid)
qed

end

interpretation fifo: msg_order rd_kafka_msg_cmp_msgid
  by unfold_locales (auto simp: rd_kafka_msg_cmp_msgid_def RD_CMP_def split: if_splits)

interpretation lifo: msg_order rd_kafka_msg_cmp_msgid_lifo
  by unfold_locales (auto simp: rd_kafka_msg_cmp_msgid_lifo_def RD_CMP_def split: if_splits)

section \<open>Scans take a prefix\<close>

lemma age_scan_loop_ok:
  "rkmq_msgs q = xs \<Longrightarrow> msgq_ok q \<Longrightarrow> msgq_ok t \<Longrightarrow>
   \<exists>q' t'. msgq_age_scan_loop now xs q t =
       Some (q', t', case dropWhile (\<lambda>m. rkm_ts_timeout m \<le> now) xs of [] \<Rightarrow> 0 | m # _ \<Rightarrow> rkm_ts_timeout m) \<and>
     rkmq_msgs q' = dropWhile (\<lambda>m. rkm_ts_timeout m \<le> now) xs \<and>
     rkmq_msgs t' = rkmq_msgs t @ takeWhile (\<lambda>m. rkm_ts_timeout m \<le> now) xs \<and> msgq_ok q' \<and> msgq_ok t'"
proof (induction xs arbitrary: q t)
  case (Cons m xs)
  then obtain q' where "rd_kafka_msgq_deq q 0 = Some (m, q')" "msgq_ok q'" "rkmq_msgs q' = xs" "0 \<le> rkm_size m"
    using deq_hd_ok by blast
  then show ?case using Cons Cons.IH [of q' "rd_kafka_msgq_enq t m"] msgq_ok_enq [of t m] by auto
qed simp

lemma age_scan_ok:
  assumes "msgq_ok q" "msgq_ok t"
  shows "\<exists>q' t'. rd_kafka_msgq_age_scan q t now =
       Some (int (length (takeWhile (\<lambda>m. rkm_ts_timeout m \<le> now) (rkmq_msgs q))), q', t',
             case dropWhile (\<lambda>m. rkm_ts_timeout m \<le> now) (rkmq_msgs q) of [] \<Rightarrow> 0 | m # _ \<Rightarrow> rkm_ts_timeout m) \<and>
     rkmq_msgs q' = dropWhile (\<lambda>m. rkm_ts_timeout m \<le> now) (rkmq_msgs q) \<and>
     rkmq_msgs t' = rkmq_msgs t @ takeWhile (\<lambda>m. rkm_ts_timeout m \<le> now) (rkmq_msgs q) \<and> msgq_ok q' \<and> msgq_ok t'"
  using age_scan_loop_ok [OF refl assms, of now] assms(2) by (auto simp: rd_kafka_msgq_age_scan_def msgq_ok_def)

lemma move_acked_loop_ok:
  "rkmq_msgs q = xs \<Longrightarrow> msgq_ok q \<Longrightarrow> msgq_ok t \<Longrightarrow>
   \<exists>q' t'. msgq_move_acked_loop xs t q last_msgid status = Some (t', q') \<and>
     rkmq_msgs q' = dropWhile (\<lambda>m. rkm_msgid m \<le> last_msgid) xs \<and>
     rkmq_msgs t' = rkmq_msgs t @ map (rkm_status_update (\<lambda>_. status)) (takeWhile (\<lambda>m. rkm_msgid m \<le> last_msgid) xs) \<and>
     msgq_ok q' \<and> msgq_ok t'"
proof (induction xs arbitrary: q t)
  case (Cons m xs)
  then obtain q' where "rd_kafka_msgq_deq q 0 = Some (m, q')" "msgq_ok q'" "rkmq_msgs q' = xs" "0 \<le> rkm_size m"
    using deq_hd_ok by blast
  then show ?case
    using Cons Cons.IH [of q' "rd_kafka_msgq_enq t (m\<lparr>rkm_status := status\<rparr>)"] msgq_ok_enq [of t "m\<lparr>rkm_status := status\<rparr>"]
    by (auto simp: rkm_size_def)
qed simp

lemma move_acked_ok:
  assumes "msgq_ok q" "msgq_ok t"
  shows "\<exists>q' t'. rd_kafka_msgq_move_acked t q last_msgid status = Some (t', q') \<and>
     rkmq_msgs q' = dropWhile (\<lambda>m. rkm_msgid m \<le> last_msgid) (rkmq_msgs q) \<and>
     rkmq_msgs t' = rkmq_msgs t @ map (rkm_status_update (\<lambda>_. status)) (takeWhile (\<lambda>m. rkm_msgid m \<le> last_msgid) (rkmq_msgs q)) \<and>
     msgq_ok q' \<and> msgq_ok t'"
  using move_acked_loop_ok [OF refl assms] by (simp add: rd_kafka_msgq_move_acked_def)

section \<open>Retrying keeps every message\<close>

text \<open>What a retried message looks like afterwards.\<close>

definition retried_msg :: "int \<Rightarrow> int \<Rightarrow> int \<Rightarrow> rd_kafka_msg_status_t \<Rightarrow> int \<Rightarrow> int \<Rightarrow> rd_kafka_msg \<Rightarrow> rd_kafka_msg" where
  "retried_msg now jitter incr_retry status retry_ms retry_max_ms rkm =
     rkm_set_status status
       (rkm\<lparr>rkm_retries := rkm_retries rkm + incr_retry,
            rkm_ts_backoff := now + min (jitter * the (retry_backoff_ms (rkm_retries rkm + incr_retry) retry_ms) * 10)
                                     (retry_max_ms * 1000)\<rparr>)"

lemma retried_msg_sel [simp]:
  "rkm_msgid (retried_msg now jitter incr status retry_ms retry_max_ms m) = rkm_msgid m"
  "rkm_size (retried_msg now jitter incr status retry_ms retry_max_ms m) = rkm_size m"
  by (simp_all add: retried_msg_def rkm_set_status_def rkm_size_def)

lemma retry_msg_eq:
  "retry_backoff_ms (rkm_retries m + incr) retry_ms \<noteq> None \<Longrightarrow>
     \<exists>b. retry_msg now jitter incr status True retry_ms retry_max_ms backoff m =
       Some (retried_msg now jitter incr status retry_ms retry_max_ms m, b)"
  by (auto simp: retry_msg_def retried_msg_def rkm_set_status_def)

lemma retry_msgq_loop_ok:
  assumes "rkmq_msgs q = pre @ xs" "msgq_ok q" "msgq_ok r" "i = length pre"
    "\<forall>m \<in> set xs. rkm_retries m + incr \<le> maxr \<longrightarrow> retry_backoff_ms (rkm_retries m + incr) retry_ms \<noteq> None"
  shows "\<exists>q' r'. retry_msgq_loop now jitter incr maxr status True retry_ms retry_max_ms backoff xs i q r = Some (q', r') \<and>
    rkmq_msgs q' = pre @ filter (\<lambda>m. maxr < rkm_retries m + incr) xs \<and>
    rkmq_msgs r' = rkmq_msgs r @ map (retried_msg now jitter incr status retry_ms retry_max_ms)
                                   (filter (\<lambda>m. rkm_retries m + incr \<le> maxr) xs) \<and> msgq_ok q' \<and> msgq_ok r'"
  using assms
proof (induction xs arbitrary: q r pre i backoff)
  case (Cons m xs)
  show ?case
  proof (cases "rkm_retries m + incr > maxr")
    case True
    then show ?thesis using Cons.IH [of q "pre @ [m]" r "Suc i" backoff] Cons.prems by simp
  next
    case False
    let ?m = "retried_msg now jitter incr status retry_ms retry_max_ms m"
    obtain q' where q': "rd_kafka_msgq_deq q i = Some (m, q')" "msgq_ok q'" "rkmq_msgs q' = pre @ xs"
      using deq_ok [of q i] Cons.prems(1,2,4) by auto
    obtain b where b: "retry_msg now jitter incr status True retry_ms retry_max_ms backoff m = Some (?m, b)"
      using retry_msg_eq [of m incr retry_ms now jitter status retry_max_ms backoff] Cons.prems(5) False by auto
    have "0 \<le> rkm_size m" using Cons.prems(1,2) by (simp add: msgq_ok_def)
    then have "msgq_ok (rd_kafka_msgq_enq r ?m)" using Cons.prems(3) by (simp add: msgq_ok_enq)
    then show ?thesis using Cons.IH [OF q'(3,2) _ Cons.prems(4), of "rd_kafka_msgq_enq r ?m" b] Cons.prems(5) q'(1) b False
      by (simp add: not_less)
  qed
qed simp

context msg_order
begin

lemma retry_msgq_ok:
  assumes "apart (rkmq_msgs dst) (rkmq_msgs src)" "msgq_ok dst" "msgq_ok src"
    "\<forall>m \<in> set (rkmq_msgs src). rkm_retries m + incr \<le> maxr \<longrightarrow> retry_backoff_ms (rkm_retries m + incr) retry_ms \<noteq> None"
  shows "\<exists>dst' src'. rd_kafka_retry_msgq now jitter dst src incr maxr backoff status cmp True retry_ms retry_max_ms =
      Some (if \<exists>m \<in> set (rkmq_msgs src). rkm_retries m + incr \<le> maxr then 1 else 0, dst', src') \<and>
    rkmq_msgs src' = filter (\<lambda>m. maxr < rkm_retries m + incr) (rkmq_msgs src) \<and>
    sorted_wrt (\<lambda>a b. cmp a b < 0) (rkmq_msgs dst') \<and>
    mset (rkmq_msgs dst') = mset (rkmq_msgs dst) +
      image_mset (retried_msg now jitter incr status retry_ms retry_max_ms)
        (filter_mset (\<lambda>m. rkm_retries m + incr \<le> maxr) (mset (rkmq_msgs src))) \<and>
    msgq_ok dst' \<and> msgq_ok src'"
proof -
  let ?rt = "map (retried_msg now jitter incr status retry_ms retry_max_ms)
      (filter (\<lambda>m. rkm_retries m + incr \<le> maxr) (rkmq_msgs src))"
  obtain q r where l: "retry_msgq_loop now jitter incr maxr status True retry_ms retry_max_ms backoff (rkmq_msgs src) 0 src
      RD_KAFKA_MSGQ_INITIALIZER = Some (q, r)" "rkmq_msgs q = filter (\<lambda>m. maxr < rkm_retries m + incr) (rkmq_msgs src)"
      "rkmq_msgs r = ?rt" "msgq_ok q" "msgq_ok r"
    using retry_msgq_loop_ok [of src "[]" "rkmq_msgs src" RD_KAFKA_MSGQ_INITIALIZER 0 incr maxr retry_ms now jitter status
      retry_max_ms backoff] assms(3,4) by auto
  have "apart (rkmq_msgs dst) (rkmq_msgs r)" unfolding l(3) by (rule apart_map [OF assms(1)]) simp
  then obtain dst' src' where "rd_kafka_msgq_insert_msgq dst r cmp = Some (dst', src')" "msgq_ok dst'"
      "sorted_wrt (\<lambda>a b. cmp a b < 0) (rkmq_msgs dst')" "mset (rkmq_msgs dst') = mset (rkmq_msgs dst) + mset ?rt"
    using insert_msgq_ok [of dst r] assms(2) l(3,5) by auto
  moreover have "rkmq_msgs r = [] \<longleftrightarrow> \<not> (\<exists>m \<in> set (rkmq_msgs src). rkm_retries m + incr \<le> maxr)"
    unfolding l(3) by (auto simp: filter_empty_conv)
  moreover have "sorted_wrt (\<lambda>a b. cmp a b < 0) (rkmq_msgs dst)" using assms(1) by (simp add: apart_def)
  ultimately show ?thesis using l assms(2)
    by (cases "rkmq_msgs r = []") (auto simp: rd_kafka_retry_msgq_def filter_empty_conv filter_mset_False)
qed

end

end
