(* ===== verification/Produce.thy ===== *)
theory Produce
  imports Msgq Idempotence
begin

text \<open>
  The produce path of a partition: enqueuing messages (\<open>src/src/rdkafka_partition.c\<close>), building
  ProduceRequests out of the transmit queue (\<open>rdkafka_msgset_writer.c\<close>, \<open>rdkafka_msg.c\<close>), handling
  their results (\<open>rdkafka_request.c\<close>), delivery reports, timeouts and the serving of a
  partition by its broker thread (\<open>rdkafka_broker.c\<close>).

  The state has the instance of \<open>Eos_State\<close>, the partitions by name, the outstanding
  ProduceRequests of all brokers in the order they were created, and what has been handed to
  the application or to other parts of the library. \<open>None\<close> is a failed assertion.
\<close>

section \<open>Partitions, batches and requests\<close>

record rd_kafka_toppar_err =
  te_err :: rd_kafka_resp_err_t
  te_actions :: rd_kafka_err_actions
  te_ts :: int
  te_base_seq :: int
  te_last_seq :: int
  te_base_msgid :: int

text \<open>The members of a partition the producer uses, those of \<open>rktp_eos\<close> included, but for
  \<open>wait_drain\<close> and the transaction flags, which the instance has. A broker is its node id. The
  topic configuration is the number of required acks and the queuing strategy.\<close>

record rd_kafka_toppar_t =
  rktp_msgq :: rd_kafka_msgq
  rktp_xmit_msgq :: rd_kafka_msgq
  rktp_msgs_inflight :: int
  rktp_msgid :: int
  rktp_pid :: rd_kafka_pid_t
  rktp_acked_msgid :: int
  rktp_epoch_base_msgid :: int
  rktp_next_ack_seq :: int
  rktp_next_err_seq :: int
  rktp_last_err :: rd_kafka_toppar_err
  rktp_broker :: "int option"
  rktp_next_broker :: "int option"
  rktp_msgq_wakeup_q :: bool
  rktp_on_rkb :: bool
  rktp_remove :: bool
  rktp_paused :: bool
  rkt_required_acks :: int
  rkt_queuing_fifo :: bool

definition msg_order_cmp :: "rd_kafka_toppar_t \<Rightarrow> rd_kafka_msg \<Rightarrow> rd_kafka_msg \<Rightarrow> int" where
  "msg_order_cmp rktp = (if rkt_queuing_fifo rktp then rd_kafka_msg_cmp_msgid else rd_kafka_msg_cmp_msgid_lifo)"

record rd_kafka_msgbatch_t =
  rkmb_rktp :: toppar
  rkmb_msgq :: rd_kafka_msgq
  rkmb_pid :: rd_kafka_pid_t
  rkmb_first_seq :: int
  rkmb_first_msgid :: int
  rkmb_epoch_base_msgid :: int
  rkmb_last_msgid :: int

text \<open>A ProduceRequest: its batch, its broker, whether it has been sent
  (\<open>RD_KAFKA_OP_F_SENT\<close>) and whether part of it has.\<close>

record produce_buf =
  pb_batch :: rd_kafka_msgbatch_t
  pb_rkb :: int
  pb_sent :: bool
  pb_partial :: bool

text \<open>The outcome of a request; \<open>record_errors\<close> is \<open>NULL\<close> when there are none.\<close>

record rd_kafka_Produce_result_t =
  pr_offset :: int
  pr_timestamp :: int
  pr_errstr :: "string option"
  pr_record_errors :: "(int \<times> string option) list"

definition rd_kafka_Produce_result_new :: "int \<Rightarrow> int \<Rightarrow> rd_kafka_Produce_result_t" where
  "rd_kafka_Produce_result_new offset timestamp =
     \<lparr>pr_offset = offset, pr_timestamp = timestamp, pr_errstr = None, pr_record_errors = []\<rparr>"

text \<open>A delivery report: an op for the application, or messages destroyed without one.\<close>

record rd_kafka_dr =
  dr_rktp :: toppar
  dr_err :: rd_kafka_resp_err_t
  dr_msgs :: "rd_kafka_msg list"
  dr_op :: bool

datatype produce_fx =
    PFX_LEADER_UNAVAILABLE toppar rd_kafka_resp_err_t
  | PFX_TOPIC_ERROR string rd_kafka_resp_err_t
  | PFX_PERSISTCONN int
  | PFX_WAKEUP toppar
  | PFX_JOIN int toppar

record produce_conf =
  pc_max_retries :: int
  pc_retry_backoff_ms :: int
  pc_retry_backoff_max_ms :: int
  pc_gapless :: bool
  pc_batch_num_messages :: int
  pc_batch_size :: int
  pc_max_msg_size :: int
  pc_buffering_max_us :: int
  pc_queue_backpressure_thres :: int
  pc_drmode_none :: bool
  pc_dr_err_only :: bool

record produce_t =
  ps_rk :: rd_kafka_t
  ps_conf :: produce_conf
  ps_toppars :: "toppar \<Rightarrow> rd_kafka_toppar_t"
  ps_bufs :: "produce_buf list"
  ps_dr :: "rd_kafka_dr list"
  ps_fx :: "produce_fx list"

text \<open>
  What the unmodelled parts answer: those of the instance, the percentage \<open>rd_jitter()\<close> draws when
  a batch is retried, whether a broker connection is up, how many other requests are in its
  output queue, whether \<open>flush()\<close> is called, the MsgVersion \<open>select_MsgVersion\<close> finds (if any), the
  length of the request before its first message, the bytes the writer writes for a
  message, and the error of a topic.
\<close>

record produce_env =
  pe_env :: rd_env
  pe_jitter :: "rd_kafka_msgbatch_t \<Rightarrow> int"
  pe_up :: "int \<Rightarrow> bool"
  pe_outbufs_other :: int
  pe_flushing :: bool
  pe_MsgVersion :: "nat option"
  pe_buf_len :: int
  pe_outlen :: "rd_kafka_msg \<Rightarrow> int"
  pe_topic_err :: "string \<Rightarrow> rd_kafka_resp_err_t"

abbreviation pe_clock :: "produce_env \<Rightarrow> int" where
  "pe_clock e \<equiv> ev_clock (pe_env e)"

definition upd_toppar :: "toppar \<Rightarrow> (rd_kafka_toppar_t \<Rightarrow> rd_kafka_toppar_t) \<Rightarrow> produce_t \<Rightarrow> produce_t" where
  "upd_toppar tp f s = s\<lparr>ps_toppars := (ps_toppars s)(tp := f (ps_toppars s tp))\<rparr>"

definition on_rk :: "(rd_kafka_t \<Rightarrow> rd_kafka_t option) \<Rightarrow> produce_t \<Rightarrow> produce_t option" where
  "on_rk f s = map_option (\<lambda>rk. s\<lparr>ps_rk := rk\<rparr>) (f (ps_rk s))"

definition pfx :: "produce_fx \<Rightarrow> produce_t \<Rightarrow> produce_t" where
  "pfx x s = s\<lparr>ps_fx := ps_fx s @ [x]\<rparr>"

section \<open>Error actions\<close>

abbreviation (input) MSG_FLAGS :: rd_kafka_err_actions where
  "MSG_FLAGS \<equiv> {ERR_ACTION_MSG_NOT_PERSISTED, ERR_ACTION_MSG_POSSIBLY_PERSISTED, ERR_ACTION_MSG_PERSISTED}"

definition err_action_default :: "rd_kafka_resp_err_t \<Rightarrow> rd_kafka_err_actions" where
  "err_action_default err =
     (if err \<in> {RESP_ERR_LEADER_NOT_AVAILABLE, RESP_ERR_NOT_LEADER_FOR_PARTITION, RESP_ERR_BROKER_NOT_AVAILABLE,
                 RESP_ERR_REPLICA_NOT_AVAILABLE, RESP_ERR_COORDINATOR_NOT_AVAILABLE, RESP_ERR_NOT_COORDINATOR,
                 RESP_ERR__WAIT_COORD, RESP_ERR__DESTROY_BROKER}
      then {ERR_ACTION_REFRESH, ERR_ACTION_MSG_NOT_PERSISTED}
      else if err = RESP_ERR_KAFKA_STORAGE_ERROR
      then {ERR_ACTION_REFRESH, ERR_ACTION_RETRY, ERR_ACTION_MSG_NOT_PERSISTED}
      else if err \<in> {RESP_ERR__TRANSPORT, RESP_ERR__SSL, RESP_ERR__TIMED_OUT, RESP_ERR_REQUEST_TIMED_OUT,
                      RESP_ERR_NOT_ENOUGH_REPLICAS_AFTER_APPEND}
      then {ERR_ACTION_RETRY, ERR_ACTION_MSG_POSSIBLY_PERSISTED}
      else if err \<in> {RESP_ERR_NOT_ENOUGH_REPLICAS, RESP_ERR_INVALID_MSG, RESP_ERR__TIMED_OUT_QUEUE}
      then {ERR_ACTION_RETRY, ERR_ACTION_MSG_NOT_PERSISTED}
      else if err = RESP_ERR__PURGE_INFLIGHT \<or> err = RESP_ERR__BAD_MSG
      then {ERR_ACTION_PERMANENT, ERR_ACTION_MSG_POSSIBLY_PERSISTED}
      else if err = RESP_ERR_COORDINATOR_LOAD_IN_PROGRESS then {ERR_ACTION_RETRY}
      else {ERR_ACTION_PERMANENT, ERR_ACTION_MSG_NOT_PERSISTED})"

text \<open>\<open>request\<close> is absent or tells whether it is a Produce request.\<close>

definition rd_kafka_err_action ::
  "rd_kafka_resp_err_t \<Rightarrow> bool option \<Rightarrow> (rd_kafka_err_actions \<times> rd_kafka_resp_err_t) list \<Rightarrow>
   rd_kafka_err_actions" where
  "rd_kafka_err_action err request overrides =
     (if err = RESP_ERR_NO_ERROR then {}
      else
        let actions = fold (\<lambda>(exp_act, exp_err) actions. if err = exp_err then actions \<union> exp_act else actions)
                        overrides {}
        in if actions \<noteq> {} then actions
           else
             let actions = err_action_default err;
                 actions = (if ERR_ACTION_FATAL \<in> actions \<or> ERR_ACTION_PERMANENT \<in> actions
                            then actions - {ERR_ACTION_RETRY} else actions)
             in case request of
                  None \<Rightarrow> actions - {ERR_ACTION_RETRY}
                | Some is_produce \<Rightarrow> if is_produce then actions else actions - MSG_FLAGS)"

text \<open>The overrides of a Produce request.\<close>

definition produce_err_overrides :: "(rd_kafka_err_actions \<times> rd_kafka_resp_err_t) list" where
  "produce_err_overrides =
     [({ERR_ACTION_REFRESH, ERR_ACTION_MSG_POSSIBLY_PERSISTED}, RESP_ERR__TRANSPORT),
      ({ERR_ACTION_REFRESH, ERR_ACTION_MSG_NOT_PERSISTED}, RESP_ERR_UNKNOWN_TOPIC_OR_PART),
      ({ERR_ACTION_PERMANENT, ERR_ACTION_MSG_NOT_PERSISTED}, RESP_ERR_TOPIC_AUTHORIZATION_FAILED),
      ({ERR_ACTION_REFRESH, ERR_ACTION_RETRY, ERR_ACTION_MSG_NOT_PERSISTED}, RESP_ERR_KAFKA_STORAGE_ERROR),
      ({ERR_ACTION_RETRY, ERR_ACTION_MSG_NOT_PERSISTED}, RESP_ERR_NOT_ENOUGH_REPLICAS),
      ({ERR_ACTION_RETRY, ERR_ACTION_MSG_POSSIBLY_PERSISTED}, RESP_ERR_NOT_ENOUGH_REPLICAS_AFTER_APPEND),
      ({ERR_ACTION_RETRY, ERR_ACTION_MSG_NOT_PERSISTED}, RESP_ERR__TIMED_OUT_QUEUE),
      ({ERR_ACTION_RETRY, ERR_ACTION_MSG_POSSIBLY_PERSISTED}, RESP_ERR__TIMED_OUT),
      ({ERR_ACTION_PERMANENT, ERR_ACTION_MSG_POSSIBLY_PERSISTED}, RESP_ERR__MSG_TIMED_OUT),
      ({ERR_ACTION_PERMANENT, ERR_ACTION_MSG_POSSIBLY_PERSISTED}, RESP_ERR_OUT_OF_ORDER_SEQUENCE_NUMBER),
      ({ERR_ACTION_PERMANENT, ERR_ACTION_MSG_POSSIBLY_PERSISTED}, RESP_ERR_DUPLICATE_SEQUENCE_NUMBER),
      ({ERR_ACTION_PERMANENT, ERR_ACTION_MSG_NOT_PERSISTED}, RESP_ERR_UNKNOWN_PRODUCER_ID),
      ({ERR_ACTION_PERMANENT, ERR_ACTION_MSG_NOT_PERSISTED}, RESP_ERR_INVALID_PRODUCER_EPOCH),
      ({ERR_ACTION_RETRY}, RESP_ERR__RETRY)]"

section \<open>Partition operations\<close>

text \<open>
  A new message, or the error \<open>produce()\<close> returns: \<open>curr_msgs_err\<close> is the result of
  \<open>rd_kafka_curr_msgs_add()\<close>, \<open>uclock\<close> the wall clock. \<open>INT64_MAX\<close> is the timeout of a message without one.
\<close>

definition rd_kafka_msg_new0 ::
  "produce_conf \<Rightarrow> rd_kafka_resp_err_t \<Rightarrow> int \<Rightarrow> int \<Rightarrow> int \<Rightarrow> int \<Rightarrow> int \<Rightarrow> int \<Rightarrow> int \<Rightarrow>
   rd_kafka_resp_err_t + rd_kafka_msg" where
  "rd_kafka_msg_new0 conf curr_msgs_err message_timeout_ms len keylen hdrs_size timestamp uclock now =
     (if len > 2147483647 \<or> keylen > 2147483647 \<or>
         rd_kafka_msg_max_wire_size keylen len hdrs_size > pc_max_msg_size conf
      then Inl RESP_ERR_MSG_SIZE_TOO_LARGE
      else if curr_msgs_err \<noteq> 0 then Inl curr_msgs_err
      else Inr \<lparr>rkm_len = len, rkm_key_len = keylen, rkm_hdrs_size = hdrs_size, rkm_offset = - 1001, rkm_err = 0,
                rkm_tstype = TIMESTAMP_CREATE_TIME, rkm_timestamp = (if timestamp \<noteq> 0 then timestamp else cdiv uclock 1000),
                rkm_status = MSG_STATUS_NOT_PERSISTED, rkm_broker_id = - 1,
                rkm_ts_timeout = (if message_timeout_ms = 0 then 2 ^ 63 - 1 else now + message_timeout_ms * 1000),
                rkm_ts_enq = now, rkm_ts_backoff = 0, rkm_msgid = 0, rkm_last_msgid = 0, rkm_retries = 0,
                rkm_errstr = None\<rparr>)"

text \<open>\<open>RD_KAFKA_PARTITION_UA\<close> is -1.\<close>

definition rd_kafka_toppar_enq_msg :: "toppar \<Rightarrow> rd_kafka_msg \<Rightarrow> int \<Rightarrow> produce_t \<Rightarrow> produce_t" where
  "rd_kafka_toppar_enq_msg tp rkm now s =
     (let rktp = ps_toppars s tp;
          (rkm, rktp) = (if rkm_msgid rkm = 0 \<and> snd tp \<noteq> - 1
                         then (rkm\<lparr>rkm_msgid := rktp_msgid rktp + 1\<rparr>, rktp\<lparr>rktp_msgid := rktp_msgid rktp + 1\<rparr>)
                         else (rkm, rktp));
          msgq = (if snd tp = - 1 \<or> rkt_queuing_fifo rktp then rd_kafka_msgq_enq (rktp_msgq rktp) rkm
                  else rd_kafka_msgq_enq_sorted0 (rktp_msgq rktp) rkm (msg_order_cmp rktp))
      in if snd tp \<noteq> - 1 \<and> rd_kafka_msgq_may_wakeup msgq now \<and> rktp_msgq_wakeup_q rktp
         then let msgq = msgq\<lparr>rkmq_wakeup := (rkmq_wakeup msgq)\<lparr>wk_signalled := True\<rparr>\<rparr>
              in pfx (PFX_WAKEUP tp) (upd_toppar tp (\<lambda>_. rktp\<lparr>rktp_msgq := msgq\<rparr>) s)
         else upd_toppar tp (\<lambda>_. rktp\<lparr>rktp_msgq := msgq\<rparr>) s)"

text \<open>The result: the return value, the state and what is left of the queue.\<close>

definition rd_kafka_toppar_retry_msgq ::
  "produce_env \<Rightarrow> int \<Rightarrow> toppar \<Rightarrow> rd_kafka_msgq \<Rightarrow> int \<Rightarrow> rd_kafka_msg_status_t \<Rightarrow> produce_t \<Rightarrow>
   (int \<times> rd_kafka_msgq \<times> produce_t) option" where
  "rd_kafka_toppar_retry_msgq e jitter tp rkmq incr_retry status s =
     (if ev_terminating (pe_env e) then Some (1, rkmq, s)
      else do {
        let rktp = ps_toppars s tp;
        (r, msgq, rkmq) \<leftarrow> rd_kafka_retry_msgq (pe_clock e) jitter (rktp_msgq rktp) rkmq incr_retry
          (pc_max_retries (ps_conf s)) 0 status (msg_order_cmp rktp) True
          (pc_retry_backoff_ms (ps_conf s)) (pc_retry_backoff_max_ms (ps_conf s));
        Some (r, rkmq, upd_toppar tp (\<lambda>rktp. rktp\<lparr>rktp_msgq := msgq\<rparr>) s)
      })"

definition rd_kafka_toppar_reset_base_msgid :: "int \<Rightarrow> rd_kafka_toppar_t \<Rightarrow> rd_kafka_toppar_t" where
  "rd_kafka_toppar_reset_base_msgid new_base_msgid rktp =
     rktp\<lparr>rktp_next_ack_seq := 0, rktp_next_err_seq := 0, rktp_epoch_base_msgid := new_base_msgid\<rparr>"

definition rd_kafka_toppar_pid_change ::
  "toppar \<Rightarrow> rd_kafka_pid_t \<Rightarrow> int \<Rightarrow> produce_t \<Rightarrow> (bool \<times> produce_t) option" where
  "rd_kafka_toppar_pid_change tp new_pid base_msgid s =
     (if rktp_msgs_inflight (ps_toppars s tp) > 0 then Some (False, s)
      else if base_msgid = 0 then None
      else Some (True, upd_toppar tp
             (\<lambda>rktp. rd_kafka_toppar_reset_base_msgid base_msgid (rktp\<lparr>rktp_pid := new_pid\<rparr>)) s))"

section \<open>Delivery reports\<close>

definition rd_kafka_interceptors_on_acknowledgement_queue ::
  "rd_kafka_resp_err_t \<Rightarrow> rd_kafka_msg list \<Rightarrow> rd_kafka_msg list" where
  "rd_kafka_interceptors_on_acknowledgement_queue force_err rkms =
     (if force_err \<noteq> RESP_ERR_NO_ERROR then map (\<lambda>rkm. rkm\<lparr>rkm_err := force_err\<rparr>) rkms else rkms)"

text \<open>The messages of the queue move to the report, or are destroyed: the caller's queue is
  empty afterwards.\<close>

definition rd_kafka_dr_msgq0 ::
  "toppar \<Rightarrow> rd_kafka_msgq \<Rightarrow> rd_kafka_resp_err_t \<Rightarrow> rd_kafka_Produce_result_t option \<Rightarrow> produce_t \<Rightarrow> produce_t" where
  "rd_kafka_dr_msgq0 tp rkmq err presult s =
     (if rd_kafka_msgq_len rkmq = 0 then s
      else
        let rk = ps_rk s;
            rk = (if err \<noteq> 0 \<and> rd_kafka_is_transactional rk
                  then rk\<lparr>txn_dr_fails := txn_dr_fails rk + rd_kafka_msgq_len rkmq\<rparr> else rk);
            force_err = (case presult of
                           Some pr \<Rightarrow> if 1 < length (pr_record_errors pr) then RESP_ERR_NO_ERROR else err
                         | None \<Rightarrow> err);
            rkms = rd_kafka_interceptors_on_acknowledgement_queue force_err (rkmq_msgs rkmq);
            op = (\<not> pc_drmode_none (ps_conf s) \<and> (\<not> pc_dr_err_only (ps_conf s) \<or> err \<noteq> 0))
        in s\<lparr>ps_rk := rk, ps_dr := ps_dr s @ [\<lparr>dr_rktp = tp, dr_err = err, dr_msgs = rkms, dr_op = op\<rparr>]\<rparr>)"

text \<open>The error the application finds in a message of a delivery report.\<close>

definition rd_kafka_message_setup_err :: "rd_kafka_dr \<Rightarrow> rd_kafka_msg \<Rightarrow> rd_kafka_resp_err_t" where
  "rd_kafka_message_setup_err rko rkm = (if rkm_err rkm = 0 then dr_err rko else rkm_err rkm)"

abbreviation rd_kafka_dr_msgq ::
  "toppar \<Rightarrow> rd_kafka_msgq \<Rightarrow> rd_kafka_resp_err_t \<Rightarrow> produce_t \<Rightarrow> produce_t" where
  "rd_kafka_dr_msgq tp rkmq err s \<equiv> rd_kafka_dr_msgq0 tp rkmq err None s"

definition rd_kafka_dr_implicit_ack :: "toppar \<Rightarrow> int \<Rightarrow> produce_t \<Rightarrow> produce_t option" where
  "rd_kafka_dr_implicit_ack tp last_msgid s = do {
     let rktp = ps_toppars s tp;
     let status = (if rkt_required_acks rktp \<noteq> 0 then MSG_STATUS_PERSISTED else MSG_STATUS_POSSIBLY_PERSISTED);
     (acked, xmit_msgq) \<leftarrow> rd_kafka_msgq_move_acked RD_KAFKA_MSGQ_INITIALIZER (rktp_xmit_msgq rktp) last_msgid status;
     (acked2, msgq) \<leftarrow> rd_kafka_msgq_move_acked RD_KAFKA_MSGQ_INITIALIZER (rktp_msgq rktp) last_msgid status;
     (acked, acked2) \<leftarrow> rd_kafka_msgq_insert_msgq acked acked2 (msg_order_cmp rktp);
     let s = upd_toppar tp (\<lambda>rktp. rktp\<lparr>rktp_xmit_msgq := xmit_msgq, rktp_msgq := msgq\<rparr>) s;
     if rd_kafka_msgq_len acked = 0 then Some s
     else Some (rd_kafka_dr_msgq tp acked RESP_ERR_NO_ERROR s)
   }"

text \<open>Purging the queues of a partition: the number of messages purged.\<close>

definition rd_kafka_toppar_purge_queues ::
  "toppar \<Rightarrow> purge_flag set \<Rightarrow> bool \<Rightarrow> produce_t \<Rightarrow> (int \<times> produce_t) option" where
  "rd_kafka_toppar_purge_queues tp purge_flags include_xmit_msgq s =
     (if rk_type (ps_rk s) \<noteq> RD_KAFKA_PRODUCER then None
      else if PURGE_F_QUEUE \<notin> purge_flags then Some (0, s)
      else if include_xmit_msgq \<and> rktp_broker (ps_toppars s tp) = None then None
      else
        let rktp = ps_toppars s tp;
            (rkmq, xmit_msgq) = (if include_xmit_msgq
                                 then rd_kafka_msgq_concat RD_KAFKA_MSGQ_INITIALIZER (rktp_xmit_msgq rktp)
                                 else (RD_KAFKA_MSGQ_INITIALIZER, rktp_xmit_msgq rktp));
            (rkmq, msgq) = rd_kafka_msgq_concat rkmq (rktp_msgq rktp);
            cnt = rd_kafka_msgq_len rkmq;
            rktp = rktp\<lparr>rktp_xmit_msgq := xmit_msgq, rktp_msgq := msgq\<rparr>;
            rktp = (if cnt > 0 \<and> PURGE_F_ABORT_TXN \<in> purge_flags
                    then rktp\<lparr>rktp_epoch_base_msgid := rktp_epoch_base_msgid rktp + cnt\<rparr> else rktp)
        in Some (cnt, rd_kafka_dr_msgq tp rkmq RESP_ERR__PURGE_QUEUE (upd_toppar tp (\<lambda>_. rktp) s)))"

text \<open>The timeout scan: the number of messages timed out and the next timeout (0 for none). The
  next timeout of the transmit queue is compared with 0 and never taken.\<close>

definition rd_kafka_broker_toppar_msgq_scan ::
  "toppar \<Rightarrow> int \<Rightarrow> produce_t \<Rightarrow> (int \<times> int \<times> produce_t) option" where
  "rd_kafka_broker_toppar_msgq_scan tp now s = do {
     let rktp = ps_toppars s tp;
     let abs_next_timeout = (0 :: int);
     (xcnt, xmit_msgq, xtimedout, next) \<leftarrow>
       rd_kafka_msgq_age_scan (rktp_xmit_msgq rktp) RD_KAFKA_MSGQ_INITIALIZER now;
     let abs_next_timeout = (if next \<noteq> 0 \<and> next < abs_next_timeout then next else abs_next_timeout);
     (qcnt, msgq, qtimedout, next) \<leftarrow> rd_kafka_msgq_age_scan (rktp_msgq rktp) RD_KAFKA_MSGQ_INITIALIZER now;
     let abs_next_timeout = (if next \<noteq> 0 \<and> (abs_next_timeout = 0 \<or> next < abs_next_timeout) then next
                             else abs_next_timeout);
     let s = upd_toppar tp (\<lambda>rktp. rktp\<lparr>rktp_xmit_msgq := xmit_msgq, rktp_msgq := msgq\<rparr>) s;
     let cnt = xcnt + qcnt;
     if cnt = 0 then Some (0, abs_next_timeout, s)
     else do {
       (xtimedout, qtimedout) \<leftarrow> rd_kafka_msgq_insert_msgq xtimedout qtimedout (msg_order_cmp rktp);
       if rkmq_msgs xtimedout = [] then None
       else Some (cnt, abs_next_timeout, rd_kafka_dr_msgq tp xtimedout RESP_ERR__MSG_TIMED_OUT s)
     }
   }"

section \<open>Building a ProduceRequest\<close>

definition rd_kafka_msgbatch_init :: "toppar \<Rightarrow> rd_kafka_pid_t \<Rightarrow> int \<Rightarrow> rd_kafka_msgbatch_t" where
  "rd_kafka_msgbatch_init tp batch_pid epoch_base_msgid =
     \<lparr>rkmb_rktp = tp, rkmb_msgq = RD_KAFKA_MSGQ_INITIALIZER, rkmb_pid = batch_pid, rkmb_first_seq = - 1,
      rkmb_first_msgid = 0, rkmb_epoch_base_msgid = epoch_base_msgid, rkmb_last_msgid = 0\<rparr>"

definition rd_kafka_msgbatch_set_first_msg ::
  "rd_kafka_msgbatch_t \<Rightarrow> rd_kafka_msg \<Rightarrow> rd_kafka_msgbatch_t option" where
  "rd_kafka_msgbatch_set_first_msg rkmb rkm =
     (if rkmb_first_msgid rkmb \<noteq> 0 then None
      else if \<not> rd_kafka_pid_valid (rkmb_pid rkmb) then Some rkmb
      else Some (rkmb\<lparr>rkmb_first_msgid := rkm_msgid rkm,
                      rkmb_first_seq := rd_kafka_seq_wrap (rkm_msgid rkm - rkmb_epoch_base_msgid rkmb),
                      rkmb_last_msgid := rkm_last_msgid rkm\<rparr>))"

definition rd_kafka_msgbatch_ready_produce :: "rd_kafka_msgbatch_t \<Rightarrow> produce_t \<Rightarrow> produce_t" where
  "rd_kafka_msgbatch_ready_produce rkmb s =
     (let tp = rkmb_rktp rkmb; len = rd_kafka_msgq_len (rkmb_msgq rkmb);
          inflight = rktp_msgs_inflight (ps_toppars s tp) + len;
          s = upd_toppar tp (\<lambda>rktp. rktp\<lparr>rktp_msgs_inflight := inflight\<rparr>) s
      in if inflight = len \<and> rd_kafka_is_idempotent (ps_rk s)
         then s\<lparr>ps_rk := rd_kafka_idemp_inflight_toppar_add (ps_rk s)\<rparr>
         else s)"

text \<open>
  The loop that moves messages from the transmit queue to the batch until one of the limits is
  reached. \<open>len\<close> is the length of the request, \<open>max_msg_size\<close> its limit; \<open>outlen\<close> gives the bytes
  written for a message, which must not be more than its wire size.
\<close>

fun msgset_writer_loop ::
  "int \<Rightarrow> nat \<Rightarrow> (rd_kafka_msg \<Rightarrow> int) \<Rightarrow> int \<Rightarrow> int \<Rightarrow> int \<Rightarrow> rd_kafka_msg list \<Rightarrow> rd_kafka_msgq \<Rightarrow> rd_kafka_msgq \<Rightarrow>
   int \<Rightarrow> int \<Rightarrow> (rd_kafka_msgq \<times> rd_kafka_msgq \<times> int \<times> int) option" where
  "msgset_writer_loop now ver outlen msgcntmax max_msg_size last_msgid [] rkmq msgq len msgcnt =
     Some (rkmq, msgq, len, msgcnt)"
| "msgset_writer_loop now ver outlen msgcntmax max_msg_size last_msgid (rkm # rest) rkmq msgq len msgcnt =
     (if last_msgid \<noteq> 0 \<and> last_msgid < rkm_msgid rkm then Some (rkmq, msgq, len, msgcnt)
      else if msgcnt = msgcntmax \<or> (msgcnt > 0 \<and> len + rd_kafka_msg_wire_size rkm ver > max_msg_size)
      then Some (rkmq, msgq, len, msgcnt)
      else if rkm_ts_backoff rkm > now then Some (rkmq, msgq, len, msgcnt)
      else do {
        (rkm, rkmq) \<leftarrow> rd_kafka_msgq_deq rkmq 0;
        if outlen rkm > rd_kafka_msg_wire_size rkm ver then None
        else msgset_writer_loop now ver outlen msgcntmax max_msg_size last_msgid rest rkmq
               (rd_kafka_msgq_enq msgq rkm) (len + outlen rkm) (msgcnt + 1)
      })"

text \<open>The result: whether it succeeded, the instance, the queue, the batch and the length.\<close>

definition rd_kafka_msgset_writer_write_msgq ::
  "produce_env \<Rightarrow> nat \<Rightarrow> produce_conf \<Rightarrow> int \<Rightarrow> rd_kafka_t \<Rightarrow> rd_kafka_msgq \<Rightarrow> rd_kafka_msgbatch_t \<Rightarrow>
   (bool \<times> rd_kafka_t \<times> rd_kafka_msgq \<times> rd_kafka_msgbatch_t \<times> int) option" where
  "rd_kafka_msgset_writer_write_msgq e ver conf msgcntmax rk rkmq batch =
     (case rkmq_msgs rkmq of
        [] \<Rightarrow> None
      | rkm # _ \<Rightarrow> do {
          batch \<leftarrow> rd_kafka_msgbatch_set_first_msg batch rkm;
          (rkmq, msgq, len, msgcnt) \<leftarrow>
            msgset_writer_loop (pe_clock e) ver (pe_outlen e) msgcntmax (min (pc_max_msg_size conf) (pc_batch_size conf))
              (rkmb_last_msgid batch) (rkmq_msgs rkmq) rkmq (rkmb_msgq batch) (pe_buf_len e) 0;
          let batch = batch\<lparr>rkmb_msgq := msgq\<rparr>;
          if msgcnt > 0 \<and> rkmb_last_msgid batch \<noteq> 0 \<and> rkm_msgid (last (rkmq_msgs msgq)) \<noteq> rkmb_last_msgid batch
          then Some (False, snd (rd_kafka_set_fatal_error0 rk RESP_ERR__INCONSISTENT), rkmq, batch, len)
          else Some (True, rk, rkmq, batch, len)
        })"

text \<open>Creating a request, without its contents: \<open>rd_kafka_msgset_writer_init\<close>, \<open>write_msgq\<close> and \<open>finalize\<close>.
  No viable ApiVersion backs the first message off for five seconds.\<close>

definition rd_kafka_msgset_writer_finalize ::
  "produce_env \<Rightarrow> rd_kafka_msgbatch_t \<Rightarrow> int \<Rightarrow> produce_t \<Rightarrow> (rd_kafka_msgbatch_t option \<times> produce_t) option" where
  "rd_kafka_msgset_writer_finalize e batch len s =
     (if rd_kafka_msgq_len (rkmb_msgq batch) = 0 then Some (None, s)
      else if len \<le> 0 \<or> len > pc_max_msg_size (ps_conf s) then None
      else Some (Some batch, rd_kafka_msgbatch_ready_produce batch s))"

definition rd_kafka_msgset_create_ProduceRequest ::
  "produce_env \<Rightarrow> toppar \<Rightarrow> rd_kafka_pid_t \<Rightarrow> int \<Rightarrow> produce_t \<Rightarrow> (rd_kafka_msgbatch_t option \<times> produce_t) option" where
  "rd_kafka_msgset_create_ProduceRequest e tp batch_pid epoch_base_msgid s =
     (let rktp = ps_toppars s tp; rkmq = rktp_xmit_msgq rktp; msgcnt = rd_kafka_msgq_len rkmq;
          msgcntmax = min msgcnt (pc_batch_num_messages (ps_conf s))
      in if msgcnt = 0 then Some (None, s)
         else case pe_MsgVersion e of
           None \<Rightarrow>
             (case rkmq_msgs rkmq of
                [] \<Rightarrow> None
              | rkm # rest \<Rightarrow>
                  Some (None, upd_toppar tp (\<lambda>rktp. rktp\<lparr>rktp_xmit_msgq := rkmq\<lparr>rkmq_msgs :=
                    rkm\<lparr>rkm_ts_backoff := pe_clock e + 5 * 1000 * 1000\<rparr> # rest\<rparr>\<rparr>) s))
         | Some ver \<Rightarrow>
             if msgcntmax \<le> 0 then Some (None, s)
             else do {
               (ok, rk, rkmq, batch, len) \<leftarrow> rd_kafka_msgset_writer_write_msgq e ver (ps_conf s) msgcntmax (ps_rk s) rkmq
                 (rd_kafka_msgbatch_init tp batch_pid epoch_base_msgid);
               (rkmq, msgq) \<leftarrow> (if ok then Some (rkmq, rkmb_msgq batch)
                               else rd_kafka_msgq_insert_msgq rkmq (rkmb_msgq batch) (msg_order_cmp rktp));
               rd_kafka_msgset_writer_finalize e (batch\<lparr>rkmb_msgq := msgq\<rparr>) (len - pe_buf_len e)
                 (upd_toppar tp (\<lambda>rktp. rktp\<lparr>rktp_xmit_msgq := rkmq\<rparr>) (s\<lparr>ps_rk := rk\<rparr>))
             })"

text \<open>The number of messages in the request, which goes to the end of the broker's output queue.\<close>

definition rd_kafka_ProduceRequest ::
  "produce_env \<Rightarrow> int \<Rightarrow> toppar \<Rightarrow> rd_kafka_pid_t \<Rightarrow> int \<Rightarrow> produce_t \<Rightarrow> (int \<times> produce_t) option" where
  "rd_kafka_ProduceRequest e rkb tp batch_pid epoch_base_msgid s = do {
     (rkbuf, s) \<leftarrow> rd_kafka_msgset_create_ProduceRequest e tp batch_pid epoch_base_msgid s;
     case rkbuf of
       None \<Rightarrow> Some (0, s)
     | Some batch \<Rightarrow>
         Some (rd_kafka_msgq_len (rkmb_msgq batch),
               s\<lparr>ps_bufs := ps_bufs s @ [\<lparr>pb_batch = batch, pb_rkb = rkb, pb_sent = False, pb_partial = False\<rparr>]\<rparr>)
   }"

section \<open>Errors of a ProduceRequest\<close>

record rd_kafka_Produce_err =
  perr_err :: rd_kafka_resp_err_t
  perr_actions :: rd_kafka_err_actions
  perr_incr_retry :: int
  perr_status :: rd_kafka_msg_status_t
  perr_next_ack_seq :: int
  perr_next_err_seq :: int
  perr_update_next_ack :: bool
  perr_update_next_err :: bool
  perr_rktp_pid :: rd_kafka_pid_t
  perr_last_seq :: int

text \<open>The errors the idempotent producer treats specially. \<open>r\<close> compares the sequences as plain
  integers.\<close>

definition idemp_out_of_order ::
  "produce_env \<Rightarrow> rd_kafka_msgbatch_t \<Rightarrow> rd_kafka_Produce_err \<Rightarrow> produce_t \<Rightarrow> (rd_kafka_Produce_err \<times> produce_t) option" where
  "idemp_out_of_order e batch perr s =
     (let r = rkmb_first_seq batch - perr_next_ack_seq perr in
      if r = 0 then do {
        s \<leftarrow> on_rk (\<lambda>rk. rd_kafka_idemp_set_fatal_error rk (perr_err perr)) s;
        Some (perr\<lparr>perr_actions := {ERR_ACTION_PERMANENT}, perr_status := MSG_STATUS_POSSIBLY_PERSISTED,
                   perr_update_next_ack := False, perr_update_next_err := True\<rparr>, s)
      }
      else if r > 0 then do {
        s \<leftarrow> on_rk (\<lambda>rk. rd_kafka_idemp_drain_epoch_bump (pe_env e) rk (perr_err perr)) s;
        Some (perr\<lparr>perr_incr_retry := 0, perr_actions := {ERR_ACTION_RETRY}, perr_status := MSG_STATUS_NOT_PERSISTED,
                   perr_update_next_ack := False, perr_update_next_err := True\<rparr>, s)
      }
      else do {
        s \<leftarrow> on_rk (\<lambda>rk. rd_kafka_idemp_set_fatal_error rk (perr_err perr)) s;
        Some (perr\<lparr>perr_actions := {ERR_ACTION_PERMANENT}, perr_status := MSG_STATUS_POSSIBLY_PERSISTED,
                   perr_update_next_ack := False, perr_update_next_err := False\<rparr>, s)
      })"

definition idemp_unknown_producer_id ::
  "produce_env \<Rightarrow> rd_kafka_msgbatch_t \<Rightarrow> rd_kafka_msg \<Rightarrow> rd_kafka_Produce_err \<Rightarrow> produce_t \<Rightarrow>
   (rd_kafka_Produce_err \<times> produce_t) option" where
  "idemp_unknown_producer_id e batch firstmsg perr s =
     (if rd_kafka_is_transactional (ps_rk s) then do {
        s \<leftarrow> on_rk (\<lambda>rk. rd_kafka_idemp_drain_epoch_bump (pe_env e) rk (perr_err perr)) s;
        s \<leftarrow> on_rk (\<lambda>rk. rd_kafka_txn_set_abortable_error_with_bump rk RESP_ERR_UNKNOWN_PRODUCER_ID) s;
        Some (perr\<lparr>perr_incr_retry := 0, perr_actions := {ERR_ACTION_PERMANENT}, perr_status := MSG_STATUS_NOT_PERSISTED,
                   perr_update_next_ack := False, perr_update_next_err := True\<rparr>, s)
      }
      else if rkm_retries firstmsg = 0 \<and> perr_next_err_seq perr = rkmb_first_seq batch then do {
        s \<leftarrow> on_rk (\<lambda>rk. rd_kafka_idemp_drain_epoch_bump (pe_env e) rk (perr_err perr)) s;
        Some (perr\<lparr>perr_incr_retry := 0, perr_actions := {ERR_ACTION_RETRY}, perr_status := MSG_STATUS_NOT_PERSISTED,
                   perr_update_next_ack := False, perr_update_next_err := True\<rparr>, s)
      }
      else do {
        s \<leftarrow> on_rk (\<lambda>rk. rd_kafka_idemp_set_fatal_error rk (perr_err perr)) s;
        Some (perr\<lparr>perr_actions := {ERR_ACTION_PERMANENT}, perr_status := MSG_STATUS_POSSIBLY_PERSISTED,
                   perr_update_next_ack := False, perr_update_next_err := True\<rparr>, s)
      })"

text \<open>The batch is returned too: its first message remembers the last message id of the batch.\<close>

definition rd_kafka_handle_idempotent_Produce_error ::
  "produce_env \<Rightarrow> rd_kafka_msgbatch_t \<Rightarrow> rd_kafka_Produce_err \<Rightarrow> produce_t \<Rightarrow>
   (rd_kafka_msgbatch_t \<times> rd_kafka_Produce_err \<times> produce_t) option" where
  "rd_kafka_handle_idempotent_Produce_error e batch perr s =
     (case rkmq_msgs (rkmb_msgq batch) of
        [] \<Rightarrow> None
      | firstmsg # rest \<Rightarrow>
          let last_msgid = rkm_msgid (last (firstmsg # rest)) in
          if rkm_last_msgid firstmsg \<noteq> 0 \<and> rkm_last_msgid firstmsg \<noteq> last_msgid then None
          else do {
            let firstmsg = firstmsg\<lparr>rkm_last_msgid := last_msgid\<rparr>;
            let batch = batch\<lparr>rkmb_msgq := (rkmb_msgq batch)\<lparr>rkmq_msgs := firstmsg # rest\<rparr>\<rparr>;
            if \<not> rd_kafka_pid_eq (rkmb_pid batch) (perr_rktp_pid perr)
            then Some (batch, perr\<lparr>perr_actions := {ERR_ACTION_PERMANENT},
                                   perr_status := MSG_STATUS_POSSIBLY_PERSISTED\<rparr>, s)
            else if perr_err perr = RESP_ERR_OUT_OF_ORDER_SEQUENCE_NUMBER
            then map_option (Pair batch) (idemp_out_of_order e batch perr s)
            else if perr_err perr = RESP_ERR_DUPLICATE_SEQUENCE_NUMBER
            then Some (batch, perr\<lparr>perr_err := RESP_ERR_NO_ERROR, perr_actions := {}, perr_status := MSG_STATUS_PERSISTED,
                                   perr_update_next_ack := True, perr_update_next_err := True\<rparr>, s)
            else if perr_err perr = RESP_ERR_UNKNOWN_PRODUCER_ID
            then map_option (Pair batch) (idemp_unknown_producer_id e batch firstmsg perr s)
            else Some (batch, perr, s)
          })"

text \<open>The retry part of the error handler: the batch keeps the messages that may not be retried.\<close>

definition produce_error_retry ::
  "produce_env \<Rightarrow> bool \<Rightarrow> rd_kafka_msgbatch_t \<Rightarrow> rd_kafka_Produce_err \<Rightarrow> produce_t \<Rightarrow>
   (rd_kafka_msgbatch_t \<times> rd_kafka_Produce_err \<times> produce_t) option" where
  "produce_error_retry e sent batch perr s = do {
     let tp = rkmb_rktp batch;
     let (perr, s) =
       (if ERR_ACTION_REFRESH \<in> perr_actions perr
        then (if perr_err perr \<noteq> RESP_ERR__TRANSPORT \<and> perr_err perr \<noteq> RESP_ERR_KAFKA_STORAGE_ERROR
              then perr\<lparr>perr_incr_retry := 0\<rparr> else perr,
              pfx (PFX_LEADER_UNAVAILABLE tp (perr_err perr)) s)
        else (perr, s));
     let perr = (if \<not> sent then perr\<lparr>perr_incr_retry := 0\<rparr> else perr);
     let perr = (if perr_incr_retry perr = 0 then perr\<lparr>perr_status := MSG_STATUS_NOT_PERSISTED\<rparr> else perr);
     let (perr, s) =
       (if rd_kafka_is_idempotent (ps_rk s)
        then (perr\<lparr>perr_update_next_ack := False, perr_update_next_err := True\<rparr>,
              s\<lparr>ps_rk := rd_kafka_idemp_drain_toppar (ps_rk s) tp\<rparr>)
        else (perr, s));
     (r, msgq, s) \<leftarrow> rd_kafka_toppar_retry_msgq e (pe_jitter e batch) tp (rkmb_msgq batch) (perr_incr_retry perr)
       (perr_status perr) s;
     Some (batch\<lparr>rkmb_msgq := msgq\<rparr>, perr, s)
   }"

text \<open>What a permanent error does to the idempotent producer.\<close>

definition produce_error_permanent ::
  "produce_env \<Rightarrow> rd_kafka_Produce_err \<Rightarrow> produce_t \<Rightarrow> (rd_kafka_Produce_err \<times> produce_t) option" where
  "produce_error_permanent e perr s = do {
     s \<leftarrow> (if rd_kafka_is_transactional (ps_rk s) \<and> perr_err perr = RESP_ERR_INVALID_PRODUCER_EPOCH
           then do {
             s \<leftarrow> on_rk (\<lambda>rk. rd_kafka_txn_set_fatal_error rk RESP_ERR__FENCED) s;
             on_rk (rd_kafka_idemp_drain_reset (pe_env e)) s
           }
           else if rd_kafka_is_transactional (ps_rk s)
           then on_rk (\<lambda>rk. rd_kafka_txn_set_abortable_error rk (perr_err perr)) s
           else if pc_gapless (ps_conf s)
           then do {
             s \<leftarrow> on_rk (\<lambda>rk. rd_kafka_idemp_set_fatal_error rk RESP_ERR__GAPLESS_GUARANTEE) s;
             on_rk (rd_kafka_idemp_drain_reset (pe_env e)) s
           }
           else on_rk (\<lambda>rk. rd_kafka_idemp_drain_epoch_bump (pe_env e) rk (perr_err perr)) s);
     Some (perr\<lparr>perr_update_next_ack := False, perr_update_next_err := True\<rparr>, s)
   }"

definition perr_status_of_actions :: "rd_kafka_Produce_err \<Rightarrow> rd_kafka_Produce_err" where
  "perr_status_of_actions perr =
     (if ERR_ACTION_MSG_POSSIBLY_PERSISTED \<in> perr_actions perr
      then perr\<lparr>perr_status := MSG_STATUS_POSSIBLY_PERSISTED\<rparr>
      else if ERR_ACTION_MSG_NOT_PERSISTED \<in> perr_actions perr
      then perr\<lparr>perr_status := MSG_STATUS_NOT_PERSISTED\<rparr>
      else if ERR_ACTION_MSG_PERSISTED \<in> perr_actions perr
      then perr\<lparr>perr_status := MSG_STATUS_PERSISTED\<rparr>
      else perr)"

text \<open>The last part of the error handler, for messages that are not retried.\<close>

definition produce_error_final ::
  "produce_env \<Rightarrow> rd_kafka_msgbatch_t \<Rightarrow> rd_kafka_Produce_err \<Rightarrow> produce_t \<Rightarrow>
   (rd_kafka_msgbatch_t \<times> rd_kafka_Produce_err \<times> produce_t) option" where
  "produce_error_final e batch perr s = do {
     (perr, s) \<leftarrow> (if ERR_ACTION_PERMANENT \<in> perr_actions perr \<and> rd_kafka_is_idempotent (ps_rk s)
                   then produce_error_permanent e perr s else Some (perr, s));
     if perr_err perr = RESP_ERR__TIMED_OUT \<or> perr_err perr = RESP_ERR__TIMED_OUT_QUEUE
     then Some (batch, perr\<lparr>perr_err := RESP_ERR__MSG_TIMED_OUT\<rparr>, s)
     else if perr_err perr = RESP_ERR_TOPIC_AUTHORIZATION_FAILED
     then Some (batch, perr, pfx (PFX_TOPIC_ERROR (fst (rkmb_rktp batch)) (perr_err perr)) s)
     else Some (batch, perr, s)
   }"

definition rd_kafka_handle_Produce_error ::
  "produce_env \<Rightarrow> bool \<Rightarrow> rd_kafka_msgbatch_t \<Rightarrow> rd_kafka_Produce_err \<Rightarrow> produce_t \<Rightarrow>
   (rd_kafka_msgbatch_t \<times> rd_kafka_Produce_err \<times> produce_t) option" where
  "rd_kafka_handle_Produce_error e sent batch perr s =
     (if perr_err perr = RESP_ERR__DESTROY then Some (batch, perr, s)
      else do {
        let tp = rkmb_rktp batch;
        let rktp = ps_toppars s tp;
        let perr = perr\<lparr>perr_rktp_pid := rktp_pid rktp, perr_next_ack_seq := rktp_next_ack_seq rktp,
                        perr_next_err_seq := rktp_next_err_seq rktp, perr_status := MSG_STATUS_NOT_PERSISTED,
                        perr_actions := rd_kafka_err_action (perr_err perr) (Some True) produce_err_overrides\<rparr>;
        (batch, perr, s) \<leftarrow> (if rd_kafka_is_idempotent (ps_rk s)
                             then rd_kafka_handle_idempotent_Produce_error e batch perr s
                             else Some (batch, perr, s));
        let perr = perr_status_of_actions perr;
        let s = upd_toppar tp (\<lambda>rktp. rktp\<lparr>rktp_last_err :=
          \<lparr>te_err = perr_err perr, te_actions = perr_actions perr, te_ts = pe_clock e,
           te_base_seq = rkmb_first_seq batch, te_last_seq = perr_last_seq perr,
           te_base_msgid = rkmb_first_msgid batch\<rparr>\<rparr>) s;
        (batch, perr, s) \<leftarrow> (if ERR_ACTION_REFRESH \<in> perr_actions perr \<or> ERR_ACTION_RETRY \<in> perr_actions perr
                             then produce_error_retry e sent batch perr s
                             else Some (batch, perr, s));
        if (ERR_ACTION_REFRESH \<in> perr_actions perr \<or> ERR_ACTION_RETRY \<in> perr_actions perr) \<and>
           rd_kafka_msgq_len (rkmb_msgq batch) = 0
        then Some (batch, perr, s)
        else produce_error_final e batch perr s
      })"

section \<open>Results of a ProduceRequest\<close>

text \<open>The acknowledgment of a batch of the idempotent producer. \<open>fatal\<close> is whether the error string has
  been written.\<close>

definition rd_kafka_handle_idempotent_Produce_success ::
  "rd_kafka_msgbatch_t \<Rightarrow> int \<Rightarrow> produce_t \<Rightarrow> produce_t option" where
  "rd_kafka_handle_idempotent_Produce_success batch next_seq s =
     (case rkmq_msgs (rkmb_msgq batch) of
        [] \<Rightarrow> None
      | firstmsg # rest \<Rightarrow> do {
          let tp = rkmb_rktp batch;
          let first_msgid = rkm_msgid firstmsg;
          let last_msgid = rkm_msgid (last (firstmsg # rest));
          let rktp = ps_toppars s tp;
          let implicit = rktp_acked_msgid rktp < first_msgid - 1;
          let fatal = (\<not> implicit \<and> rkmb_first_seq batch \<noteq> rktp_next_ack_seq rktp \<and>
                       rkmb_first_seq batch = rktp_next_err_seq rktp);
          s \<leftarrow> (if implicit then rd_kafka_dr_implicit_ack tp last_msgid s else Some s);
          let s = upd_toppar tp (\<lambda>rktp.
            let rktp = (if fatal then rktp\<lparr>rktp_next_err_seq := next_seq\<rparr>
                        else
                          (if rktp_next_err_seq rktp = rktp_next_ack_seq rktp
                           then rktp\<lparr>rktp_next_err_seq := next_seq\<rparr> else rktp)
                          \<lparr>rktp_next_ack_seq := next_seq\<rparr>)
            in if last_msgid > rktp_acked_msgid rktp then rktp\<lparr>rktp_acked_msgid := last_msgid\<rparr> else rktp) s;
          if fatal then on_rk (\<lambda>rk. rd_kafka_idemp_set_fatal_error rk RESP_ERR__INCONSISTENT) s else Some s
        })"

text \<open>The record errors of a response; \<open>i\<close> is the index of the message, \<open>errs\<close> the errors from the
  current one on.\<close>

abbreviation (input) BATCH_INVALID_ERRSTR :: string where
  "BATCH_INVALID_ERRSTR \<equiv>
     ''Failed to append record because it was part of a batch which had one more more invalid records''"

fun record_errors_loop ::
  "bool \<Rightarrow> int \<Rightarrow> (int \<times> string option) list \<Rightarrow> rd_kafka_msg list \<Rightarrow> rd_kafka_msg list" where
  "record_errors_loop many i errs [] = []"
| "record_errors_loop many i errs (rkm # rest) =
     (case errs of
        (batch_index, errstr) # errs' \<Rightarrow>
          if batch_index = i
          then (let rkm = rkm\<lparr>rkm_errstr := errstr\<rparr>
                in if many then rkm\<lparr>rkm_err := RESP_ERR_INVALID_RECORD\<rparr> else rkm)
               # record_errors_loop many (i + 1) errs' rest
          else rkm\<lparr>rkm_errstr := Some BATCH_INVALID_ERRSTR, rkm_err := RESP_ERR__INVALID_DIFFERENT_RECORD\<rparr>
               # record_errors_loop many (i + 1) errs rest
      | [] \<Rightarrow> rkm\<lparr>rkm_errstr := Some BATCH_INVALID_ERRSTR, rkm_err := RESP_ERR__INVALID_DIFFERENT_RECORD\<rparr>
              # record_errors_loop many (i + 1) errs rest)"

definition rd_kafka_msgbatch_handle_Produce_result_record_errors ::
  "rd_kafka_Produce_result_t \<Rightarrow> rd_kafka_msgq \<Rightarrow> rd_kafka_msgq" where
  "rd_kafka_msgbatch_handle_Produce_result_record_errors presult msgq =
     (if pr_record_errors presult \<noteq> []
      then msgq\<lparr>rkmq_msgs := record_errors_loop (1 < length (pr_record_errors presult)) 0 (pr_record_errors presult)
                              (rkmq_msgs msgq)\<rparr>
      else case pr_errstr presult of
             Some errstr \<Rightarrow> msgq\<lparr>rkmq_msgs := map (\<lambda>rkm. rkm\<lparr>rkm_errstr := Some errstr\<rparr>) (rkmq_msgs msgq)\<rparr>
           | None \<Rightarrow> msgq)"

text \<open>The sum \<open>first_seq + len\<close> is an \<open>int\<close>; it is taken to wrap around.\<close>

definition produce_next_seq :: "rd_kafka_msgbatch_t \<Rightarrow> int" where
  "produce_next_seq batch = rd_kafka_seq_wrap (to_int32 (rkmb_first_seq batch + rd_kafka_msgq_len (rkmb_msgq batch)))"

text \<open>The error branch: the state, the batch, the error and the status to report.\<close>

definition produce_result_error ::
  "produce_env \<Rightarrow> bool \<Rightarrow> rd_kafka_msgbatch_t \<Rightarrow> rd_kafka_resp_err_t \<Rightarrow> int \<Rightarrow> produce_t \<Rightarrow>
   (rd_kafka_msgbatch_t \<times> rd_kafka_resp_err_t \<times> rd_kafka_msg_status_t \<times> produce_t) option" where
  "produce_result_error e sent batch err next_seq s = do {
     let perr = \<lparr>perr_err = err, perr_actions = {}, perr_incr_retry = 1,
                 perr_status = MSG_STATUS_POSSIBLY_PERSISTED, perr_next_ack_seq = 0, perr_next_err_seq = 0,
                 perr_update_next_ack = False, perr_update_next_err = True,
                 perr_rktp_pid = \<lparr>pid_id = 0, pid_epoch = 0\<rparr>,
                 perr_last_seq = to_int32 (rkmb_first_seq batch + rd_kafka_msgq_len (rkmb_msgq batch) - 1)\<rparr>;
     (batch, perr, s) \<leftarrow> rd_kafka_handle_Produce_error e sent batch perr s;
     let s = upd_toppar (rkmb_rktp batch) (\<lambda>rktp.
       let rktp = (if perr_update_next_ack perr then rktp\<lparr>rktp_next_ack_seq := next_seq\<rparr> else rktp)
       in if perr_update_next_err perr then rktp\<lparr>rktp_next_err_seq := next_seq\<rparr> else rktp) s;
     Some (batch, perr_err perr, perr_status perr, s)
   }"

definition rd_kafka_msgbatch_handle_Produce_result ::
  "produce_env \<Rightarrow> int \<Rightarrow> rd_kafka_msgbatch_t \<Rightarrow> rd_kafka_resp_err_t \<Rightarrow> rd_kafka_Produce_result_t \<Rightarrow> bool \<Rightarrow> produce_t \<Rightarrow>
   produce_t option" where
  "rd_kafka_msgbatch_handle_Produce_result e rkb batch err presult sent s = do {
     let tp = rkmb_rktp batch;
     let len = rd_kafka_msgq_len (rkmb_msgq batch);
     let inflight = rktp_msgs_inflight (ps_toppars s tp) - len;
     if inflight < 0 then None
     else do {
       let s = upd_toppar tp (\<lambda>rktp. rktp\<lparr>rktp_msgs_inflight := inflight\<rparr>) s;
       let next_seq = produce_next_seq batch;
       (batch, err, status, s) \<leftarrow>
         (if err = RESP_ERR_NO_ERROR
          then do {
            let status = (if rkt_required_acks (ps_toppars s tp) \<noteq> 0 then MSG_STATUS_PERSISTED
                          else MSG_STATUS_POSSIBLY_PERSISTED);
            s \<leftarrow> (if rd_kafka_is_idempotent (ps_rk s)
                  then rd_kafka_handle_idempotent_Produce_success batch next_seq s else Some s);
            Some (batch, err, status, s)
          }
          else produce_result_error e sent batch err next_seq s);
       let s =
         (if rd_kafka_msgq_len (rkmb_msgq batch) > 0
          then
            let msgq = rd_kafka_msgq_set_metadata (rkmb_msgq batch) rkb (pr_offset presult) (pr_timestamp presult) status;
                msgq = rd_kafka_msgbatch_handle_Produce_result_record_errors presult msgq
            in rd_kafka_dr_msgq0 tp msgq err (Some presult) s
          else s);
       if rd_kafka_is_idempotent (ps_rk s) \<and> inflight = 0
       then on_rk (rd_kafka_idemp_inflight_toppar_sub (pe_env e)) s
       else Some s
     }
   }"

text \<open>\<open>reply\<close> is the outcome of parsing a reply, if there is one. \<open>RD_KAFKA_OFFSET_INVALID\<close> is -1001.\<close>

definition rd_kafka_handle_Produce ::
  "produce_env \<Rightarrow> produce_buf \<Rightarrow> rd_kafka_resp_err_t \<Rightarrow> (rd_kafka_resp_err_t \<times> rd_kafka_Produce_result_t) option \<Rightarrow>
   produce_t \<Rightarrow> produce_t option" where
  "rd_kafka_handle_Produce e rkbuf err reply s =
     (let result = rd_kafka_Produce_result_new (- 1001) (- 1);
          (err, result) = (if err = RESP_ERR_NO_ERROR
                           then (case reply of Some (err, result) \<Rightarrow> (err, result) | None \<Rightarrow> (err, result))
                           else (err, result))
      in rd_kafka_msgbatch_handle_Produce_result e (pb_rkb rkbuf) (pb_batch rkbuf) err result (pb_sent rkbuf) s)"

section \<open>Serving a partition\<close>

text \<open>Purging the requests of a partition that are wholly in the output queue of a broker: \<open>i\<close> is the
  index of the current request in what is left.\<close>

fun bufq_purge_loop ::
  "produce_env \<Rightarrow> int \<Rightarrow> toppar \<Rightarrow> rd_kafka_resp_err_t \<Rightarrow> produce_buf list \<Rightarrow> nat \<Rightarrow> produce_t \<Rightarrow> produce_t option" where
  "bufq_purge_loop e rkb tp err [] i s = Some s"
| "bufq_purge_loop e rkb tp err (rkbuf # rest) i s =
     (if pb_rkb rkbuf \<noteq> rkb \<or> pb_sent rkbuf \<or> rkmb_rktp (pb_batch rkbuf) \<noteq> tp \<or> pb_partial rkbuf
      then bufq_purge_loop e rkb tp err rest (Suc i) s
      else do {
        s \<leftarrow> rd_kafka_handle_Produce e rkbuf err None
               (s\<lparr>ps_bufs := take i (ps_bufs s) @ drop (Suc i) (ps_bufs s)\<rparr>);
        bufq_purge_loop e rkb tp err rest i s
      })"

definition rd_kafka_broker_bufq_purge_by_toppar ::
  "produce_env \<Rightarrow> int \<Rightarrow> toppar \<Rightarrow> rd_kafka_resp_err_t \<Rightarrow> produce_t \<Rightarrow> produce_t option" where
  "rd_kafka_broker_bufq_purge_by_toppar e rkb tp err s = bufq_purge_loop e rkb tp err (ps_bufs s) 0 s"

definition rd_kafka_broker_outbufs_space :: "produce_env \<Rightarrow> int \<Rightarrow> produce_t \<Rightarrow> int" where
  "rd_kafka_broker_outbufs_space e rkb s =
     (let r = pc_queue_backpressure_thres (ps_conf s) -
              (pe_outbufs_other e + int (length (filter (\<lambda>rkbuf. pb_rkb rkbuf = rkb \<and> \<not> pb_sent rkbuf) (ps_bufs s))))
      in if r < 0 then 0 else r)"

definition rd_kafka_set_next_wakeup :: "int \<Rightarrow> int \<Rightarrow> int" where
  "rd_kafka_set_next_wakeup next_wakeup maybe_next_wakeup =
     (if maybe_next_wakeup < next_wakeup then maybe_next_wakeup else next_wakeup)"

text \<open>The timeout scan; \<open>Inl\<close> means that the partition is not served any further.\<close>

definition serve_timeout_scan ::
  "produce_env \<Rightarrow> toppar \<Rightarrow> rd_kafka_pid_t \<Rightarrow> int \<Rightarrow> int \<Rightarrow> produce_t \<Rightarrow> ((int \<times> produce_t) + (int \<times> produce_t)) option" where
  "serve_timeout_scan e tp cur_pid now next_wakeup s = do {
     (timeoutcnt, next, s) \<leftarrow> rd_kafka_broker_toppar_msgq_scan tp now s;
     let next_wakeup = (if next \<noteq> 0 then rd_kafka_set_next_wakeup next_wakeup next else next_wakeup);
     if rd_kafka_is_idempotent (ps_rk s) \<and> \<not> rd_kafka_pid_valid cur_pid then Some (Inl (next_wakeup, s))
     else if rd_kafka_is_idempotent (ps_rk s) \<and> timeoutcnt > 0 then do {
       s \<leftarrow> on_rk (\<lambda>rk. rd_kafka_idemp_drain_epoch_bump (pe_env e) rk RESP_ERR__TIMED_OUT) s;
       Some (Inl (next_wakeup, s))
     }
     else Some (Inr (next_wakeup, s))
   }"

definition serve_allow_wakeup ::
  "produce_env \<Rightarrow> toppar \<Rightarrow> int option \<Rightarrow> int \<Rightarrow> bool \<Rightarrow> produce_t \<Rightarrow> bool \<times> int option \<times> produce_t" where
  "serve_allow_wakeup e tp next_wakeup now flushing s =
     (let rktp = ps_toppars s tp;
          (ready, msgq, next_wakeup) =
            rd_kafka_msgq_allow_wakeup_at (rktp_msgq rktp) (rktp_xmit_msgq rktp) next_wakeup now
              (if flushing then 1 else pc_buffering_max_us (ps_conf s)) (pc_batch_num_messages (ps_conf s))
              (pc_batch_size (ps_conf s))
      in (ready, next_wakeup, upd_toppar tp (\<lambda>rktp. rktp\<lparr>rktp_msgq := msgq\<rparr>) s))"

text \<open>Whether requests may be created at all, and moving the messages to the transmit queue. The
  result: the number of requests allowed, whether the batch is ready, the next wake-up and the state.\<close>

definition serve_move ::
  "produce_env \<Rightarrow> int \<Rightarrow> toppar \<Rightarrow> int \<Rightarrow> int \<Rightarrow> bool \<Rightarrow> bool \<Rightarrow> int \<Rightarrow> produce_t \<Rightarrow> (int \<times> bool \<times> int \<times> produce_t) option" where
  "serve_move e rkb tp now next_wakeup may_send flushing max_requests s =
     (let rk = ps_rk s; rktp = ps_toppars s tp in
      if \<not> may_send \<or> rd_kafka_fatal_error_code rk \<noteq> 0 \<or> rktp_paused rktp \<or>
         (rd_kafka_is_transactional rk \<and> \<not> rd_kafka_txn_toppar_may_send_msg rk tp)
      then Some (0, False, next_wakeup, s)
      else if max_requests > 0 then do {
        (xmit_msgq, msgq) \<leftarrow>
          (if rkmq_msg_cnt (rktp_msgq rktp) > 0
           then rd_kafka_msgq_insert_msgq (rktp_xmit_msgq rktp) (rktp_msgq rktp) (msg_order_cmp rktp)
           else Some (rktp_xmit_msgq rktp, rktp_msgq rktp));
        let s = upd_toppar tp (\<lambda>rktp. rktp\<lparr>rktp_xmit_msgq := xmit_msgq, rktp_msgq := msgq\<rparr>) s;
        let (ready, next, s) = serve_allow_wakeup e tp (if pe_up e rkb then Some next_wakeup else None) now flushing s;
        Some (max_requests, ready, case next of Some next \<Rightarrow> next | None \<Rightarrow> next_wakeup, s)
      }
      else Some (max_requests, False, next_wakeup, s))"

abbreviation (input) RD_KAFKA_IDEMP_MAX_INFLIGHT :: int where "RD_KAFKA_IDEMP_MAX_INFLIGHT \<equiv> 5"

text \<open>Purging, draining and the limit of requests in flight of the idempotent producer; \<open>Inl\<close> means that the
  partition waits for its requests. The limit is compared with the number of messages in flight.\<close>

definition serve_drain ::
  "produce_env \<Rightarrow> int \<Rightarrow> toppar \<Rightarrow> rd_kafka_pid_t \<Rightarrow> int \<Rightarrow> produce_t \<Rightarrow> (produce_t + int \<times> produce_t) option" where
  "serve_drain e rkb tp cur_pid max_requests s =
     (if \<not> rd_kafka_is_idempotent (ps_rk s) then Some (Inr (max_requests, s))
      else do {
        let did_purge = (\<not> rd_kafka_pid_eq cur_pid (rktp_pid (ps_toppars s tp)));
        s \<leftarrow> (if did_purge then rd_kafka_broker_bufq_purge_by_toppar e rkb tp RESP_ERR__RETRY s else Some s);
        let inflight = rktp_msgs_inflight (ps_toppars s tp);
        if rktp_wait_drain (ps_rk s) tp \<and> inflight \<noteq> 0
        then map_option Inl (if did_purge then Some s
                             else rd_kafka_broker_bufq_purge_by_toppar e rkb tp RESP_ERR__RETRY s)
        else
          let s = (if rktp_wait_drain (ps_rk s) tp
                   then s\<lparr>ps_rk := (ps_rk s)\<lparr>rktp_wait_drain := (rktp_wait_drain (ps_rk s))(tp := False)\<rparr>\<rparr> else s)
          in Some (Inr (min max_requests (RD_KAFKA_IDEMP_MAX_INFLIGHT - inflight), s))
      })"

fun produce_requests_loop ::
  "produce_env \<Rightarrow> int \<Rightarrow> toppar \<Rightarrow> rd_kafka_pid_t \<Rightarrow> int \<Rightarrow> nat \<Rightarrow> int \<Rightarrow> produce_t \<Rightarrow> (int \<times> produce_t) option" where
  "produce_requests_loop e rkb tp cur_pid base 0 cnt s = Some (cnt, s)"
| "produce_requests_loop e rkb tp cur_pid base (Suc n) cnt s = do {
     (r, s) \<leftarrow> rd_kafka_ProduceRequest e rkb tp cur_pid base s;
     if r > 0 then produce_requests_loop e rkb tp cur_pid base n (cnt + r) s else Some (cnt, s)
   }"

text \<open>Sending what is in the transmit queue.\<close>

definition serve_send ::
  "produce_env \<Rightarrow> int \<Rightarrow> toppar \<Rightarrow> rd_kafka_pid_t \<Rightarrow> int \<Rightarrow> int \<Rightarrow> bool \<Rightarrow> bool \<Rightarrow> int \<Rightarrow> produce_t \<Rightarrow>
   (int \<times> int \<times> produce_t) option" where
  "serve_send e rkb tp cur_pid now next_wakeup flushing batch_ready max_requests s =
     (if max_requests \<le> 0 \<or> rkmq_msg_cnt (rktp_xmit_msgq (ps_toppars s tp)) = 0 then Some (0, next_wakeup, s)
      else case rkmq_msgs (rktp_xmit_msgq (ps_toppars s tp)) of
        [] \<Rightarrow> None
      | rkm # _ \<Rightarrow> do {
          (proceed, s) \<leftarrow>
            (if rd_kafka_is_idempotent (ps_rk s) \<and> \<not> rd_kafka_pid_eq cur_pid (rktp_pid (ps_toppars s tp))
             then rd_kafka_toppar_pid_change tp cur_pid (rkm_msgid rkm) s
             else Some (True, s));
          if \<not> proceed then Some (0, next_wakeup, s)
          else do {
            let epoch_base_msgid = (if rd_kafka_is_idempotent (ps_rk s)
                                    then rktp_epoch_base_msgid (ps_toppars s tp) else 0);
            if \<not> pe_up e rkb then Some (0, next_wakeup, pfx (PFX_PERSISTCONN rkb) s)
            else if \<not> batch_ready then Some (0, next_wakeup, s)
            else do {
              (cnt, s) \<leftarrow> produce_requests_loop e rkb tp cur_pid epoch_base_msgid (nat max_requests) 0 s;
              if cnt > 0
              then let (ready, next, s) = serve_allow_wakeup e tp (Some next_wakeup) now flushing s
                   in Some (cnt, the next, s)
              else Some (cnt, next_wakeup, s)
            }
          }
        })"

text \<open>Serving a partition: the number of messages produced, the next wake-up and the state.\<close>

definition rd_kafka_toppar_producer_serve ::
  "produce_env \<Rightarrow> int \<Rightarrow> toppar \<Rightarrow> rd_kafka_pid_t \<Rightarrow> int \<Rightarrow> int \<Rightarrow> bool \<Rightarrow> bool \<Rightarrow> bool \<Rightarrow> produce_t \<Rightarrow>
   (int \<times> int \<times> produce_t) option" where
  "rd_kafka_toppar_producer_serve e rkb tp cur_pid now next_wakeup do_timeout_scan may_send flushing s =
     (let max_requests = rd_kafka_broker_outbufs_space e rkb s in
      if rktp_broker (ps_toppars s tp) \<noteq> Some rkb then Some (0, next_wakeup, s)
      else do {
        scan \<leftarrow> (if do_timeout_scan then serve_timeout_scan e tp cur_pid now next_wakeup s
                 else Some (Inr (next_wakeup, s)));
        case scan of
          Inl (next_wakeup, s) \<Rightarrow> Some (0, next_wakeup, s)
        | Inr (next_wakeup, s) \<Rightarrow> do {
            (max_requests, batch_ready, next_wakeup, s) \<leftarrow>
              serve_move e rkb tp now next_wakeup may_send flushing max_requests s;
            drain \<leftarrow> serve_drain e rkb tp cur_pid max_requests s;
            case drain of
              Inl s \<Rightarrow> Some (0, next_wakeup, s)
            | Inr (max_requests, s) \<Rightarrow> serve_send e rkb tp cur_pid now next_wakeup flushing batch_ready max_requests s
          }
      })"

text \<open>Serving the active partitions of a broker, in the order of the round robin.\<close>

fun produce_toppars_loop ::
  "produce_env \<Rightarrow> int \<Rightarrow> rd_kafka_pid_t \<Rightarrow> int \<Rightarrow> bool \<Rightarrow> bool \<Rightarrow> bool \<Rightarrow> toppar list \<Rightarrow> int \<Rightarrow> int \<Rightarrow> produce_t \<Rightarrow>
   (int \<times> int \<times> produce_t) option" where
  "produce_toppars_loop e rkb cur_pid now scan may_send flushing [] cnt next_wakeup s = Some (cnt, next_wakeup, s)"
| "produce_toppars_loop e rkb cur_pid now scan may_send flushing (tp # tps) cnt next_wakeup s = do {
     (r, this_next_wakeup, s) \<leftarrow>
       rd_kafka_toppar_producer_serve e rkb tp cur_pid now next_wakeup scan may_send flushing s;
     produce_toppars_loop e rkb cur_pid now scan may_send flushing tps (cnt + r)
       (rd_kafka_set_next_wakeup next_wakeup this_next_wakeup) s
   }"

definition produce_may_send :: "rd_kafka_t \<Rightarrow> bool" where
  "produce_may_send rk =
     (\<not> rd_kafka_is_idempotent rk \<or>
      (rd_kafka_pid_valid (rd_kafka_idemp_get_pid0 rk False) \<and>
       (\<not> rd_kafka_is_transactional rk \<or> rd_kafka_txn_may_send_msg rk)))"

definition rd_kafka_broker_produce_toppars ::
  "produce_env \<Rightarrow> int \<Rightarrow> toppar list \<Rightarrow> int \<Rightarrow> int \<Rightarrow> bool \<Rightarrow> produce_t \<Rightarrow> (int \<times> int \<times> produce_t) option" where
  "rd_kafka_broker_produce_toppars e rkb active now next_wakeup do_timeout_scan s =
     (let rk = ps_rk s;
          cur_pid = (if rd_kafka_is_idempotent rk then rd_kafka_idemp_get_pid0 rk False else RD_KAFKA_PID_INITIALIZER);
          may_send = produce_may_send rk
      in if active = [] \<or> (\<not> may_send \<and> \<not> do_timeout_scan) then Some (0, next_wakeup, s)
         else produce_toppars_loop e rkb cur_pid now do_timeout_scan may_send (may_send \<and> pe_flushing e) active 0
                next_wakeup s)"

section \<open>Joining and leaving a broker\<close>

text \<open>\<open>RD_KAFKA_OP_PARTITION_JOIN\<close> on a producer: the op is passed on if another broker is the next one.\<close>

definition op_partition_join :: "produce_env \<Rightarrow> int \<Rightarrow> toppar \<Rightarrow> produce_t \<Rightarrow> produce_t option" where
  "op_partition_join e rkb tp s =
     (let rktp = ps_toppars s tp in
      if ev_terminating (pe_env e) \<or> ev_termination_in_progress (pe_env e) (BROKER rkb) \<or> rktp_remove rktp
      then Some (upd_toppar tp (\<lambda>rktp. rktp\<lparr>rktp_next_broker := None\<rparr>) s)
      else if rktp_next_broker rktp \<noteq> Some rkb
      then map_option (\<lambda>next. pfx (PFX_JOIN next tp) s) (rktp_next_broker rktp)
      else if rktp_on_rkb rktp \<or> rktp_msgq_wakeup_q rktp then None
      else
        let s = upd_toppar tp (\<lambda>rktp. rktp\<lparr>rktp_on_rkb := True, rktp_broker := Some rkb, rktp_msgq_wakeup_q := True,
                                            rktp_next_broker := None\<rparr>) s
        in Some (if rd_kafka_is_idempotent (ps_rk s)
                 then s\<lparr>ps_rk := rd_kafka_idemp_drain_toppar (ps_rk s) tp\<rparr> else s))"

text \<open>\<open>RD_KAFKA_OP_PARTITION_LEAVE\<close> on a producer.\<close>

definition op_partition_leave :: "produce_env \<Rightarrow> int \<Rightarrow> toppar \<Rightarrow> produce_t \<Rightarrow> produce_t option" where
  "op_partition_leave e rkb tp s =
     (if rktp_broker (ps_toppars s tp) \<noteq> Some rkb then Some s
      else do {
        let topic_err = pe_topic_err e (fst tp);
        s \<leftarrow> rd_kafka_broker_bufq_purge_by_toppar e rkb tp RESP_ERR__RETRY s;
        let rktp = ps_toppars s tp;
        (msgq, xmit_msgq) \<leftarrow> rd_kafka_msgq_insert_msgq (rktp_msgq rktp) (rktp_xmit_msgq rktp) (msg_order_cmp rktp);
        let s = upd_toppar tp (\<lambda>rktp. rktp\<lparr>rktp_msgq := msgq, rktp_xmit_msgq := xmit_msgq, rktp_broker := None,
                                            rktp_msgq_wakeup_q := False, rktp_on_rkb := False\<rparr>) s;
        if \<not> rktp_on_rkb rktp then None
        else case rktp_next_broker rktp of
          Some next \<Rightarrow> Some (pfx (PFX_JOIN next tp) s)
        | None \<Rightarrow>
            if rd_kafka_msgq_len xmit_msgq \<noteq> 0 then None
            else Some (rd_kafka_dr_msgq tp msgq
                   (if ev_terminating (pe_env e) then RESP_ERR__DESTROY
                    else if topic_err \<noteq> 0 then topic_err else RESP_ERR__UNKNOWN_PARTITION)
                   (upd_toppar tp (\<lambda>rktp. rktp\<lparr>rktp_msgq := rd_kafka_msgq_init msgq\<rparr>) s))
      })"

end
