(* ===== verification/Produce_Inv.thy ===== *)
theory Produce_Inv
  imports Produce Eos_Dispatch
begin

text \<open>
  What every operation of the produce path keeps: the invariant of a partition and, for the
  instance, that the operation is a sequence of steps of \<open>Eos_System\<close>. The lemmas are total: an
  operation aborts only under the condition named in its rule.
\<close>

section \<open>Results\<close>

text \<open>\<open>rd_returns A Q m\<close>: the operation aborts only if \<open>A\<close>, and otherwise returns a result with \<open>Q\<close>.\<close>

definition rd_returns :: "bool \<Rightarrow> ('a \<Rightarrow> bool) \<Rightarrow> 'a option \<Rightarrow> bool" where
  "rd_returns A Q m \<longleftrightarrow> (case m of None \<Rightarrow> A | Some x \<Rightarrow> Q x)"

named_theorems rd_returns_intros \<open>rules that follow an operation through its control flow\<close>

lemma rd_returns_Some [rd_returns_intros]: "Q x \<Longrightarrow> rd_returns A Q (Some x)"
  by (simp add: rd_returns_def)

lemma rd_returns_abort [rd_returns_intros]: "A \<Longrightarrow> rd_returns A Q None"
  by (simp add: rd_returns_def)

lemma rd_returns_bind:
  "rd_returns A R m \<Longrightarrow> (\<And>x. R x \<Longrightarrow> rd_returns A Q (f x)) \<Longrightarrow> rd_returns A Q (Option.bind m f)"
  by (cases m) (simp_all add: rd_returns_def)

lemma rd_returns_if [rd_returns_intros]:
  "(b \<Longrightarrow> rd_returns A Q x) \<Longrightarrow> (\<not> b \<Longrightarrow> rd_returns A Q y) \<Longrightarrow> rd_returns A Q (if b then x else y)"
  by simp

lemma rd_returns_map: "rd_returns A (\<lambda>x. Q (f x)) m \<Longrightarrow> rd_returns A Q (map_option f m)"
  by (cases m) (simp_all add: rd_returns_def)

lemma rd_returns_mono: "rd_returns A R m \<Longrightarrow> (\<And>x. R x \<Longrightarrow> Q x) \<Longrightarrow> rd_returns A Q m"
  by (cases m) (simp_all add: rd_returns_def)

lemma rd_returns_weaken: "rd_returns A Q m \<Longrightarrow> (A \<Longrightarrow> B) \<Longrightarrow> rd_returns B Q m"
  by (cases m) (simp_all add: rd_returns_def)

lemma rd_returns_D: "rd_returns A Q m \<Longrightarrow> m = Some x \<Longrightarrow> Q x"
  by (simp add: rd_returns_def)

lemma rd_returns_total: "rd_returns A Q m \<Longrightarrow> \<not> A \<Longrightarrow> \<exists>x. m = Some x \<and> Q x"
  by (cases m) (simp_all add: rd_returns_def)

lemma rd_returns_ex: "\<exists>x. m = Some x \<and> Q x \<Longrightarrow> rd_returns A Q m"
  by (auto simp: rd_returns_def)

section \<open>The instance\<close>

text \<open>Only the produce path changes the number of partitions with messages in flight.\<close>

interpretation inflight_kept: eos_evolution "UNIV - {P_INFLIGHT}"
  "\<lambda>rk rk'. inflight_toppar_cnt rk' = inflight_toppar_cnt rk"
proof unfold_locales
  fix e rk rk'
  assume "eos_act (UNIV - {P_INFLIGHT}) e rk rk'"
  then show "inflight_toppar_cnt rk' = inflight_toppar_cnt rk"
  proof (induction rule: eos_act.induct)
    case (act_complete rk rk')
    then show ?case using txn_set_state_moves [of "txn_cleared rk"]
      by (simp add: txn_complete_eq txn_moves_def txn_frame_def)
  next
    case (act_end c rk v rk')
    from txn_set_state_moves [OF act_end.hyps(6)] show ?case by (simp add: txn_moves_def txn_frame_def rd_send_def)
  qed (auto simp: rd_fx_def rd_send_def register_partitions_eq partition_registered_sel
      txn_moves_def txn_frame_def dest!: txn_set_state_moves idemp_set_state_moves)
qed simp_all

definition rk_keeps :: "rd_env \<Rightarrow> rd_kafka_t \<Rightarrow> rd_kafka_t \<Rightarrow> bool" where
  "rk_keeps e rk rk' \<longleftrightarrow> (eos_step e)\<^sup>*\<^sup>* rk rk' \<and> inflight_toppar_cnt rk' = inflight_toppar_cnt rk \<and>
     rk_conf rk' = rk_conf rk \<and> rk_type rk' = rk_type rk"

lemma rk_keeps_refl [simp]: "rk_keeps e rk rk"
  by (simp add: rk_keeps_def)

lemma rk_keeps_trans: "rk_keeps e rk1 rk2 \<Longrightarrow> rk_keeps e rk2 rk3 \<Longrightarrow> rk_keeps e rk1 rk3"
  by (auto simp: rk_keeps_def)

lemma rk_keepsI:
  assumes "eos_step e rk rk'" "eos_acts (UNIV - {P_INFLIGHT}) e rk rk'"
  shows "rk_keeps e rk rk'"
  using assms(1) inflight_kept.acts_evolve [OF assms(2)] fatal.acts_evolve [OF assms(2)]
  by (auto simp: rk_keeps_def fatal_evolves_def)

lemma rk_keeps_idempotent [simp]: "rk_keeps e rk rk' \<Longrightarrow> rd_kafka_is_idempotent rk' = rd_kafka_is_idempotent rk"
  by (simp add: rk_keeps_def rd_kafka_is_idempotent_def)

lemma rk_keeps_transactional [simp]:
  "rk_keeps e rk rk' \<Longrightarrow> rd_kafka_is_transactional rk' = rd_kafka_is_transactional rk"
  by (simp add: rk_keeps_def rd_kafka_is_transactional_def)

abbreviation P_PRODUCE :: "eos_perm set" where "P_PRODUCE \<equiv> UNIV - {P_INFLIGHT}"

lemma keeps_idemp_set_fatal: "rd_kafka_idemp_set_fatal_error rk err = Some rk' \<Longrightarrow> rk_keeps e rk rk'"
  by (rule rk_keepsI, erule step_fatal, erule eos_runs_D [rotated], rule eos_runs_set_fatal)

lemma keeps_txn_set_fatal:
  "rd_kafka_is_transactional rk \<Longrightarrow> rd_kafka_txn_set_fatal_error rk err = Some rk' \<Longrightarrow> rk_keeps e rk rk'"
  by (rule keeps_idemp_set_fatal [of _ err]) (simp add: rd_kafka_idemp_set_fatal_error_def)

lemma keeps_drain_bump: "rd_kafka_idemp_drain_epoch_bump e rk err = Some rk' \<Longrightarrow> rk_keeps e rk rk'"
  by (rule rk_keepsI, erule step_drain_bump, erule eos_runs_D [rotated], (intro eos_runs_intros; simp))

lemma keeps_drain_reset: "rd_kafka_idemp_drain_reset e rk = Some rk' \<Longrightarrow> rk_keeps e rk rk'"
  by (rule rk_keepsI, erule step_drain_reset, erule eos_runs_D [rotated], (intro eos_runs_intros; simp))

lemma keeps_abortable:
  "rd_kafka_is_transactional rk \<Longrightarrow> rd_kafka_txn_set_abortable_error0 rk err b = Some rk' \<Longrightarrow> rk_keeps e rk rk'"
  by (rule rk_keepsI, erule (1) step_abortable, erule eos_runs_D [rotated], (intro eos_runs_intros; simp))

lemma keeps_drain_toppar: "rk_keeps e rk (rd_kafka_idemp_drain_toppar rk rktp)"
  by (rule rk_keepsI, rule step_drain_toppar, rule eos_acts_drain_toppar)

lemma keeps_drained: "rk_keeps e rk (rk\<lparr>rktp_wait_drain := (rktp_wait_drain rk)(rktp := False)\<rparr>)"
  by (rule rk_keepsI, rule step_drained) (auto intro: act_wait_drain)

lemma keeps_instance_fatal: "rk_keeps e rk (snd (rd_kafka_set_fatal_error0 rk err))"
  by (rule rk_keepsI, rule step_instance_fatal) (auto intro: act_fatal)

lemma keeps_dr_fails: "0 \<le> n \<Longrightarrow> rk_keeps e rk (rk\<lparr>txn_dr_fails := txn_dr_fails rk + n\<rparr>)"
  using step_dr_fails [of e rk "nat n"] by (auto intro!: rk_keepsI r_into_rtranclp act_dr_fails)

lemma on_rk_keeps:
  assumes "\<And>rk'. f (ps_rk s) = Some rk' \<Longrightarrow> rk_keeps e (ps_rk s) rk'" "f (ps_rk s) = None \<Longrightarrow> A"
  shows "rd_returns A (\<lambda>s'. \<exists>rk'. s' = s\<lparr>ps_rk := rk'\<rparr> \<and> rk_keeps e (ps_rk s) rk') (on_rk f s)"
  using assms by (cases "f (ps_rk s)") (auto simp: rd_returns_def on_rk_def)

section \<open>Partitions\<close>

interpretation ord: msg_order "msg_order_cmp rktp" for rktp
  by (cases "rkt_queuing_fifo rktp")
     (simp_all add: msg_order_cmp_def fifo.msg_order_axioms lifo.msg_order_axioms)

definition msgids :: "rd_kafka_msg list \<Rightarrow> int multiset" where
  "msgids ms = image_mset rkm_msgid (mset ms)"

lemma msgids_simps [simp]:
  "msgids [] = {#}" "msgids (m # ms) = add_mset (rkm_msgid m) (msgids ms)" "msgids (xs @ ys) = msgids xs + msgids ys"
  by (simp_all add: msgids_def)

lemma msgids_map: "(\<And>m. m \<in> set ms \<Longrightarrow> rkm_msgid (f m) = rkm_msgid m) \<Longrightarrow> msgids (map f ms) = msgids ms"
  by (induction ms) simp_all

lemma msgids_takeWhile_dropWhile: "msgids (takeWhile P ms) + msgids (dropWhile P ms) = msgids ms"
  by (metis msgids_simps(3) takeWhile_dropWhile_id)

lemma msgids_filter: "msgids (filter P ms) + msgids (filter (\<lambda>m. \<not> P m) ms) = msgids ms"
  by (induction ms) simp_all

lemma msgids_mset: "mset xs = mset ys + mset zs \<Longrightarrow> msgids xs = msgids ys + msgids zs"
  by (simp add: msgids_def)

text \<open>A queue with right counters that is in the order of the partition and has no message twice.\<close>

definition queue_ok :: "rd_kafka_toppar_t \<Rightarrow> rd_kafka_msgq \<Rightarrow> bool" where
  "queue_ok rktp q \<longleftrightarrow> msgq_ok q \<and> sorted_wrt (\<lambda>a b. msg_order_cmp rktp a b < 0) (rkmq_msgs q)"

definition queues_ok :: "toppar \<Rightarrow> produce_t \<Rightarrow> bool" where
  "queues_ok tp s \<longleftrightarrow> queue_ok (ps_toppars s tp) (rktp_msgq (ps_toppars s tp)) \<and>
     queue_ok (ps_toppars s tp) (rktp_xmit_msgq (ps_toppars s tp))"

definition reported_msgs :: "toppar \<Rightarrow> produce_t \<Rightarrow> rd_kafka_msg list" where
  "reported_msgs tp s = concat (map dr_msgs (filter (\<lambda>rko. dr_rktp rko = tp) (ps_dr s)))"

text \<open>The ids of the messages of a partition that are in its queues or in a delivery report.\<close>

definition settled_ids :: "toppar \<Rightarrow> produce_t \<Rightarrow> int multiset" where
  "settled_ids tp s = msgids (rkmq_msgs (rktp_msgq (ps_toppars s tp))) +
     msgids (rkmq_msgs (rktp_xmit_msgq (ps_toppars s tp))) + msgids (reported_msgs tp s)"

definition rktp_same :: "rd_kafka_toppar_t \<Rightarrow> rd_kafka_toppar_t \<Rightarrow> bool" where
  "rktp_same a b \<longleftrightarrow> rktp_msgs_inflight b = rktp_msgs_inflight a \<and> rktp_msgid b = rktp_msgid a \<and>
     rktp_pid b = rktp_pid a \<and> rkt_queuing_fifo b = rkt_queuing_fifo a"

text \<open>What handling one partition leaves alone.\<close>

definition produce_frame :: "produce_env \<Rightarrow> toppar \<Rightarrow> produce_t \<Rightarrow> produce_t \<Rightarrow> bool" where
  "produce_frame e tp s s' \<longleftrightarrow> ps_conf s' = ps_conf s \<and> ps_bufs s' = ps_bufs s \<and>
     (\<forall>tp'. tp' \<noteq> tp \<longrightarrow> ps_toppars s' tp' = ps_toppars s tp' \<and> reported_msgs tp' s' = reported_msgs tp' s) \<and>
     rktp_same (ps_toppars s tp) (ps_toppars s' tp) \<and> rk_keeps (pe_env e) (ps_rk s) (ps_rk s')"

text \<open>\<open>moves e tp H s H' s'\<close>: the messages \<open>H\<close> in the hands of the operation and those settled became the
  messages \<open>H'\<close> in its hands and those settled now, none lost and none added.\<close>

definition moves :: "produce_env \<Rightarrow> toppar \<Rightarrow> int multiset \<Rightarrow> produce_t \<Rightarrow> int multiset \<Rightarrow> produce_t \<Rightarrow> bool" where
  "moves e tp H s H' s' \<longleftrightarrow> produce_frame e tp s s' \<and> queues_ok tp s' \<and>
     settled_ids tp s' + H' = settled_ids tp s + H"

definition holds :: "toppar \<Rightarrow> int multiset \<Rightarrow> produce_t \<Rightarrow> bool" where
  "holds tp H s \<longleftrightarrow> queues_ok tp s \<and> (\<forall>i. count (settled_ids tp s + H) i \<le> 1)"

lemma produce_frame_refl [simp]: "produce_frame e tp s s"
  by (simp add: produce_frame_def rktp_same_def)

lemma produce_frame_trans: "produce_frame e tp s1 s2 \<Longrightarrow> produce_frame e tp s2 s3 \<Longrightarrow> produce_frame e tp s1 s3"
  unfolding produce_frame_def rktp_same_def by (metis rk_keeps_trans)

lemma moves_refl: "queues_ok tp s \<Longrightarrow> moves e tp H s H s"
  by (simp add: moves_def)

lemma moves_trans: "moves e tp H1 s1 H2 s2 \<Longrightarrow> moves e tp H2 s2 H3 s3 \<Longrightarrow> moves e tp H1 s1 H3 s3"
  by (auto simp: moves_def intro: produce_frame_trans)

lemma moves_holds: "moves e tp H s H' s' \<Longrightarrow> holds tp H s \<Longrightarrow> holds tp H' s'"
  by (simp add: moves_def holds_def)

lemma moves_add: "moves e tp H s H' s' \<Longrightarrow> moves e tp (H + K) s (H' + K) s'"
  by (simp add: moves_def add.assoc [symmetric])

lemma holds_less: "holds tp (H + K) s \<Longrightarrow> holds tp H s"
  by (simp add: holds_def) (metis add.assoc add_leD1)


lemma queue_ok_same: "rkt_queuing_fifo a = rkt_queuing_fifo b \<Longrightarrow> queue_ok a = queue_ok b"
  by (rule ext) (simp add: queue_ok_def msg_order_cmp_def)

lemma queue_ok_upd [simp]:
  "queue_ok (r\<lparr>rktp_msgs_inflight := n\<rparr>) = queue_ok r" "queue_ok (r\<lparr>rktp_msgid := n\<rparr>) = queue_ok r"
  "queue_ok (r\<lparr>rktp_msgq := q\<rparr>) = queue_ok r" "queue_ok (r\<lparr>rktp_xmit_msgq := q\<rparr>) = queue_ok r"
  "queue_ok (r\<lparr>rktp_pid := p\<rparr>) = queue_ok r"
  by (rule queue_ok_same, simp)+

lemma queue_ok_empty: "msgq_ok q \<Longrightarrow> rkmq_msgs q = [] \<Longrightarrow> queue_ok rktp q"
  by (simp add: queue_ok_def)

lemma upd_toppar_sel [simp]:
  "ps_rk (upd_toppar tp f s) = ps_rk s" "ps_conf (upd_toppar tp f s) = ps_conf s" "ps_bufs (upd_toppar tp f s) = ps_bufs s"
  "ps_dr (upd_toppar tp f s) = ps_dr s" "ps_fx (upd_toppar tp f s) = ps_fx s"
  "ps_toppars (upd_toppar tp f s) = (ps_toppars s)(tp := f (ps_toppars s tp))"
  "reported_msgs tp' (upd_toppar tp f s) = reported_msgs tp' s"
  by (simp_all add: upd_toppar_def reported_msgs_def)

lemma pfx_sel [simp]:
  "ps_rk (pfx x s) = ps_rk s" "ps_conf (pfx x s) = ps_conf s" "ps_bufs (pfx x s) = ps_bufs s"
  "ps_dr (pfx x s) = ps_dr s" "ps_toppars (pfx x s) = ps_toppars s" "reported_msgs tp (pfx x s) = reported_msgs tp s"
  by (simp_all add: pfx_def reported_msgs_def)

lemma reported_rk [simp]: "reported_msgs tp (s\<lparr>ps_rk := rk\<rparr>) = reported_msgs tp s"
  "reported_msgs tp (s\<lparr>ps_bufs := bufs\<rparr>) = reported_msgs tp s"
  by (simp_all add: reported_msgs_def)

text \<open>The elementary moves: changing the queues, the instance, the effects and the reports.\<close>

lemma moves_upd:
  assumes "rktp_same (ps_toppars s tp) (f (ps_toppars s tp))"
    "queue_ok (ps_toppars s tp) (rktp_msgq (f (ps_toppars s tp)))"
    "queue_ok (ps_toppars s tp) (rktp_xmit_msgq (f (ps_toppars s tp)))"
    "msgids (rkmq_msgs (rktp_msgq (f (ps_toppars s tp)))) + msgids (rkmq_msgs (rktp_xmit_msgq (f (ps_toppars s tp)))) + H' =
     msgids (rkmq_msgs (rktp_msgq (ps_toppars s tp))) + msgids (rkmq_msgs (rktp_xmit_msgq (ps_toppars s tp))) + H"
  shows "moves e tp H s H' (upd_toppar tp f s)"
proof -
  have "queue_ok (f (ps_toppars s tp)) = queue_ok (ps_toppars s tp)"
    using assms(1) by (intro queue_ok_same) (simp add: rktp_same_def)
  moreover have "settled_ids tp (upd_toppar tp f s) + H' = settled_ids tp s + H"
    using arg_cong [OF assms(4), of "(+) (msgids (reported_msgs tp s))"] by (simp add: settled_ids_def ac_simps)
  ultimately show ?thesis using assms(1-3) by (simp add: moves_def produce_frame_def queues_ok_def)
qed

lemma moves_keep:
  assumes "queues_ok tp s" "rktp_same (ps_toppars s tp) (f (ps_toppars s tp))"
    "rktp_msgq (f (ps_toppars s tp)) = rktp_msgq (ps_toppars s tp)"
    "rktp_xmit_msgq (f (ps_toppars s tp)) = rktp_xmit_msgq (ps_toppars s tp)"
  shows "moves e tp H s H (upd_toppar tp f s)"
  by (rule moves_upd) (use assms in \<open>simp_all add: queues_ok_def\<close>)

lemma moves_rk:
  "queues_ok tp s \<Longrightarrow> rk_keeps (pe_env e) (ps_rk s) rk' \<Longrightarrow> moves e tp H s H (s\<lparr>ps_rk := rk'\<rparr>)"
  by (simp add: moves_def produce_frame_def queues_ok_def settled_ids_def rktp_same_def)

lemma moves_pfx: "moves e tp H s H' s' \<Longrightarrow> moves e tp H s H' (pfx x s')"
  by (simp add: moves_def produce_frame_def queues_ok_def settled_ids_def)

lemma moves_on_rk:
  assumes "queues_ok tp s" "\<And>rk'. f (ps_rk s) = Some rk' \<Longrightarrow> rk_keeps (pe_env e) (ps_rk s) rk'" "f (ps_rk s) = None \<Longrightarrow> A"
  shows "rd_returns A (moves e tp H s H) (on_rk f s)"
  by (rule rd_returns_mono, rule on_rk_keeps [where e = "pe_env e"]) (use assms in \<open>auto intro: moves_rk\<close>)

section \<open>Delivery reports\<close>

lemma msgids_on_acknowledgement [simp]:
  "msgids (rd_kafka_interceptors_on_acknowledgement_queue err ms) = msgids ms"
  by (simp add: rd_kafka_interceptors_on_acknowledgement_queue_def msgids_map)

lemma moves_dr_msgq0:
  assumes "queues_ok tp s" "msgq_ok q"
  shows "moves e tp (msgids (rkmq_msgs q) + H) s H (rd_kafka_dr_msgq0 tp q err presult s)"
proof (cases "rd_kafka_msgq_len q = 0")
  case True
  then have "rkmq_msgs q = []" using assms(2) msgq_len [of q] by simp
  then show ?thesis using True assms(1) by (simp add: rd_kafka_dr_msgq0_def moves_refl)
next
  case False
  have "rk_keeps (pe_env e) (ps_rk s) ((ps_rk s)\<lparr>txn_dr_fails := txn_dr_fails (ps_rk s) + rd_kafka_msgq_len q\<rparr>)"
    using assms(2) by (intro keeps_dr_fails) (simp add: msgq_len)
  then show ?thesis using False assms(1)
    by (auto simp: rd_kafka_dr_msgq0_def Let_def moves_def produce_frame_def queues_ok_def settled_ids_def reported_msgs_def
        rktp_same_def ac_simps)
qed


lemma moves_report:
  "moves e tp H s (msgids (rkmq_msgs q) + H') s1 \<Longrightarrow> msgq_ok q \<Longrightarrow> moves e tp H s H' (rd_kafka_dr_msgq0 tp q err presult s1)"
  by (rule moves_trans, assumption, rule moves_dr_msgq0) (simp_all add: moves_def)

section \<open>Moving messages between queues\<close>

text \<open>Messages that are all different may be merged, split at any place and marked.\<close>

definition ids_once :: "int multiset \<Rightarrow> bool" where
  "ids_once M \<longleftrightarrow> (\<forall>i. count M i \<le> 1)"

lemma ids_once_less: "ids_once (M + N) \<Longrightarrow> ids_once M"
  by (simp add: ids_once_def) (metis add_leD1)

lemma queues_apart:
  assumes "queue_ok rktp a" "queue_ok rktp b" "ids_once (msgids (rkmq_msgs a) + msgids (rkmq_msgs b))"
  shows "ord.apart rktp (rkmq_msgs a) (rkmq_msgs b)"
proof -
  have "rkm_msgid x \<noteq> rkm_msgid y" if "x \<in> set (rkmq_msgs a)" "y \<in> set (rkmq_msgs b)" for x y
  proof
    assume eq: "rkm_msgid x = rkm_msgid y"
    have "rkm_msgid x \<in># msgids (rkmq_msgs a)" "rkm_msgid x \<in># msgids (rkmq_msgs b)"
      using that unfolding eq by (auto simp: msgids_def) (metis eq image_eqI)
    then have "1 \<le> count (msgids (rkmq_msgs a)) (rkm_msgid x)" "1 \<le> count (msgids (rkmq_msgs b)) (rkm_msgid x)"
      by (simp_all only: count_greater_eq_one_iff)
    then show False using spec [OF assms(3) [unfolded ids_once_def], of "rkm_msgid x"] by (simp only: count_union)
  qed
  then show ?thesis using assms(1,2) by (simp add: ord.apart_def queue_ok_def ord.cmp_by_msgid)
qed

lemma insert_msgq_moves:
  assumes "queue_ok rktp a" "queue_ok rktp b" "ids_once (msgids (rkmq_msgs a) + msgids (rkmq_msgs b))"
  shows "rd_returns A (\<lambda>(a', b'). queue_ok rktp a' \<and> msgids (rkmq_msgs a') = msgids (rkmq_msgs a) + msgids (rkmq_msgs b) \<and>
    msgq_ok b' \<and> rkmq_msgs b' = []) (rd_kafka_msgq_insert_msgq a b (msg_order_cmp rktp))"
  using ord.insert_msgq_ok [OF queues_apart [OF assms]] assms
  by (intro rd_returns_ex) (auto simp: queue_ok_def msgq_ok_def dest: msgids_mset)

abbreviation before :: "rd_kafka_toppar_t \<Rightarrow> rd_kafka_msg \<Rightarrow> rd_kafka_msg \<Rightarrow> bool" where
  "before rktp a b \<equiv> msg_order_cmp rktp a b < 0"

lemma sorted_wrt_part:
  assumes "sorted_wrt R xs"
  shows "sorted_wrt R (takeWhile P xs)" "sorted_wrt R (dropWhile P xs)"
  using assms sorted_wrt_append [of R "takeWhile P xs" "dropWhile P xs"] by simp_all

lemma sorted_map:
  assumes "sorted_wrt (before rktp) xs" "\<And>m. rkm_msgid (f m) = rkm_msgid m"
  shows "sorted_wrt (before rktp) (map f xs)"
  using assms(1) ord.cmp_cong [where rktp = rktp and a = "f _" and b = "f _", OF assms(2) assms(2)]
  by (simp add: sorted_wrt_map)

lemma move_acked_moves:
  assumes "queue_ok rktp q"
  shows "rd_returns A (\<lambda>(t', q'). queue_ok rktp t' \<and> queue_ok rktp q' \<and>
    msgids (rkmq_msgs t') + msgids (rkmq_msgs q') = msgids (rkmq_msgs q))
    (rd_kafka_msgq_move_acked RD_KAFKA_MSGQ_INITIALIZER q last_msgid status)"
proof -
  let ?P = "\<lambda>m. rkm_msgid m \<le> last_msgid"
  obtain q' t' where r: "rd_kafka_msgq_move_acked RD_KAFKA_MSGQ_INITIALIZER q last_msgid status = Some (t', q')"
    "rkmq_msgs q' = dropWhile ?P (rkmq_msgs q)"
    "rkmq_msgs t' = map (rkm_status_update (\<lambda>_. status)) (takeWhile ?P (rkmq_msgs q))" "msgq_ok q'" "msgq_ok t'"
    using move_acked_ok [of q RD_KAFKA_MSGQ_INITIALIZER last_msgid status] assms by (auto simp: queue_ok_def)
  have "queue_ok rktp t'" "queue_ok rktp q'"
    using assms r sorted_wrt_part [of "before rktp" "rkmq_msgs q" ?P] by (simp_all add: queue_ok_def sorted_map)
  then show ?thesis using r msgids_takeWhile_dropWhile [of ?P "rkmq_msgs q"]
    by (intro rd_returns_ex) (simp add: msgids_map)
qed

lemma age_scan_moves:
  assumes "queue_ok rktp q"
  shows "rd_returns A (\<lambda>(n, q', t', nxt). queue_ok rktp t' \<and> queue_ok rktp q' \<and> n = int (length (rkmq_msgs t')) \<and>
    msgids (rkmq_msgs t') + msgids (rkmq_msgs q') = msgids (rkmq_msgs q))
    (rd_kafka_msgq_age_scan q RD_KAFKA_MSGQ_INITIALIZER now)"
proof -
  let ?P = "\<lambda>m. rkm_ts_timeout m \<le> now"
  obtain n q' t' nxt where r: "rd_kafka_msgq_age_scan q RD_KAFKA_MSGQ_INITIALIZER now = Some (n, q', t', nxt)"
    "rkmq_msgs q' = dropWhile ?P (rkmq_msgs q)" "rkmq_msgs t' = takeWhile ?P (rkmq_msgs q)" "msgq_ok q'" "msgq_ok t'"
    "n = int (length (takeWhile ?P (rkmq_msgs q)))"
    using age_scan_ok [of q RD_KAFKA_MSGQ_INITIALIZER now] assms by (auto simp: queue_ok_def)
  have "queue_ok rktp t'" "queue_ok rktp q'"
    using assms r sorted_wrt_part [of "before rktp" "rkmq_msgs q" ?P] by (simp_all add: queue_ok_def)
  then show ?thesis using r msgids_takeWhile_dropWhile [of ?P "rkmq_msgs q"] by (intro rd_returns_ex) simp
qed


text \<open>The messages of a partition in the hands of an operation are different from those in its queues.\<close>

lemma holds_once: "holds tp H s \<longleftrightarrow> queues_ok tp s \<and> ids_once (settled_ids tp s + H)"
  by (simp add: holds_def ids_once_def)

lemma ids_once_sub: "ids_once M \<Longrightarrow> N \<subseteq># M \<Longrightarrow> ids_once N"
  by (metis ids_once_less mset_subset_eq_exists_conv)

lemma holds_sub:
  assumes "holds tp H s" "N \<subseteq># msgids (rkmq_msgs (rktp_msgq (ps_toppars s tp))) + msgids (rkmq_msgs (rktp_xmit_msgq (ps_toppars s tp))) + H"
  shows "ids_once N"
proof (rule ids_once_sub)
  show "ids_once (settled_ids tp s + H)" using assms(1) by (simp add: holds_once)
  show "N \<subseteq># settled_ids tp s + H"
    by (rule subset_mset.order_trans [OF assms(2)]) (simp add: settled_ids_def add.assoc)
qed

lemma dr_implicit_ack_moves:
  assumes "holds tp H s"
  shows "rd_returns A (moves e tp H s H) (rd_kafka_dr_implicit_ack tp last_msgid s)"
proof -
  let ?r = "ps_toppars s tp"
  have ok: "queue_ok ?r (rktp_msgq ?r)" "queue_ok ?r (rktp_xmit_msgq ?r)"
    using assms by (simp_all add: holds_def queues_ok_def)
  show ?thesis unfolding rd_kafka_dr_implicit_ack_def Let_def
  proof (rule rd_returns_bind [OF move_acked_moves [OF ok(2)]], clarify, rule rd_returns_bind [OF move_acked_moves [OF ok(1)]],
      clarify)
    fix acked xq acked2 mq
    assume q: "queue_ok ?r acked" "queue_ok ?r xq" "queue_ok ?r acked2" "queue_ok ?r mq"
      and ids: "msgids (rkmq_msgs acked) + msgids (rkmq_msgs xq) = msgids (rkmq_msgs (rktp_xmit_msgq ?r))"
        "msgids (rkmq_msgs acked2) + msgids (rkmq_msgs mq) = msgids (rkmq_msgs (rktp_msgq ?r))"
    have once: "ids_once (msgids (rkmq_msgs acked) + msgids (rkmq_msgs acked2))"
      by (rule holds_sub [OF assms]) (simp add: ids [symmetric] ac_simps subset_mset.add_increasing2)
    let ?s = "upd_toppar tp (\<lambda>rktp. rktp\<lparr>rktp_xmit_msgq := xq, rktp_msgq := mq\<rparr>) s"
    show "rd_returns A (moves e tp H s H)
      (do {(acked, acked2) \<leftarrow> rd_kafka_msgq_insert_msgq acked acked2 (msg_order_cmp ?r);
           if rd_kafka_msgq_len acked = 0 then Some ?s else Some (rd_kafka_dr_msgq tp acked RESP_ERR_NO_ERROR ?s)})"
    proof (rule rd_returns_bind [OF insert_msgq_moves [OF q(1,3) once]], clarify)
      fix a b
      assume a: "queue_ok ?r a" "msgids (rkmq_msgs a) = msgids (rkmq_msgs acked) + msgids (rkmq_msgs acked2)"
      have "moves e tp H s (msgids (rkmq_msgs a) + H) ?s"
        by (rule moves_upd) (use q in \<open>simp_all add: rktp_same_def a(2) ids [symmetric] ac_simps\<close>)
      moreover from this have "moves e tp H s H (rd_kafka_dr_msgq tp a RESP_ERR_NO_ERROR ?s)"
        by (rule moves_report) (use a(1) in \<open>simp add: queue_ok_def\<close>)
      moreover have "rkmq_msgs a = []" if "rd_kafka_msgq_len a = 0" using that a(1) by (simp add: queue_ok_def msgq_len)
      ultimately show "rd_returns A (moves e tp H s H)
          (if rd_kafka_msgq_len a = 0 then Some ?s else Some (rd_kafka_dr_msgq tp a RESP_ERR_NO_ERROR ?s))"
        by (intro rd_returns_intros) auto
    qed
  qed
qed


lemma msgq_scan_moves:
  assumes "holds tp H s"
  shows "rd_returns A (\<lambda>(n, nxt, s'). 0 \<le> n \<and> moves e tp H s H s') (rd_kafka_broker_toppar_msgq_scan tp now s)"
proof -
  let ?r = "ps_toppars s tp"
  have ok: "queue_ok ?r (rktp_msgq ?r)" "queue_ok ?r (rktp_xmit_msgq ?r)"
    using assms by (simp_all add: holds_def queues_ok_def)
  have finish: "rd_returns A (\<lambda>(n, nxt, s'). 0 \<le> n \<and> moves e tp H s H s')
      (let s = upd_toppar tp (\<lambda>rktp. rktp\<lparr>rktp_xmit_msgq := xq, rktp_msgq := mq\<rparr>) s;
           n = int (length (rkmq_msgs xt)) + int (length (rkmq_msgs mt))
       in if n = 0 then Some (0, w, s)
          else do {(xt, mt) \<leftarrow> rd_kafka_msgq_insert_msgq xt mt (msg_order_cmp ?r);
                   if rkmq_msgs xt = [] then None else Some (n, w, rd_kafka_dr_msgq tp xt RESP_ERR__MSG_TIMED_OUT s)})"
    if q: "queue_ok ?r xt" "queue_ok ?r xq" "queue_ok ?r mt" "queue_ok ?r mq"
      and ids: "msgids (rkmq_msgs xt) + msgids (rkmq_msgs xq) = msgids (rkmq_msgs (rktp_xmit_msgq ?r))"
        "msgids (rkmq_msgs mt) + msgids (rkmq_msgs mq) = msgids (rkmq_msgs (rktp_msgq ?r))"
    for xt xq mt mq w
  proof -
    have once: "ids_once (msgids (rkmq_msgs xt) + msgids (rkmq_msgs mt))"
      by (rule holds_sub [OF assms]) (simp add: ids [symmetric] ac_simps subset_mset.add_increasing2)
    let ?s = "upd_toppar tp (\<lambda>rktp. rktp\<lparr>rktp_xmit_msgq := xq, rktp_msgq := mq\<rparr>) s"
    have m: "moves e tp H s (msgids (rkmq_msgs xt) + msgids (rkmq_msgs mt) + H) ?s"
      by (rule moves_upd) (use q in \<open>simp_all add: rktp_same_def ids [symmetric] ac_simps\<close>)
    have "moves e tp H s H ?s" if "int (length (rkmq_msgs xt)) + int (length (rkmq_msgs mt)) = 0"
    proof -
      have "length (rkmq_msgs xt) = 0" "length (rkmq_msgs mt) = 0" using that by linarith+
      then show ?thesis using m by simp
    qed
    moreover have "rkmq_msgs a \<noteq> []" "moves e tp H s H (rd_kafka_dr_msgq tp a RESP_ERR__MSG_TIMED_OUT ?s)"
      if "int (length (rkmq_msgs xt)) + int (length (rkmq_msgs mt)) \<noteq> 0"
        "queue_ok ?r a \<and> msgids (rkmq_msgs a) = msgids (rkmq_msgs xt) + msgids (rkmq_msgs mt) \<and> msgq_ok b \<and> rkmq_msgs b = []"
      for a b
      using that m arg_cong [of _ _ size, OF conjunct1 [OF conjunct2 [OF that(2)]]]
      by (auto simp: msgids_def queue_ok_def intro!: moves_report)
    ultimately show ?thesis unfolding Let_def
      by (intro rd_returns_if rd_returns_Some rd_returns_bind [OF insert_msgq_moves [OF q(1,3) once]]) (auto simp: rd_returns_def)
  qed
  show ?thesis unfolding rd_kafka_broker_toppar_msgq_scan_def Let_def
    by (rule rd_returns_bind [OF age_scan_moves [OF ok(2)]], clarify, rule rd_returns_bind [OF age_scan_moves [OF ok(1)]],
        clarify, rule finish [unfolded Let_def])
qed

lemma purge_queues_moves:
  assumes "queues_ok tp s" "rk_type (ps_rk s) = RD_KAFKA_PRODUCER" "inc \<Longrightarrow> rktp_broker (ps_toppars s tp) \<noteq> None"
  shows "rd_returns A (\<lambda>(n, s'). moves e tp H s H s') (rd_kafka_toppar_purge_queues tp flags inc s)"
proof -
  let ?r = "ps_toppars s tp"
  have ok: "queue_ok ?r (rktp_msgq ?r)" "queue_ok ?r (rktp_xmit_msgq ?r)" using assms(1) by (simp_all add: queues_ok_def)
  obtain q1 x where q1: "(if inc then rd_kafka_msgq_concat RD_KAFKA_MSGQ_INITIALIZER (rktp_xmit_msgq ?r)
      else (RD_KAFKA_MSGQ_INITIALIZER, rktp_xmit_msgq ?r)) = (q1, x)" "msgq_ok q1" "queue_ok ?r x"
      "msgids (rkmq_msgs q1) + msgids (rkmq_msgs x) = msgids (rkmq_msgs (rktp_xmit_msgq ?r))"
    using ok(2) by (cases inc) (auto simp: rd_kafka_msgq_concat_def queue_ok_def msgq_ok_def)
  obtain q m where q: "rd_kafka_msgq_concat q1 (rktp_msgq ?r) = (q, m)" "msgq_ok q" "queue_ok ?r m"
      "msgids (rkmq_msgs q) + msgids (rkmq_msgs m) = msgids (rkmq_msgs q1) + msgids (rkmq_msgs (rktp_msgq ?r))"
    using ok(1) q1(2) by (auto simp: rd_kafka_msgq_concat_def queue_ok_def msgq_ok_def)
  let ?f = "\<lambda>n rktp. if 0 < n \<and> PURGE_F_ABORT_TXN \<in> flags
      then rktp\<lparr>rktp_epoch_base_msgid := rktp_epoch_base_msgid rktp + n\<rparr> else rktp"
  let ?s = "upd_toppar tp (\<lambda>_. ?f (rd_kafka_msgq_len q) (?r\<lparr>rktp_xmit_msgq := x, rktp_msgq := m\<rparr>)) s"
  have ids: "msgids (rkmq_msgs m) + (msgids (rkmq_msgs x) + msgids (rkmq_msgs q)) =
      msgids (rkmq_msgs (rktp_msgq ?r)) + msgids (rkmq_msgs (rktp_xmit_msgq ?r))"
    unfolding q1(4) [symmetric] add.assoc [symmetric] using q(4) by (simp add: ac_simps)
  have "moves e tp H s (msgids (rkmq_msgs q) + H) ?s"
    by (rule moves_upd) (use q(3) q1(3) ids in \<open>auto simp: rktp_same_def add.assoc [symmetric]\<close>)
  then have "moves e tp H s H (rd_kafka_dr_msgq tp q RESP_ERR__PURGE_QUEUE ?s)"
    by (rule moves_report) (rule q(2))
  then show ?thesis using assms(2,3) moves_refl [OF assms(1), of e H]
    by (auto simp: rd_kafka_toppar_purge_queues_def Let_def q1(1) q(1) rd_returns_def)
qed


section \<open>Retrying\<close>

text \<open>The configured retries never overflow the computation of the backoff.\<close>

definition retry_safe :: "produce_conf \<Rightarrow> bool" where
  "retry_safe conf \<longleftrightarrow> 0 \<le> pc_retry_backoff_ms conf \<and>
     retry_backoff_ms (pc_max_retries conf) (pc_retry_backoff_ms conf) \<noteq> None"

lemma retry_backoff_mono:
  assumes "retry_backoff_ms n ms \<noteq> None" "r \<le> n" "0 \<le> ms"
  shows "retry_backoff_ms r ms \<noteq> None"
proof (cases "r > 0")
  case True
  have "(2::int) ^ nat (r - 1) * ms \<le> 2 ^ nat (n - 1) * ms"
    using assms(2,3) by (intro mult_right_mono power_increasing) simp_all
  then show ?thesis using assms True by (auto simp: retry_backoff_ms_def split: if_splits)
qed (simp add: retry_backoff_ms_def)

text \<open>If the loop does not abort no backoff overflowed.\<close>

lemma retry_loop_backoffs:
  "retry_msgq_loop now jitter incr maxr status True retry_ms retry_max_ms backoff xs i q r \<noteq> None \<Longrightarrow>
   rkmq_msgs q = pre @ xs \<Longrightarrow> msgq_ok q \<Longrightarrow> i = length pre \<Longrightarrow>
     \<forall>m \<in> set xs. rkm_retries m + incr \<le> maxr \<longrightarrow> retry_backoff_ms (rkm_retries m + incr) retry_ms \<noteq> None"
proof (induction xs arbitrary: q r pre i backoff)
  case (Cons m xs)
  show ?case
  proof (cases "rkm_retries m + incr > maxr")
    case True
    then show ?thesis using Cons.IH [of backoff "Suc i" q r "pre @ [m]"] Cons.prems by simp
  next
    case False
    obtain q' where q': "rd_kafka_msgq_deq q i = Some (m, q')" "msgq_ok q'" "rkmq_msgs q' = pre @ xs"
      using deq_ok [of q i] Cons.prems by auto
    obtain m' b where b: "retry_msg now jitter incr status True retry_ms retry_max_ms backoff m = Some (m', b)"
        "retry_msgq_loop now jitter incr maxr status True retry_ms retry_max_ms b xs i q' (rd_kafka_msgq_enq r m') \<noteq> None"
      using Cons.prems(1) q'(1) False by (auto simp: bind_eq_Some_conv)
    then have "retry_backoff_ms (rkm_retries m + incr) retry_ms \<noteq> None" by (auto simp: retry_msg_def bind_eq_Some_conv)
    then show ?thesis using Cons.IH [OF b(2) q'(3,2) Cons.prems(4)] by simp
  qed
qed simp

lemma toppar_retry_msgq_moves:
  assumes "holds tp (msgids (rkmq_msgs q)) s" "queue_ok (ps_toppars s tp) q" "A \<or> retry_safe (ps_conf s)"
  shows "rd_returns A (\<lambda>(r, q', s'). moves e tp (msgids (rkmq_msgs q)) s (msgids (rkmq_msgs q')) s' \<and> queue_ok (ps_toppars s tp) q')
    (rd_kafka_toppar_retry_msgq e jitter tp q incr status s)"
proof (cases "ev_terminating (pe_env e)")
  case True
  then show ?thesis using assms by (simp add: rd_kafka_toppar_retry_msgq_def rd_returns_def holds_def moves_refl)
next
  case False
  let ?r = "ps_toppars s tp" and ?c = "ps_conf s"
  let ?loop = "retry_msgq_loop (pe_clock e) jitter incr (pc_max_retries ?c) status True (pc_retry_backoff_ms ?c)
    (pc_retry_backoff_max_ms ?c) 0 (rkmq_msgs q) 0 q RD_KAFKA_MSGQ_INITIALIZER"
  have ok: "queue_ok ?r (rktp_msgq ?r)" "queue_ok ?r (rktp_xmit_msgq ?r)" "msgq_ok q"
    using assms(1,2) by (simp_all add: holds_def queues_ok_def queue_ok_def)
  have "ids_once (msgids (rkmq_msgs (rktp_msgq ?r)) + msgids (rkmq_msgs q))"
    by (rule holds_sub [OF assms(1)]) (simp add: ac_simps)
  note apart = queues_apart [OF ok(1) assms(2) this]
  show ?thesis
  proof (cases "\<forall>m \<in> set (rkmq_msgs q). rkm_retries m + incr \<le> pc_max_retries ?c \<longrightarrow>
      retry_backoff_ms (rkm_retries m + incr) (pc_retry_backoff_ms ?c) \<noteq> None")
    case safe: True
    obtain r dst src where d: "rd_kafka_retry_msgq (pe_clock e) jitter (rktp_msgq ?r) q incr (pc_max_retries ?c) 0 status
        (msg_order_cmp ?r) True (pc_retry_backoff_ms ?c) (pc_retry_backoff_max_ms ?c) = Some (r, dst, src)"
      "rkmq_msgs src = filter (\<lambda>m. pc_max_retries ?c < rkm_retries m + incr) (rkmq_msgs q)"
      "sorted_wrt (before ?r) (rkmq_msgs dst)" "mset (rkmq_msgs dst) = mset (rkmq_msgs (rktp_msgq ?r)) +
        mset (map (retried_msg (pe_clock e) jitter incr status (pc_retry_backoff_ms ?c) (pc_retry_backoff_max_ms ?c))
          (filter (\<lambda>m. rkm_retries m + incr \<le> pc_max_retries ?c) (rkmq_msgs q)))" "msgq_ok dst" "msgq_ok src"
      using ord.retry_msgq_ok [OF apart _ ok(3) safe, of "pe_clock e" jitter 0 status "pc_retry_backoff_max_ms ?c"] ok(1)
      by (auto simp: queue_ok_def mset_filter)
    have "msgids (rkmq_msgs dst) + msgids (rkmq_msgs src) = msgids (rkmq_msgs (rktp_msgq ?r)) + msgids (rkmq_msgs q)"
      using msgids_mset [OF d(4)] msgids_filter [of "\<lambda>m. pc_max_retries ?c < rkm_retries m + incr" "rkmq_msgs q"]
      by (simp add: d(2) msgids_map not_less ac_simps)
    from arg_cong [OF this, of "(+) (msgids (rkmq_msgs (rktp_xmit_msgq ?r)))"]
    have "moves e tp (msgids (rkmq_msgs q)) s (msgids (rkmq_msgs src)) (upd_toppar tp (\<lambda>rktp. rktp\<lparr>rktp_msgq := dst\<rparr>) s)"
      using d(3,5) ok(2) by (intro moves_upd) (simp_all add: rktp_same_def queue_ok_def ac_simps)
    moreover have "queue_ok ?r src"
      using assms(2) d(2,6) by (simp add: queue_ok_def sorted_wrt_filter)
    ultimately show ?thesis using False d(1) by (simp add: rd_kafka_toppar_retry_msgq_def rd_returns_def)
  next
    case unsafe: False
    then have "A" using assms(3) retry_backoff_mono unfolding retry_safe_def by blast
    moreover have "?loop = None"
    proof (rule ccontr)
      assume "?loop \<noteq> None"
      from retry_loop_backoffs [where pre = "[]", OF this _ ok(3)] unsafe show False by simp
    qed
    ultimately show ?thesis using False by (simp add: rd_kafka_toppar_retry_msgq_def rd_kafka_retry_msgq_def rd_returns_def)
  qed
qed


section \<open>Handling errors\<close>

text \<open>What the instance does on an error; it may abort only when the producer is transactional.\<close>

lemma idemp_set_fatal_total: "rd_kafka_idemp_set_fatal_error rk err \<noteq> None"
  using txn_set_fatal_error_total [of rk err] by (simp add: rd_kafka_idemp_set_fatal_error_def)

lemma drain_reset_total: "rd_kafka_idemp_drain_reset e rk \<noteq> None"
  unfolding rd_kafka_idemp_drain_reset_def by (intro rd_total)

lemma drain_epoch_bump_total:
  "\<not> rd_kafka_is_transactional rk \<Longrightarrow> rd_kafka_idemp_drain_epoch_bump e rk err \<noteq> None"
  using drain_bump_total [of e rk err] by (simp add: rd_kafka_idemp_drain_epoch_bump0_def)

lemma rk_moves:
  assumes "queues_ok tp s"
  shows "rd_returns A (moves e tp H s H) (on_rk (\<lambda>rk. rd_kafka_idemp_set_fatal_error rk err) s)"
    "rd_returns A (moves e tp H s H) (on_rk (rd_kafka_idemp_drain_reset (pe_env e)) s)"
    "A \<or> \<not> rd_kafka_is_transactional (ps_rk s) \<Longrightarrow>
     rd_returns A (moves e tp H s H) (on_rk (\<lambda>rk. rd_kafka_idemp_drain_epoch_bump (pe_env e) rk err) s)"
    "rd_kafka_is_transactional (ps_rk s) \<Longrightarrow>
     rd_returns A (moves e tp H s H) (on_rk (\<lambda>rk. rd_kafka_txn_set_fatal_error rk err) s)"
    "rd_kafka_is_transactional (ps_rk s) \<Longrightarrow> A \<Longrightarrow>
     rd_returns A (moves e tp H s H) (on_rk (\<lambda>rk. rd_kafka_txn_set_abortable_error0 rk err b) s)"
proof -
  show "rd_returns A (moves e tp H s H) (on_rk (\<lambda>rk. rd_kafka_idemp_set_fatal_error rk err) s)"
    by (rule moves_on_rk [OF assms]) (use idemp_set_fatal_total [of "ps_rk s" err] in \<open>auto intro: keeps_idemp_set_fatal\<close>)
  show "rd_returns A (moves e tp H s H) (on_rk (rd_kafka_idemp_drain_reset (pe_env e)) s)"
    by (rule moves_on_rk [OF assms]) (use drain_reset_total [of "pe_env e" "ps_rk s"] in \<open>auto intro: keeps_drain_reset\<close>)
  show "rd_returns A (moves e tp H s H) (on_rk (\<lambda>rk. rd_kafka_idemp_drain_epoch_bump (pe_env e) rk err) s)"
    if "A \<or> \<not> rd_kafka_is_transactional (ps_rk s)"
    by (rule moves_on_rk [OF assms]) (use that drain_epoch_bump_total [of "ps_rk s" "pe_env e" err] in \<open>auto intro: keeps_drain_bump\<close>)
  assume t: "rd_kafka_is_transactional (ps_rk s)"
  show "rd_returns A (moves e tp H s H) (on_rk (\<lambda>rk. rd_kafka_txn_set_fatal_error rk err) s)"
    by (rule moves_on_rk [OF assms]) (use t txn_set_fatal_error_total [of "ps_rk s" err] in \<open>auto intro: keeps_txn_set_fatal\<close>)
  show "rd_returns A (moves e tp H s H) (on_rk (\<lambda>rk. rd_kafka_txn_set_abortable_error0 rk err b) s)" if A
    by (rule moves_on_rk [OF assms]) (use t that in \<open>auto intro: keeps_abortable\<close>)
qed

lemma moves_sel:
  assumes "moves e tp H s H' s'"
  shows "queues_ok tp s'" "rd_kafka_is_transactional (ps_rk s') = rd_kafka_is_transactional (ps_rk s)"
    "rd_kafka_is_idempotent (ps_rk s') = rd_kafka_is_idempotent (ps_rk s)" "ps_conf s' = ps_conf s" "ps_bufs s' = ps_bufs s"
    "queue_ok (ps_toppars s' tp) = queue_ok (ps_toppars s tp)"
  using assms by (auto simp: moves_def produce_frame_def rktp_same_def intro!: queue_ok_same)

lemma out_of_order_moves:
  assumes "queues_ok tp s" "A \<or> \<not> rd_kafka_is_transactional (ps_rk s)"
  shows "rd_returns A (\<lambda>(perr', s'). moves e tp H s H s') (idemp_out_of_order e batch perr s)"
  unfolding idemp_out_of_order_def Let_def
  by (intro rd_returns_if; rule rd_returns_bind, rule rk_moves [OF assms(1)]) (use assms(2) in \<open>auto intro: rd_returns_Some\<close>)

lemma unknown_producer_id_moves:
  assumes "queues_ok tp s" "A \<or> \<not> rd_kafka_is_transactional (ps_rk s)"
  shows "rd_returns A (\<lambda>(perr', s'). moves e tp H s H s') (idemp_unknown_producer_id e batch firstmsg perr s)"
  unfolding idemp_unknown_producer_id_def
  by (intro rd_returns_if; (rule rd_returns_bind, rule rk_moves [OF assms(1)])?)
     (use assms(2) in \<open>auto intro!: rd_returns_Some rd_returns_bind [OF rk_moves(5)] dest: moves_sel intro: moves_trans\<close>)

lemma error_permanent_moves:
  assumes "queues_ok tp s" "A \<or> \<not> rd_kafka_is_transactional (ps_rk s)"
  shows "rd_returns A (\<lambda>(perr', s'). moves e tp H s H s') (produce_error_permanent e perr s)"
  unfolding produce_error_permanent_def
proof (rule rd_returns_bind [where R = "moves e tp H s H"])
  have reset: "rd_returns A (moves e tp H s H) (on_rk (rd_kafka_idemp_drain_reset (pe_env e)) s1)" if "moves e tp H s H s1" for s1
    by (rule rd_returns_mono, rule rk_moves(2) [OF moves_sel(1) [OF that]], rule moves_trans [OF that])
  show "rd_returns A (moves e tp H s H)
      (if rd_kafka_is_transactional (ps_rk s) \<and> perr_err perr = RESP_ERR_INVALID_PRODUCER_EPOCH
       then do {s \<leftarrow> on_rk (\<lambda>rk. rd_kafka_txn_set_fatal_error rk RESP_ERR__FENCED) s;
                on_rk (rd_kafka_idemp_drain_reset (pe_env e)) s}
       else if rd_kafka_is_transactional (ps_rk s)
       then on_rk (\<lambda>rk. rd_kafka_txn_set_abortable_error rk (perr_err perr)) s
       else if pc_gapless (ps_conf s)
       then do {s \<leftarrow> on_rk (\<lambda>rk. rd_kafka_idemp_set_fatal_error rk RESP_ERR__GAPLESS_GUARANTEE) s;
                on_rk (rd_kafka_idemp_drain_reset (pe_env e)) s}
       else on_rk (\<lambda>rk. rd_kafka_idemp_drain_epoch_bump (pe_env e) rk (perr_err perr)) s)"
    by (intro rd_returns_if rd_returns_bind [OF rk_moves(4) [OF assms(1)]] rd_returns_bind [OF rk_moves(1) [OF assms(1)]]
        rk_moves(3,5) [OF assms(1)] reset) (use assms(2) in auto)
qed (simp add: rd_returns_def)

lemma error_final_moves:
  assumes "queues_ok tp s" "A \<or> \<not> rd_kafka_is_transactional (ps_rk s)"
  shows "rd_returns A (\<lambda>(batch', perr', s'). moves e tp H s H s' \<and> batch' = batch) (produce_error_final e batch perr s)"
  unfolding produce_error_final_def
proof (rule rd_returns_bind [where R = "\<lambda>(perr', s'). moves e tp H s H s'"])
  show "rd_returns A (\<lambda>(perr', s'). moves e tp H s H s')
      (if ERR_ACTION_PERMANENT \<in> perr_actions perr \<and> rd_kafka_is_idempotent (ps_rk s)
       then produce_error_permanent e perr s else Some (perr, s))"
    using error_permanent_moves [OF assms] moves_refl [OF assms(1)] by (simp add: rd_returns_def)
next
  fix r :: "rd_kafka_Produce_err \<times> produce_t"
  assume "case r of (perr', s') \<Rightarrow> moves e tp H s H s'"
  then show "rd_returns A (\<lambda>(batch', perr', s'). moves e tp H s H s' \<and> batch' = batch)
      (case r of (perr, s) \<Rightarrow>
         if perr_err perr = RESP_ERR__TIMED_OUT \<or> perr_err perr = RESP_ERR__TIMED_OUT_QUEUE
         then Some (batch, perr\<lparr>perr_err := RESP_ERR__MSG_TIMED_OUT\<rparr>, s)
         else if perr_err perr = RESP_ERR_TOPIC_AUTHORIZATION_FAILED
         then Some (batch, perr, pfx (PFX_TOPIC_ERROR (fst (rkmb_rktp batch)) (perr_err perr)) s)
         else Some (batch, perr, s))"
    by (auto simp: rd_returns_def intro: moves_pfx)
qed


text \<open>A batch: in the order of its partition, not empty and, if its first message has been in a request
  before, complete.\<close>

definition batch_whole :: "rd_kafka_msg list \<Rightarrow> bool" where
  "batch_whole ms \<longleftrightarrow> ms \<noteq> [] \<and> (rkm_last_msgid (hd ms) = 0 \<or> rkm_last_msgid (hd ms) = rkm_msgid (last ms))"

abbreviation batch_ids :: "rd_kafka_msgbatch_t \<Rightarrow> int multiset" where
  "batch_ids batch \<equiv> msgids (rkmq_msgs (rkmb_msgq batch))"

lemma idempotent_error_moves:
  assumes "queues_ok tp s" "A \<or> \<not> rd_kafka_is_transactional (ps_rk s)"
    "queue_ok (ps_toppars s tp) (rkmb_msgq batch)" "batch_whole (rkmq_msgs (rkmb_msgq batch))" "rkmb_rktp batch = tp"
  shows "rd_returns A (\<lambda>(batch', perr', s'). moves e tp (batch_ids batch) s (batch_ids batch') s' \<and>
      queue_ok (ps_toppars s tp) (rkmb_msgq batch') \<and> rkmb_rktp batch' = tp)
    (rd_kafka_handle_idempotent_Produce_error e batch perr s)"
proof -
  let ?r = "ps_toppars s tp" and ?ms = "rkmq_msgs (rkmb_msgq batch)"
  obtain m ms where ms: "?ms = m # ms" using assms(4) by (auto simp: batch_whole_def neq_Nil_conv)
  define batch1 where "batch1 = batch\<lparr>rkmb_msgq := (rkmb_msgq batch)\<lparr>rkmq_msgs :=
    m\<lparr>rkm_last_msgid := rkm_msgid (last ?ms)\<rparr> # ms\<rparr>\<rparr>"
  have less: "before ?r a b \<Longrightarrow> before ?r (a\<lparr>rkm_last_msgid := i\<rparr>) b" for a b i
    using ord.cmp_cong [of "a\<lparr>rkm_last_msgid := i\<rparr>" a b b ?r] by simp
  have b1: "batch_ids batch1 = batch_ids batch" "queue_ok ?r (rkmb_msgq batch1)" "rkmb_rktp batch1 = tp"
    using assms(3,5) ms by (auto simp: batch1_def queue_ok_def msgq_ok_def rkm_size_def less)
  have ret: "rd_returns A (\<lambda>(batch', perr', s'). moves e tp (batch_ids batch) s (batch_ids batch') s' \<and>
      queue_ok ?r (rkmb_msgq batch') \<and> rkmb_rktp batch' = tp) (Some (batch1, perr', s))" for perr'
    using b1 moves_refl [OF assms(1)] by (simp add: rd_returns_def)
  have map: "rd_returns A (\<lambda>(batch', perr', s'). moves e tp (batch_ids batch) s (batch_ids batch') s' \<and>
      queue_ok ?r (rkmb_msgq batch') \<and> rkmb_rktp batch' = tp) (map_option (Pair batch1) m)"
    if "rd_returns A (\<lambda>(perr', s'). moves e tp (batch_ids batch) s (batch_ids batch) s') m" for m
    using that b1 by (cases m) (auto simp: rd_returns_def)
  have ok: "\<not> (rkm_last_msgid m \<noteq> 0 \<and> rkm_last_msgid m \<noteq> rkm_msgid (last (m # ms)))"
    using assms(4) by (auto simp: batch_whole_def ms)
  show ?thesis unfolding rd_kafka_handle_idempotent_Produce_error_def ms list.case Let_def if_not_P [OF ok]
      batch1_def [unfolded ms, symmetric]
    by (intro rd_returns_if ret [unfolded ms] map [unfolded ms] out_of_order_moves [OF assms(1,2)] unknown_producer_id_moves [OF assms(1,2)])
qed

lemma error_retry_moves:
  assumes "holds tp (batch_ids batch) s" "A \<or> retry_safe (ps_conf s)" "queue_ok (ps_toppars s tp) (rkmb_msgq batch)"
    "rkmb_rktp batch = tp"
  shows "rd_returns A (\<lambda>(batch', perr', s'). moves e tp (batch_ids batch) s (batch_ids batch') s' \<and>
      queue_ok (ps_toppars s tp) (rkmb_msgq batch') \<and> rkmb_rktp batch' = tp)
    (produce_error_retry e sent batch perr s)"
proof -
  define s1 where "s1 = (if ERR_ACTION_REFRESH \<in> perr_actions perr then pfx (PFX_LEADER_UNAVAILABLE tp (perr_err perr)) s else s)"
  define s2 where "s2 = (if rd_kafka_is_idempotent (ps_rk s1) then s1\<lparr>ps_rk := rd_kafka_idemp_drain_toppar (ps_rk s1) tp\<rparr> else s1)"
  have q: "queues_ok tp s" using assms(1) by (simp add: holds_def)
  have m1: "moves e tp (batch_ids batch) s (batch_ids batch) s1"
    using moves_refl [OF q] by (auto simp: s1_def intro: moves_pfx)
  have m2: "moves e tp (batch_ids batch) s (batch_ids batch) s2"
    unfolding s2_def using m1 moves_trans [OF m1 moves_rk [OF moves_sel(1) [OF m1] keeps_drain_toppar [of _ _ tp]]] by simp
  have ret: "rd_returns A (\<lambda>(batch', perr', s'). moves e tp (batch_ids batch) s (batch_ids batch') s' \<and>
      queue_ok (ps_toppars s tp) (rkmb_msgq batch') \<and> rkmb_rktp batch' = tp)
    (do {(r, msgq, s) \<leftarrow> rd_kafka_toppar_retry_msgq e jitter tp (rkmb_msgq batch) incr status s2;
         Some (batch\<lparr>rkmb_msgq := msgq\<rparr>, perr', s)})" for jitter incr status perr'
  proof (rule rd_returns_bind [OF toppar_retry_msgq_moves [of tp "rkmb_msgq batch" s2 A e]])
    show "holds tp (batch_ids batch) s2" using m2 assms(1) by (rule moves_holds)
    show "queue_ok (ps_toppars s2 tp) (rkmb_msgq batch)" "A \<or> retry_safe (ps_conf s2)"
      using moves_sel [OF m2] assms(2,3) by simp_all
  qed (auto simp: rd_returns_def assms(4) moves_sel [OF m2] intro: moves_trans [OF m2])
  show ?thesis unfolding produce_error_retry_def Let_def assms(4)
    using ret by (auto simp: s1_def s2_def split: prod.splits if_splits)
qed


lemma handle_error_moves:
  assumes "holds tp (batch_ids batch) s" "A \<or> \<not> rd_kafka_is_transactional (ps_rk s) \<and> retry_safe (ps_conf s)"
    "queue_ok (ps_toppars s tp) (rkmb_msgq batch)" "rkmb_rktp batch = tp"
    "rd_kafka_is_idempotent (ps_rk s) \<Longrightarrow> batch_whole (rkmq_msgs (rkmb_msgq batch))"
  shows "rd_returns A (\<lambda>(batch', perr', s'). moves e tp (batch_ids batch) s (batch_ids batch') s' \<and>
      queue_ok (ps_toppars s tp) (rkmb_msgq batch') \<and> rkmb_rktp batch' = tp)
    (rd_kafka_handle_Produce_error e sent batch perr s)"
proof -
  define Q where "Q = (\<lambda>(batch', perr' :: rd_kafka_Produce_err, s'). moves e tp (batch_ids batch) s (batch_ids batch') s' \<and>
      queue_ok (ps_toppars s tp) (rkmb_msgq batch') \<and> rkmb_rktp batch' = tp)"
  have q: "queues_ok tp s" using assms(1) by (simp add: holds_def)
  have ret: "rd_returns A Q (Some (batch, perr', s))" for perr'
    using assms(3,4) moves_refl [OF q] by (simp add: rd_returns_def Q_def)
  have idem: "rd_returns A Q (rd_kafka_handle_idempotent_Produce_error e batch perr' s)"
    if "rd_kafka_is_idempotent (ps_rk s)" for perr'
    unfolding Q_def using assms(2-5) that by (intro idempotent_error_moves [OF q]) auto
  have keep: "Q (b, p', upd_toppar tp (\<lambda>rktp. rktp\<lparr>rktp_last_err := x\<rparr>) s1)" if "Q (b, p, s1)" for b p p' s1 x
    using that moves_trans [OF _ moves_keep [of tp s1 "\<lambda>rktp. rktp\<lparr>rktp_last_err := x\<rparr>"]] moves_sel(1)
    by (auto simp: Q_def rktp_same_def)
  have retry: "rd_returns A Q (produce_error_retry e sent b p s1)" if "Q (b, p, s1)" for b p s1
  proof -
    from that have m: "moves e tp (batch_ids batch) s (batch_ids b) s1" and b: "queue_ok (ps_toppars s1 tp) (rkmb_msgq b)"
        "rkmb_rktp b = tp"
      by (auto simp: Q_def moves_sel(6))
    have s1: "A \<or> retry_safe (ps_conf s1)" "queue_ok (ps_toppars s1 tp) = queue_ok (ps_toppars s tp)"
      using assms(2) moves_sel [OF m] by auto
    show ?thesis unfolding Q_def
      by (rule rd_returns_mono [OF error_retry_moves [OF moves_holds [OF m assms(1)] s1(1) b, of e]])
         (simp add: case_prod_beta s1(2) moves_trans [OF m])
  qed
  have final: "rd_returns A Q (produce_error_final e b p s1)" if "Q (b, p, s1)" for b p s1
  proof -
    from that have m: "moves e tp (batch_ids batch) s (batch_ids b) s1" by (simp add: Q_def)
    have s1: "A \<or> \<not> rd_kafka_is_transactional (ps_rk s1)" using assms(2) moves_sel(2) [OF m] by auto
    show ?thesis
      by (rule rd_returns_mono [OF error_final_moves [OF moves_sel(1) [OF m] s1, of e "batch_ids b"]])
         (use that in \<open>simp add: Q_def case_prod_beta moves_trans [OF m]\<close>)
  qed
  have "rd_returns A Q (rd_kafka_handle_Produce_error e sent batch perr s)"
    unfolding rd_kafka_handle_Produce_error_def Let_def assms(4)
    by (intro rd_returns_if ret rd_returns_bind [where R = Q] idem)
       (auto intro!: rd_returns_bind [where R = Q] rd_returns_if rd_returns_Some retry final keep)
  then show ?thesis by (simp only: Q_def)
qed


section \<open>Handling results\<close>

lemma set_metadata_sel:
  "msgids (rkmq_msgs (rd_kafka_msgq_set_metadata q b o' t st)) = msgids (rkmq_msgs q)"
  "msgq_ok q \<Longrightarrow> msgq_ok (rd_kafka_msgq_set_metadata q b o' t st)"
proof -
  have l: "msgids (msgq_set_metadata_loop b o' t st ms) = msgids ms"
    "map rkm_size (msgq_set_metadata_loop b o' t st ms) = map rkm_size ms"
    "length (msgq_set_metadata_loop b o' t st ms) = length ms" for ms
    by (induction ms arbitrary: o') (auto simp: Let_def rkm_set_status_def rkm_size_def)
  have "rkm_size ` set (msgq_set_metadata_loop b o' t st (rkmq_msgs q)) = rkm_size ` set (rkmq_msgs q)"
    using arg_cong [OF l(2), of set] by simp
  then show "msgids (rkmq_msgs (rd_kafka_msgq_set_metadata q b o' t st)) = msgids (rkmq_msgs q)"
    "msgq_ok q \<Longrightarrow> msgq_ok (rd_kafka_msgq_set_metadata q b o' t st)"
    by (auto simp: rd_kafka_msgq_set_metadata_def l msgq_ok_def) (metis imageE image_eqI)
qed

lemma record_errors_sel:
  "msgids (rkmq_msgs (rd_kafka_msgbatch_handle_Produce_result_record_errors pr q)) = msgids (rkmq_msgs q)"
  "msgq_ok q \<Longrightarrow> msgq_ok (rd_kafka_msgbatch_handle_Produce_result_record_errors pr q)"
proof -
  have l: "msgids (record_errors_loop b i errs ms) = msgids ms"
    "map rkm_size (record_errors_loop b i errs ms) = map rkm_size ms"
    "length (record_errors_loop b i errs ms) = length ms" for b i errs ms
    by (induction b i errs ms rule: record_errors_loop.induct) (auto simp: Let_def rkm_size_def split: list.splits)
  have "rkm_size ` set (record_errors_loop b i errs (rkmq_msgs q)) = rkm_size ` set (rkmq_msgs q)" for b i errs
    using arg_cong [OF l(2), of set] by simp
  then have "0 \<le> rkm_size m" if "m \<in> set (record_errors_loop b i errs (rkmq_msgs q))" "\<forall>m \<in> set (rkmq_msgs q). 0 \<le> rkm_size m"
    for b i errs m using that by (metis imageE image_eqI)
  moreover have "rkm_size (m\<lparr>rkm_errstr := x\<rparr>) = rkm_size m" for m x by (simp add: rkm_size_def)
  ultimately show "msgids (rkmq_msgs (rd_kafka_msgbatch_handle_Produce_result_record_errors pr q)) = msgids (rkmq_msgs q)"
    "msgq_ok q \<Longrightarrow> msgq_ok (rd_kafka_msgbatch_handle_Produce_result_record_errors pr q)"
    by (auto simp: rd_kafka_msgbatch_handle_Produce_result_record_errors_def l msgids_map msgq_ok_def comp_def
        split: option.splits)
qed

lemma idempotent_success_moves:
  assumes "holds tp (batch_ids batch) s" "rkmq_msgs (rkmb_msgq batch) \<noteq> []" "rkmb_rktp batch = tp"
  shows "rd_returns A (moves e tp (batch_ids batch) s (batch_ids batch)) (rd_kafka_handle_idempotent_Produce_success batch next_seq s)"
proof -
  define H where "H = batch_ids batch"
  obtain m ms where ms: "rkmq_msgs (rkmb_msgq batch) = m # ms" using assms(2) by (auto simp: neq_Nil_conv)
  have q: "queues_ok tp s" using assms(1) by (simp add: holds_def)
  have fin: "rd_returns A (moves e tp H s H)
      (if fatal then on_rk (\<lambda>rk. rd_kafka_idemp_set_fatal_error rk RESP_ERR__INCONSISTENT) (upd_toppar tp f s1)
       else Some (upd_toppar tp f s1))"
    if m: "moves e tp H s H s1" and f: "\<And>r. rktp_same r (f r)" "\<And>r. rktp_msgq (f r) = rktp_msgq r"
      "\<And>r. rktp_xmit_msgq (f r) = rktp_xmit_msgq r" for fatal f s1
  proof -
    have m2: "moves e tp H s H (upd_toppar tp f s1)"
      by (rule moves_trans [OF m], rule moves_keep [OF moves_sel(1) [OF m]]) (rule f)+
    show ?thesis
      by (intro rd_returns_if rd_returns_Some m2 rd_returns_mono [OF rk_moves(1) [OF moves_sel(1) [OF m2]]])
         (rule moves_trans [OF m2])
  qed
  show ?thesis unfolding H_def [symmetric]
    unfolding rd_kafka_handle_idempotent_Produce_success_def ms list.case assms(3) Let_def
    by (rule rd_returns_bind [where R = "moves e tp H s H"], intro rd_returns_if rd_returns_Some dr_implicit_ack_moves moves_refl q)
       (rule fin | use assms(1) in \<open>simp add: rktp_same_def H_def\<close>)+
qed


lemma result_error_moves:
  assumes "holds tp (batch_ids batch) s" "A \<or> \<not> rd_kafka_is_transactional (ps_rk s) \<and> retry_safe (ps_conf s)"
    "queue_ok (ps_toppars s tp) (rkmb_msgq batch)" "rkmb_rktp batch = tp"
    "rd_kafka_is_idempotent (ps_rk s) \<Longrightarrow> batch_whole (rkmq_msgs (rkmb_msgq batch))"
  shows "rd_returns A (\<lambda>(batch', err', status', s'). moves e tp (batch_ids batch) s (batch_ids batch') s' \<and>
      msgq_ok (rkmb_msgq batch'))
    (produce_result_error e sent batch err next_seq s)"
  unfolding produce_result_error_def Let_def
proof (rule rd_returns_bind [OF handle_error_moves [OF assms]], assumption)
  fix r :: "rd_kafka_msgbatch_t \<times> rd_kafka_Produce_err \<times> produce_t"
  obtain b p s1 where r: "r = (b, p, s1)" by (cases r)
  assume "case r of (batch', perr', s') \<Rightarrow> moves e tp (batch_ids batch) s (batch_ids batch') s' \<and>
      queue_ok (ps_toppars s tp) (rkmb_msgq batch') \<and> rkmb_rktp batch' = tp"
  then have m: "moves e tp (batch_ids batch) s (batch_ids b) s1" and b: "queue_ok (ps_toppars s tp) (rkmb_msgq b)" "rkmb_rktp b = tp"
    by (simp_all add: r)
  have "moves e tp (batch_ids batch) s (batch_ids b) (upd_toppar tp (\<lambda>rktp. if perr_update_next_err p
        then (if perr_update_next_ack p then rktp\<lparr>rktp_next_ack_seq := next_seq\<rparr> else rktp)\<lparr>rktp_next_err_seq := next_seq\<rparr>
        else if perr_update_next_ack p then rktp\<lparr>rktp_next_ack_seq := next_seq\<rparr> else rktp) s1)"
    by (rule moves_trans [OF m], rule moves_keep [OF moves_sel(1) [OF m]]) (auto simp: rktp_same_def)
  then show "rd_returns A (\<lambda>(batch', err', status', s'). moves e tp (batch_ids batch) s (batch_ids batch') s' \<and>
      msgq_ok (rkmb_msgq batch'))
    (case r of (batch, perr, s) \<Rightarrow>
       Some (batch, perr_err perr, perr_status perr, upd_toppar (rkmb_rktp batch) (\<lambda>rktp. if perr_update_next_err perr
        then (if perr_update_next_ack perr then rktp\<lparr>rktp_next_ack_seq := next_seq\<rparr> else rktp)\<lparr>rktp_next_err_seq := next_seq\<rparr>
        else if perr_update_next_ack perr then rktp\<lparr>rktp_next_ack_seq := next_seq\<rparr> else rktp) s))"
    using b by (simp add: r rd_returns_def queue_ok_def)
qed

text \<open>Handling the result of a batch takes its messages out of flight and puts each of them back into the
  queue or into a delivery report. The last batch of a partition is signed off at the instance.\<close>

definition signed_off :: "produce_env \<Rightarrow> bool \<Rightarrow> produce_t \<Rightarrow> produce_t \<Rightarrow> bool" where
  "signed_off e lst s s' \<longleftrightarrow>
     (if lst then \<exists>rk'. rd_kafka_idemp_inflight_toppar_sub (pe_env e) (ps_rk s) = Some rk' \<and> s' = s\<lparr>ps_rk := rk'\<rparr>
      else s' = s)"

lemma inflight_sub_total: "0 < inflight_toppar_cnt rk \<Longrightarrow> rd_kafka_idemp_inflight_toppar_sub e rk \<noteq> None"
  unfolding rd_kafka_idemp_inflight_toppar_sub_def Let_def by (intro rd_total) simp

lemma handle_result_moves:
  fixes s batch
  defines "tp \<equiv> rkmb_rktp batch"
  defines "rest \<equiv> rktp_msgs_inflight (ps_toppars s tp) - rd_kafka_msgq_len (rkmb_msgq batch)"
  assumes "holds tp (batch_ids batch) s" "A \<or> \<not> rd_kafka_is_transactional (ps_rk s) \<and> retry_safe (ps_conf s)"
    "queue_ok (ps_toppars s tp) (rkmb_msgq batch)" "rkmq_msgs (rkmb_msgq batch) \<noteq> []" "0 \<le> rest"
    "rd_kafka_is_idempotent (ps_rk s) \<Longrightarrow> batch_whole (rkmq_msgs (rkmb_msgq batch))"
    "rd_kafka_is_idempotent (ps_rk s) \<Longrightarrow> 0 < inflight_toppar_cnt (ps_rk s)"
  shows "rd_returns A (\<lambda>s'. \<exists>s1. moves e tp (batch_ids batch) (upd_toppar tp (\<lambda>rktp. rktp\<lparr>rktp_msgs_inflight := rest\<rparr>) s) {#} s1 \<and>
      signed_off e (rd_kafka_is_idempotent (ps_rk s) \<and> rest = 0) s1 s')
    (rd_kafka_msgbatch_handle_Produce_result e rkb batch err presult sent s)"
proof -
  let ?s = "upd_toppar tp (\<lambda>rktp. rktp\<lparr>rktp_msgs_inflight := rest\<rparr>) s"
  have h: "holds tp (batch_ids batch) ?s"
    using assms(3) by (simp add: holds_def queues_ok_def settled_ids_def)
  define R where "R = (\<lambda>(b, err :: rd_kafka_resp_err_t, st :: rd_kafka_msg_status_t, s1).
      moves e tp (batch_ids batch) ?s (batch_ids b) s1 \<and> msgq_ok (rkmb_msgq b))"
  have succ: "rd_returns A R (do {s \<leftarrow> (if rd_kafka_is_idempotent (ps_rk ?s)
        then rd_kafka_handle_idempotent_Produce_success batch next_seq ?s else Some ?s); Some (batch, err, status, s)})"
    for next_seq err status
    by (rule rd_returns_bind [where R = "moves e tp (batch_ids batch) ?s (batch_ids batch)"],
        intro rd_returns_if rd_returns_Some idempotent_success_moves [OF h] moves_refl)
       (use assms(5,6) h in \<open>auto simp: R_def tp_def queue_ok_def holds_def intro: rd_returns_Some\<close>)
  have fail: "rd_returns A R (produce_result_error e sent batch err next_seq ?s)" for next_seq
    unfolding R_def using assms(4,5,8) by (intro result_error_moves [OF h]) (auto simp: tp_def)
  have report: "moves e tp (batch_ids batch) ?s {#} (if rd_kafka_msgq_len (rkmb_msgq b) > 0 then
      rd_kafka_dr_msgq0 tp (rd_kafka_msgbatch_handle_Produce_result_record_errors presult
        (rd_kafka_msgq_set_metadata (rkmb_msgq b) rkb (pr_offset presult) (pr_timestamp presult) st)) err' (Some presult) s1
      else s1)" if "R (b, err', st, s1)" for b err' st s1
    using that msgq_len [of "rkmb_msgq b"]
    by (auto simp: R_def set_metadata_sel record_errors_sel intro!: moves_report)
  have off: "rd_returns A (\<lambda>s'. \<exists>s1. moves e tp (batch_ids batch) ?s {#} s1 \<and>
        signed_off e (rd_kafka_is_idempotent (ps_rk s) \<and> rest = 0) s1 s')
      (if rd_kafka_is_idempotent (ps_rk s1) \<and> rest = 0 then on_rk (rd_kafka_idemp_inflight_toppar_sub (pe_env e)) s1 else Some s1)"
    if m: "moves e tp (batch_ids batch) ?s {#} s1" for s1
  proof -
    have "0 < inflight_toppar_cnt (ps_rk s1)" if "rd_kafka_is_idempotent (ps_rk s)"
      using assms(9) [OF that] m by (simp add: moves_def produce_frame_def rk_keeps_def)
    then show ?thesis using m inflight_sub_total [of "ps_rk s1" "pe_env e"] moves_sel(3) [OF m]
      by (auto simp: rd_returns_def on_rk_def signed_off_def intro!: exI [of _ s1])
  qed
  show ?thesis unfolding rd_kafka_msgbatch_handle_Produce_result_def Let_def tp_def [symmetric] rest_def [symmetric]
    using assms(7)
    by (auto intro!: rd_returns_bind [where R = R] rd_returns_if succ fail off report split del: if_split)
qed

end
