(* ===== verification/Produce_Ops.thy ===== *)
theory Produce_Ops
  imports Produce_Inv
begin

text \<open>
  The invariant of the produce path: every message of a partition is in exactly one place, the
  counters of messages and of partitions in flight are right, and a request of the idempotent
  producer holds a whole batch with the producer id of its partition. Every operation of
  \<open>Produce\<close> keeps it, and its effect on the instance is a sequence of steps of \<open>Eos_System\<close>.
\<close>

text \<open>A partition is a pair; quantifiers over partitions are kept whole.\<close>

declare split_paired_All [simp del] split_paired_Ex [simp del]

section \<open>The invariant\<close>

definition toppar_bufs :: "toppar \<Rightarrow> produce_t \<Rightarrow> produce_buf list" where
  "toppar_bufs tp s = filter (\<lambda>rkbuf. rkmb_rktp (pb_batch rkbuf) = tp) (ps_bufs s)"

abbreviation buf_msgs :: "produce_buf \<Rightarrow> rd_kafka_msg list" where
  "buf_msgs rkbuf \<equiv> rkmq_msgs (rkmb_msgq (pb_batch rkbuf))"

definition inflight_msgs :: "toppar \<Rightarrow> produce_t \<Rightarrow> rd_kafka_msg list" where
  "inflight_msgs tp s = concat (map buf_msgs (toppar_bufs tp s))"

text \<open>An outstanding request holds a whole batch, in order, with the producer id of its partition and the
  sequence number of its first message.\<close>

definition batch_seq_ok :: "rd_kafka_msgbatch_t \<Rightarrow> bool" where
  "batch_seq_ok batch \<longleftrightarrow> rkmb_first_msgid batch = rkm_msgid (hd (rkmq_msgs (rkmb_msgq batch))) \<and>
     rkmb_first_seq batch = rd_kafka_seq_wrap (rkmb_first_msgid batch - rkmb_epoch_base_msgid batch)"

definition buf_ok :: "produce_t \<Rightarrow> produce_buf \<Rightarrow> bool" where
  "buf_ok s rkbuf \<longleftrightarrow>
     (let batch = pb_batch rkbuf; rktp = ps_toppars s (rkmb_rktp batch) in
      queue_ok rktp (rkmb_msgq batch) \<and> buf_msgs rkbuf \<noteq> [] \<and>
      (rd_kafka_is_idempotent (ps_rk s) \<longrightarrow> batch_whole (buf_msgs rkbuf) \<and> rkmb_pid batch = rktp_pid rktp \<and>
         batch_seq_ok batch))"

text \<open>The ids given out so far are those of the messages in the queues, in flight, reported and (\<open>H\<close>) in
  the hands of the current operation.\<close>

definition toppar_ok :: "produce_t \<Rightarrow> int multiset \<Rightarrow> toppar \<Rightarrow> bool" where
  "toppar_ok s H tp \<longleftrightarrow>
     (let rktp = ps_toppars s tp in
      queues_ok tp s \<and> 0 \<le> rktp_msgid rktp \<and>
      settled_ids tp s + msgids (inflight_msgs tp s) + H = mset [1..rktp_msgid rktp] \<and>
      rktp_msgs_inflight rktp = int (length (inflight_msgs tp s)) \<and>
      (rd_kafka_is_idempotent (ps_rk s) \<longrightarrow>
         rkt_queuing_fifo rktp \<and> int (length (toppar_bufs tp s)) \<le> RD_KAFKA_IDEMP_MAX_INFLIGHT))"

abbreviation toppars_inflight :: "produce_t \<Rightarrow> toppar set" where
  "toppars_inflight s \<equiv> {tp. 0 < rktp_msgs_inflight (ps_toppars s tp)}"

text \<open>The instance counts the partitions with messages in flight; \<open>k\<close> of them are being signed off.\<close>

definition count_ok :: "int \<Rightarrow> produce_t \<Rightarrow> bool" where
  "count_ok k s \<longleftrightarrow> (rd_kafka_is_idempotent (ps_rk s) \<longrightarrow>
     finite (toppars_inflight s) \<and> inflight_toppar_cnt (ps_rk s) = int (card (toppars_inflight s)) + k)"

definition produce_inv :: "int \<Rightarrow> toppar \<Rightarrow> int multiset \<Rightarrow> produce_t \<Rightarrow> bool" where
  "produce_inv k tp H s \<longleftrightarrow> (\<forall>tp'. toppar_ok s (if tp' = tp then H else {#}) tp') \<and>
     (\<forall>rkbuf \<in> set (ps_bufs s). buf_ok s rkbuf) \<and> count_ok k s \<and> rk_type (ps_rk s) = RD_KAFKA_PRODUCER"

definition produce_ok :: "produce_t \<Rightarrow> bool" where
  "produce_ok s \<longleftrightarrow> (\<forall>tp. toppar_ok s {#} tp) \<and> (\<forall>rkbuf \<in> set (ps_bufs s). buf_ok s rkbuf) \<and> count_ok 0 s \<and>
     rk_type (ps_rk s) = RD_KAFKA_PRODUCER"

lemma produce_inv_any: "produce_inv k tp {#} s \<Longrightarrow> produce_inv k tp' {#} s"
  by (simp add: produce_inv_def)

lemma produce_inv_ok: "produce_inv 0 tp {#} s \<longleftrightarrow> produce_ok s"
  by (simp add: produce_inv_def produce_ok_def)

lemma produce_inv_D:
  assumes "produce_inv k tp H s"
  shows "toppar_ok s H tp" "tp' \<noteq> tp \<Longrightarrow> toppar_ok s {#} tp'" "rkbuf \<in> set (ps_bufs s) \<Longrightarrow> buf_ok s rkbuf" "count_ok k s"
    "rk_type (ps_rk s) = RD_KAFKA_PRODUCER"
  using assms by (auto simp: produce_inv_def dest: spec [of _ tp] spec [of _ tp'])

section \<open>Operations on one partition\<close>

definition produce_evolves :: "produce_env \<Rightarrow> produce_t \<Rightarrow> produce_t \<Rightarrow> bool" where
  "produce_evolves e s s' \<longleftrightarrow> (eos_step (pe_env e))\<^sup>*\<^sup>* (ps_rk s) (ps_rk s') \<and> rk_conf (ps_rk s') = rk_conf (ps_rk s) \<and>
     rk_type (ps_rk s') = rk_type (ps_rk s) \<and> ps_conf s' = ps_conf s"

lemma evolves_refl [simp]: "produce_evolves e s s"
  by (simp add: produce_evolves_def)

lemma evolves_trans: "produce_evolves e s1 s2 \<Longrightarrow> produce_evolves e s2 s3 \<Longrightarrow> produce_evolves e s1 s3"
  by (auto simp: produce_evolves_def)

lemma evolves_idempotent: "produce_evolves e s s' \<Longrightarrow> rd_kafka_is_idempotent (ps_rk s') = rd_kafka_is_idempotent (ps_rk s)"
  "produce_evolves e s s' \<Longrightarrow> rd_kafka_is_transactional (ps_rk s') = rd_kafka_is_transactional (ps_rk s)"
  by (simp_all add: produce_evolves_def rd_kafka_is_idempotent_def rd_kafka_is_transactional_def)

lemma moves_evolves: "moves e tp H s H' s' \<Longrightarrow> produce_evolves e s s'"
  by (simp add: moves_def produce_frame_def produce_evolves_def rk_keeps_def)

lemma moves_inv:
  assumes m: "moves e tp H s H' s'" and inv: "produce_inv k tp H s"
  shows "produce_inv k tp H' s'"
proof -
  have f: "ps_bufs s' = ps_bufs s" "rktp_same (ps_toppars s tp) (ps_toppars s' tp)" "rk_keeps (pe_env e) (ps_rk s) (ps_rk s')"
    "\<And>tp'. tp' \<noteq> tp \<Longrightarrow> ps_toppars s' tp' = ps_toppars s tp' \<and> reported_msgs tp' s' = reported_msgs tp' s"
    and q: "queues_ok tp s'" "settled_ids tp s' + H' = settled_ids tp s + H"
    using m by (simp_all add: moves_def produce_frame_def)
  have same: "rktp_same (ps_toppars s tp') (ps_toppars s' tp')" for tp'
    using f(2,4) by (cases "tp' = tp") (simp_all add: rktp_same_def)
  have bufs: "toppar_bufs tp' s' = toppar_bufs tp' s" "inflight_msgs tp' s' = inflight_msgs tp' s" for tp'
    by (simp_all add: toppar_bufs_def inflight_msgs_def f(1))
  have "toppar_ok s' (if tp' = tp then H' else {#}) tp'" for tp'
  proof (cases "tp' = tp")
    case True
    have eq: "settled_ids tp s' + msgids (inflight_msgs tp s) + H' = settled_ids tp s + msgids (inflight_msgs tp s) + H"
      using arg_cong [OF q(2), of "(+) (msgids (inflight_msgs tp s))"] by (simp add: ac_simps)
    have t: "toppar_ok s H tp" using inv by (rule produce_inv_D)
    have "settled_ids tp s' + msgids (inflight_msgs tp s) + H' = mset [1..rktp_msgid (ps_toppars s tp)]"
      unfolding eq using t by (simp add: toppar_ok_def Let_def)
    then show ?thesis using t True q(1) f(2,3)
      by (simp add: toppar_ok_def Let_def bufs rktp_same_def)
  next
    case False
    have "toppar_ok s {#} tp'" using inv False by (rule produce_inv_D)
    then show ?thesis using False f(3,4)
      by (simp add: toppar_ok_def Let_def bufs settled_ids_def queues_ok_def)
  qed
  moreover have "queue_ok (ps_toppars s' tp') = queue_ok (ps_toppars s tp')" for tp'
    using same [of tp'] by (intro queue_ok_same) (simp add: rktp_same_def)
  then have "buf_ok s' rkbuf" if "buf_ok s rkbuf" for rkbuf
    using that same [of "rkmb_rktp (pb_batch rkbuf)"] f(3) by (simp add: buf_ok_def Let_def rktp_same_def)
  moreover have "count_ok k s'"
    using produce_inv_D(4) [OF inv] same f(3) by (simp add: count_ok_def rktp_same_def rk_keeps_def rd_kafka_is_idempotent_def)
  ultimately show ?thesis using inv f(1,3) by (simp add: produce_inv_def rk_keeps_def)
qed

lemma inv_holds:
  assumes "produce_inv k tp H s"
  shows "holds tp H s"
proof -
  have ok: "queues_ok tp s" "settled_ids tp s + msgids (inflight_msgs tp s) + H = mset [1..rktp_msgid (ps_toppars s tp)]"
    using produce_inv_D(1) [OF assms] by (simp_all add: toppar_ok_def Let_def)
  have "ids_once (mset [1..rktp_msgid (ps_toppars s tp)])"
    using distinct_count_atmost_1 [of "[1..rktp_msgid (ps_toppars s tp)]"] by (simp add: ids_once_def)
  then have "ids_once (settled_ids tp s + H + msgids (inflight_msgs tp s))"
    unfolding ok(2) [symmetric] by (simp add: ac_simps)
  then show ?thesis using ok(1) ids_once_less by (simp add: holds_once)
qed

lemma inv_moves:
  assumes "rd_returns A (moves e tp H s H') m" "produce_inv k tp H s"
  shows "rd_returns A (\<lambda>s'. produce_inv k tp H' s' \<and> produce_evolves e s s') m"
  by (rule rd_returns_mono [OF assms(1)]) (use assms(2) moves_inv moves_evolves in blast)


section \<open>Responses\<close>

lemma inflight_sub_sel:
  assumes "rd_kafka_idemp_inflight_toppar_sub e rk = Some rk'"
  shows "inflight_toppar_cnt rk' = inflight_toppar_cnt rk - 1" "rk_conf rk' = rk_conf rk" "rk_type rk' = rk_type rk"
proof -
  let ?rk = "rk\<lparr>inflight_toppar_cnt := inflight_toppar_cnt rk - 1\<rparr>"
  have "eos_acts P_PRODUCE e ?rk rk'"
  proof (cases "inflight_toppar_cnt rk - 1 = 0")
    case True
    have "eos_runs P_PRODUCE e ?rk (rd_kafka_idemp_drain_done e ?rk)"
      by (rule eos_runs_drain_done) (use True in simp_all)
    then show ?thesis using assms True by (simp add: rd_kafka_idemp_inflight_toppar_sub_def Let_def eos_runs_def)
  next
    case False
    then show ?thesis using assms by (simp add: rd_kafka_idemp_inflight_toppar_sub_def Let_def split: if_splits)
  qed
  from inflight_kept.acts_evolve [OF this] fatal.acts_evolve [OF this]
  show "inflight_toppar_cnt rk' = inflight_toppar_cnt rk - 1" "rk_conf rk' = rk_conf rk" "rk_type rk' = rk_type rk"
    by (simp_all add: fatal_evolves_def)
qed

lemma inv_rk:
  assumes "produce_inv k tp H s" "rk_conf rk' = rk_conf (ps_rk s)" "rk_type rk' = rk_type (ps_rk s)"
    "inflight_toppar_cnt rk' + k = inflight_toppar_cnt (ps_rk s) + k'"
  shows "produce_inv k' tp H (s\<lparr>ps_rk := rk'\<rparr>)"
proof -
  have [simp]: "rd_kafka_is_idempotent rk' = rd_kafka_is_idempotent (ps_rk s)"
    using assms(2,3) by (simp add: rd_kafka_is_idempotent_def)
  show ?thesis using assms
    by (auto simp: produce_inv_def toppar_ok_def buf_ok_def count_ok_def queues_ok_def settled_ids_def toppar_bufs_def
        inflight_msgs_def Let_def)
qed

lemma signed_off_inv:
  assumes "produce_inv (if b then 1 else 0) tp {#} s" "signed_off e b s s'"
  shows "produce_inv 0 tp {#} s' \<and> produce_evolves e s s' \<and> ps_bufs s' = ps_bufs s \<and> ps_toppars s' = ps_toppars s"
proof (cases b)
  case True
  then obtain rk' where rk': "rd_kafka_idemp_inflight_toppar_sub (pe_env e) (ps_rk s) = Some rk'" "s' = s\<lparr>ps_rk := rk'\<rparr>"
    using assms(2) by (auto simp: signed_off_def)
  have "produce_inv 0 tp {#} s'" unfolding rk'(2)
    by (rule inv_rk [OF assms(1)]) (use True inflight_sub_sel [OF rk'(1)] in simp_all)
  then show ?thesis using inflight_sub_sel [OF rk'(1)] step_inflight_sub [OF rk'(1)]
    by (simp add: produce_evolves_def rk'(2) r_into_rtranclp)
qed (use assms in \<open>simp add: signed_off_def\<close>)

text \<open>Taking a request out of flight.\<close>

definition buf_taken :: "produce_buf \<Rightarrow> produce_t \<Rightarrow> produce_t" where
  "buf_taken b s = upd_toppar (rkmb_rktp (pb_batch b))
     (\<lambda>rktp. rktp\<lparr>rktp_msgs_inflight := rktp_msgs_inflight rktp - rd_kafka_msgq_len (rkmb_msgq (pb_batch b))\<rparr>) s"

lemma buf_taken_inv:
  fixes s b
  defines "tp \<equiv> rkmb_rktp (pb_batch b)"
  assumes inv: "produce_inv 0 tp {#} s" and bufs: "ps_bufs s = xs @ b # ys"
  defines "s0 \<equiv> s\<lparr>ps_bufs := xs @ ys\<rparr>"
  defines "rest \<equiv> rktp_msgs_inflight (ps_toppars s tp) - rd_kafka_msgq_len (rkmb_msgq (pb_batch b))"
  shows "produce_inv (if rd_kafka_is_idempotent (ps_rk s) \<and> rest = 0 then 1 else 0) tp (msgids (buf_msgs b)) (buf_taken b s0)"
    "0 \<le> rest" "rd_kafka_is_idempotent (ps_rk s) \<Longrightarrow> 0 < inflight_toppar_cnt (ps_rk s)"
proof -
  have b: "buf_ok s b" using produce_inv_D(3) [OF inv, of b] bufs by simp
  then have len: "rd_kafka_msgq_len (rkmb_msgq (pb_batch b)) = int (length (buf_msgs b))" "buf_msgs b \<noteq> []"
    by (simp_all add: buf_ok_def Let_def queue_ok_def msgq_len)
  have t: "toppar_ok s {#} tp'" for tp' by (rule produce_inv_D(1) [OF produce_inv_any [OF inv]])
  have s0: "ps_bufs s0 = xs @ ys" by (simp add: s0_def)
  have fl: "inflight_msgs tp' s0 = concat (map buf_msgs (filter (\<lambda>b. rkmb_rktp (pb_batch b) = tp') (xs @ ys)))"
    "mset (inflight_msgs tp' s) = mset (inflight_msgs tp' s0) + (if tp' = tp then mset (buf_msgs b) else {#})"
    "length (toppar_bufs tp' s0) \<le> length (toppar_bufs tp' s)" for tp'
    by (auto simp: inflight_msgs_def toppar_bufs_def bufs s0_def tp_def ac_simps)
  have ids: "msgids (inflight_msgs tp' s) = msgids (inflight_msgs tp' s0) + (if tp' = tp then msgids (buf_msgs b) else {#})"
    "length (inflight_msgs tp' s) = length (inflight_msgs tp' s0) + (if tp' = tp then length (buf_msgs b) else 0)" for tp'
    using arg_cong [OF fl(2) [of tp'], of "image_mset rkm_msgid"] arg_cong [OF fl(2) [of tp'], of size] by (auto simp: msgids_def)
  have rest: "rest = int (length (inflight_msgs tp s0))"
    using t [of tp] ids(2) [of tp] by (simp add: toppar_ok_def Let_def rest_def len)
  then show pos: "0 \<le> rest" by simp
  let ?s1 = "buf_taken b s0"
  have s1: "ps_toppars ?s1 = (ps_toppars s)(tp := (ps_toppars s tp)\<lparr>rktp_msgs_inflight := rest\<rparr>)" "ps_rk ?s1 = ps_rk s"
    "ps_bufs ?s1 = xs @ ys" "reported_msgs tp' ?s1 = reported_msgs tp' s" for tp'
    by (simp_all add: buf_taken_def tp_def [symmetric] rest_def s0_def reported_msgs_def)
  have s1': "inflight_msgs tp' ?s1 = inflight_msgs tp' s0" "toppar_bufs tp' ?s1 = toppar_bufs tp' s0"
    "settled_ids tp' ?s1 = settled_ids tp' s" "queues_ok tp' ?s1 = queues_ok tp' s" for tp'
    using s0 by (simp_all add: inflight_msgs_def toppar_bufs_def s1 settled_ids_def queues_ok_def)
  have all: "settled_ids tp' s + (msgids (inflight_msgs tp' s0) + (if tp' = tp then msgids (buf_msgs b) else {#})) =
      mset [1..rktp_msgid (ps_toppars s tp')]" for tp'
    using t [of tp'] unfolding toppar_ok_def Let_def unfolding ids(1) [of tp'] by simp
  have "toppar_ok ?s1 (if tp' = tp then msgids (buf_msgs b) else {#}) tp'" for tp'
    using t [of tp'] ids(2) [of tp'] order_trans [OF fl(3) [of tp'], of 5] all [of tp']
    unfolding toppar_ok_def Let_def s1 s1' add.assoc by (cases "tp' = tp") (simp_all add: rest)
  moreover have "buf_ok ?s1 b'" if "b' \<in> set (xs @ ys)" for b'
    using produce_inv_D(3) [OF inv, of b'] that bufs by (auto simp: buf_ok_def Let_def s1)
  moreover have "0 < length (buf_msgs b)" using len(2) by simp
  then have F: "tp \<in> toppars_inflight s" using t [of tp] ids(2) [of tp] by (simp add: toppar_ok_def Let_def del: length_greater_0_conv)
  have F1: "toppars_inflight ?s1 = (if rest = 0 then toppars_inflight s - {tp} else toppars_inflight s)"
    using pos F by (auto simp: s1)
  have cnt: "finite (toppars_inflight s)" "inflight_toppar_cnt (ps_rk s) = int (card (toppars_inflight s))"
    if "rd_kafka_is_idempotent (ps_rk s)"
    using produce_inv_D(4) [OF inv] that by (simp_all add: count_ok_def)
  have "0 < card (toppars_inflight s)" if "rd_kafka_is_idempotent (ps_rk s)"
    using cnt(1) [OF that] F by (simp only: card_gt_0_iff) blast
  then show "rd_kafka_is_idempotent (ps_rk s) \<Longrightarrow> 0 < inflight_toppar_cnt (ps_rk s)" using cnt(2) by simp
  have "int (card (toppars_inflight s)) = int (card (toppars_inflight s - {tp})) + 1" if "rd_kafka_is_idempotent (ps_rk s)"
    using card_Suc_Diff1 [OF cnt(1) [OF that] F] by linarith
  then have "count_ok (if rd_kafka_is_idempotent (ps_rk s) \<and> rest = 0 then 1 else 0) ?s1"
    unfolding count_ok_def s1(2) F1 using cnt by (cases "rest = 0") simp_all
  ultimately show "produce_inv (if rd_kafka_is_idempotent (ps_rk s) \<and> rest = 0 then 1 else 0) tp (msgids (buf_msgs b)) ?s1"
    using produce_inv_D(5) [OF inv] by (simp add: produce_inv_def s1)
qed


text \<open>The producer ids of the partitions.\<close>

abbreviation toppar_pids :: "produce_t \<Rightarrow> toppar \<Rightarrow> rd_kafka_pid_t" where
  "toppar_pids s \<equiv> \<lambda>tp. rktp_pid (ps_toppars s tp)"

lemma moves_pids: "moves e tp H s H' s' \<Longrightarrow> toppar_pids s' = toppar_pids s"
  by (rule ext, rename_tac tp', case_tac "tp' = tp") (simp_all add: moves_def produce_frame_def rktp_same_def)

lemma response_ok:
  assumes inv: "produce_inv 0 tp {#} s" and bufs: "ps_bufs s = xs @ b # ys"
    and A: "A \<or> \<not> rd_kafka_is_transactional (ps_rk s) \<and> retry_safe (ps_conf s)"
  shows "rd_returns A (\<lambda>s'. produce_inv 0 tp {#} s' \<and> produce_evolves e s s' \<and> ps_bufs s' = xs @ ys \<and> toppar_pids s' = toppar_pids s)
    (rd_kafka_handle_Produce e b err reply (s\<lparr>ps_bufs := xs @ ys\<rparr>))"
proof -
  let ?batch = "pb_batch b" and ?s0 = "s\<lparr>ps_bufs := xs @ ys\<rparr>"
  let ?tp = "rkmb_rktp ?batch"
  let ?rest = "rktp_msgs_inflight (ps_toppars s ?tp) - rd_kafka_msgq_len (rkmb_msgq ?batch)"
  note inv' = produce_inv_any [OF inv, of ?tp]
  note taken = buf_taken_inv [OF inv' bufs]
  have b: "buf_ok s b" by (rule produce_inv_D(3) [OF inv]) (simp add: bufs)
  have h: "holds ?tp (batch_ids ?batch) ?s0"
    using inv_holds [OF taken(1)] by (simp add: holds_def buf_taken_def queues_ok_def settled_ids_def)
  have res: "rd_returns A (\<lambda>s'. \<exists>s1. moves e ?tp (batch_ids ?batch) (buf_taken b ?s0) {#} s1 \<and>
      signed_off e (rd_kafka_is_idempotent (ps_rk s) \<and> ?rest = 0) s1 s')
    (rd_kafka_msgbatch_handle_Produce_result e rkb ?batch err' presult sent ?s0)" for rkb err' presult sent
    using handle_result_moves [of ?batch ?s0 A e rkb err' presult sent] h A b taken(2,3)
    by (simp add: buf_ok_def Let_def buf_taken_def upd_toppar_def)
  have fin: "produce_inv 0 tp {#} s' \<and> produce_evolves e s s' \<and> ps_bufs s' = xs @ ys \<and> toppar_pids s' = toppar_pids s"
    if m: "moves e ?tp (batch_ids ?batch) (buf_taken b ?s0) {#} s1"
      and off: "signed_off e (rd_kafka_is_idempotent (ps_rk s) \<and> ?rest = 0) s1 s'" for s1 s'
  proof -
    from signed_off_inv [OF moves_inv [OF m taken(1)] off]
    have s': "produce_inv 0 ?tp {#} s'" "produce_evolves e s1 s'" "ps_bufs s' = ps_bufs s1" "ps_toppars s' = ps_toppars s1"
      by simp_all
    have "produce_evolves e s s1" using moves_evolves [OF m] by (simp add: produce_evolves_def buf_taken_def)
    moreover have "toppar_pids s1 = toppar_pids s"
      using moves_pids [OF m] by (auto simp: buf_taken_def fun_eq_iff)
    moreover have "ps_bufs s1 = xs @ ys" using moves_sel(5) [OF m] by (simp add: buf_taken_def)
    ultimately show ?thesis using s' produce_inv_any evolves_trans by auto
  qed
  show ?thesis unfolding rd_kafka_handle_Produce_def Let_def
    by (auto split: prod.splits intro!: rd_returns_mono [OF res] fin)
qed


text \<open>What an operation that does not create requests leaves: the invariant, the producer ids.\<close>

definition stays :: "produce_env \<Rightarrow> produce_t \<Rightarrow> produce_t \<Rightarrow> bool" where
  "stays e s s' \<longleftrightarrow> produce_ok s' \<and> produce_evolves e s s' \<and> toppar_pids s' = toppar_pids s"

lemma stays_ok: "stays e s s' \<Longrightarrow> produce_ok s'"
  by (simp add: stays_def)

lemma stays_refl: "produce_ok s \<Longrightarrow> stays e s s"
  by (simp add: stays_def)

lemma stays_trans: "stays e s1 s2 \<Longrightarrow> stays e s2 s3 \<Longrightarrow> stays e s1 s3"
  by (auto simp: stays_def intro: evolves_trans)

lemma moves_stays: "produce_ok s \<Longrightarrow> moves e tp {#} s {#} s' \<Longrightarrow> stays e s s'"
  using moves_inv [of e tp "{#}" s "{#}" s' 0] moves_evolves moves_pids by (simp add: stays_def produce_inv_ok)

lemma stays_moves: "stays e s s1 \<Longrightarrow> moves e tp {#} s1 {#} s' \<Longrightarrow> stays e s s'"
  by (rule stays_trans, assumption, rule moves_stays) (simp_all add: stays_def)

lemma ok_holds: "produce_ok s \<Longrightarrow> holds tp {#} s" "produce_ok s \<Longrightarrow> queues_ok tp s"
  using inv_holds [of 0 tp "{#}" s] by (auto simp: holds_def produce_inv_ok)

lemma response_stays:
  assumes "produce_ok s" "ps_bufs s = xs @ b # ys" "A \<or> \<not> rd_kafka_is_transactional (ps_rk s) \<and> retry_safe (ps_conf s)"
  shows "rd_returns A (\<lambda>s'. stays e s s' \<and> ps_bufs s' = xs @ ys) (rd_kafka_handle_Produce e b err reply (s\<lparr>ps_bufs := xs @ ys\<rparr>))"
  by (rule rd_returns_mono [OF response_ok [OF _ assms(2,3), unfolded produce_inv_ok, OF assms(1)]]) (simp add: stays_def)

lemma bufq_purge_loop_stays:
  assumes "produce_ok s" "ps_bufs s = pre @ bufs" "i = length pre"
    "A \<or> \<not> rd_kafka_is_transactional (ps_rk s) \<and> retry_safe (ps_conf s)"
  shows "rd_returns A (stays e s) (bufq_purge_loop e rkb tp err bufs i s)"
  using assms
proof (induction bufs arbitrary: i s pre)
  case Nil
  then show ?case by (simp add: rd_returns_def stays_refl)
next
  case (Cons b bufs)
  show ?case
  proof (cases "pb_rkb b \<noteq> rkb \<or> pb_sent b \<or> rkmb_rktp (pb_batch b) \<noteq> tp \<or> pb_partial b")
    case True
    then show ?thesis using Cons.IH [of s "pre @ [b]" "Suc i"] Cons.prems by simp
  next
    case False
    have del: "take i (ps_bufs s) @ drop (Suc i) (ps_bufs s) = pre @ bufs" using Cons.prems(2,3) by simp
    show ?thesis unfolding bufq_purge_loop.simps if_not_P [OF False] del
    proof (rule rd_returns_bind [OF response_stays [OF Cons.prems(1,2,4)]], elim conjE)
      fix s1
      assume s1: "stays e s s1" "ps_bufs s1 = pre @ bufs"
      then have "rd_returns A (stays e s1) (bufq_purge_loop e rkb tp err bufs i s1)"
        using Cons.prems(3,4) evolves_idempotent [of e s s1]
        by (intro Cons.IH) (auto simp: stays_def produce_evolves_def)
      then show "rd_returns A (stays e s) (bufq_purge_loop e rkb tp err bufs i s1)"
        by (rule rd_returns_mono) (rule stays_trans [OF s1(1)])
    qed
  qed
qed

lemma bufq_purge_stays:
  assumes "produce_ok s" "A \<or> \<not> rd_kafka_is_transactional (ps_rk s) \<and> retry_safe (ps_conf s)"
  shows "rd_returns A (stays e s) (rd_kafka_broker_bufq_purge_by_toppar e rkb tp err s)"
  unfolding rd_kafka_broker_bufq_purge_by_toppar_def using assms by (intro bufq_purge_loop_stays [where pre = "[]"]) simp_all

section \<open>Enqueuing\<close>

text \<open>A fresh message, as \<open>rd_kafka_msg_new0\<close> makes it.\<close>

definition msg_fresh :: "rd_kafka_msg \<Rightarrow> bool" where
  "msg_fresh rkm \<longleftrightarrow> rkm_msgid rkm = 0 \<and> rkm_last_msgid rkm = 0 \<and> rkm_retries rkm = 0 \<and> 0 \<le> rkm_size rkm"

lemma toppar_ids_below:
  assumes "toppar_ok s H tp" "m \<in> set (rkmq_msgs (rktp_msgq (ps_toppars s tp)))"
  shows "rkm_msgid m \<le> rktp_msgid (ps_toppars s tp)"
proof -
  have eq: "settled_ids tp s + msgids (inflight_msgs tp s) + H = mset [1..rktp_msgid (ps_toppars s tp)]"
    using assms(1) by (simp add: toppar_ok_def Let_def)
  have "rkm_msgid m \<in># settled_ids tp s + msgids (inflight_msgs tp s) + H"
    using assms(2) by (simp add: settled_ids_def msgids_def)
  then show ?thesis unfolding eq by simp
qed

lemma enq_sorted:
  assumes "queue_ok rktp q" "\<forall>m \<in> set (rkmq_msgs q). rkm_msgid m < rkm_msgid rkm" "0 \<le> rkm_size rkm"
    "q' = (if rkt_queuing_fifo rktp then rd_kafka_msgq_enq q rkm else rd_kafka_msgq_enq_sorted0 q rkm (msg_order_cmp rktp))"
  shows "queue_ok rktp q'" "msgids (rkmq_msgs q') = add_mset (rkm_msgid rkm) (msgids (rkmq_msgs q))"
proof -
  have new: "\<forall>m \<in> set (rkmq_msgs q). msg_order_cmp rktp m rkm \<noteq> 0" using assms(2) by (auto simp: ord.cmp_by_msgid)
  have "sorted_wrt (before rktp) (rkmq_msgs q')"
  proof (cases "rkt_queuing_fifo rktp")
    case True
    have "before rktp m rkm" if "rkm_msgid m < rkm_msgid rkm" for m
      using that True by (simp add: msg_order_cmp_def rd_kafka_msg_cmp_msgid_def RD_CMP_def)
    then show ?thesis using True assms by (auto simp: queue_ok_def sorted_wrt_append)
  next
    case False
    then show ?thesis using assms(1,4) ord.insert_strict [OF _ new]
      by (simp add: queue_ok_def rd_kafka_msgq_enq_sorted0_def)
  qed
  then show "queue_ok rktp q'" using assms by (auto simp: queue_ok_def msgq_ok_enq enq_sorted0_ok)
  show "msgids (rkmq_msgs q') = add_mset (rkm_msgid rkm) (msgids (rkmq_msgs q))"
    by (simp add: assms(4) rd_kafka_msgq_enq_sorted0_def msgids_def)
qed


text \<open>Changing one partition, its requests apart.\<close>

lemma inv_toppar:
  assumes "produce_inv k tp H s" "toppar_ok (upd_toppar tp f s) H' tp"
    "rktp_msgs_inflight (f (ps_toppars s tp)) = rktp_msgs_inflight (ps_toppars s tp)"
    "rkt_queuing_fifo (f (ps_toppars s tp)) = rkt_queuing_fifo (ps_toppars s tp)"
    "rktp_pid (f (ps_toppars s tp)) = rktp_pid (ps_toppars s tp) \<or> toppar_bufs tp s = []"
  shows "produce_inv k tp H' (upd_toppar tp f s)"
proof -
  let ?s = "upd_toppar tp f s"
  have "toppar_ok ?s {#} tp'" if "tp' \<noteq> tp" for tp'
    using produce_inv_D(2) [OF assms(1) that] that
    by (simp add: toppar_ok_def Let_def settled_ids_def queues_ok_def inflight_msgs_def toppar_bufs_def)
  moreover have "buf_ok ?s b" if "b \<in> set (ps_bufs s)" for b
  proof (cases "rkmb_rktp (pb_batch b) = tp")
    case True
    then have "rktp_pid (f (ps_toppars s tp)) = rktp_pid (ps_toppars s tp)"
      using assms(5) that by (auto simp: toppar_bufs_def filter_empty_conv)
    then show ?thesis using produce_inv_D(3) [OF assms(1) that] True queue_ok_same [OF assms(4)] by (simp add: buf_ok_def Let_def)
  next
    case False
    then show ?thesis using produce_inv_D(3) [OF assms(1) that] by (simp add: buf_ok_def Let_def)
  qed
  moreover have "toppars_inflight ?s = toppars_inflight s" using assms(3) by auto
  then have "count_ok k ?s" using produce_inv_D(4) [OF assms(1)] by (simp add: count_ok_def)
  ultimately show ?thesis using assms(2) produce_inv_D(5) [OF assms(1)] by (simp add: produce_inv_def)
qed

lemma ok_pfx: "produce_ok (pfx x s) = produce_ok s"
  by (simp add: produce_ok_def toppar_ok_def Let_def settled_ids_def queues_ok_def inflight_msgs_def toppar_bufs_def buf_ok_def
      count_ok_def)

lemma stays_pfx: "stays e s s' \<Longrightarrow> stays e s (pfx x s')"
  by (simp add: stays_def ok_pfx produce_evolves_def)

lemma enq_msg_stays:
  assumes "produce_ok s" "msg_fresh rkm" "snd tp \<noteq> - 1"
  shows "stays e s (rd_kafka_toppar_enq_msg tp rkm now s)"
proof -
  define r where "r = ps_toppars s tp"
  define n where "n = rktp_msgid r + 1"
  define rkm1 where "rkm1 = rkm\<lparr>rkm_msgid := n\<rparr>"
  define q where "q = (if rkt_queuing_fifo r then rd_kafka_msgq_enq (rktp_msgq r) rkm1
    else rd_kafka_msgq_enq_sorted0 (rktp_msgq r) rkm1 (msg_order_cmp r))"
  note inv = produce_inv_ok [THEN iffD2, OF assms(1)]
  have t: "toppar_ok s {#} tp" by (rule produce_inv_D(1) [OF inv])
  have new: "queue_ok r q" "msgids (rkmq_msgs q) = add_mset n (msgids (rkmq_msgs (rktp_msgq r)))"
    using enq_sorted [OF _ _ _ q_def] t toppar_ids_below [OF t] assms(2)
    by (auto simp: toppar_ok_def Let_def queues_ok_def r_def [symmetric] rkm1_def msg_fresh_def rkm_size_def n_def)
  have upto: "mset [1..n] = add_mset n (mset [1..rktp_msgid r])"
    using t upto_rec2 [of 1 n] by (simp add: toppar_ok_def Let_def r_def [symmetric] n_def)
  have ok: "stays e s (upd_toppar tp (\<lambda>_. r\<lparr>rktp_msgid := n, rktp_msgq := q'\<rparr>) s)"
    if "rkmq_msgs q' = rkmq_msgs q" "msgq_ok q'" for q'
  proof -
    let ?s = "upd_toppar tp (\<lambda>_. r\<lparr>rktp_msgid := n, rktp_msgq := q'\<rparr>) s"
    have "queue_ok r q'" using new(1) that by (simp add: queue_ok_def)
    moreover have "settled_ids tp ?s + msgids (inflight_msgs tp s) = add_mset n (settled_ids tp s + msgids (inflight_msgs tp s))"
      by (simp add: settled_ids_def that(1) new(2) r_def)
    ultimately have "toppar_ok ?s {#} tp"
      using t upto by (simp add: toppar_ok_def Let_def queues_ok_def r_def [symmetric] n_def inflight_msgs_def toppar_bufs_def)
    then have "produce_inv 0 tp {#} ?s" by (intro inv_toppar [OF inv]) (simp_all add: r_def)
    then show ?thesis by (auto simp: stays_def produce_inv_ok produce_evolves_def r_def fun_eq_iff)
  qed
  have q: "msgq_ok q" using new(1) by (simp add: queue_ok_def)
  then have "msgq_ok (q\<lparr>rkmq_wakeup := w\<rparr>)" for w by (simp add: msgq_ok_def)
  moreover have "rd_kafka_toppar_enq_msg tp rkm now s =
      (if rd_kafka_msgq_may_wakeup q now \<and> rktp_msgq_wakeup_q r
       then pfx (PFX_WAKEUP tp) (upd_toppar tp (\<lambda>_. r\<lparr>rktp_msgid := n,
              rktp_msgq := q\<lparr>rkmq_wakeup := (rkmq_wakeup q)\<lparr>wk_signalled := True\<rparr>\<rparr>\<rparr>) s)
       else upd_toppar tp (\<lambda>_. r\<lparr>rktp_msgid := n, rktp_msgq := q\<rparr>) s)"
    using assms(2,3)
    by (simp add: rd_kafka_toppar_enq_msg_def Let_def msg_fresh_def r_def q_def rkm1_def n_def msg_order_cmp_def)
  ultimately show ?thesis using ok [OF refl q] ok by (simp add: stays_pfx)
qed


section \<open>Serving a partition\<close>

lemma purge_queues_stays:
  assumes "produce_ok s" "inc \<Longrightarrow> rktp_broker (ps_toppars s tp) \<noteq> None"
  shows "rd_returns A (\<lambda>(n, s'). stays e s s') (rd_kafka_toppar_purge_queues tp flags inc s)"
  by (rule rd_returns_mono [OF purge_queues_moves [where e = e and H = "{#}"]])
     (use assms ok_holds(2) [of s tp] in \<open>auto simp: produce_ok_def intro: moves_stays [OF assms(1)]\<close>)

lemma msgq_scan_stays:
  assumes "produce_ok s"
  shows "rd_returns A (\<lambda>(n, nxt, s'). stays e s s') (rd_kafka_broker_toppar_msgq_scan tp now s)"
  by (rule rd_returns_mono [OF msgq_scan_moves [OF ok_holds(1) [OF assms], where e = e]])
     (auto intro: moves_stays [OF assms])

lemma serve_timeout_scan_stays:
  assumes "produce_ok s" "A \<or> \<not> rd_kafka_is_transactional (ps_rk s)"
  shows "rd_returns A (\<lambda>r. case r of Inl (w, s') \<Rightarrow> stays e s s' | Inr (w, s') \<Rightarrow> stays e s s')
    (serve_timeout_scan e tp cur_pid now next_wakeup s)"
  unfolding serve_timeout_scan_def Let_def
proof (rule rd_returns_bind [OF msgq_scan_stays [OF assms(1), where e = e]], clarify)
  fix n nxt s1
  assume s1: "stays e s s1"
  then have ok: "queues_ok tp s1" "A \<or> \<not> rd_kafka_is_transactional (ps_rk s1)"
    using ok_holds(2) assms(2) by (auto simp: stays_def evolves_idempotent)
  have "rd_returns A (stays e s) (on_rk (\<lambda>rk. rd_kafka_idemp_drain_epoch_bump (pe_env e) rk err) s1)" for err
    by (rule rd_returns_mono [OF rk_moves(3) [OF ok(1), where H = "{#}" and e = e]])
       (use ok(2) in \<open>auto intro: stays_moves [OF s1]\<close>)
  then show "rd_returns A (\<lambda>r. case r of Inl (w, s') \<Rightarrow> stays e s s' | Inr (w, s') \<Rightarrow> stays e s s')
      (if rd_kafka_is_idempotent (ps_rk s1) \<and> \<not> rd_kafka_pid_valid cur_pid
       then Some (Inl (if nxt \<noteq> 0 then rd_kafka_set_next_wakeup next_wakeup nxt else next_wakeup, s1))
       else if rd_kafka_is_idempotent (ps_rk s1) \<and> 0 < n
       then do {s \<leftarrow> on_rk (\<lambda>rk. rd_kafka_idemp_drain_epoch_bump (pe_env e) rk RESP_ERR__TIMED_OUT) s1;
                Some (Inl (if nxt \<noteq> 0 then rd_kafka_set_next_wakeup next_wakeup nxt else next_wakeup, s))}
       else Some (Inr (if nxt \<noteq> 0 then rd_kafka_set_next_wakeup next_wakeup nxt else next_wakeup, s1)))"
    using s1 by (intro rd_returns_if rd_returns_Some rd_returns_bind [where R = "stays e s"]) simp_all
qed

lemma allow_wakeup_stays:
  assumes "produce_ok s"
  shows "stays e s (snd (snd (serve_allow_wakeup e' tp w now fl s)))"
proof -
  obtain ready q nw where r: "rd_kafka_msgq_allow_wakeup_at (rktp_msgq (ps_toppars s tp)) (rktp_xmit_msgq (ps_toppars s tp)) w now
      (if fl then 1 else pc_buffering_max_us (ps_conf s)) (pc_batch_num_messages (ps_conf s)) (pc_batch_size (ps_conf s)) = (ready, q, nw)"
    by (metis prod_cases3)
  then have "rkmq_msgs q = rkmq_msgs (rktp_msgq (ps_toppars s tp))" "msgq_ok q = msgq_ok (rktp_msgq (ps_toppars s tp))"
    by (auto simp: rd_kafka_msgq_allow_wakeup_at_def Let_def msgq_ok_def split: prod.splits if_splits)
  then have "moves e tp {#} s {#} (upd_toppar tp (\<lambda>rktp. rktp\<lparr>rktp_msgq := q\<rparr>) s)"
    using ok_holds(2) [OF assms, of tp] by (intro moves_upd) (simp_all add: rktp_same_def queues_ok_def queue_ok_def)
  then show ?thesis using moves_stays [OF assms] by (simp add: serve_allow_wakeup_def Let_def r)
qed

lemma serve_move_stays:
  assumes "produce_ok s"
  shows "rd_returns A (\<lambda>(max', ready, w, s'). stays e s s' \<and> (0 < max' \<longrightarrow> may_send))
    (serve_move e' rkb tp now next_wakeup may_send flushing max_requests s)"
proof -
  let ?r = "ps_toppars s tp"
  have ok: "queue_ok ?r (rktp_msgq ?r)" "queue_ok ?r (rktp_xmit_msgq ?r)" using ok_holds(2) [OF assms] by (simp_all add: queues_ok_def)
  have once: "ids_once (msgids (rkmq_msgs (rktp_xmit_msgq ?r)) + msgids (rkmq_msgs (rktp_msgq ?r)))"
    by (rule holds_sub [OF ok_holds(1) [OF assms, of tp]]) (simp add: ac_simps)
  have ins: "rd_returns A (\<lambda>(x, q). queue_ok ?r x \<and> queue_ok ?r q \<and>
        msgids (rkmq_msgs q) + msgids (rkmq_msgs x) = msgids (rkmq_msgs (rktp_msgq ?r)) + msgids (rkmq_msgs (rktp_xmit_msgq ?r)))
      (if rkmq_msg_cnt (rktp_msgq ?r) > 0 then rd_kafka_msgq_insert_msgq (rktp_xmit_msgq ?r) (rktp_msgq ?r) (msg_order_cmp ?r)
       else Some (rktp_xmit_msgq ?r, rktp_msgq ?r))"
    by (intro rd_returns_if rd_returns_Some rd_returns_mono [OF insert_msgq_moves [OF ok(2,1) once]])
       (use ok in \<open>auto intro: queue_ok_empty simp: ac_simps\<close>)
  show ?thesis unfolding serve_move_def Let_def
  proof (intro rd_returns_if rd_returns_bind [OF ins] rd_returns_Some)
    fix p :: "rd_kafka_msgq \<times> rd_kafka_msgq"
    obtain x q where p: "p = (x, q)" by (cases p)
    assume "case p of (x, q) \<Rightarrow> queue_ok ?r x \<and> queue_ok ?r q \<and>
        msgids (rkmq_msgs q) + msgids (rkmq_msgs x) = msgids (rkmq_msgs (rktp_msgq ?r)) + msgids (rkmq_msgs (rktp_xmit_msgq ?r))"
      and may: "\<not> (\<not> may_send \<or> rd_kafka_fatal_error_code (ps_rk s) \<noteq> 0 \<or> rktp_paused ?r \<or>
         rd_kafka_is_transactional (ps_rk s) \<and> \<not> rd_kafka_txn_toppar_may_send_msg (ps_rk s) tp)"
    then have "moves e tp {#} s {#} (upd_toppar tp (\<lambda>rktp. rktp\<lparr>rktp_xmit_msgq := x, rktp_msgq := q\<rparr>) s)"
      by (intro moves_upd) (simp_all add: p rktp_same_def)
    note st = moves_stays [OF assms this]
    have "stays e s (snd (snd (serve_allow_wakeup e' tp w now fl
        (upd_toppar tp (\<lambda>rktp. rktp\<lparr>rktp_xmit_msgq := x, rktp_msgq := q\<rparr>) s))))" for w fl
      by (rule stays_trans [OF st allow_wakeup_stays [OF stays_ok [OF st]]])
    then show "rd_returns A (\<lambda>(max', ready, w, s'). stays e s s' \<and> (0 < max' \<longrightarrow> may_send))
      (case p of (xmit_msgq, msgq) \<Rightarrow>
         case serve_allow_wakeup e' tp (if pe_up e' rkb then Some next_wakeup else None) now flushing
           (upd_toppar tp (\<lambda>rktp. rktp\<lparr>rktp_xmit_msgq := xmit_msgq, rktp_msgq := msgq\<rparr>) s) of
           (ready, nxt, s) \<Rightarrow> Some (max_requests, ready, case nxt of None \<Rightarrow> next_wakeup | Some nxt \<Rightarrow> nxt, s))"
      using may by (simp add: p rd_returns_def split: prod.splits) (metis snd_conv)
  qed (use assms in \<open>auto simp: stays_refl\<close>)
qed


lemma serve_drain_stays:
  assumes "produce_ok s" "A \<or> \<not> rd_kafka_is_transactional (ps_rk s) \<and> retry_safe (ps_conf s)"
  shows "rd_returns A (\<lambda>r. case r of Inl s' \<Rightarrow> stays e s s' | Inr (max', s') \<Rightarrow> stays e s s' \<and> (0 < max' \<longrightarrow> 0 < max_requests) \<and>
      (rd_kafka_is_idempotent (ps_rk s) \<longrightarrow> max' \<le> RD_KAFKA_IDEMP_MAX_INFLIGHT - rktp_msgs_inflight (ps_toppars s' tp)))
    (serve_drain e rkb tp cur_pid max_requests s)"
proof (cases "rd_kafka_is_idempotent (ps_rk s)")
  case True
  define changed where "changed \<longleftrightarrow> \<not> rd_kafka_pid_eq cur_pid (rktp_pid (ps_toppars s tp))"
  have purge: "rd_returns A (stays e s) (if changed then rd_kafka_broker_bufq_purge_by_toppar e rkb tp RESP_ERR__RETRY s else Some s)"
    using bufq_purge_stays [OF assms] stays_refl [OF assms(1)] by (simp add: rd_returns_def)
  have idem: "(\<not> rd_kafka_is_idempotent (ps_rk s)) = False" using True by simp
  show ?thesis unfolding serve_drain_def Let_def changed_def [symmetric] idem if_False
  proof (rule rd_returns_bind [OF purge])
    fix s1
    assume s1: "stays e s s1"
    let ?wait = "rktp_wait_drain (ps_rk s1) tp"
    have A1: "A \<or> \<not> rd_kafka_is_transactional (ps_rk s1) \<and> retry_safe (ps_conf s1)"
      using s1 assms(2) by (simp add: stays_def evolves_idempotent(2) [of e s s1]) (simp add: produce_evolves_def)
    have again: "rd_returns A (stays e s) (if changed then Some s1 else rd_kafka_broker_bufq_purge_by_toppar e rkb tp RESP_ERR__RETRY s1)"
      by (intro rd_returns_if rd_returns_Some s1 rd_returns_mono [OF bufq_purge_stays [OF stays_ok [OF s1] A1]]) (rule stays_trans [OF s1])
    have drained: "stays e s (if ?wait then s1\<lparr>ps_rk := (ps_rk s1)\<lparr>rktp_wait_drain := (rktp_wait_drain (ps_rk s1))(tp := False)\<rparr>\<rparr> else s1)"
      using s1 stays_moves [OF s1 moves_rk [OF ok_holds(2) [OF stays_ok [OF s1]] keeps_drained]] by auto
    show "rd_returns A (\<lambda>r. case r of Inl s' \<Rightarrow> stays e s s' | Inr (max', s') \<Rightarrow> stays e s s' \<and> (0 < max' \<longrightarrow> 0 < max_requests) \<and>
        (rd_kafka_is_idempotent (ps_rk s) \<longrightarrow> max' \<le> RD_KAFKA_IDEMP_MAX_INFLIGHT - rktp_msgs_inflight (ps_toppars s' tp)))
      (if ?wait \<and> rktp_msgs_inflight (ps_toppars s1 tp) \<noteq> 0
       then map_option Inl (if changed then Some s1 else rd_kafka_broker_bufq_purge_by_toppar e rkb tp RESP_ERR__RETRY s1)
       else Some (Inr (min max_requests (RD_KAFKA_IDEMP_MAX_INFLIGHT - rktp_msgs_inflight (ps_toppars s1 tp)),
              if ?wait then s1\<lparr>ps_rk := (ps_rk s1)\<lparr>rktp_wait_drain := (rktp_wait_drain (ps_rk s1))(tp := False)\<rparr>\<rparr> else s1)))"
      using drained by (intro rd_returns_if rd_returns_map rd_returns_Some rd_returns_mono [OF again]) auto
  qed
qed (use assms(1) in \<open>simp add: serve_drain_def rd_returns_def stays_refl\<close>)

section \<open>Creating requests\<close>

lemma writer_loop_ok:
  "msgset_writer_loop now ver outlen maxcnt maxsize last_msgid xs q msgq len cnt = Some (q', msgq', len', cnt') \<Longrightarrow>
   rkmq_msgs q = xs \<Longrightarrow> msgq_ok q \<Longrightarrow> msgq_ok msgq \<Longrightarrow>
     \<exists>taken. xs = taken @ rkmq_msgs q' \<and> rkmq_msgs msgq' = rkmq_msgs msgq @ taken \<and> msgq_ok q' \<and> msgq_ok msgq' \<and>
       cnt' = cnt + int (length taken)"
proof (induction xs arbitrary: q msgq len cnt)
  case (Cons m xs)
  obtain q1 where q1: "rd_kafka_msgq_deq q 0 = Some (m, q1)" "msgq_ok q1" "rkmq_msgs q1 = xs" "0 \<le> rkm_size m"
    using deq_hd_ok [OF Cons.prems(3,2)] by auto
  show ?case
  proof (cases "msgset_writer_loop now ver outlen maxcnt maxsize last_msgid xs q1 (rd_kafka_msgq_enq msgq m) (len + outlen m) (cnt + 1) =
      Some (q', msgq', len', cnt')")
    case True
    from Cons.IH [OF True q1(3,2) msgq_ok_enq [OF Cons.prems(4) q1(4)]] obtain taken where "xs = taken @ rkmq_msgs q'"
        "rkmq_msgs msgq' = rkmq_msgs msgq @ m # taken" "msgq_ok q'" "msgq_ok msgq'" "cnt' = cnt + 1 + int (length taken)"
      by auto
    then show ?thesis by (intro exI [of _ "m # taken"]) simp
  next
    case False
    then have "q' = q \<and> msgq' = msgq \<and> cnt' = cnt"
      using Cons.prems(1) q1(1) by (auto split: if_splits)
    then show ?thesis using Cons.prems by simp
  qed
qed simp

text \<open>What the writer puts into a batch: a prefix of the transmit queue, and of a batch sent before the
  whole of it or an error.\<close>

lemma write_msgq_ok:
  assumes "rd_kafka_msgset_writer_write_msgq e ver conf maxcnt rk q (rd_kafka_msgbatch_init tp p base) = Some (ok, rk', q', b, len)"
    "msgq_ok q"
  shows "\<exists>taken. rkmq_msgs q = taken @ rkmq_msgs q' \<and> rkmq_msgs (rkmb_msgq b) = taken \<and> msgq_ok q' \<and> msgq_ok (rkmb_msgq b) \<and>
    rkmb_rktp b = tp \<and> rkmb_pid b = p \<and> (rk' = rk \<or> rk' = snd (rd_kafka_set_fatal_error0 rk RESP_ERR__INCONSISTENT)) \<and>
    (ok \<and> rd_kafka_pid_valid p \<and> taken \<noteq> [] \<longrightarrow> batch_whole taken \<and> batch_seq_ok b)"
proof -
  obtain m ms where ms: "rkmq_msgs q = m # ms"
    using assms(1) by (cases "rkmq_msgs q") (auto simp: rd_kafka_msgset_writer_write_msgq_def)
  obtain b0 where b0: "rd_kafka_msgbatch_set_first_msg (rd_kafka_msgbatch_init tp p base) m = Some b0" "rkmb_rktp b0 = tp"
      "rkmb_pid b0 = p" "rkmb_msgq b0 = RD_KAFKA_MSGQ_INITIALIZER"
      "rd_kafka_pid_valid p \<Longrightarrow> rkmb_last_msgid b0 = rkm_last_msgid m \<and> rkmb_first_msgid b0 = rkm_msgid m \<and>
         rkmb_first_seq b0 = rd_kafka_seq_wrap (rkm_msgid m - rkmb_epoch_base_msgid b0)"
    by (cases "rd_kafka_pid_valid p") (simp_all add: rd_kafka_msgbatch_set_first_msg_def rd_kafka_msgbatch_init_def)
  obtain msgq cnt where l: "msgset_writer_loop (pe_clock e) ver (pe_outlen e) maxcnt (min (pc_max_msg_size conf) (pc_batch_size conf))
        (rkmb_last_msgid b0) (rkmq_msgs q) q RD_KAFKA_MSGQ_INITIALIZER (pe_buf_len e) 0 = Some (q', msgq, len, cnt)"
      "b = b0\<lparr>rkmb_msgq := msgq\<rparr>"
      "ok = (\<not> (0 < cnt \<and> rkmb_last_msgid b0 \<noteq> 0 \<and> rkm_msgid (last (rkmq_msgs msgq)) \<noteq> rkmb_last_msgid b0))"
      "rk' = rk \<or> rk' = snd (rd_kafka_set_fatal_error0 rk RESP_ERR__INCONSISTENT)"
    using assms(1) b0(1,4)
    by (auto simp: rd_kafka_msgset_writer_write_msgq_def ms Let_def bind_eq_Some_conv split: if_splits)
  from writer_loop_ok [OF l(1) refl assms(2)] obtain taken where t: "rkmq_msgs q = taken @ rkmq_msgs q'" "rkmq_msgs msgq = taken"
      "msgq_ok q'" "msgq_ok msgq" "cnt = int (length taken)" by auto
  have "batch_whole taken \<and> batch_seq_ok b" if "ok" "rd_kafka_pid_valid p" "taken \<noteq> []"
  proof -
    have "hd taken = m" using t(1) ms that(3) by (cases taken) auto
    then show ?thesis using that l(2,3) b0(5) t(2,5) by (auto simp: batch_whole_def batch_seq_ok_def)
  qed
  then show ?thesis using t l b0 by auto
qed


text \<open>Putting a batch in flight.\<close>

definition buf_sent :: "produce_buf \<Rightarrow> produce_t \<Rightarrow> produce_t" where
  "buf_sent b s = (let s = rd_kafka_msgbatch_ready_produce (pb_batch b) s in s\<lparr>ps_bufs := ps_bufs s @ [b]\<rparr>)"

lemma buf_sent_ok:
  fixes s b
  defines "tp \<equiv> rkmb_rktp (pb_batch b)"
  assumes inv: "produce_inv 0 tp (msgids (buf_msgs b)) s" and b: "buf_ok s b"
    and room: "rd_kafka_is_idempotent (ps_rk s) \<Longrightarrow> int (length (toppar_bufs tp s)) < RD_KAFKA_IDEMP_MAX_INFLIGHT"
  shows "stays e s (buf_sent b s)" "toppar_bufs tp (buf_sent b s) = toppar_bufs tp s @ [b]"
proof -
  let ?s = "buf_sent b s" and ?len = "int (length (buf_msgs b))"
  let ?n = "rktp_msgs_inflight (ps_toppars s tp)"
  have len: "rd_kafka_msgq_len (rkmb_msgq (pb_batch b)) = ?len" "0 < ?len"
    using b by (simp_all add: buf_ok_def Let_def queue_ok_def msgq_len)
  have t: "toppar_ok s (if tp' = tp then msgids (buf_msgs b) else {#}) tp'" for tp' using inv by (simp add: produce_inv_def)
  have n: "?n = int (length (inflight_msgs tp s))" using t [of tp] by (simp add: toppar_ok_def Let_def)
  have s: "ps_toppars ?s = (ps_toppars s)(tp := (ps_toppars s tp)\<lparr>rktp_msgs_inflight := ?n + ?len\<rparr>)" "ps_bufs ?s = ps_bufs s @ [b]"
    "ps_rk ?s = (if ?n = 0 \<and> rd_kafka_is_idempotent (ps_rk s) then rd_kafka_idemp_inflight_toppar_add (ps_rk s) else ps_rk s)"
    "ps_conf ?s = ps_conf s" "reported_msgs tp' ?s = reported_msgs tp' s" for tp'
    by (simp_all add: buf_sent_def rd_kafka_msgbatch_ready_produce_def Let_def tp_def [symmetric] len(1) upd_toppar_def reported_msgs_def)
  have rk: "rd_kafka_is_idempotent (ps_rk ?s) = rd_kafka_is_idempotent (ps_rk s)" "rk_type (ps_rk ?s) = rk_type (ps_rk s)"
    "rk_conf (ps_rk ?s) = rk_conf (ps_rk s)"
    by (simp_all add: s rd_kafka_idemp_inflight_toppar_add_def rd_kafka_is_idempotent_def)
  have s': "inflight_msgs tp' ?s = inflight_msgs tp' s @ (if tp' = tp then buf_msgs b else [])"
    "toppar_bufs tp' ?s = toppar_bufs tp' s @ (if tp' = tp then [b] else [])"
    "settled_ids tp' ?s = settled_ids tp' s" "queues_ok tp' ?s = queues_ok tp' s" for tp'
    by (simp_all add: inflight_msgs_def toppar_bufs_def s tp_def settled_ids_def queues_ok_def)
  show "toppar_bufs tp ?s = toppar_bufs tp s @ [b]" by (simp add: s')
  have room': "rd_kafka_is_idempotent (ps_rk s) \<longrightarrow> length (toppar_bufs tp s) \<le> 4" by (rule impI, drule room, linarith)
  have "toppar_ok ?s {#} tp'" for tp'
    using t [of tp'] room' unfolding toppar_ok_def Let_def s' rk by (cases "tp' = tp") (simp_all add: s add.assoc)
  moreover have "buf_ok ?s b'" if "b' \<in> set (ps_bufs ?s)" for b'
    using produce_inv_D(3) [OF inv, of b'] b that unfolding buf_ok_def Let_def rk by (auto simp: s)
  moreover have "0 \<le> ?n" "0 < ?n + ?len" using n len(2) by linarith+
  then have F: "toppars_inflight ?s = insert tp (toppars_inflight s)" "tp \<in> toppars_inflight s \<longleftrightarrow> ?n \<noteq> 0"
    by (auto simp: s)
  have "finite (toppars_inflight s)" "inflight_toppar_cnt (ps_rk s) = int (card (toppars_inflight s))"
    if "rd_kafka_is_idempotent (ps_rk s)"
    using produce_inv_D(4) [OF inv] that by (simp_all add: count_ok_def)
  then have "count_ok 0 ?s"
    unfolding count_ok_def rk F(1) using F(2)
    by (cases "?n = 0") (auto simp: s rd_kafka_idemp_inflight_toppar_add_def insert_absorb)
  ultimately have "produce_ok ?s" using produce_inv_D(5) [OF inv] rk by (simp add: produce_ok_def)
  moreover have "(eos_step (pe_env e))\<^sup>*\<^sup>* (ps_rk s) (ps_rk ?s)" by (auto simp: s intro: step_inflight_add)
  ultimately show "stays e s ?s" using rk by (auto simp: stays_def produce_evolves_def s fun_eq_iff)
qed


text \<open>Creating a request leaves the other requests and adds at most one.\<close>

definition adds :: "produce_env \<Rightarrow> toppar \<Rightarrow> nat \<Rightarrow> produce_t \<Rightarrow> produce_t \<Rightarrow> bool" where
  "adds e tp n s s' \<longleftrightarrow> stays e s s' \<and> length (toppar_bufs tp s') \<le> length (toppar_bufs tp s) + n"

lemma inv_holds_part:
  "produce_ok s \<Longrightarrow> N \<subseteq># msgids (rkmq_msgs (rktp_msgq (ps_toppars s tp))) + msgids (rkmq_msgs (rktp_xmit_msgq (ps_toppars s tp))) \<Longrightarrow>
     ids_once N"
  using holds_sub [OF ok_holds(1), of s N tp] by simp

lemma split_queue_ok:
  assumes "queue_ok r q" "rkmq_msgs q = taken @ rkmq_msgs q'" "msgq_ok q'" "msgq_ok b" "rkmq_msgs b = taken"
  shows "queue_ok r q'" "queue_ok r b" "msgids (rkmq_msgs q) = msgids (rkmq_msgs b) + msgids (rkmq_msgs q')"
  using assms by (auto simp: queue_ok_def sorted_wrt_append)

lemma finalize_adds:
  assumes ok: "produce_ok s" and m: "moves e tp {#} s (msgids (rkmq_msgs (rkmb_msgq batch))) s1" and rktp: "rkmb_rktp batch = tp"
    and q: "queue_ok (ps_toppars s tp) (rkmb_msgq batch)"
    and idem: "rd_kafka_is_idempotent (ps_rk s) \<Longrightarrow> rkmb_pid batch = rktp_pid (ps_toppars s tp) \<and>
      int (length (toppar_bufs tp s)) < RD_KAFKA_IDEMP_MAX_INFLIGHT \<and>
      (rkmq_msgs (rkmb_msgq batch) \<noteq> [] \<longrightarrow> batch_whole (rkmq_msgs (rkmb_msgq batch)) \<and> batch_seq_ok batch)"
  shows "rd_returns True (\<lambda>(rkbuf, s'). case rkbuf of None \<Rightarrow> adds e tp 0 s s'
      | Some batch' \<Rightarrow> adds e tp 1 s (s'\<lparr>ps_bufs := ps_bufs s' @ [\<lparr>pb_batch = batch', pb_rkb = rkb, pb_sent = False, pb_partial = False\<rparr>]\<rparr>))
    (rd_kafka_msgset_writer_finalize e batch len s1)"
proof (cases "rkmq_msgs (rkmb_msgq batch) = []")
  case True
  then have "stays e s s1" "ps_bufs s1 = ps_bufs s"
    using m by (simp_all add: moves_stays [OF ok] moves_sel(5))
  then show ?thesis using True q
    by (simp add: rd_kafka_msgset_writer_finalize_def rd_returns_def adds_def toppar_bufs_def queue_ok_def msgq_len)
next
  case False
  let ?b = "\<lparr>pb_batch = batch, pb_rkb = rkb, pb_sent = False, pb_partial = False\<rparr>"
  have inv: "produce_inv 0 tp (msgids (buf_msgs ?b)) s1"
    using moves_inv [OF m, of 0] ok by (simp add: produce_inv_ok)
  have b: "buf_ok s1 ?b"
    using False q idem moves_sel(3,6) [OF m] fun_cong [OF moves_pids [OF m], of tp] by (simp add: buf_ok_def Let_def rktp)
  have bufs: "toppar_bufs tp s1 = toppar_bufs tp s" using moves_sel(5) [OF m] by (simp add: toppar_bufs_def)
  have sent: "stays e s1 (buf_sent ?b s1)" "toppar_bufs tp (buf_sent ?b s1) = toppar_bufs tp s @ [?b]"
    using buf_sent_ok [of ?b s1] inv b idem moves_sel(3) [OF m] by (simp_all add: rktp bufs)
  have "stays e s (buf_sent ?b s1)"
    using sent(1) moves_evolves [OF m] moves_pids [OF m] by (auto simp: stays_def intro: evolves_trans)
  then have "adds e tp 1 s (buf_sent ?b s1)" using sent(2) by (simp add: adds_def)
  then show ?thesis using False q
    by (simp add: rd_kafka_msgset_writer_finalize_def rd_returns_def queue_ok_def msgq_len buf_sent_def Let_def)
qed


lemma backoff_first_moves:
  assumes "produce_ok s" "rkmq_msgs (rktp_xmit_msgq (ps_toppars s tp)) = m # ms"
  shows "moves e tp {#} s {#} (upd_toppar tp (\<lambda>rktp. rktp\<lparr>rktp_xmit_msgq :=
    (rktp_xmit_msgq (ps_toppars s tp))\<lparr>rkmq_msgs := m\<lparr>rkm_ts_backoff := t\<rparr> # ms\<rparr>\<rparr>) s)"
proof (rule moves_upd)
  let ?r = "ps_toppars s tp"
  have less: "before ?r m b \<Longrightarrow> before ?r (m\<lparr>rkm_ts_backoff := t\<rparr>) b" for b
    using ord.cmp_cong [of "m\<lparr>rkm_ts_backoff := t\<rparr>" m b b ?r] by simp
  show "queue_ok ?r (rktp_xmit_msgq (?r\<lparr>rktp_xmit_msgq :=
      (rktp_xmit_msgq ?r)\<lparr>rkmq_msgs := m\<lparr>rkm_ts_backoff := t\<rparr> # ms\<rparr>\<rparr>))"
    using ok_holds(2) [OF assms(1), of tp] assms(2) by (auto simp: queues_ok_def queue_ok_def msgq_ok_def rkm_size_def less)
qed (use ok_holds(2) [OF assms(1), of tp] assms(2) in \<open>simp_all add: rktp_same_def queues_ok_def\<close>)

lemma create_ProduceRequest_adds:
  assumes ok: "produce_ok s"
    and idem: "rd_kafka_is_idempotent (ps_rk s) \<Longrightarrow> rd_kafka_pid_valid p \<and> p = rktp_pid (ps_toppars s tp) \<and>
      int (length (toppar_bufs tp s)) < RD_KAFKA_IDEMP_MAX_INFLIGHT"
  shows "rd_returns True (\<lambda>(rkbuf, s'). case rkbuf of None \<Rightarrow> adds e tp 0 s s'
      | Some batch \<Rightarrow> adds e tp 1 s (s'\<lparr>ps_bufs := ps_bufs s' @ [\<lparr>pb_batch = batch, pb_rkb = rkb, pb_sent = False, pb_partial = False\<rparr>]\<rparr>))
    (rd_kafka_msgset_create_ProduceRequest e tp p base s)" (is "rd_returns True ?Q _")
proof -
  let ?r = "ps_toppars s tp" and ?x = "rktp_xmit_msgq (ps_toppars s tp)"
  have qx: "queue_ok ?r (rktp_msgq ?r)" "queue_ok ?r ?x" "msgq_ok ?x" using ok_holds(2) [OF ok, of tp] by (auto simp: queues_ok_def queue_ok_def)
  have none: "rd_returns True ?Q (Some (None, s))" using stays_refl [OF ok] by (simp add: rd_returns_def adds_def)
  have boff: "rd_returns True ?Q (case rkmq_msgs ?x of [] \<Rightarrow> None | rkm # rest \<Rightarrow>
      Some (None, upd_toppar tp (\<lambda>rktp. rktp\<lparr>rktp_xmit_msgq := ?x\<lparr>rkmq_msgs := rkm\<lparr>rkm_ts_backoff := t\<rparr> # rest\<rparr>\<rparr>) s))" for t
    using moves_stays [OF ok backoff_first_moves [OF ok]]
    by (auto simp: rd_returns_def adds_def toppar_bufs_def split: list.splits)
  have wr: "rd_returns True ?Q (do {
       (rkmq, msgq) \<leftarrow> (if wok then Some (q', rkmb_msgq b) else rd_kafka_msgq_insert_msgq q' (rkmb_msgq b) (msg_order_cmp ?r));
       rd_kafka_msgset_writer_finalize e (b\<lparr>rkmb_msgq := msgq\<rparr>) (len - pe_buf_len e)
         (upd_toppar tp (\<lambda>rktp. rktp\<lparr>rktp_xmit_msgq := rkmq\<rparr>) (s\<lparr>ps_rk := rk'\<rparr>))})"
    if w: "rd_kafka_msgset_writer_write_msgq e ver (ps_conf s) maxcnt (ps_rk s) ?x (rd_kafka_msgbatch_init tp p base) =
        Some (wok, rk', q', b, len)" for ver maxcnt wok rk' q' b len
  proof -
    from write_msgq_ok [OF w qx(3)] obtain taken where t: "rkmq_msgs ?x = taken @ rkmq_msgs q'" "msgq_ok q'" "msgq_ok (rkmb_msgq b)"
        "rkmq_msgs (rkmb_msgq b) = taken" "rkmb_rktp b = tp" "rkmb_pid b = p"
        "rk' = ps_rk s \<or> rk' = snd (rd_kafka_set_fatal_error0 (ps_rk s) RESP_ERR__INCONSISTENT)"
        "wok \<and> rd_kafka_pid_valid p \<and> taken \<noteq> [] \<longrightarrow> batch_whole taken \<and> batch_seq_ok b" by blast
    note part = split_queue_ok [OF qx(2) t(1-4)]
    have rk: "moves e tp {#} s {#} (s\<lparr>ps_rk := rk'\<rparr>)"
      using t(7) keeps_instance_fatal by (intro moves_rk ok_holds(2) [OF ok]) auto
    have once: "ids_once (msgids (rkmq_msgs q') + msgids (rkmq_msgs (rkmb_msgq b)))"
      by (rule inv_holds_part [OF ok, of _ tp]) (simp add: part(3) ac_simps)
    have ins: "rd_returns True (\<lambda>(x, msgq). queue_ok ?r x \<and> queue_ok ?r msgq \<and>
          msgids (rkmq_msgs x) + msgids (rkmq_msgs msgq) = msgids (rkmq_msgs ?x) \<and>
          (rd_kafka_pid_valid p \<and> rkmq_msgs msgq \<noteq> [] \<longrightarrow> batch_whole (rkmq_msgs msgq) \<and> batch_seq_ok (b\<lparr>rkmb_msgq := msgq\<rparr>)))
        (if wok then Some (q', rkmb_msgq b) else rd_kafka_msgq_insert_msgq q' (rkmb_msgq b) (msg_order_cmp ?r))"
      by (intro rd_returns_if rd_returns_Some rd_returns_mono [OF insert_msgq_moves [OF part(1,2) once]])
         (use part t(4,8) in \<open>auto intro: queue_ok_empty simp: ac_simps\<close>)
    show ?thesis
    proof (rule rd_returns_bind [OF ins], clarify)
      fix x msgq
      assume a: "queue_ok ?r x" "queue_ok ?r msgq" "msgids (rkmq_msgs x) + msgids (rkmq_msgs msgq) = msgids (rkmq_msgs ?x)"
        and wh: "rd_kafka_pid_valid p \<and> rkmq_msgs msgq \<noteq> [] \<longrightarrow>
          batch_whole (rkmq_msgs msgq) \<and> batch_seq_ok (b\<lparr>rkmb_msgq := msgq\<rparr>)"
      have "moves e tp {#} (s\<lparr>ps_rk := rk'\<rparr>) (msgids (rkmq_msgs msgq)) (upd_toppar tp (\<lambda>rktp. rktp\<lparr>rktp_xmit_msgq := x\<rparr>) (s\<lparr>ps_rk := rk'\<rparr>))"
        using a qx(1) by (intro moves_upd) (simp_all add: rktp_same_def a(3) [symmetric] ac_simps)
      note mv = moves_trans [OF rk this]
      show "rd_returns True ?Q (rd_kafka_msgset_writer_finalize e (b\<lparr>rkmb_msgq := msgq\<rparr>) (len - pe_buf_len e)
          (upd_toppar tp (\<lambda>rktp. rktp\<lparr>rktp_xmit_msgq := x\<rparr>) (s\<lparr>ps_rk := rk'\<rparr>)))"
        by (rule finalize_adds [OF ok]) (use mv t(5,6) a(2) wh idem in auto)
    qed
  qed
  have wrote: "rd_returns True (\<lambda>(wok, rk', q', b, len).
      rd_kafka_msgset_writer_write_msgq e ver (ps_conf s) maxcnt (ps_rk s) ?x (rd_kafka_msgbatch_init tp p base) = Some (wok, rk', q', b, len))
    (rd_kafka_msgset_writer_write_msgq e ver (ps_conf s) maxcnt (ps_rk s) ?x (rd_kafka_msgbatch_init tp p base))" for ver maxcnt
    by (auto simp: rd_returns_def split: option.splits)
  show ?thesis unfolding rd_kafka_msgset_create_ProduceRequest_def Let_def
  proof (intro rd_returns_if none)
    show "rd_returns True ?Q (case pe_MsgVersion e of None \<Rightarrow>
        (case rkmq_msgs ?x of [] \<Rightarrow> None | rkm # rest \<Rightarrow> Some (None, upd_toppar tp (\<lambda>rktp. rktp\<lparr>rktp_xmit_msgq :=
           ?x\<lparr>rkmq_msgs := rkm\<lparr>rkm_ts_backoff := pe_clock e + 5 * 1000 * 1000\<rparr> # rest\<rparr>\<rparr>) s))
      | Some ver \<Rightarrow> if min (rd_kafka_msgq_len ?x) (pc_batch_num_messages (ps_conf s)) \<le> 0 then Some (None, s)
        else do {
          (wok, rk', q', b, len) \<leftarrow> rd_kafka_msgset_writer_write_msgq e ver (ps_conf s)
             (min (rd_kafka_msgq_len ?x) (pc_batch_num_messages (ps_conf s))) (ps_rk s) ?x (rd_kafka_msgbatch_init tp p base);
          (rkmq, msgq) \<leftarrow> (if wok then Some (q', rkmb_msgq b) else rd_kafka_msgq_insert_msgq q' (rkmb_msgq b) (msg_order_cmp ?r));
          rd_kafka_msgset_writer_finalize e (b\<lparr>rkmb_msgq := msgq\<rparr>) (len - pe_buf_len e)
            (upd_toppar tp (\<lambda>rktp. rktp\<lparr>rktp_xmit_msgq := rkmq\<rparr>) (s\<lparr>ps_rk := rk'\<rparr>))})"
    proof (cases "pe_MsgVersion e")
      case (Some ver)
      show ?thesis unfolding Some option.case
        by (intro rd_returns_if none rd_returns_bind [OF wrote]) (simp add: case_prod_beta wr)
    qed (use boff in simp)
  qed
qed


lemma ProduceRequest_adds:
  assumes "produce_ok s"
    "rd_kafka_is_idempotent (ps_rk s) \<Longrightarrow> rd_kafka_pid_valid p \<and> p = rktp_pid (ps_toppars s tp) \<and>
      int (length (toppar_bufs tp s)) < RD_KAFKA_IDEMP_MAX_INFLIGHT"
  shows "rd_returns True (\<lambda>(n, s'). adds e tp 1 s s') (rd_kafka_ProduceRequest e rkb tp p base s)"
  unfolding rd_kafka_ProduceRequest_def
  by (rule rd_returns_bind [OF create_ProduceRequest_adds [OF assms, where rkb = rkb]])
     (auto simp: rd_returns_def adds_def split: option.splits)

lemma adds_trans: "adds e tp n s1 s2 \<Longrightarrow> adds e tp m s2 s3 \<Longrightarrow> adds e tp (n + m) s1 s3"
  by (auto simp: adds_def intro: stays_trans)

lemma requests_loop_stays:
  assumes "produce_ok s"
    "rd_kafka_is_idempotent (ps_rk s) \<Longrightarrow> rd_kafka_pid_valid p \<and> p = rktp_pid (ps_toppars s tp) \<and>
      int (length (toppar_bufs tp s) + n) \<le> RD_KAFKA_IDEMP_MAX_INFLIGHT"
  shows "rd_returns True (\<lambda>(cnt, s'). stays e s s') (produce_requests_loop e rkb tp p base n cnt s)"
  using assms
proof (induction n arbitrary: cnt s)
  case 0
  then show ?case by (simp add: rd_returns_def stays_refl)
next
  case (Suc n)
  have req: "rd_kafka_is_idempotent (ps_rk s) \<Longrightarrow> rd_kafka_pid_valid p \<and> p = rktp_pid (ps_toppars s tp) \<and>
      int (length (toppar_bufs tp s)) < RD_KAFKA_IDEMP_MAX_INFLIGHT" using Suc.prems(2) by auto
  show ?case unfolding produce_requests_loop.simps
  proof (rule rd_returns_bind [OF ProduceRequest_adds [where e = e, OF Suc.prems(1) req]], assumption, clarify)
    fix r s1
    assume s1: "adds e tp 1 s s1"
    then have st: "stays e s s1" "length (toppar_bufs tp s1) \<le> length (toppar_bufs tp s) + 1" by (simp_all add: adds_def)
    have "rd_kafka_is_idempotent (ps_rk s1) = rd_kafka_is_idempotent (ps_rk s)" "rktp_pid (ps_toppars s1 tp) = rktp_pid (ps_toppars s tp)"
      using st(1) by (auto simp: stays_def evolves_idempotent dest: fun_cong)
    then have "rd_returns True (\<lambda>(cnt, s'). stays e s1 s') (produce_requests_loop e rkb tp p base n (cnt + r) s1)"
      using Suc.prems(2) st by (intro Suc.IH) (auto simp: stays_def)
    then have "rd_returns True (\<lambda>(cnt, s'). stays e s s') (produce_requests_loop e rkb tp p base n (cnt + r) s1)"
      by (rule rd_returns_mono) (auto intro: stays_trans [OF st(1)])
    then show "rd_returns True (\<lambda>(cnt, s'). stays e s s')
        (if 0 < r then produce_requests_loop e rkb tp p base n (cnt + r) s1 else Some (cnt, s1))"
      using st(1) by (simp add: rd_returns_def)
  qed
qed

text \<open>A partition changes its producer id only when it has nothing in flight.\<close>

lemma length_le_sum_list: "(\<And>x. x \<in> set xs \<Longrightarrow> 1 \<le> f x) \<Longrightarrow> length xs \<le> sum_list (map f xs)"
proof (induction xs)
  case (Cons x xs)
  then have "length xs \<le> sum_list (map f xs)" "1 \<le> f x" by simp_all
  then show ?case by simp
qed simp

lemma inflight_no_bufs:
  assumes "produce_ok s"
  shows "int (length (toppar_bufs tp s)) \<le> rktp_msgs_inflight (ps_toppars s tp)"
proof -
  have "1 \<le> length (buf_msgs b)" if "b \<in> set (toppar_bufs tp s)" for b
    using assms that by (cases "buf_msgs b") (auto simp: produce_ok_def buf_ok_def Let_def toppar_bufs_def)
  then have "length (toppar_bufs tp s) \<le> sum_list (map (length \<circ> buf_msgs) (toppar_bufs tp s))"
    by (intro length_le_sum_list) simp
  moreover have "rktp_msgs_inflight (ps_toppars s tp) = int (length (inflight_msgs tp s))"
    using assms by (simp add: produce_ok_def toppar_ok_def Let_def)
  ultimately show ?thesis by (simp add: inflight_msgs_def length_concat)
qed

lemma pid_change_ok:
  assumes "produce_ok s" "rd_kafka_toppar_pid_change tp p base s = Some (changed, s')"
  shows "produce_ok s'" "produce_evolves e s s'" "changed \<Longrightarrow> rktp_pid (ps_toppars s' tp) = p" "toppar_bufs tp s' = toppar_bufs tp s"
    "rktp_msgs_inflight (ps_toppars s' tp) = rktp_msgs_inflight (ps_toppars s tp)"
proof -
  let ?f = "\<lambda>rktp. rd_kafka_toppar_reset_base_msgid base (rktp\<lparr>rktp_pid := p\<rparr>)"
  consider "\<not> changed" "s' = s" | "changed" "rktp_msgs_inflight (ps_toppars s tp) \<le> 0" "s' = upd_toppar tp ?f s"
    using assms(2) by (auto simp: rd_kafka_toppar_pid_change_def split: if_splits)
  then have "produce_ok s' \<and> produce_evolves e s s' \<and> (changed \<longrightarrow> rktp_pid (ps_toppars s' tp) = p) \<and> toppar_bufs tp s' = toppar_bufs tp s \<and>
    rktp_msgs_inflight (ps_toppars s' tp) = rktp_msgs_inflight (ps_toppars s tp)"
  proof cases
    case 2
    have "length (toppar_bufs tp s) = 0" using inflight_no_bufs [OF assms(1), of tp] 2(2) by linarith
    then have "toppar_bufs tp s = []" by simp
    moreover have "toppar_ok s {#} tp" using assms(1) by (simp add: produce_ok_def)
    ultimately have "produce_inv 0 tp {#} (upd_toppar tp ?f s)"
      using assms(1)
      by (intro inv_toppar [where H = "{#}"])
         (simp_all add: produce_inv_ok toppar_ok_def Let_def settled_ids_def queues_ok_def inflight_msgs_def toppar_bufs_def
           rd_kafka_toppar_reset_base_msgid_def queue_ok_def msg_order_cmp_def)
    then show ?thesis using 2
      by (simp add: produce_inv_ok produce_evolves_def rd_kafka_toppar_reset_base_msgid_def toppar_bufs_def)
  qed (use assms(1) in simp)
  then show "produce_ok s'" "produce_evolves e s s'" "changed \<Longrightarrow> rktp_pid (ps_toppars s' tp) = p" "toppar_bufs tp s' = toppar_bufs tp s"
    "rktp_msgs_inflight (ps_toppars s' tp) = rktp_msgs_inflight (ps_toppars s tp)" by simp_all
qed


definition keeps_ok :: "produce_env \<Rightarrow> produce_t \<Rightarrow> produce_t \<Rightarrow> bool" where
  "keeps_ok e s s' \<longleftrightarrow> produce_ok s' \<and> produce_evolves e s s'"

lemma keeps_ok_trans: "keeps_ok e s1 s2 \<Longrightarrow> keeps_ok e s2 s3 \<Longrightarrow> keeps_ok e s1 s3"
  by (auto simp: keeps_ok_def intro: evolves_trans)

lemma stays_keeps: "stays e s s' \<Longrightarrow> keeps_ok e s s'"
  by (simp add: stays_def keeps_ok_def)

lemma keeps_stays: "keeps_ok e s s1 \<Longrightarrow> stays e s1 s' \<Longrightarrow> keeps_ok e s s'"
  by (auto simp: stays_def keeps_ok_def intro: evolves_trans)

lemma pid_eq: "rd_kafka_pid_eq a b \<longleftrightarrow> a = b"
  by (cases a, cases b) (simp add: rd_kafka_pid_eq_def)

lemma serve_send_keeps:
  assumes "produce_ok s" "rd_kafka_is_idempotent (ps_rk s) \<Longrightarrow> 0 < max_requests \<Longrightarrow> rd_kafka_pid_valid cur_pid"
    "rd_kafka_is_idempotent (ps_rk s) \<Longrightarrow> max_requests \<le> RD_KAFKA_IDEMP_MAX_INFLIGHT - rktp_msgs_inflight (ps_toppars s tp)"
  shows "rd_returns True (\<lambda>(n, w, s'). keeps_ok e s s') (serve_send e rkb tp cur_pid now w fl ready max_requests s)"
proof (cases "max_requests \<le> 0 \<or> rkmq_msg_cnt (rktp_xmit_msgq (ps_toppars s tp)) = 0")
  case True
  then show ?thesis using stays_keeps [OF stays_refl [OF assms(1)]] by (simp add: serve_send_def rd_returns_def)
next
  case go: False
  let ?x = "rkmq_msgs (rktp_xmit_msgq (ps_toppars s tp))"
  define R where "R = (\<lambda>(proceed, s1). keeps_ok e s s1 \<and> (proceed \<and> rd_kafka_is_idempotent (ps_rk s) \<longrightarrow>
      cur_pid = rktp_pid (ps_toppars s1 tp) \<and> int (length (toppar_bufs tp s1)) + max_requests \<le> RD_KAFKA_IDEMP_MAX_INFLIGHT))"
  have room: "int (length (toppar_bufs tp s)) + max_requests \<le> RD_KAFKA_IDEMP_MAX_INFLIGHT" if "rd_kafka_is_idempotent (ps_rk s)"
    using inflight_no_bufs [OF assms(1), of tp] assms(3) [OF that] by linarith
  have chg: "rd_returns True R (if rd_kafka_is_idempotent (ps_rk s) \<and> \<not> rd_kafka_pid_eq cur_pid (rktp_pid (ps_toppars s tp))
      then rd_kafka_toppar_pid_change tp cur_pid base s else Some (True, s))" for base
  proof (intro rd_returns_if rd_returns_Some)
    have "R (c, s1)" if "rd_kafka_toppar_pid_change tp cur_pid base s = Some (c, s1)" for c s1
      using pid_change_ok(1,3,4) [OF assms(1) that] pid_change_ok(2) [OF assms(1) that, of e] room by (auto simp: R_def keeps_ok_def)
    then show "rd_returns True R (rd_kafka_toppar_pid_change tp cur_pid base s)" by (auto simp: rd_returns_def split: option.splits)
  qed (use room assms(1) in \<open>auto simp: R_def keeps_ok_def pid_eq\<close>)
  have loop: "rd_returns True (\<lambda>(cnt, s'). keeps_ok e s s') (produce_requests_loop e rkb tp cur_pid base (nat max_requests) 0 s1)"
    if "R (True, s1)" for s1 base
    by (rule rd_returns_mono [OF requests_loop_stays [where e = e]])
       (use that assms(2) go evolves_idempotent(1) [of e s s1] in \<open>auto simp: R_def keeps_ok_def intro: evolves_trans simp: stays_def\<close>)
  have wake: "keeps_ok e s (snd (snd (serve_allow_wakeup e tp w' now fl s1)))" if "keeps_ok e s s1" for w' s1
    by (rule keeps_stays [OF that], rule allow_wakeup_stays) (use that in \<open>simp add: keeps_ok_def\<close>)
  have pfx: "keeps_ok e s (pfx y s1)" if "keeps_ok e s s1" for y s1
    using that by (simp add: keeps_ok_def ok_pfx produce_evolves_def)
  show ?thesis unfolding serve_send_def if_not_P [OF go]
  proof (cases ?x)
    case (Cons m ms)
    show "rd_returns True (\<lambda>(n, w, s'). keeps_ok e s s') (case ?x of [] \<Rightarrow> None | rkm # _ \<Rightarrow> do {
          (proceed, s) \<leftarrow>
            (if rd_kafka_is_idempotent (ps_rk s) \<and> \<not> rd_kafka_pid_eq cur_pid (rktp_pid (ps_toppars s tp))
             then rd_kafka_toppar_pid_change tp cur_pid (rkm_msgid rkm) s
             else Some (True, s));
          if \<not> proceed then Some (0, w, s)
          else do {
            let epoch_base_msgid = (if rd_kafka_is_idempotent (ps_rk s)
                                    then rktp_epoch_base_msgid (ps_toppars s tp) else 0);
            if \<not> pe_up e rkb then Some (0, w, pfx (PFX_PERSISTCONN rkb) s)
            else if \<not> ready then Some (0, w, s)
            else do {
              (cnt, s) \<leftarrow> produce_requests_loop e rkb tp cur_pid epoch_base_msgid (nat max_requests) 0 s;
              if cnt > 0
              then let (ready, nxt, s) = serve_allow_wakeup e tp (Some w) now fl s
                   in Some (cnt, the nxt, s)
              else Some (cnt, w, s)
            }
          }
        })"
      unfolding Cons list.case Let_def
      by (rule rd_returns_bind [OF chg], clarify, intro rd_returns_if rd_returns_bind [OF loop] rd_returns_Some)
         (auto simp: R_def pfx rd_returns_def split: prod.splits dest: wake [of _ "Some w"])
  qed (simp add: rd_returns_def)
qed


lemma producer_serve_keeps:
  assumes "produce_ok s" "rd_kafka_is_idempotent (ps_rk s) \<Longrightarrow> may_send \<Longrightarrow> rd_kafka_pid_valid cur_pid"
  shows "rd_returns True (\<lambda>(n, w, s'). keeps_ok e s s')
    (rd_kafka_toppar_producer_serve e rkb tp cur_pid now w scan may_send fl s)"
proof (cases "rktp_broker (ps_toppars s tp) \<noteq> Some rkb")
  case True
  then show ?thesis using assms(1) by (simp add: rd_kafka_toppar_producer_serve_def rd_returns_def keeps_ok_def)
next
  case False
  let ?Q = "\<lambda>(n :: int, w :: int, s'). keeps_ok e s s'"
  have send: "rd_returns True ?Q (serve_send e rkb tp cur_pid now w' fl ready max2 s2)"
    if s2: "keeps_ok e s s2" "0 < max2 \<longrightarrow> may_send" "rd_kafka_is_idempotent (ps_rk s) \<longrightarrow>
        max2 \<le> RD_KAFKA_IDEMP_MAX_INFLIGHT - rktp_msgs_inflight (ps_toppars s2 tp)" for s2 max2 ready w'
  proof -
    have "produce_ok s2" "rd_kafka_is_idempotent (ps_rk s2) = rd_kafka_is_idempotent (ps_rk s)"
      using s2(1) evolves_idempotent(1) [of e s s2] by (simp_all add: keeps_ok_def)
    then show ?thesis using assms(2) s2(2,3)
      by (intro rd_returns_mono [OF serve_send_keeps [where e = e]]) (auto intro: keeps_ok_trans [OF s2(1)])
  qed
  have drain: "rd_returns True ?Q (do {
      drain \<leftarrow> serve_drain e rkb tp cur_pid max1 s1;
      case drain of Inl s \<Rightarrow> Some (0, w', s)
      | Inr (max_requests, s) \<Rightarrow> serve_send e rkb tp cur_pid now w' fl ready max_requests s})"
    if s1: "keeps_ok e s s1" "0 < max1 \<longrightarrow> may_send" for s1 max1 ready w'
  proof -
    have ok: "produce_ok s1" "rd_kafka_is_idempotent (ps_rk s1) = rd_kafka_is_idempotent (ps_rk s)"
      using s1(1) evolves_idempotent(1) [of e s s1] by (simp_all add: keeps_ok_def)
    show ?thesis
      by (rule rd_returns_bind [OF serve_drain_stays [OF ok(1), where e = e]])
         (use s1(2) in \<open>auto simp: ok(2) rd_returns_Some split: sum.splits intro!: send intro: keeps_stays [OF s1(1)] rd_returns_Some\<close>)
  qed
  have move: "rd_returns True ?Q (do {
      (max_requests, ready, w, s) \<leftarrow> serve_move e rkb tp now w' may_send fl maxr s1;
      drain \<leftarrow> serve_drain e rkb tp cur_pid max_requests s;
      case drain of Inl s \<Rightarrow> Some (0, w, s)
      | Inr (max_requests, s) \<Rightarrow> serve_send e rkb tp cur_pid now w fl ready max_requests s})"
    if s1: "stays e s s1" for s1 maxr w'
    by (rule rd_returns_bind [OF serve_move_stays [OF stays_ok [OF s1], where e = e]])
       (auto intro!: drain intro: stays_keeps stays_trans [OF s1])
  have scan: "rd_returns True (\<lambda>r. case r of Inl (w, s') \<Rightarrow> stays e s s' | Inr (w, s') \<Rightarrow> stays e s s')
      (if scan then serve_timeout_scan e tp cur_pid now w s else Some (Inr (w, s)))"
    using serve_timeout_scan_stays [OF assms(1), of True] stays_refl [OF assms(1)] by (simp add: rd_returns_def)
  show ?thesis unfolding rd_kafka_toppar_producer_serve_def Let_def if_not_P [OF False]
    by (rule rd_returns_bind [OF scan]) (auto split: sum.splits intro!: move intro: stays_keeps rd_returns_Some)
qed

lemma produce_toppars_loop_keeps:
  assumes "produce_ok s" "rd_kafka_is_idempotent (ps_rk s) \<Longrightarrow> may_send \<Longrightarrow> rd_kafka_pid_valid cur_pid"
  shows "rd_returns True (\<lambda>(n, w, s'). keeps_ok e s s') (produce_toppars_loop e rkb cur_pid now scan may_send fl tps cnt w s)"
  using assms
proof (induction tps arbitrary: cnt w s)
  case Nil
  then show ?case by (simp add: rd_returns_def keeps_ok_def)
next
  case (Cons tp tps)
  show ?case unfolding produce_toppars_loop.simps
  proof (rule rd_returns_bind [OF producer_serve_keeps [where e = e, OF Cons.prems]], assumption, assumption, clarify)
    fix r w1 s1
    assume s1: "keeps_ok e s s1"
    have "rd_returns True (\<lambda>(n, w, s'). keeps_ok e s1 s')
        (produce_toppars_loop e rkb cur_pid now scan may_send fl tps (cnt + r) (rd_kafka_set_next_wakeup w w1) s1)"
      using s1 Cons.prems(2) evolves_idempotent(1) [of e s s1] by (intro Cons.IH) (auto simp: keeps_ok_def)
    then show "rd_returns True (\<lambda>(n, w, s'). keeps_ok e s s')
        (produce_toppars_loop e rkb cur_pid now scan may_send fl tps (cnt + r) (rd_kafka_set_next_wakeup w w1) s1)"
      by (rule rd_returns_mono) (auto intro: keeps_ok_trans [OF s1])
  qed
qed

lemma produce_toppars_keeps:
  assumes "produce_ok s"
  shows "rd_returns True (\<lambda>(n, w, s'). keeps_ok e s s') (rd_kafka_broker_produce_toppars e rkb active now w scan s)"
  unfolding rd_kafka_broker_produce_toppars_def Let_def
  by (intro rd_returns_if rd_returns_Some produce_toppars_loop_keeps)
     (use assms in \<open>auto simp: keeps_ok_def produce_may_send_def\<close>)

section \<open>Joining and leaving a broker\<close>

lemma partition_join_stays:
  assumes "produce_ok s"
  shows "rd_returns True (stays e s) (op_partition_join e rkb tp s)"
proof -
  have st: "stays e s (upd_toppar tp f s)" if "\<And>r. rktp_same r (f r) \<and> rktp_msgq (f r) = rktp_msgq r \<and> rktp_xmit_msgq (f r) = rktp_xmit_msgq r" for f
    by (rule moves_stays [OF assms], rule moves_keep [OF ok_holds(2) [OF assms]]) (use that in simp_all)
  let ?f = "\<lambda>rktp. rktp\<lparr>rktp_on_rkb := True, rktp_broker := Some rkb, rktp_msgq_wakeup_q := True, rktp_next_broker := None\<rparr>"
  have drain: "stays e s ((upd_toppar tp ?f s)\<lparr>ps_rk := rd_kafka_idemp_drain_toppar (ps_rk s) tp\<rparr>)"
  proof -
    have "stays e s (upd_toppar tp ?f s)" by (rule st) (simp add: rktp_same_def)
    from stays_moves [OF this moves_rk [OF ok_holds(2) [OF stays_ok [OF this], of tp] keeps_drain_toppar [of _ _ tp]]]
    show ?thesis by simp
  qed
  show ?thesis unfolding op_partition_join_def Let_def
    using drain stays_refl [OF assms] st [of ?f] st [of "\<lambda>rktp. rktp\<lparr>rktp_next_broker := None\<rparr>"]
    by (auto simp: rd_returns_def rktp_same_def stays_pfx split: option.splits)
qed

lemma partition_leave_keeps:
  assumes "produce_ok s"
  shows "rd_returns True (keeps_ok e s) (op_partition_leave e rkb tp s)"
  unfolding op_partition_leave_def Let_def
proof (intro rd_returns_if rd_returns_Some rd_returns_bind [OF bufq_purge_stays [OF assms, where e = e]])
  show "keeps_ok e s s" by (rule stays_keeps [OF stays_refl [OF assms]])
next
  fix s1
  assume s1: "stays e s s1"
  let ?r = "ps_toppars s1 tp"
  have ok: "queue_ok ?r (rktp_msgq ?r)" "queue_ok ?r (rktp_xmit_msgq ?r)"
    using ok_holds(2) [OF stays_ok [OF s1]] by (simp_all add: queues_ok_def)
  have once: "ids_once (msgids (rkmq_msgs (rktp_msgq ?r)) + msgids (rkmq_msgs (rktp_xmit_msgq ?r)))"
    by (rule inv_holds_part [OF stays_ok [OF s1], of _ tp]) simp
  define f :: "rd_kafka_msgq \<Rightarrow> rd_kafka_msgq \<Rightarrow> rd_kafka_toppar_t \<Rightarrow> rd_kafka_toppar_t" where "f q x = (\<lambda>rktp. rktp\<lparr>rktp_msgq := q, rktp_xmit_msgq := x, rktp_broker := None,
      rktp_msgq_wakeup_q := False, rktp_on_rkb := False\<rparr>)" for q x
  have upd: "moves e tp {#} s1 {#} (upd_toppar tp (f q x) s1)"
    "moves e tp {#} s1 (msgids (rkmq_msgs q)) (upd_toppar tp (\<lambda>rktp. rktp\<lparr>rktp_msgq := rd_kafka_msgq_init q\<rparr>) (upd_toppar tp (f q x) s1))"
    if "queue_ok ?r q" "msgids (rkmq_msgs q) = msgids (rkmq_msgs (rktp_msgq ?r)) + msgids (rkmq_msgs (rktp_xmit_msgq ?r))"
      "msgq_ok x" "rkmq_msgs x = []" for q x
  proof -
    show m: "moves e tp {#} s1 {#} (upd_toppar tp (f q x) s1)"
      by (rule moves_upd) (use that in \<open>simp_all add: f_def rktp_same_def queue_ok_empty\<close>)
    have "moves e tp {#} (upd_toppar tp (f q x) s1) (msgids (rkmq_msgs q))
        (upd_toppar tp (\<lambda>rktp. rktp\<lparr>rktp_msgq := rd_kafka_msgq_init q\<rparr>) (upd_toppar tp (f q x) s1))"
      using that by (intro moves_upd) (simp_all add: f_def rktp_same_def queue_ok_empty)
    with m show "moves e tp {#} s1 (msgids (rkmq_msgs q))
        (upd_toppar tp (\<lambda>rktp. rktp\<lparr>rktp_msgq := rd_kafka_msgq_init q\<rparr>) (upd_toppar tp (f q x) s1))" by (rule moves_trans)
  qed
  note fin = stays_keeps [OF stays_moves [OF s1]]
  have last: "rd_returns True (keeps_ok e s) (if \<not> on then None else case nb of
        None \<Rightarrow> if left then None else Some (rd_kafka_dr_msgq tp q err
          (upd_toppar tp (\<lambda>rktp. rktp\<lparr>rktp_msgq := rd_kafka_msgq_init q\<rparr>) (upd_toppar tp (f q x) s1)))
      | Some nxt \<Rightarrow> Some (pfx (PFX_JOIN nxt tp) (upd_toppar tp (f q x) s1)))"
    if q: "queue_ok ?r q" "msgids (rkmq_msgs q) = msgids (rkmq_msgs (rktp_msgq ?r)) + msgids (rkmq_msgs (rktp_xmit_msgq ?r))"
      "msgq_ok x" "rkmq_msgs x = []" for q x on left nb err
  proof -
    have "keeps_ok e s (rd_kafka_dr_msgq tp q err
        (upd_toppar tp (\<lambda>rktp. rktp\<lparr>rktp_msgq := rd_kafka_msgq_init q\<rparr>) (upd_toppar tp (f q x) s1)))"
      by (rule fin, rule moves_report [of e tp]) (use upd(2) [OF q] q(1) in \<open>simp_all add: queue_ok_def\<close>)
    moreover have "keeps_ok e s (pfx (PFX_JOIN nxt tp) (upd_toppar tp (f q x) s1))" for nxt
      by (rule fin, rule moves_pfx, rule upd(1) [OF q])
    ultimately show ?thesis by (cases nb) (simp_all add: rd_returns_def)
  qed
  show "rd_returns True (keeps_ok e s) (do {
      (msgq, xmit_msgq) \<leftarrow> rd_kafka_msgq_insert_msgq (rktp_msgq ?r) (rktp_xmit_msgq ?r) (msg_order_cmp ?r);
      if \<not> rktp_on_rkb ?r then None
      else case rktp_next_broker ?r of
        None \<Rightarrow> if rd_kafka_msgq_len xmit_msgq \<noteq> 0 then None
            else Some (rd_kafka_dr_msgq tp msgq
                   (if ev_terminating (pe_env e) then RESP_ERR__DESTROY
                    else if pe_topic_err e (fst tp) \<noteq> 0 then pe_topic_err e (fst tp) else RESP_ERR__UNKNOWN_PARTITION)
                   (upd_toppar tp (\<lambda>rktp. rktp\<lparr>rktp_msgq := rd_kafka_msgq_init msgq\<rparr>)
                     (upd_toppar tp (\<lambda>rktp. rktp\<lparr>rktp_msgq := msgq, rktp_xmit_msgq := xmit_msgq, rktp_broker := None,
                                            rktp_msgq_wakeup_q := False, rktp_on_rkb := False\<rparr>) s1)))
      | Some nxt \<Rightarrow> Some (pfx (PFX_JOIN nxt tp) (upd_toppar tp (\<lambda>rktp. rktp\<lparr>rktp_msgq := msgq, rktp_xmit_msgq := xmit_msgq,
            rktp_broker := None, rktp_msgq_wakeup_q := False, rktp_on_rkb := False\<rparr>) s1))})"
    unfolding f_def [symmetric]
    by (rule rd_returns_bind [OF insert_msgq_moves [OF ok once]], clarify, rule last)
qed simp_all

end
