(* ===== verification/Produce_Conf.thy ===== *)
theory Produce_Conf
  imports Produce_Ops
begin

text \<open>
  Finalizing the configuration of a producer and of its topics (\<open>src/src/rdkafka_conf.c\<close>) and creating a
  partition (\<open>src/src/rdkafka_partition.c\<close>). An error is the message that is returned. \<open>linger.ms\<close>, a double
  of milliseconds, is taken in microseconds, the precision it is used with.
\<close>

section \<open>Configuration\<close>

text \<open>The properties whose values the application may have set, and the errors.\<close>

datatype conf_property =
    P_enable_idempotence | P_socket_timeout_ms | P_enable_gapless_guarantee | P_max_in_flight
  | P_retries | P_queue_buffering_backpressure_threshold | P_sticky_partitioning_linger_ms | P_linger_ms

datatype topic_conf_property = P_acks | P_queuing_strategy | P_message_timeout_ms

datatype rd_kafka_conf_error =
    CONF_TRANSACTIONAL_REQUIRES_IDEMPOTENCE | CONF_SOCKET_TIMEOUT | CONF_GAPLESS_REQUIRES_IDEMPOTENCE
  | CONF_MAX_INFLIGHT | CONF_RETRIES | CONF_BACKPRESSURE
  | CONF_ACKS | CONF_QUEUING_STRATEGY | CONF_MESSAGE_TIMEOUT
  | CONF_LINGER

record rd_kafka_client_conf =
  kc_transactional_id :: "string option"
  kc_transaction_timeout_ms :: int
  kc_idempotence :: bool
  kc_gapless :: bool
  kc_socket_timeout_ms :: int
  kc_max_inflight :: int
  kc_max_retries :: int
  kc_queue_backpressure_thres :: int
  kc_buffering_max_us :: int
  kc_sticky_partition_linger_ms :: int
  kc_modified :: "conf_property list"

definition rd_kafka_conf_is_modified :: "rd_kafka_client_conf \<Rightarrow> conf_property \<Rightarrow> bool" where
  "rd_kafka_conf_is_modified conf name = (name \<in> set (kc_modified conf))"

record rd_kafka_topic_conf_t =
  tc_required_acks :: int
  tc_queuing_fifo :: bool
  tc_message_timeout_ms :: int
  tc_modified :: "topic_conf_property list"

definition rd_kafka_topic_conf_is_modified :: "rd_kafka_topic_conf_t \<Rightarrow> topic_conf_property \<Rightarrow> bool" where
  "rd_kafka_topic_conf_is_modified tconf name = (name \<in> set (tc_modified tconf))"

text \<open>A transactional id enables idempotence, and limits the socket timeout.\<close>

definition conf_finalize_transactional :: "rd_kafka_client_conf \<Rightarrow> rd_kafka_conf_error + rd_kafka_client_conf" where
  "conf_finalize_transactional conf =
     (if kc_transactional_id conf = None then Inr conf
      else if \<not> kc_idempotence conf \<and> rd_kafka_conf_is_modified conf P_enable_idempotence
      then Inl CONF_TRANSACTIONAL_REQUIRES_IDEMPOTENCE
      else
        let conf = conf\<lparr>kc_idempotence := True\<rparr> in
        if \<not> rd_kafka_conf_is_modified conf P_socket_timeout_ms
        then Inr (conf\<lparr>kc_socket_timeout_ms := max (kc_transaction_timeout_ms conf - 100) 900\<rparr>)
        else if kc_transaction_timeout_ms conf + 100 < kc_socket_timeout_ms conf
        then Inl CONF_SOCKET_TIMEOUT
        else Inr conf)"

definition conf_finalize_idempotent :: "rd_kafka_client_conf \<Rightarrow> rd_kafka_conf_error + rd_kafka_client_conf" where
  "conf_finalize_idempotent conf =
     (if \<not> kc_idempotence conf
      then if kc_gapless conf \<and> rd_kafka_conf_is_modified conf P_enable_gapless_guarantee
           then Inl CONF_GAPLESS_REQUIRES_IDEMPOTENCE
           else Inr conf
      else if rd_kafka_conf_is_modified conf P_max_in_flight \<and> kc_max_inflight conf > RD_KAFKA_IDEMP_MAX_INFLIGHT
      then Inl CONF_MAX_INFLIGHT
      else
        let conf = (if rd_kafka_conf_is_modified conf P_max_in_flight then conf
                    else conf\<lparr>kc_max_inflight := min (kc_max_inflight conf) RD_KAFKA_IDEMP_MAX_INFLIGHT\<rparr>) in
        if rd_kafka_conf_is_modified conf P_retries \<and> kc_max_retries conf < 1
        then Inl CONF_RETRIES
        else
          let conf = (if rd_kafka_conf_is_modified conf P_retries then conf
                      else conf\<lparr>kc_max_retries := 2147483647\<rparr>) in
          if rd_kafka_conf_is_modified conf P_queue_buffering_backpressure_threshold \<and> kc_queue_backpressure_thres conf > 1
          then Inl CONF_BACKPRESSURE
          else Inr (conf\<lparr>kc_queue_backpressure_thres := 1\<rparr>))"

text \<open>The producer's part of \<open>rd_kafka_conf_finalize\<close>.\<close>

definition conf_finalize_producer :: "rd_kafka_client_conf \<Rightarrow> rd_kafka_conf_error + rd_kafka_client_conf" where
  "conf_finalize_producer conf =
     (case conf_finalize_transactional conf of
        Inl errstr \<Rightarrow> Inl errstr
      | Inr conf \<Rightarrow>
          (case conf_finalize_idempotent conf of
             Inl errstr \<Rightarrow> Inl errstr
           | Inr conf \<Rightarrow>
               Inr (if rd_kafka_conf_is_modified conf P_sticky_partitioning_linger_ms then conf
                    else conf\<lparr>kc_sticky_partition_linger_ms := min 900000 (cdiv (2 * kc_buffering_max_us conf) 1000)\<rparr>)))"

definition rd_kafka_topic_conf_finalize ::
  "rd_kafka_type_t \<Rightarrow> rd_kafka_client_conf \<Rightarrow> rd_kafka_topic_conf_t \<Rightarrow> rd_kafka_conf_error + rd_kafka_topic_conf_t" where
  "rd_kafka_topic_conf_finalize cltype conf tconf =
     (if cltype \<noteq> RD_KAFKA_PRODUCER then Inr tconf
      else
        let idemp =
          (if \<not> kc_idempotence conf then Inr tconf
           else if rd_kafka_topic_conf_is_modified tconf P_acks \<and> tc_required_acks tconf \<noteq> - 1
           then Inl CONF_ACKS
           else
             let tconf = tconf\<lparr>tc_required_acks := - 1\<rparr> in
             if rd_kafka_topic_conf_is_modified tconf P_queuing_strategy \<and> \<not> tc_queuing_fifo tconf
             then Inl CONF_QUEUING_STRATEGY
             else
               let tconf = tconf\<lparr>tc_queuing_fifo := True\<rparr> in
               if kc_transactional_id conf = None then Inr tconf
               else if \<not> rd_kafka_topic_conf_is_modified tconf P_message_timeout_ms
               then Inr (tconf\<lparr>tc_message_timeout_ms := kc_transaction_timeout_ms conf\<rparr>)
               else if tc_message_timeout_ms tconf > kc_transaction_timeout_ms conf
               then Inl CONF_MESSAGE_TIMEOUT
               else Inr tconf)
        in case idemp of
             Inl errstr \<Rightarrow> Inl errstr
           | Inr tconf \<Rightarrow>
               if tc_message_timeout_ms tconf \<noteq> 0 \<and> tc_message_timeout_ms tconf * 1000 \<le> kc_buffering_max_us conf \<and>
                  rd_kafka_conf_is_modified conf P_linger_ms
               then Inl CONF_LINGER
               else Inr tconf)"

text \<open>The end of \<open>rd_kafka_conf_finalize\<close>: the default topic configuration, if any, of a producer.\<close>

definition conf_finalize_default_topic ::
  "rd_kafka_client_conf \<Rightarrow> rd_kafka_topic_conf_t option \<Rightarrow> rd_kafka_conf_error + rd_kafka_client_conf \<times> rd_kafka_topic_conf_t option" where
  "conf_finalize_default_topic conf topic_conf =
     (case topic_conf of
        None \<Rightarrow> Inr (conf, None)
      | Some tconf \<Rightarrow>
          let short = (tc_message_timeout_ms tconf \<noteq> 0 \<and> tc_message_timeout_ms tconf * 1000 \<le> kc_buffering_max_us conf) in
          if short \<and> rd_kafka_conf_is_modified conf P_linger_ms
          then Inl CONF_LINGER
          else
            let conf = (if short then conf\<lparr>kc_buffering_max_us := tc_message_timeout_ms tconf * 1000 - 100\<rparr> else conf) in
            (case rd_kafka_topic_conf_finalize RD_KAFKA_PRODUCER conf tconf of
               Inl errstr \<Rightarrow> Inl errstr
             | Inr tconf \<Rightarrow> Inr (conf, Some tconf)))"

section \<open>Creating a partition\<close>

definition rd_kafka_toppar_new0 :: "rd_kafka_topic_conf_t \<Rightarrow> rd_kafka_toppar_t" where
  "rd_kafka_toppar_new0 tconf =
     \<lparr>rktp_msgq = rd_kafka_msgq_init RD_KAFKA_MSGQ_INITIALIZER, rktp_xmit_msgq = rd_kafka_msgq_init RD_KAFKA_MSGQ_INITIALIZER,
      rktp_msgs_inflight = 0, rktp_msgid = 0, rktp_pid = rd_kafka_pid_reset \<lparr>pid_id = 0, pid_epoch = 0\<rparr>,
      rktp_acked_msgid = 0, rktp_epoch_base_msgid = 0, rktp_next_ack_seq = 0, rktp_next_err_seq = 0,
      rktp_last_err = \<lparr>te_err = 0, te_actions = {}, te_ts = 0, te_base_seq = 0, te_last_seq = 0, te_base_msgid = 0\<rparr>,
      rktp_broker = None, rktp_next_broker = None, rktp_msgq_wakeup_q = False, rktp_on_rkb = False, rktp_remove = False,
      rktp_paused = False, rkt_required_acks = tc_required_acks tconf, rkt_queuing_fifo = tc_queuing_fifo tconf\<rparr>"

section \<open>What finalizing guarantees\<close>

lemma finalize_idempotent_ok:
  assumes "conf_finalize_idempotent conf = Inr conf'"
  shows "kc_idempotence conf' = kc_idempotence conf \<and> kc_transactional_id conf' = kc_transactional_id conf \<and>
    (kc_idempotence conf \<longrightarrow> kc_max_inflight conf' \<le> RD_KAFKA_IDEMP_MAX_INFLIGHT \<and> 1 \<le> kc_max_retries conf' \<and>
       kc_queue_backpressure_thres conf' = 1)"
  using assms unfolding conf_finalize_idempotent_def Let_def rd_kafka_conf_is_modified_def
  by (cases "kc_idempotence conf"; cases "P_max_in_flight \<in> set (kc_modified conf)"; cases "P_retries \<in> set (kc_modified conf)")
     (auto split: if_split_asm)

lemma finalize_producer_ok:
  assumes "conf_finalize_producer conf = Inr conf'"
  shows "kc_transactional_id conf' \<noteq> None \<longrightarrow> kc_idempotence conf'"
    "kc_idempotence conf' \<longrightarrow> kc_max_inflight conf' \<le> RD_KAFKA_IDEMP_MAX_INFLIGHT \<and> 1 \<le> kc_max_retries conf' \<and>
       kc_queue_backpressure_thres conf' = 1"
proof -
  obtain c1 c2 where c: "conf_finalize_transactional conf = Inr c1" "conf_finalize_idempotent c1 = Inr c2"
      "kc_transactional_id conf' = kc_transactional_id c2" "kc_idempotence conf' = kc_idempotence c2"
      "kc_max_inflight conf' = kc_max_inflight c2" "kc_max_retries conf' = kc_max_retries c2"
      "kc_queue_backpressure_thres conf' = kc_queue_backpressure_thres c2"
    using assms by (auto simp: conf_finalize_producer_def split: sum.splits if_split_asm)
  moreover have "kc_transactional_id c1 \<noteq> None \<longrightarrow> kc_idempotence c1"
    using c(1) by (auto simp: conf_finalize_transactional_def Let_def split: if_split_asm)
  ultimately show "kc_transactional_id conf' \<noteq> None \<longrightarrow> kc_idempotence conf'"
    "kc_idempotence conf' \<longrightarrow> kc_max_inflight conf' \<le> RD_KAFKA_IDEMP_MAX_INFLIGHT \<and> 1 \<le> kc_max_retries conf' \<and>
       kc_queue_backpressure_thres conf' = 1"
    using finalize_idempotent_ok [OF c(2)] by simp_all
qed

lemma topic_finalize_ok:
  assumes "rd_kafka_topic_conf_finalize RD_KAFKA_PRODUCER conf tconf = Inr tconf'" "kc_idempotence conf"
  shows "tc_required_acks tconf' = - 1 \<and> tc_queuing_fifo tconf' \<and>
    (kc_transactional_id conf \<noteq> None \<longrightarrow> tc_message_timeout_ms tconf' \<le> kc_transaction_timeout_ms conf)"
  using assms unfolding rd_kafka_topic_conf_finalize_def Let_def rd_kafka_topic_conf_is_modified_def
  by (cases "kc_transactional_id conf = None"; cases "P_message_timeout_ms \<in> set (tc_modified tconf)")
     (auto split: if_split_asm)

end
