(* ===== verification/Produce_System.thy ===== *)
theory Produce_System
  imports Produce_Conf
begin

text \<open>
  The producer as a whole: the application, the broker threads and the main thread take turns in
  any order, each running one operation of \<open>Produce\<close> or one step of \<open>Eos_System\<close>.
\<close>

section \<open>Steps\<close>

text \<open>
  The application produces a message to a partition of a topic; a broker thread serves its
  partitions, sends (part of) a request, or has a response or an error for a request; queues are
  purged; a partition joins or leaves a broker, is assigned another one, is paused or removed; and the
  main thread takes a step of its own, which never counts partitions in flight.
\<close>

inductive produce_step :: "produce_env \<Rightarrow> produce_t \<Rightarrow> produce_t \<Rightarrow> bool" for e :: produce_env where
  ps_produce: "snd tp \<noteq> - 1 \<Longrightarrow> 0 \<le> len \<Longrightarrow> 0 \<le> keylen \<Longrightarrow>
    rd_kafka_msg_new0 (ps_conf s) err timeout_ms len keylen hdrs timestamp uclock now = Inr rkm \<Longrightarrow>
    produce_step e s (rd_kafka_toppar_enq_msg tp rkm now s)"
| ps_serve: "rd_kafka_broker_produce_toppars e rkb active now next_wakeup scan s = Some (cnt, w, s') \<Longrightarrow> produce_step e s s'"
| ps_send: "ps_bufs s = xs @ rkbuf # ys \<Longrightarrow>
    produce_step e s (s\<lparr>ps_bufs := xs @ rkbuf\<lparr>pb_sent := sent, pb_partial := partial\<rparr> # ys\<rparr>)"
| ps_response: "ps_bufs s = xs @ rkbuf # ys \<Longrightarrow>
    rd_kafka_handle_Produce e rkbuf err reply (s\<lparr>ps_bufs := xs @ ys\<rparr>) = Some s' \<Longrightarrow> produce_step e s s'"
| ps_purge: "rd_kafka_toppar_purge_queues tp flags include_xmit s = Some (cnt, s') \<Longrightarrow> produce_step e s s'"
| ps_join: "op_partition_join e rkb tp s = Some s' \<Longrightarrow> produce_step e s s'"
| ps_leave: "op_partition_leave e rkb tp s = Some s' \<Longrightarrow> produce_step e s s'"
| ps_toppar: "produce_step e s (upd_toppar tp (\<lambda>rktp. rktp\<lparr>rktp_next_broker := b, rktp_paused := p, rktp_remove := r\<rparr>) s)"
| ps_main: "eos_step (pe_env e) (ps_rk s) rk' \<Longrightarrow> inflight_toppar_cnt rk' = inflight_toppar_cnt (ps_rk s) \<Longrightarrow>
    produce_step e s (s\<lparr>ps_rk := rk'\<rparr>)"

text \<open>The initial state: the instance when its main thread has started, and the partitions of topics whose
  configurations have been finalized.\<close>

inductive produce_reachable :: "rd_kafka_conf_t \<Rightarrow> produce_conf \<Rightarrow> produce_t \<Rightarrow> bool"
  for conf :: rd_kafka_conf_t and pconf :: produce_conf where
  pr_start: "0 < ev_clock e \<Longrightarrow> rd_kafka_thread_main_start e (rd_kafka_calloc RD_KAFKA_PRODUCER conf) = Some rk \<Longrightarrow>
    kc_idempotence kc = cf_idempotence conf \<Longrightarrow>
    (\<And>tp. rd_kafka_topic_conf_finalize RD_KAFKA_PRODUCER kc (tconf0 tp) = Inr (tconf tp)) \<Longrightarrow>
    produce_reachable conf pconf \<lparr>ps_rk = rk, ps_conf = pconf, ps_toppars = (\<lambda>tp. rd_kafka_toppar_new0 (tconf tp)),
      ps_bufs = [], ps_dr = [], ps_fx = []\<rparr>"
| pr_step: "produce_reachable conf pconf s \<Longrightarrow> 0 < pe_clock e \<Longrightarrow> produce_step e s s' \<Longrightarrow> produce_reachable conf pconf s'"

section \<open>The invariant holds in every reachable state\<close>

lemma new_msg_fresh:
  "rd_kafka_msg_new0 conf err timeout_ms len keylen hdrs timestamp uclock now = Inr rkm \<Longrightarrow> 0 \<le> len \<Longrightarrow> 0 \<le> keylen \<Longrightarrow> msg_fresh rkm"
  by (auto simp: rd_kafka_msg_new0_def msg_fresh_def rkm_size_def split: if_splits)

lemma send_ok:
  assumes "produce_ok s" "ps_bufs s = xs @ b # ys"
  shows "produce_ok (s\<lparr>ps_bufs := xs @ b\<lparr>pb_sent := sent, pb_partial := partial\<rparr> # ys\<rparr>)" (is "produce_ok ?s")
proof -
  have "map pb_batch (toppar_bufs tp ?s) = map pb_batch (toppar_bufs tp s)" for tp
    by (simp add: toppar_bufs_def assms(2))
  from arg_cong [OF this, of "map (rkmq_msgs \<circ> rkmb_msgq)"] arg_cong [OF this, of length]
  have "inflight_msgs tp ?s = inflight_msgs tp s" "length (toppar_bufs tp ?s) = length (toppar_bufs tp s)" for tp
    by (simp_all add: inflight_msgs_def comp_def)
  then have "toppar_ok ?s {#} tp" if "toppar_ok s {#} tp" for tp
    using that by (simp add: toppar_ok_def Let_def settled_ids_def queues_ok_def reported_msgs_def)
  moreover have "buf_ok ?s b'" if "buf_ok s b'" for b' using that by (simp add: buf_ok_def Let_def)
  moreover have "buf_ok s (b\<lparr>pb_sent := sent, pb_partial := partial\<rparr>)" if "buf_ok s b" using that by (simp add: buf_ok_def Let_def)
  ultimately show ?thesis using assms by (auto simp: produce_ok_def count_ok_def)
qed

lemma main_step_ok:
  assumes "produce_ok s" "eos_step (pe_env e) (ps_rk s) rk'" "inflight_toppar_cnt rk' = inflight_toppar_cnt (ps_rk s)"
    "closed_ok (ps_rk s)"
  shows "keeps_ok e s (s\<lparr>ps_rk := rk'\<rparr>)"
proof -
  have f: "rk_conf rk' = rk_conf (ps_rk s)" "rk_type rk' = rk_type (ps_rk s)"
    using fatal.acts_evolve [OF step_acts [OF assms(2,4)]] by (simp_all add: fatal_evolves_def)
  have "produce_inv 0 tp {#} (s\<lparr>ps_rk := rk'\<rparr>)" for tp
    by (rule inv_rk [where k = 0]) (use assms(1,3) f in \<open>simp_all add: produce_inv_ok\<close>)
  then show ?thesis using assms(2) f by (auto simp: keeps_ok_def produce_evolves_def produce_inv_ok)
qed

lemma step_keeps:
  assumes "produce_step e s s'" "produce_ok s" "closed_ok (ps_rk s)"
  shows "keeps_ok e s s'"
  using assms
proof (induction rule: produce_step.induct)
  case (ps_produce tp len keylen s err timeout_ms hdrs timestamp uclock now rkm)
  then show ?case using new_msg_fresh [of "ps_conf s" err timeout_ms len keylen] by (intro stays_keeps enq_msg_stays) simp_all
next
  case (ps_serve rkb active now next_wakeup scan s cnt w s')
  then show ?case using rd_returns_D [OF produce_toppars_keeps] by fastforce
next
  case (ps_send s xs rkbuf ys sent partial)
  then show ?case using send_ok by (simp add: keeps_ok_def produce_evolves_def)
next
  case (ps_response s xs rkbuf ys err reply s')
  then show ?case using rd_returns_D [OF response_stays [where A = True]] stays_keeps by blast
next
  case (ps_purge tp flags include_xmit s cnt s')
  then have "include_xmit \<Longrightarrow> PURGE_F_QUEUE \<in> flags \<Longrightarrow> rktp_broker (ps_toppars s tp) \<noteq> None"
    by (auto simp: rd_kafka_toppar_purge_queues_def split: if_splits)
  then consider "PURGE_F_QUEUE \<notin> flags" | "include_xmit \<Longrightarrow> rktp_broker (ps_toppars s tp) \<noteq> None" by blast
  then show ?case
  proof cases
    case 1
    then show ?thesis using ps_purge by (auto simp: rd_kafka_toppar_purge_queues_def keeps_ok_def split: if_splits)
  next
    case 2
    from rd_returns_D [OF purge_queues_stays [OF ps_purge.prems(1) 2, where A = True and e = e] ps_purge.hyps] show ?thesis
      by (simp add: stays_keeps)
  qed
next
  case (ps_join rkb tp s s')
  then show ?case using rd_returns_D [OF partition_join_stays] stays_keeps by blast
next
  case (ps_leave rkb tp s s')
  then show ?case using rd_returns_D [OF partition_leave_keeps] by blast
next
  case (ps_toppar s tp b p r)
  then show ?case
    by (intro stays_keeps moves_stays [of _ _ tp] moves_keep) (simp_all add: ok_holds(2) rktp_same_def)
next
  case (ps_main s rk')
  then show ?case by (intro main_step_ok)
qed

lemma toppars_new_ok:
  assumes "rk_type rk = RD_KAFKA_PRODUCER" "inflight_toppar_cnt rk = 0" "rd_kafka_is_idempotent rk \<Longrightarrow> (\<forall>tp. tc_queuing_fifo (tconf tp))"
  shows "produce_ok \<lparr>ps_rk = rk, ps_conf = pconf, ps_toppars = (\<lambda>tp. rd_kafka_toppar_new0 (tconf tp)),
      ps_bufs = [], ps_dr = [], ps_fx = []\<rparr>"
  using assms
  by (auto simp: produce_ok_def toppar_ok_def Let_def queues_ok_def queue_ok_def rd_kafka_toppar_new0_def settled_ids_def
      reported_msgs_def inflight_msgs_def toppar_bufs_def count_ok_def)

lemma start_inflight:
  assumes "rd_kafka_thread_main_start e (rd_kafka_calloc RD_KAFKA_PRODUCER conf) = Some rk"
  shows "inflight_toppar_cnt rk = 0"
proof -
  obtain p where "eos_acts P_PRODUCE e ((rd_kafka_calloc RD_KAFKA_PRODUCER conf)\<lparr>pid := p\<rparr>) rk"
    using start_acts [OF assms] .
  from inflight_kept.acts_evolve [OF this] show ?thesis by (simp add: rd_kafka_calloc_def)
qed

lemma eos_steps_reachable: "(eos_step e)\<^sup>*\<^sup>* rk rk' \<Longrightarrow> 0 < ev_clock e \<Longrightarrow> eos_reachable conf rk \<Longrightarrow> eos_reachable conf rk'"
  by (induction rule: rtranclp_induct) (auto intro: reach_step)

lemma produce_reachable_ok:
  "produce_reachable conf pconf s \<Longrightarrow> produce_ok s \<and> eos_reachable conf (ps_rk s) \<and> ps_conf s = pconf"
proof (induction rule: produce_reachable.induct)
  case (pr_start e rk kc tconf0 tconf)
  then have r: "eos_reachable conf rk" by (intro reach_start)
  have "tc_queuing_fifo (tconf tp)" if "rd_kafka_is_idempotent rk" for tp
    using topic_finalize_ok [OF pr_start.hyps(4)] pr_start.hyps(3) that reachable_facts(3) [OF r]
    by (simp add: rd_kafka_is_idempotent_def)
  then show ?case using r toppars_new_ok [OF reachable_facts(4) [OF r] start_inflight [OF pr_start.hyps(2)]] by simp
next
  case (pr_step s e s')
  then have "keeps_ok e s s'" using step_keeps reachable_facts(5) by blast
  then show ?case using pr_step eos_steps_reachable by (auto simp: keeps_ok_def produce_evolves_def)
qed

end
