(* ===== verification/Produce_Exec.thy ===== *)
theory Produce_Exec
  imports Produce_System Eos_Exec
begin

text \<open>
  An executable form of the steps of \<open>Produce_System\<close>, as \<open>Eos_Exec\<close> is one for the instance: a run
  is a list of inputs and every run is a path of reachable states. A sample run takes an idempotent
  producer from its creation to requests in flight, to their errors and to delivery reports.
\<close>

section \<open>Inputs\<close>

datatype produce_input =
    Pi_produce toppar int int
  | Pi_serve int "toppar list" bool
  | Pi_send nat
  | Pi_response nat rd_kafka_resp_err_t "(rd_kafka_resp_err_t \<times> rd_kafka_Produce_result_t) option"
  | Pi_purge toppar "purge_flag set" bool
  | Pi_join int toppar
  | Pi_leave int toppar
  | Pi_toppar toppar "int option" bool
  | Pi_main eos_input

text \<open>The request at an index of those outstanding, and what is before and after it.\<close>

definition buf_at :: "nat \<Rightarrow> produce_t \<Rightarrow> (produce_buf list \<times> produce_buf \<times> produce_buf list) option" where
  "buf_at i s = (case drop i (ps_bufs s) of [] \<Rightarrow> None | b # ys \<Rightarrow> Some (take i (ps_bufs s), b, ys))"

fun produce_do :: "produce_env \<Rightarrow> produce_input \<Rightarrow> produce_t \<Rightarrow> produce_t option" where
  "produce_do e (Pi_produce tp len timeout_ms) s =
     (if snd tp \<noteq> - 1 \<and> 0 \<le> len
      then case rd_kafka_msg_new0 (ps_conf s) 0 timeout_ms len 0 0 0 0 (pe_clock e) of
             Inl err \<Rightarrow> None
           | Inr rkm \<Rightarrow> Some (rd_kafka_toppar_enq_msg tp rkm (pe_clock e) s)
      else None)"
| "produce_do e (Pi_serve rkb active scan) s =
     map_option (\<lambda>(cnt, w, s). s) (rd_kafka_broker_produce_toppars e rkb active (pe_clock e) (pe_clock e + 1000000) scan s)"
| "produce_do e (Pi_send i) s =
     map_option (\<lambda>(xs, b, ys). s\<lparr>ps_bufs := xs @ b\<lparr>pb_sent := True, pb_partial := False\<rparr> # ys\<rparr>) (buf_at i s)"
| "produce_do e (Pi_response i err reply) s =
     Option.bind (buf_at i s) (\<lambda>(xs, b, ys). rd_kafka_handle_Produce e b err reply (s\<lparr>ps_bufs := xs @ ys\<rparr>))"
| "produce_do e (Pi_purge tp flags inc) s = map_option snd (rd_kafka_toppar_purge_queues tp flags inc s)"
| "produce_do e (Pi_join rkb tp) s = op_partition_join e rkb tp s"
| "produce_do e (Pi_leave rkb tp) s = op_partition_leave e rkb tp s"
| "produce_do e (Pi_toppar tp b p) s =
     Some (upd_toppar tp (\<lambda>rktp. rktp\<lparr>rktp_next_broker := b, rktp_paused := p, rktp_remove := False\<rparr>) s)"
| "produce_do e (Pi_main i) s =
     (case eos_do (pe_env e) i (ps_rk s) of
        Some rk' \<Rightarrow> if inflight_toppar_cnt rk' = inflight_toppar_cnt (ps_rk s) then Some (s\<lparr>ps_rk := rk'\<rparr>) else None
      | None \<Rightarrow> None)"

fun produce_run :: "(produce_env \<times> produce_input) list \<Rightarrow> produce_t \<Rightarrow> produce_t option" where
  "produce_run [] s = Some s"
| "produce_run ((e, i) # is) s = (if 0 < pe_clock e then Option.bind (produce_do e i s) (produce_run is) else None)"

definition produce_exec ::
  "rd_kafka_conf_t \<Rightarrow> produce_conf \<Rightarrow> rd_kafka_client_conf \<Rightarrow> rd_kafka_topic_conf_t \<Rightarrow> rd_env \<Rightarrow>
   (produce_env \<times> produce_input) list \<Rightarrow> produce_t option" where
  "produce_exec conf pconf kc tconf0 e is =
     (if 0 < ev_clock e \<and> kc_idempotence kc = cf_idempotence conf
      then case rd_kafka_topic_conf_finalize RD_KAFKA_PRODUCER kc tconf0 of
             Inl err \<Rightarrow> None
           | Inr tconf \<Rightarrow> do {
               rk \<leftarrow> rd_kafka_thread_main_start e (rd_kafka_calloc RD_KAFKA_PRODUCER conf);
               produce_run is \<lparr>ps_rk = rk, ps_conf = pconf, ps_toppars = (\<lambda>tp. rd_kafka_toppar_new0 tconf),
                 ps_bufs = [], ps_dr = [], ps_fx = []\<rparr>
             }
      else None)"

section \<open>A run is a path of reachable states\<close>

lemma buf_at_Some: "buf_at i s = Some (xs, b, ys) \<Longrightarrow> ps_bufs s = xs @ b # ys"
  by (auto simp: buf_at_def split: list.splits) (metis append_take_drop_id)

lemma produce_do_step: "produce_do e i s = Some s' \<Longrightarrow> produce_step e s s'"
proof (cases i)
  case (Pi_produce tp len timeout_ms)
  assume "produce_do e i s = Some s'"
  then show ?thesis using Pi_produce by (auto split: if_splits sum.splits intro: ps_produce [where keylen = 0])
next
  case (Pi_serve rkb active scan)
  assume "produce_do e i s = Some s'"
  then show ?thesis using Pi_serve by (auto intro: ps_serve)
next
  case (Pi_main j)
  assume "produce_do e i s = Some s'"
  then show ?thesis using Pi_main by (auto split: option.splits if_splits intro!: ps_main eos_do_step)
qed (auto dest!: buf_at_Some simp: bind_eq_Some_conv intro: produce_step.intros)

lemma produce_run_reachable:
  "produce_reachable conf pconf s \<Longrightarrow> produce_run is s = Some s' \<Longrightarrow> produce_reachable conf pconf s'"
proof (induction "is" arbitrary: s)
  case (Cons ei "is")
  obtain e i where ei: "ei = (e, i)" by fastforce
  then obtain s1 where "0 < pe_clock e" "produce_do e i s = Some s1" "produce_run is s1 = Some s'"
    using Cons.prems(2) by (auto split: if_splits simp: bind_eq_Some_conv)
  then show ?case using Cons.IH Cons.prems(1) pr_step produce_do_step by blast
qed simp

lemma produce_exec_reachable: "produce_exec conf pconf kc tconf0 e is = Some s \<Longrightarrow> produce_reachable conf pconf s"
  by (auto simp: produce_exec_def bind_eq_Some_conv split: if_splits sum.splits
      intro!: produce_run_reachable [OF pr_start [where kc = kc and ?tconf0.0 = "\<lambda>_. tconf0"]])

section \<open>A sample run\<close>

definition px_conf :: rd_kafka_conf_t where
  "px_conf = ex_conf\<lparr>cf_transactional_id := None\<rparr>"

definition px_kc :: rd_kafka_client_conf where
  "px_kc = \<lparr>kc_transactional_id = None, kc_transaction_timeout_ms = 60000, kc_idempotence = True, kc_gapless = False,
     kc_socket_timeout_ms = 60000, kc_max_inflight = 5, kc_max_retries = 2147483647, kc_queue_backpressure_thres = 1,
     kc_buffering_max_us = 5000, kc_sticky_partition_linger_ms = 10, kc_modified = []\<rparr>"

definition px_tconf :: rd_kafka_topic_conf_t where
  "px_tconf = \<lparr>tc_required_acks = - 1, tc_queuing_fifo = True, tc_message_timeout_ms = 300000, tc_modified = []\<rparr>"

text \<open>The defaults, but for a limit of ten retries.\<close>

definition px_pconf :: produce_conf where
  "px_pconf = \<lparr>pc_max_retries = 10, pc_retry_backoff_ms = 100, pc_retry_backoff_max_ms = 1000, pc_gapless = False,
     pc_batch_num_messages = 2, pc_batch_size = 1000000, pc_max_msg_size = 1000000, pc_buffering_max_us = 5000,
     pc_queue_backpressure_thres = 1, pc_drmode_none = False, pc_dr_err_only = False\<rparr>"

definition px_env :: "int \<Rightarrow> produce_env" where
  "px_env clock = \<lparr>pe_env = ex_env clock, pe_jitter = (\<lambda>_. 100), pe_up = (\<lambda>_. True), pe_outbufs_other = 0,
     pe_flushing = False, pe_MsgVersion = Some 2, pe_buf_len = 100, pe_outlen = (\<lambda>rkm. rkm_size rkm + 10),
     pe_topic_err = (\<lambda>_. 0)\<rparr>"

abbreviation px_tp :: toppar where "px_tp \<equiv> (''a'', 0)"

text \<open>The producer gets its id, and the partition its broker.\<close>

definition px_init :: "(produce_env \<times> produce_input) list" where
  "px_init = map (Pair (px_env 2000000))
     [Pi_main (In_timer PID_TMR), Pi_main (In_InitProducerId 0 (Inr (0, Inr ex_pid))),
      Pi_toppar px_tp (Some 1) False, Pi_join 1 px_tp]"

text \<open>Three messages are produced and put into two requests.\<close>

definition px_produce :: "(produce_env \<times> produce_input) list" where
  "px_produce = replicate 3 (px_env 2000000, Pi_produce px_tp 100 300000) @
     [(px_env 3000000, Pi_serve 1 [px_tp] True), (px_env 3000000, Pi_send 0), (px_env 3000000, Pi_serve 1 [px_tp] True)]"

abbreviation px_at :: "(produce_env \<times> produce_input) list \<Rightarrow> produce_t option" where
  "px_at is \<equiv> produce_exec px_conf px_pconf px_kc px_tconf (ex_env 1) is"

definition px_check :: "(produce_env \<times> produce_input) list \<Rightarrow> (produce_t \<Rightarrow> bool) \<Rightarrow> bool" where
  "px_check is Q = (case px_at is of None \<Rightarrow> False | Some s \<Rightarrow> Q s)"

lemma px_checkE:
  assumes "px_check is Q"
  obtains s where "px_at is = Some s" "produce_reachable px_conf px_pconf s" "Q s"
  using assms that produce_exec_reachable by (auto simp: px_check_def split: option.splits)


end
