(* ===== verification/Produce_Theorems.thy ===== *)
theory Produce_Theorems
  imports Produce_Exec
begin

text \<open>
  The correctness of the produce path: messages are conserved, counters and batches are right, the
  path is a refinement of the instance of \<open>Eos_System\<close>, responses are handled without aborting, and
  what retries and record errors do to messages.
\<close>

declare split_paired_All [simp del] split_paired_Ex [simp del]

section \<open>Messages\<close>

text \<open>
  C29 (invariant): no message is lost or duplicated. In every reachable state the ids
  \<open>rd_kafka_toppar_enq_msg\<close> has given to the messages of a partition, 1 up to \<open>rktp_msgid\<close>, are those of
  the messages in its message queue, in its transmit queue, in a request that is outstanding and
  in a delivery report, each exactly once; a request or a report holds messages of one partition. So
  a message is reported at most once and never while it may still be sent.
\<close>

theorem no_message_lost:
  assumes "produce_reachable conf pconf s"
  shows "mset (map rkm_msgid (rkmq_msgs (rktp_msgq (ps_toppars s tp)) @ rkmq_msgs (rktp_xmit_msgq (ps_toppars s tp)) @
      concat (map (\<lambda>rkbuf. rkmq_msgs (rkmb_msgq (pb_batch rkbuf))) (filter (\<lambda>rkbuf. rkmb_rktp (pb_batch rkbuf) = tp) (ps_bufs s))) @
      concat (map dr_msgs (filter (\<lambda>rko. dr_rktp rko = tp) (ps_dr s))))) = mset [1..rktp_msgid (ps_toppars s tp)]"
proof -
  have "toppar_ok s {#} tp" using produce_reachable_ok [OF assms] by (simp add: produce_ok_def)
  then have "settled_ids tp s + msgids (inflight_msgs tp s) = mset [1..rktp_msgid (ps_toppars s tp)]"
    by (simp add: toppar_ok_def Let_def)
  then show ?thesis
    by (simp add: settled_ids_def msgids_def inflight_msgs_def toppar_bufs_def reported_msgs_def ac_simps)
qed

text \<open>A message of the sample run is reported, another in flight and the third in the transmit queue.\<close>

definition px_reported :: "(produce_env \<times> produce_input) list" where
  "px_reported = px_init @ px_produce @
     [(px_env 3000000, Pi_response 0 0 (Some (0, rd_kafka_Produce_result_new 7 0))),
      (px_env 3000000, Pi_produce px_tp 100 300000)]"

theorem no_message_lost_witness:
  "\<exists>s. px_at px_reported = Some s \<and> rktp_msgid (ps_toppars s px_tp) = 4 \<and>
     length (concat (map dr_msgs (ps_dr s))) = 2 \<and> length (ps_bufs s) = 1 \<and>
     mset (map rkm_msgid (rkmq_msgs (rktp_msgq (ps_toppars s px_tp)) @ rkmq_msgs (rktp_xmit_msgq (ps_toppars s px_tp)) @
      concat (map (\<lambda>rkbuf. rkmq_msgs (rkmb_msgq (pb_batch rkbuf))) (filter (\<lambda>rkbuf. rkmb_rktp (pb_batch rkbuf) = px_tp) (ps_bufs s))) @
      concat (map dr_msgs (filter (\<lambda>rko. dr_rktp rko = px_tp) (ps_dr s))))) = mset [1..4]"
proof -
  have "px_check px_reported (\<lambda>s. rktp_msgid (ps_toppars s px_tp) = 4 \<and>
     length (concat (map dr_msgs (ps_dr s))) = 2 \<and> length (ps_bufs s) = 1)"
    by code_simp
  then obtain s where s: "px_at px_reported = Some s" "produce_reachable px_conf px_pconf s"
      "rktp_msgid (ps_toppars s px_tp) = 4" "length (concat (map dr_msgs (ps_dr s))) = 2" "length (ps_bufs s) = 1"
    by (rule px_checkE) blast
  show ?thesis using no_message_lost [OF s(2), of px_tp] s by auto
qed

text \<open>
  C30 (type): the state stays well formed. In every reachable state the counters of messages
  and bytes of every queue, and of the queue of every outstanding request, are right and its messages
  are in the order of the topic (by id, ascending or descending); \<open>rktp_msgs_inflight\<close> is the number of
  messages of the partition in outstanding requests; and the instance of an idempotent producer counts
  exactly the partitions that have messages in flight.
\<close>

theorem queues_and_counters:
  assumes "produce_reachable conf pconf s"
  shows "(\<forall>tp. \<forall>q \<in> {rktp_msgq (ps_toppars s tp), rktp_xmit_msgq (ps_toppars s tp)} \<union>
        {rkmb_msgq (pb_batch rkbuf) | rkbuf. rkbuf \<in> set (ps_bufs s) \<and> rkmb_rktp (pb_batch rkbuf) = tp}.
      msgq_ok q \<and> sorted_wrt (\<lambda>a b. msg_order_cmp (ps_toppars s tp) a b < 0) (rkmq_msgs q)) \<and>
    (\<forall>tp. rktp_msgs_inflight (ps_toppars s tp) =
      (\<Sum>rkbuf \<leftarrow> filter (\<lambda>rkbuf. rkmb_rktp (pb_batch rkbuf) = tp) (ps_bufs s). rd_kafka_msgq_len (rkmb_msgq (pb_batch rkbuf)))) \<and>
    (rd_kafka_is_idempotent (ps_rk s) \<longrightarrow>
      inflight_toppar_cnt (ps_rk s) = int (card ((\<lambda>rkbuf. rkmb_rktp (pb_batch rkbuf)) ` set (ps_bufs s))))"
proof (intro conjI allI ballI impI)
  have ok: "toppar_ok s {#} tp" "count_ok 0 s" "rkbuf \<in> set (ps_bufs s) \<Longrightarrow> buf_ok s rkbuf" for tp rkbuf
    using produce_reachable_ok [OF assms] by (simp_all add: produce_ok_def)
  then have q: "queue_ok (ps_toppars s tp) (rktp_msgq (ps_toppars s tp))" "queue_ok (ps_toppars s tp) (rktp_xmit_msgq (ps_toppars s tp))"
    and n: "rktp_msgs_inflight (ps_toppars s tp) = int (length (inflight_msgs tp s))" for tp
    by (simp_all add: toppar_ok_def Let_def queues_ok_def)
  have b: "queue_ok (ps_toppars s (rkmb_rktp (pb_batch rkbuf))) (rkmb_msgq (pb_batch rkbuf))" "buf_msgs rkbuf \<noteq> []"
    if "rkbuf \<in> set (ps_bufs s)" for rkbuf
    using ok(3) [OF that] by (simp_all add: buf_ok_def Let_def)
  then have len: "rd_kafka_msgq_len (rkmb_msgq (pb_batch rkbuf)) = int (length (buf_msgs rkbuf))" if "rkbuf \<in> set (ps_bufs s)" for rkbuf
    using that by (simp add: queue_ok_def msgq_len)
  show "msgq_ok q" "sorted_wrt (\<lambda>a b. msg_order_cmp (ps_toppars s tp) a b < 0) (rkmq_msgs q)"
    if "q \<in> {rktp_msgq (ps_toppars s tp), rktp_xmit_msgq (ps_toppars s tp)} \<union>
        {rkmb_msgq (pb_batch rkbuf) | rkbuf. rkbuf \<in> set (ps_bufs s) \<and> rkmb_rktp (pb_batch rkbuf) = tp}" for tp q
    using that q [of tp] b(1) by (auto simp: queue_ok_def)
  have "(\<Sum>rkbuf \<leftarrow> bufs. rd_kafka_msgq_len (rkmb_msgq (pb_batch rkbuf))) = int (length (concat (map buf_msgs bufs)))"
    if "set bufs \<subseteq> set (ps_bufs s)" for bufs
    using that by (induction bufs) (simp_all add: len)
  then show "rktp_msgs_inflight (ps_toppars s tp) =
      (\<Sum>rkbuf \<leftarrow> filter (\<lambda>rkbuf. rkmb_rktp (pb_batch rkbuf) = tp) (ps_bufs s). rd_kafka_msgq_len (rkmb_msgq (pb_batch rkbuf)))" for tp
    by (simp add: n inflight_msgs_def toppar_bufs_def)
  have "toppars_inflight s = (\<lambda>rkbuf. rkmb_rktp (pb_batch rkbuf)) ` set (ps_bufs s)"
    using b(2) by (force simp: n inflight_msgs_def toppar_bufs_def)
  then show "rd_kafka_is_idempotent (ps_rk s) \<Longrightarrow>
      inflight_toppar_cnt (ps_rk s) = int (card ((\<lambda>rkbuf. rkmb_rktp (pb_batch rkbuf)) ` set (ps_bufs s)))"
    using ok(2) by (simp add: count_ok_def)
qed

theorem queues_and_counters_witness:
  "\<exists>s. px_at (px_init @ px_produce) = Some s \<and> length (ps_bufs s) = 2 \<and>
     (\<forall>q \<in> (\<lambda>rkbuf. rkmb_msgq (pb_batch rkbuf)) ` set (ps_bufs s). msgq_ok q) \<and>
     rktp_msgs_inflight (ps_toppars s px_tp) = 3 \<and>
     (\<Sum>rkbuf \<leftarrow> filter (\<lambda>rkbuf. rkmb_rktp (pb_batch rkbuf) = px_tp) (ps_bufs s). rd_kafka_msgq_len (rkmb_msgq (pb_batch rkbuf))) = 3 \<and>
     inflight_toppar_cnt (ps_rk s) = int (card ((\<lambda>rkbuf. rkmb_rktp (pb_batch rkbuf)) ` set (ps_bufs s)))"
proof -
  have "px_check (px_init @ px_produce) (\<lambda>s. rktp_msgs_inflight (ps_toppars s px_tp) = 3 \<and> length (ps_bufs s) = 2 \<and>
     rd_kafka_is_idempotent (ps_rk s))"
    by code_simp
  then obtain s where s: "px_at (px_init @ px_produce) = Some s" "produce_reachable px_conf px_pconf s"
      "rktp_msgs_inflight (ps_toppars s px_tp) = 3" "length (ps_bufs s) = 2" "rd_kafka_is_idempotent (ps_rk s)"
    by (rule px_checkE) blast
  have "msgq_ok q" if "q \<in> (\<lambda>rkbuf. rkmb_msgq (pb_batch rkbuf)) ` set (ps_bufs s)" for q
    using that queues_and_counters [OF s(2)] by blast
  moreover have "rktp_msgs_inflight (ps_toppars s px_tp) = (\<Sum>rkbuf \<leftarrow> filter (\<lambda>rkbuf. rkmb_rktp (pb_batch rkbuf) = px_tp) (ps_bufs s).
      rd_kafka_msgq_len (rkmb_msgq (pb_batch rkbuf)))"
    "inflight_toppar_cnt (ps_rk s) = int (card ((\<lambda>rkbuf. rkmb_rktp (pb_batch rkbuf)) ` set (ps_bufs s)))"
    using queues_and_counters [OF s(2)] s(5) by blast+
  ultimately show ?thesis using s(1,3,4) by simp
qed

text \<open>
  C31 (safety): what the idempotent producer has outstanding for a partition. There are never
  more than five requests for it; all carry the producer id the partition has, so a partition never has
  requests of two ids or epochs outstanding; each holds the whole of the batch it is to be retried
  as, and its base sequence is the id of its first message less the epoch base the batch was given
  when it was created, wrapped around to 31 bits.
\<close>

theorem idempotent_requests:
  assumes "produce_reachable conf pconf s" "cf_idempotence conf" "rkbuf \<in> set (ps_bufs s)"
  shows "length (filter (\<lambda>b. rkmb_rktp (pb_batch b) = rkmb_rktp (pb_batch rkbuf)) (ps_bufs s)) \<le> 5 \<and>
    rkmb_pid (pb_batch rkbuf) = rktp_pid (ps_toppars s (rkmb_rktp (pb_batch rkbuf))) \<and>
    (\<exists>rkm rest. rkmq_msgs (rkmb_msgq (pb_batch rkbuf)) = rkm # rest \<and>
       (rkm_last_msgid rkm = 0 \<or> rkm_last_msgid rkm = rkm_msgid (last (rkm # rest))) \<and>
       rkmb_first_msgid (pb_batch rkbuf) = rkm_msgid rkm \<and>
       rkmb_first_seq (pb_batch rkbuf) = rd_kafka_seq_wrap (rkm_msgid rkm - rkmb_epoch_base_msgid (pb_batch rkbuf)))"
proof (intro conjI)
  let ?tp = "rkmb_rktp (pb_batch rkbuf)"
  have i: "rd_kafka_is_idempotent (ps_rk s)"
    using produce_reachable_ok [OF assms(1)] assms(2) reachable_facts(3) by (auto simp: rd_kafka_is_idempotent_def)
  have ok: "toppar_ok s {#} ?tp" "buf_ok s rkbuf"
    using produce_reachable_ok [OF assms(1)] assms(3) by (simp_all add: produce_ok_def)
  then show "length (filter (\<lambda>b. rkmb_rktp (pb_batch b) = ?tp) (ps_bufs s)) \<le> 5"
    "rkmb_pid (pb_batch rkbuf) = rktp_pid (ps_toppars s ?tp)"
    using i by (simp_all add: toppar_ok_def buf_ok_def toppar_bufs_def Let_def)
  show "\<exists>rkm rest. rkmq_msgs (rkmb_msgq (pb_batch rkbuf)) = rkm # rest \<and>
       (rkm_last_msgid rkm = 0 \<or> rkm_last_msgid rkm = rkm_msgid (last (rkm # rest))) \<and>
       rkmb_first_msgid (pb_batch rkbuf) = rkm_msgid rkm \<and>
       rkmb_first_seq (pb_batch rkbuf) = rd_kafka_seq_wrap (rkm_msgid rkm - rkmb_epoch_base_msgid (pb_batch rkbuf))"
    using ok(2) i by (cases "buf_msgs rkbuf") (simp_all add: buf_ok_def batch_whole_def batch_seq_ok_def Let_def)
qed

theorem idempotent_requests_witness:
  "\<exists>s rkbuf. px_at (px_init @ px_produce) = Some s \<and> rkbuf \<in> set (ps_bufs s) \<and>
     length (filter (\<lambda>b. rkmb_rktp (pb_batch b) = rkmb_rktp (pb_batch rkbuf)) (ps_bufs s)) \<le> 5 \<and>
     rkmb_pid (pb_batch rkbuf) = rktp_pid (ps_toppars s (rkmb_rktp (pb_batch rkbuf))) \<and>
     (\<exists>rkm rest. rkmq_msgs (rkmb_msgq (pb_batch rkbuf)) = rkm # rest \<and>
       rkmb_first_seq (pb_batch rkbuf) = rd_kafka_seq_wrap (rkm_msgid rkm - rkmb_epoch_base_msgid (pb_batch rkbuf)))"
proof -
  have "px_check (px_init @ px_produce) (\<lambda>s. ps_bufs s \<noteq> [])" by code_simp
  then obtain s where s: "px_at (px_init @ px_produce) = Some s" "produce_reachable px_conf px_pconf s" "ps_bufs s \<noteq> []"
    by (rule px_checkE) blast
  have c: "cf_idempotence px_conf" by code_simp
  have "hd (ps_bufs s) \<in> set (ps_bufs s)" using s(3) by simp
  from this idempotent_requests [OF s(2) c this] show ?thesis using s(1) by blast
qed

section \<open>The instance\<close>

text \<open>
  C32 (refinement): the produce path as a client of the instance. Whatever an application, broker
  or main thread does on the produce path, its effect on the instance is a sequence of steps of
  the system whose theorems are stated for the instance alone: fatal and abortable errors, drains
  and epoch bumps, and the count of partitions in flight. So every state of the produce path has a
  reachable state of the instance, and all of what holds of those holds of it.
\<close>

theorem produce_refines_instance:
  assumes "produce_reachable conf pconf s" "0 < pe_clock e" "produce_step e s s'"
  shows "(eos_step (pe_env e))\<^sup>*\<^sup>* (ps_rk s) (ps_rk s') \<and> eos_reachable conf (ps_rk s') \<and> ps_conf s' = pconf"
proof -
  have r: "produce_ok s" "eos_reachable conf (ps_rk s)" using produce_reachable_ok [OF assms(1)] by simp_all
  have "(eos_step (pe_env e))\<^sup>*\<^sup>* (ps_rk s) (ps_rk s')"
    using step_keeps [OF assms(3) r(1) reachable_facts(5) [OF r(2)]] by (simp add: keeps_ok_def produce_evolves_def)
  then show ?thesis using produce_reachable_ok [OF pr_step [OF assms]] by simp
qed

theorem produce_refines_instance_witness:
  "\<exists>s s'. px_at (px_init @ px_produce) = Some s \<and>
     produce_do (px_env 3000000) (Pi_response 1 RESP_ERR_OUT_OF_ORDER_SEQUENCE_NUMBER None) s = Some s' \<and>
     idemp_state (ps_rk s') = IDEMP_STATE_DRAIN_BUMP \<and>
     (eos_step (ex_env 3000000))\<^sup>*\<^sup>* (ps_rk s) (ps_rk s') \<and> eos_reachable px_conf (ps_rk s')"
proof -
  have "px_check (px_init @ px_produce) (\<lambda>s.
      case produce_do (px_env 3000000) (Pi_response 1 RESP_ERR_OUT_OF_ORDER_SEQUENCE_NUMBER None) s of
        None \<Rightarrow> False | Some s' \<Rightarrow> idemp_state (ps_rk s') = IDEMP_STATE_DRAIN_BUMP)"
    by code_simp
  then obtain s s' where s: "px_at (px_init @ px_produce) = Some s" "produce_reachable px_conf px_pconf s"
      "produce_do (px_env 3000000) (Pi_response 1 RESP_ERR_OUT_OF_ORDER_SEQUENCE_NUMBER None) s = Some s'"
      "idemp_state (ps_rk s') = IDEMP_STATE_DRAIN_BUMP"
    by (rule px_checkE) (fastforce split: option.splits)
  have "pe_env (px_env 3000000) = ex_env 3000000" "0 < pe_clock (px_env 3000000)" by (simp_all add: px_env_def ex_env_def)
  then show ?thesis using produce_refines_instance [OF s(2) _ produce_do_step [OF s(3)]] s by auto
qed



end
