(* ===== verification/Batch_Theorems.thy ===== *)
theory Batch_Theorems
  imports Produce_Exec
begin

text \<open>
  The correctness of what is done to the messages of a batch: retrying, merging queues, filling a
  request, and three errors of the code: the overflow of the retry backoff, the record
  errors that are overwritten and the sequence numbers that are compared across their wrap-around.
\<close>

declare split_paired_All [simp del] split_paired_Ex [simp del]

section \<open>Retrying and merging queues\<close>

lemma reachable_batch_holds:
  assumes "produce_reachable conf pconf s" "rkbuf \<in> set (ps_bufs s)"
  shows "queue_ok (ps_toppars s (rkmb_rktp (pb_batch rkbuf))) (rkmb_msgq (pb_batch rkbuf))"
    "ids_once (msgids (rkmq_msgs (rktp_msgq (ps_toppars s (rkmb_rktp (pb_batch rkbuf))))) + msgids (buf_msgs rkbuf))"
proof -
  let ?tp = "rkmb_rktp (pb_batch rkbuf)"
  have ok: "produce_ok s" using produce_reachable_ok [OF assms(1)] by simp
  then show "queue_ok (ps_toppars s ?tp) (rkmb_msgq (pb_batch rkbuf))"
    using assms(2) by (simp add: produce_ok_def buf_ok_def Let_def)
  obtain xs ys where bufs: "ps_bufs s = xs @ rkbuf # ys" using split_list [OF assms(2)] by blast
  have "produce_inv 0 ?tp {#} s" using ok by (simp add: produce_inv_ok)
  from inv_holds [OF buf_taken_inv(1) [OF this bufs]]
  show "ids_once (msgids (rkmq_msgs (rktp_msgq (ps_toppars s ?tp))) + msgids (buf_msgs rkbuf))"
    by (rule holds_sub) (simp add: buf_taken_def ac_simps)
qed



text \<open>
  C35 (equivalence): merging two queues of messages in order, by splitting and splicing whole
  runs of messages at positions found by skipping (\<open>rd_kafka_msgq_insert_msgq\<close>), gives the same queue,
  counters included, as inserting the messages one by one with \<open>rd_kafka_msgq_enq_sorted0\<close>; it never
  fails its asserts, and the source is empty afterwards.
\<close>

theorem bulk_insert_one_by_one:
  assumes "msgq_ok dst" "msgq_ok src"
    "sorted_wrt (\<lambda>a b. msg_order_cmp rktp a b < 0) (rkmq_msgs dst)" "sorted_wrt (\<lambda>a b. msg_order_cmp rktp a b < 0) (rkmq_msgs src)"
    "rkm_msgid ` set (rkmq_msgs dst) \<inter> rkm_msgid ` set (rkmq_msgs src) = {}"
  shows "\<exists>src'. rd_kafka_msgq_insert_msgq dst src (msg_order_cmp rktp) =
      Some (fold (\<lambda>rkm q. rd_kafka_msgq_enq_sorted0 q rkm (msg_order_cmp rktp)) (rkmq_msgs src) dst, src') \<and>
    rkmq_msgs src' = [] \<and> rd_kafka_msgq_len src' = 0 \<and> rd_kafka_msgq_size src' = 0"
proof -
  have "ord.apart rktp (rkmq_msgs dst) (rkmq_msgs src)"
    using assms(3-5) by (auto simp: ord.apart_def ord.cmp_by_msgid)
  from ord.insert_msgq_one_by_one [OF this assms(1,2)] show ?thesis
    by (simp add: rd_kafka_msgq_len_def rd_kafka_msgq_size_def)
qed

text \<open>Five messages, of which those with an even id are merged into those with an odd one.\<close>

definition px_msg :: "int \<Rightarrow> rd_kafka_msg" where
  "px_msg msgid = (case rd_kafka_msg_new0 px_pconf 0 300000 100 0 0 1 0 1000 of
     Inr rkm \<Rightarrow> rkm\<lparr>rkm_msgid := msgid\<rparr> | Inl _ \<Rightarrow> undefined)"

definition px_msgq :: "int list \<Rightarrow> rd_kafka_msgq" where
  "px_msgq ids = fold (\<lambda>i q. rd_kafka_msgq_enq q (px_msg i)) ids RD_KAFKA_MSGQ_INITIALIZER"

theorem bulk_insert_one_by_one_witness:
  "\<exists>src'. rd_kafka_msgq_insert_msgq (px_msgq [1, 3, 5]) (px_msgq [2, 4]) (msg_order_cmp (rd_kafka_toppar_new0 px_tconf)) =
      Some (fold (\<lambda>rkm q. rd_kafka_msgq_enq_sorted0 q rkm (msg_order_cmp (rd_kafka_toppar_new0 px_tconf)))
        (rkmq_msgs (px_msgq [2, 4])) (px_msgq [1, 3, 5]), src') \<and> rkmq_msgs src' = []"
proof -
  let ?r = "rd_kafka_toppar_new0 px_tconf"
  have m: "msgq_ok (px_msgq [1, 3, 5])" "msgq_ok (px_msgq [2, 4])"
    "sorted_wrt (\<lambda>a b. msg_order_cmp ?r a b < 0) (rkmq_msgs (px_msgq [1, 3, 5]))"
    "sorted_wrt (\<lambda>a b. msg_order_cmp ?r a b < 0) (rkmq_msgs (px_msgq [2, 4]))"
    "rkm_msgid ` set (rkmq_msgs (px_msgq [1, 3, 5])) \<inter> rkm_msgid ` set (rkmq_msgs (px_msgq [2, 4])) = {}"
    by code_simp+
  from bulk_insert_one_by_one [OF m] show ?thesis by blast
qed

section \<open>The size of a request\<close>

text \<open>A message that \<open>produce()\<close> accepts fits a request on its own, in every MsgVersion.\<close>

lemma new_msg_wire_size:
  "rd_kafka_msg_new0 conf err timeout_ms len keylen hdrs timestamp uclock now = Inr rkm \<Longrightarrow> 0 \<le> hdrs \<Longrightarrow>
     rd_kafka_msg_wire_size rkm ver \<le> pc_max_msg_size conf"
  by (auto simp: rd_kafka_msg_new0_def rd_kafka_msg_wire_size_def rd_kafka_msg_max_wire_size_def split: if_splits)

text \<open>The loop of the writer ends for want of messages or at one of its limits; the size limit is for
  the second message on.\<close>

lemma writer_loop_bounds:
  assumes "rkmq_msgs q = xs" "msgq_ok q" "\<forall>m \<in> set xs. outlen m \<le> rd_kafka_msg_wire_size m ver"
  shows "\<exists>taken q' msgq' len' cnt'. msgset_writer_loop now ver outlen maxcnt maxsize last_msgid xs q msgq len cnt = Some (q', msgq', len', cnt') \<and>
    xs = taken @ rkmq_msgs q' \<and> rkmq_msgs msgq' = rkmq_msgs msgq @ taken \<and> cnt' = cnt + int (length taken) \<and>
    (cnt \<le> maxcnt \<longrightarrow> cnt' \<le> maxcnt) \<and> len' = len + sum_list (map outlen taken) \<and>
    (0 \<le> cnt \<and> taken \<noteq> [] \<longrightarrow> cnt' = 1 \<or> len' \<le> maxsize)"
  using assms
proof (induction xs arbitrary: q msgq len cnt)
  case (Cons m xs)
  obtain q1 where q1: "rd_kafka_msgq_deq q 0 = Some (m, q1)" "msgq_ok q1" "rkmq_msgs q1 = xs"
    using deq_hd_ok [OF Cons.prems(2,1)] by auto
  have o: "outlen m \<le> rd_kafka_msg_wire_size m ver" using Cons.prems(3) by simp
  obtain taken q' msgq' len' cnt' where r:
      "msgset_writer_loop now ver outlen maxcnt maxsize last_msgid xs q1 (rd_kafka_msgq_enq msgq m) (len + outlen m) (cnt + 1) = Some (q', msgq', len', cnt')"
      "xs = taken @ rkmq_msgs q'" "rkmq_msgs msgq' = rkmq_msgs (rd_kafka_msgq_enq msgq m) @ taken" "cnt' = cnt + 1 + int (length taken)"
      "cnt + 1 \<le> maxcnt \<longrightarrow> cnt' \<le> maxcnt" "len' = len + outlen m + sum_list (map outlen taken)"
      "0 \<le> cnt + 1 \<and> taken \<noteq> [] \<longrightarrow> cnt' = 1 \<or> len' \<le> maxsize"
    using Cons.IH [OF q1(3,2), of "rd_kafka_msgq_enq msgq m" "len + outlen m" "cnt + 1"] Cons.prems(3)
    by (metis list.set_intros(2))
  show ?case
  proof (cases "(last_msgid \<noteq> 0 \<and> last_msgid < rkm_msgid m) \<or> cnt = maxcnt \<or> (0 < cnt \<and> maxsize < len + rd_kafka_msg_wire_size m ver) \<or>
      now < rkm_ts_backoff m")
    case True
    then show ?thesis using Cons.prems(1) by (intro exI [of _ "[]"]) auto
  next
    case False
    then have "msgset_writer_loop now ver outlen maxcnt maxsize last_msgid (m # xs) q msgq len cnt = Some (q', msgq', len', cnt')"
      using r(1) q1(1) o by auto
    moreover have "cnt' = 1 \<or> len' \<le> maxsize" if "0 \<le> cnt"
      using r(4,6,7) that False o by (cases "taken = []") auto
    ultimately show ?thesis using r False by (intro exI [of _ "m # taken"]) auto
  qed
qed auto

lemma sum_list_outlen_pos: "xs \<noteq> [] \<Longrightarrow> (\<And>x. x \<in> set xs \<Longrightarrow> 0 < f x) \<Longrightarrow> 0 < sum_list (map f xs)" for f :: "'a \<Rightarrow> int"
proof (induction xs)
  case (Cons x xs)
  then show ?case using Cons.prems(2) [of x] by (cases "xs = []") (simp_all add: add_pos_pos)
qed simp

lemma write_msgq_bounds:
  assumes "rkmq_msgs q \<noteq> []" "msgq_ok q" "\<forall>m \<in> set (rkmq_msgs q). pe_outlen e m \<le> rd_kafka_msg_wire_size m ver" "0 \<le> maxcnt"
  shows "\<exists>ok rk' q' batch len. rd_kafka_msgset_writer_write_msgq e ver conf maxcnt rk q (rd_kafka_msgbatch_init tp p base) =
      Some (ok, rk', q', batch, len) \<and> rkmq_msgs q = rkmq_msgs (rkmb_msgq batch) @ rkmq_msgs q' \<and>
    int (length (rkmq_msgs (rkmb_msgq batch))) \<le> maxcnt \<and>
    len = pe_buf_len e + sum_list (map (pe_outlen e) (rkmq_msgs (rkmb_msgq batch))) \<and>
    (length (rkmq_msgs (rkmb_msgq batch)) \<le> 1 \<or> len \<le> min (pc_max_msg_size conf) (pc_batch_size conf))"
proof -
  obtain m ms where ms: "rkmq_msgs q = m # ms" using assms(1) by (cases "rkmq_msgs q") auto
  obtain b0 where b0: "rd_kafka_msgbatch_set_first_msg (rd_kafka_msgbatch_init tp p base) m = Some b0"
      "rkmb_msgq b0 = RD_KAFKA_MSGQ_INITIALIZER"
    by (cases "rd_kafka_pid_valid p") (simp_all add: rd_kafka_msgbatch_set_first_msg_def rd_kafka_msgbatch_init_def)
  from writer_loop_bounds [OF refl assms(2,3), of "pe_clock e" maxcnt "min (pc_max_msg_size conf) (pc_batch_size conf)"
      "rkmb_last_msgid b0" RD_KAFKA_MSGQ_INITIALIZER "pe_buf_len e" 0]
  obtain taken q' msgq len cnt where l: "msgset_writer_loop (pe_clock e) ver (pe_outlen e) maxcnt (min (pc_max_msg_size conf) (pc_batch_size conf))
        (rkmb_last_msgid b0) (rkmq_msgs q) q RD_KAFKA_MSGQ_INITIALIZER (pe_buf_len e) 0 = Some (q', msgq, len, cnt)"
      "rkmq_msgs q = taken @ rkmq_msgs q'" "rkmq_msgs msgq = rkmq_msgs RD_KAFKA_MSGQ_INITIALIZER @ taken"
      "cnt = 0 + int (length taken)" "0 \<le> maxcnt \<longrightarrow> cnt \<le> maxcnt"
      "len = pe_buf_len e + sum_list (map (pe_outlen e) taken)"
      "0 \<le> (0 :: int) \<and> taken \<noteq> [] \<longrightarrow> cnt = 1 \<or> len \<le> min (pc_max_msg_size conf) (pc_batch_size conf)"
    by blast
  have "length taken \<le> 1 \<or> len \<le> min (pc_max_msg_size conf) (pc_batch_size conf)"
    using l(4,7) by (cases "taken = []") auto
  moreover have "\<exists>ok rk'. rd_kafka_msgset_writer_write_msgq e ver conf maxcnt rk q (rd_kafka_msgbatch_init tp p base) =
      Some (ok, rk', q', b0\<lparr>rkmb_msgq := msgq\<rparr>, len)"
    using l(1) b0 by (simp add: rd_kafka_msgset_writer_write_msgq_def ms Let_def del: msgset_writer_loop.simps) blast
  moreover have "rkmq_msgs (rkmb_msgq (b0\<lparr>rkmb_msgq := msgq\<rparr>)) = taken" using l(3) by simp
  ultimately show ?thesis using l(2,4-6) assms(4) by (metis add_0)
qed


text \<open>Three messages are moved to the transmit queue while the broker is down.\<close>

definition px_queued :: "(produce_env \<times> produce_input) list" where
  "px_queued = px_init @ replicate 3 (px_env 2000000, Pi_produce px_tp 100 300000) @
     [((px_env 3000000)\<lparr>pe_up := (\<lambda>_. False)\<rparr>, Pi_serve 1 [px_tp] True)]"


section \<open>Errors\<close>

text \<open>
  C37 (error): the exponential backoff of a retry overflows. An idempotent producer whose
  \<open>retries\<close> is not set gets \<open>INT32_MAX\<close> of them, and with the default \<open>retry.backoff.ms\<close> of 100 the
  backoff of the 26th retry, \<open>(1 << 25) * 100\<close>, does not fit an \<open>int\<close>: its computation is undefined,
  before the limit \<open>retry.backoff.max.ms\<close> is applied. The backoff before is defined.
\<close>

theorem retry_backoff_overflow:
  assumes "conf_finalize_producer conf = Inr conf'" "kc_idempotence conf'" "P_retries \<notin> set (kc_modified conf)"
    "msgq_ok srcq" "rkm \<in> set (rkmq_msgs srcq)" "25 < rkm_retries rkm + incr_retry" "rkm_retries rkm + incr_retry < 2 ^ 31"
  shows "rd_kafka_retry_msgq now jitter destq srcq incr_retry (kc_max_retries conf') backoff status cmp True 100 retry_max_ms = None \<and>
    (\<forall>retries \<le> 25. retry_backoff_ms retries 100 \<noteq> None)"
proof -
  have max: "kc_max_retries conf' = 2147483647"
    using assms(1-3)
    by (auto simp: conf_finalize_producer_def conf_finalize_transactional_def conf_finalize_idempotent_def
        rd_kafka_conf_is_modified_def Let_def split: sum.splits if_splits)
  have "(2 :: int) ^ 25 \<le> 2 ^ nat (rkm_retries rkm + incr_retry - 1)" using assms(6) by (intro power_increasing) auto
  then have "retry_backoff_ms (rkm_retries rkm + incr_retry) 100 = None" using assms(6) by (simp add: retry_backoff_ms_def)
  moreover have "rkm_retries rkm + incr_retry \<le> kc_max_retries conf'" using assms(7) max by simp
  ultimately have "retry_msgq_loop now jitter incr_retry (kc_max_retries conf') status True 100 retry_max_ms backoff (rkmq_msgs srcq) 0
      srcq RD_KAFKA_MSGQ_INITIALIZER = None"
    using retry_loop_backoffs [where pre = "[]" and xs = "rkmq_msgs srcq" and q = srcq and i = 0] assms(4,5) by fastforce
  moreover have "retry_backoff_ms 25 100 \<noteq> None" by (simp add: retry_backoff_ms_def)
  ultimately show ?thesis using retry_backoff_mono by (simp add: rd_kafka_retry_msgq_def)
qed

theorem retry_backoff_overflow_witness:
  "\<exists>conf'. conf_finalize_producer px_kc = Inr conf' \<and>
     rd_kafka_retry_msgq 1000 100 RD_KAFKA_MSGQ_INITIALIZER
       (rd_kafka_msgq_enq RD_KAFKA_MSGQ_INITIALIZER ((px_msg 1)\<lparr>rkm_retries := 25\<rparr>)) 1 (kc_max_retries conf') 0
       MSG_STATUS_POSSIBLY_PERSISTED rd_kafka_msg_cmp_msgid True 100 1000 = None"
proof -
  let ?q = "rd_kafka_msgq_enq RD_KAFKA_MSGQ_INITIALIZER ((px_msg 1)\<lparr>rkm_retries := 25\<rparr>)"
  obtain conf' where c: "conf_finalize_producer px_kc = Inr conf'" "kc_idempotence conf'"
    by (simp add: conf_finalize_producer_def conf_finalize_transactional_def conf_finalize_idempotent_def px_kc_def
        rd_kafka_conf_is_modified_def)
  have "P_retries \<notin> set (kc_modified px_kc)" by (simp add: px_kc_def)
  moreover have "msgq_ok ?q" by code_simp
  ultimately show ?thesis using retry_backoff_overflow [OF c, of ?q "(px_msg 1)\<lparr>rkm_retries := 25\<rparr>" 1] c(1) by auto
qed

text \<open>
  C38 (error): one record error hides the others. When the response names a single record of the
  batch, the messages of the other records are marked \<open>_INVALID_DIFFERENT_RECORD\<close>, so that the
  application can tell that they may be sent again, but the delivery report overwrites the mark:
  every message of the batch is reported with the error of the partition, as if it were the invalid
  one. With two or more record errors the marks are kept.
\<close>

lemma record_errors_other:
  "k < length rkms \<Longrightarrow> (\<forall>j \<in> fst ` set errs. i + int k \<noteq> j) \<Longrightarrow>
     rkm_err (record_errors_loop many i errs rkms ! k) = RESP_ERR__INVALID_DIFFERENT_RECORD"
proof (induction rkms arbitrary: i errs k)
  case (Cons rkm rkms)
  show ?case
  proof (cases k)
    case 0
    then show ?thesis using Cons.prems(2) by (auto split: list.splits)
  next
    case (Suc k')
    have "\<forall>j \<in> fst ` set errs. i + 1 + int k' \<noteq> j" "\<forall>j \<in> fst ` set (tl errs). i + 1 + int k' \<noteq> j"
      using Cons.prems(2) Suc list.set_sel(2) [of errs] by (cases errs; auto simp: algebra_simps)+
    then show ?thesis using Cons.IH [of k' errs "i + 1"] Cons.IH [of k' "tl errs" "i + 1"] Cons.prems(1) Suc
      by (cases errs) auto
  qed
qed simp

lemma record_errors_length [simp]: "length (record_errors_loop many i errs rkms) = length rkms"
  by (induction rkms arbitrary: i errs) (auto split: list.splits)

theorem single_record_error_overwritten:
  fixes presult rkmq s tp err
  defines "marked \<equiv> rd_kafka_msgbatch_handle_Produce_result_record_errors presult rkmq"
  assumes "rd_kafka_msgq_len rkmq \<noteq> 0" "err \<noteq> 0" "pr_record_errors presult \<noteq> []"
    "k < length (rkmq_msgs rkmq)" "int k \<notin> fst ` set (pr_record_errors presult)"
  shows "\<exists>rko. ps_dr (rd_kafka_dr_msgq0 tp marked err (Some presult) s) = ps_dr s @ [rko] \<and>
    rkm_err (rkmq_msgs marked ! k) = RESP_ERR__INVALID_DIFFERENT_RECORD \<and>
    rd_kafka_message_setup_err rko (dr_msgs rko ! k) =
      (if length (pr_record_errors presult) = 1 then err else RESP_ERR__INVALID_DIFFERENT_RECORD)"
proof -
  have m: "rkm_err (rkmq_msgs marked ! k) = RESP_ERR__INVALID_DIFFERENT_RECORD"
    unfolding marked_def rd_kafka_msgbatch_handle_Produce_result_record_errors_def
    using assms(4-6) record_errors_other [of k "rkmq_msgs rkmq" "pr_record_errors presult" 0] by auto
  have k: "k < length (rkmq_msgs marked)" "rd_kafka_msgq_len marked \<noteq> 0"
    using assms(2,4,5) by (simp_all add: marked_def rd_kafka_msgbatch_handle_Produce_result_record_errors_def rd_kafka_msgq_len_def)
  have "\<not> 1 < length (pr_record_errors presult) \<longleftrightarrow> length (pr_record_errors presult) = 1"
    using assms(4) by (cases "pr_record_errors presult") auto
  then show ?thesis using m k assms(3)
    by (auto simp: rd_kafka_dr_msgq0_def Let_def rd_kafka_message_setup_err_def rd_kafka_interceptors_on_acknowledgement_queue_def)
qed

definition px_presult :: rd_kafka_Produce_result_t where
  "px_presult = (rd_kafka_Produce_result_new (- 1001) 0)\<lparr>pr_record_errors := [(1, Some ''no key'')]\<rparr>"

theorem single_record_error_overwritten_witness:
  "\<exists>s rko. px_at [] = Some s \<and>
     ps_dr (rd_kafka_dr_msgq0 px_tp (rd_kafka_msgbatch_handle_Produce_result_record_errors px_presult (px_msgq [1, 2, 3]))
       RESP_ERR_INVALID_RECORD (Some px_presult) s) = ps_dr s @ [rko] \<and>
     rd_kafka_message_setup_err rko (dr_msgs rko ! 0) = RESP_ERR_INVALID_RECORD"
proof -
  have "px_check [] (\<lambda>s. True)" by code_simp
  then obtain s where s: "px_at [] = Some s" by (rule px_checkE)
  have "rd_kafka_msgq_len (px_msgq [1, 2, 3]) \<noteq> 0" "RESP_ERR_INVALID_RECORD \<noteq> 0" "pr_record_errors px_presult \<noteq> []"
    "0 < length (rkmq_msgs (px_msgq [1, 2, 3]))" "int 0 \<notin> fst ` set (pr_record_errors px_presult)"
    "length (pr_record_errors px_presult) = 1"
    by code_simp+
  then show ?thesis
    using single_record_error_overwritten [of "px_msgq [1, 2, 3]" RESP_ERR_INVALID_RECORD px_presult 0 px_tp s] s by auto
qed

text \<open>
  C39 (error): sequence numbers are compared as plain integers. A request that is skipped ahead of
  the next sequence to be acknowledged, because an earlier one failed, is retried after its epoch is bumped;
  but when the sequence wraps around between the two, the same error is taken for a sequence that
  was acknowledged before: the producer is put into the fatal state and the messages fail.
\<close>

theorem out_of_order_misjudged_at_wrap:
  assumes "\<not> rd_kafka_is_transactional (ps_rk s)" "perr_err perr \<noteq> 0" "0 \<le> perr_next_ack_seq perr" "perr_next_ack_seq perr < 2 ^ 31"
    "0 < d" "d < 2 ^ 31" "rkmb_first_seq batch = rd_kafka_seq_wrap (perr_next_ack_seq perr + d)"
  shows "(perr_next_ack_seq perr + d < 2 ^ 31 \<longrightarrow>
      (\<forall>perr' s'. idemp_out_of_order e batch perr s = Some (perr', s') \<longrightarrow> perr_actions perr' = {ERR_ACTION_RETRY})) \<and>
    (2 ^ 31 \<le> perr_next_ack_seq perr + d \<longrightarrow>
      (\<exists>perr' s'. idemp_out_of_order e batch perr s = Some (perr', s') \<and> perr_actions perr' = {ERR_ACTION_PERMANENT} \<and>
         rk_fatal_err (ps_rk s') \<noteq> 0))"
proof (cases "perr_next_ack_seq perr + d < 2 ^ 31")
  case True
  then have "rkmb_first_seq batch - perr_next_ack_seq perr = d" using assms(3,5,7) by (simp add: rd_kafka_seq_wrap_def)
  then show ?thesis using True assms(5) by (auto simp: idemp_out_of_order_def bind_eq_Some_conv)
next
  case False
  have "(perr_next_ack_seq perr + d) mod 2 ^ 31 = perr_next_ack_seq perr + d - 2 ^ 31"
    using False assms(4,6) mod_pos_pos_trivial [of "perr_next_ack_seq perr + d - 2 ^ 31" "2 ^ 31"]
      minus_mod_self2 [of "perr_next_ack_seq perr + d" "2 ^ 31"] by linarith
  then have "rkmb_first_seq batch - perr_next_ack_seq perr < 0" using assms(6,7) by (simp add: rd_kafka_seq_wrap_def)
  then show ?thesis using False assms(1,2)
    by (simp add: idemp_out_of_order_def rd_kafka_idemp_set_fatal_error_def on_rk_def)
qed

theorem out_of_order_misjudged_at_wrap_witness:
  "\<exists>s rkbuf perr perr' s'. px_at (px_init @ px_produce) = Some s \<and> rkbuf \<in> set (ps_bufs s) \<and>
     perr_next_ack_seq perr = 2147483646 \<and>
     idemp_out_of_order (px_env 3000000) ((pb_batch rkbuf)\<lparr>rkmb_first_seq := 3\<rparr>) perr s = Some (perr', s') \<and>
     perr_actions perr' = {ERR_ACTION_PERMANENT} \<and> rk_fatal_err (ps_rk s') \<noteq> 0"
proof -
  have "px_check (px_init @ px_produce) (\<lambda>s. ps_bufs s \<noteq> [] \<and> \<not> rd_kafka_is_transactional (ps_rk s))" by code_simp
  then obtain s where s: "px_at (px_init @ px_produce) = Some s" "hd (ps_bufs s) \<in> set (ps_bufs s)" "\<not> rd_kafka_is_transactional (ps_rk s)"
    by (rule px_checkE) (simp add: hd_in_set)
  let ?perr = "\<lparr>perr_err = RESP_ERR_OUT_OF_ORDER_SEQUENCE_NUMBER, perr_actions = {}, perr_incr_retry = 1,
    perr_status = MSG_STATUS_POSSIBLY_PERSISTED, perr_next_ack_seq = 2147483646, perr_next_err_seq = 0,
    perr_update_next_ack = False, perr_update_next_err = True, perr_rktp_pid = ex_pid, perr_last_seq = 4\<rparr>"
  let ?batch = "(pb_batch (hd (ps_bufs s)))\<lparr>rkmb_first_seq := 3\<rparr>"
  have "\<exists>perr' s'. idemp_out_of_order (px_env 3000000) ?batch ?perr s = Some (perr', s') \<and>
      perr_actions perr' = {ERR_ACTION_PERMANENT} \<and> rk_fatal_err (ps_rk s') \<noteq> 0"
    using out_of_order_misjudged_at_wrap [of s ?perr 5 ?batch "px_env 3000000"] s(3) by (simp add: rd_kafka_seq_wrap_def)
  moreover have "perr_next_ack_seq ?perr = 2147483646" by simp
  ultimately show ?thesis using s(1,2) by blast
qed

end
