(* ===== verification/Varint.thy ===== *)
theory Varint
  imports Main "HOL-Library.Word" "HOL-Library.Monad_Syntax"
begin

text \<open>
  Variable-length integers (\<open>src/src/rdvarint.h\<close>), which frame the records of a batch: unsigned numbers in
  groups of seven bits, least significant first, and signed ones mapped to them by zig-zag. Bytes
  and numbers are words, so that shifts and masks are those of the code. Every number is encoded in
  at most \<open>RD_UVARINT_ENC_SIZEOF\<close> bytes and decoded from them.
\<close>

unbundle bit_operations_syntax

section \<open>Encoding\<close>

text \<open>The bytes written to a buffer with \<open>dstsize\<close> bytes left; \<open>None\<close> when it is full, for which the code
  returns 0.\<close>

fun rd_uvarint_enc_u64 :: "nat \<Rightarrow> 64 word \<Rightarrow> 8 word list option" where
  "rd_uvarint_enc_u64 0 num = None"
| "rd_uvarint_enc_u64 (Suc dstsize) num =
     (let b = ucast (num AND 0x7f) OR (if num > 0x7f then 0x80 else 0); num = drop_bit 7 num
      in if num = 0 then Some [b] else map_option ((#) b) (rd_uvarint_enc_u64 dstsize num))"

text \<open>\<open>>>\<close> of a signed number is an arithmetic shift.\<close>

definition rd_uvarint_enc_i64 :: "nat \<Rightarrow> 64 word \<Rightarrow> 8 word list option" where
  "rd_uvarint_enc_i64 dstsize num = rd_uvarint_enc_u64 dstsize (push_bit 1 num XOR signed_drop_bit 63 num)"

definition rd_uvarint_enc_i32 :: "nat \<Rightarrow> 32 word \<Rightarrow> 8 word list option" where
  "rd_uvarint_enc_i32 dstsize num = rd_uvarint_enc_i64 dstsize (scast num)"

definition RD_UVARINT_ENC_SIZEOF :: "nat \<Rightarrow> nat" where
  "RD_UVARINT_ENC_SIZEOF sz = sz + 1 + sz div 7"

section \<open>Decoding\<close>

text \<open>The number of bytes read and the number, 0 and none at the end of the buffer. A shift by 64 or more, for
  which the code does not check, is undefined: \<open>None\<close>.\<close>

fun uvarint_dec_loop :: "8 word list \<Rightarrow> nat \<Rightarrow> nat \<Rightarrow> 64 word \<Rightarrow> (nat \<times> 64 word option) option" where
  "uvarint_dec_loop [] off shift num = Some (0, None)"
| "uvarint_dec_loop (b # src) off shift num =
     (if shift \<ge> 64 then None
      else
        let num = num OR push_bit shift (ucast (b AND 0x7f))
        in if b AND 0x80 \<noteq> 0 then uvarint_dec_loop src (off + 1) (shift + 7) num
           else Some (off + 1, Some num))"

definition rd_uvarint_dec :: "8 word list \<Rightarrow> (nat \<times> 64 word option) option" where
  "rd_uvarint_dec src = uvarint_dec_loop src 0 0 0"

definition RD_UVARINT_UNDERFLOW :: "nat \<Rightarrow> bool" where
  "RD_UVARINT_UNDERFLOW DEC_RETVAL = (DEC_RETVAL = 0)"

definition RD_UVARINT_OVERFLOW :: "nat \<Rightarrow> bool" where
  "RD_UVARINT_OVERFLOW DEC_RETVAL = (DEC_RETVAL > 2 ^ 64 - 1)"

definition RD_UVARINT_DEC_FAILED :: "nat \<Rightarrow> bool" where
  "RD_UVARINT_DEC_FAILED DEC_RETVAL = (RD_UVARINT_UNDERFLOW DEC_RETVAL \<or> RD_UVARINT_OVERFLOW DEC_RETVAL)"

definition rd_varint_dec_i64 :: "8 word list \<Rightarrow> (nat \<times> 64 word option) option" where
  "rd_varint_dec_i64 src = do {
     (r, n) \<leftarrow> rd_uvarint_dec src;
     Some (r, if RD_UVARINT_DEC_FAILED r then None
              else map_option (\<lambda>n. drop_bit 1 n XOR - (n AND 1)) n)
   }"

section \<open>Zig-zag\<close>

lemma zigzag_inverse:
  fixes num :: "64 word"
  defines "n \<equiv> push_bit 1 num XOR signed_drop_bit 63 num"
  shows "drop_bit 1 n XOR - (n AND 1) = num"
proof -
  have sign: "bit (signed_drop_bit 63 num) i \<longleftrightarrow> i < 64 \<and> bit num 63" for i
    by (cases "i = 0") (auto simp: bit_signed_drop_bit_iff dest: bit_imp_le_length)
  have n: "bit n i \<longleftrightarrow> i < 64 \<and> ((0 < i \<and> bit num (i - 1)) \<noteq> bit num 63)" for i
    unfolding n_def bit_xor_iff sign bit_push_bit_iff by auto
  have "n AND 1 = (if bit num 63 then 1 else 0)"
    using n [of 0] by (simp add: and_one_eq mod_2_eq_odd bit_0)
  moreover have "bit (drop_bit 1 n) i \<longleftrightarrow> i < 63 \<and> (bit num i \<noteq> bit num 63)" for i
    unfolding bit_drop_bit_eq comp_def n by auto
  moreover have "i < 63 \<or> i = 63" if "i < 64" for i :: nat using that by auto
  ultimately show ?thesis
    by (intro bit_word_eqI) (auto simp: bit_xor_iff)
qed

section \<open>Groups of seven bits\<close>

lemma unat_drop_7: "unat (drop_bit 7 num) = unat num div 128" for num :: "64 word"
  by (simp add: drop_bit_eq_div unat_div_distrib)

lemma more_groups: "drop_bit 7 num \<noteq> 0 \<longleftrightarrow> num > 0x7f" for num :: "64 word"
proof -
  have "drop_bit 7 num \<noteq> 0 \<longleftrightarrow> unat num div 128 \<noteq> 0" by (simp add: unat_drop_7 [symmetric] unat_eq_0)
  also have "\<dots> \<longleftrightarrow> 127 < unat num" by auto
  finally show ?thesis by (simp add: word_less_nat_alt)
qed

lemma and_7f: "x AND 0x7f = take_bit 7 x" for x :: "'a :: len word"
  by (simp add: take_bit_eq_mask mask_eq_exp_minus_1)

lemma bit_80: "bit (0x80 :: int) n \<longleftrightarrow> n = 7"
  using bit_exp_iff [of 7 n, where ?'a = int] by auto

lemma bit_group: "bit (ucast (num AND 0x7f) OR (if c then 0x80 else 0) :: 8 word) n \<longleftrightarrow> (n < 7 \<and> bit num n) \<or> (n = 7 \<and> c)"
  for num :: "64 word"
  unfolding and_7f bit_or_iff bit_unsigned_iff bit_take_bit_iff by (auto simp: bit_80 dest: bit_imp_le_length)

lemma group_low: "ucast ((ucast (num AND 0x7f) OR (if c then 0x80 else 0) :: 8 word) AND 0x7f) = num AND 0x7f" for num :: "64 word"
proof (rule bit_word_eqI)
  fix n
  show "bit (ucast ((ucast (num AND 0x7f) OR (if c then 0x80 else 0) :: 8 word) AND 0x7f) :: 64 word) n = bit (num AND 0x7f) n"
    unfolding and_7f [of "ucast _ OR _"] bit_unsigned_iff bit_take_bit_iff bit_group
    by (auto simp: and_7f bit_take_bit_iff dest: bit_imp_le_length)
qed

lemma group_flag: "(ucast (num AND 0x7f) OR (if c then 0x80 else 0) :: 8 word) AND 0x80 \<noteq> 0 \<longleftrightarrow> c" for num :: "64 word"
proof -
  let ?b = "ucast (num AND 0x7f) OR (if c then 0x80 else 0) :: 8 word"
  have "?b AND 2 ^ 7 = 0 \<longleftrightarrow> \<not> bit ?b 7" by (rule and_exp_eq_0_iff_not_bit)
  then show ?thesis unfolding bit_group by simp
qed

lemma group_split: "push_bit shift (num AND 0x7f) OR push_bit (shift + 7) (drop_bit 7 num) = push_bit shift num" for num :: "64 word"
proof (rule bit_word_eqI)
  fix n
  have "7 + (n - (shift + 7)) = n - shift" if "shift + 7 \<le> n" using that by simp
  then show "bit (push_bit shift (num AND 0x7f) OR push_bit (shift + 7) (drop_bit 7 num)) n = bit (push_bit shift num) n"
    by (cases "shift + 7 \<le> n") (auto simp: and_7f bit_simps)
qed

section \<open>Round trip\<close>

lemma dec_enc:
  "rd_uvarint_enc_u64 dstsize num = Some bs \<Longrightarrow> shift < 64 \<Longrightarrow> unat num < 2 ^ (64 - shift) \<Longrightarrow>
     uvarint_dec_loop (bs @ rest) off shift acc = Some (off + length bs, Some (acc OR push_bit shift num)) \<and>
     (\<forall>n < length bs. uvarint_dec_loop (take n bs) off shift acc = Some (0, None))"
proof (induction dstsize num arbitrary: bs off shift acc rule: rd_uvarint_enc_u64.induct)
  case (2 dstsize num)
  let ?b = "ucast (num AND 0x7f) OR (if num > 0x7f then 0x80 else 0) :: 8 word"
  show ?case
  proof (cases "drop_bit 7 num = 0")
    case True
    then have "bs = [?b]" "\<not> num > 0x7f" using "2.prems"(1) more_groups [of num] by (simp_all add: Let_def)
    moreover have "push_bit shift (num AND 0x7f) = push_bit shift num" using group_split [of shift num] True by simp
    ultimately show ?thesis using "2.prems"(2) group_low [of num False] group_flag [of num False] by (simp add: Let_def less_Suc_eq)
  next
    case False
    then obtain cs where cs: "bs = ?b # cs" "rd_uvarint_enc_u64 dstsize (drop_bit 7 num) = Some cs"
      using "2.prems"(1) by (auto simp: Let_def)
    have gt: "num > 0x7f" using False more_groups by blast
    then have "127 < unat num" by (simp add: word_less_nat_alt)
    have shift: "shift + 7 < 64"
    proof (rule ccontr)
      assume "\<not> shift + 7 < 64"
      then have "(2 :: nat) ^ (64 - shift) \<le> 2 ^ 7" by (intro power_increasing) auto
      then show False using \<open>127 < unat num\<close> "2.prems"(3) by simp
    qed
    have "(2 :: nat) ^ (64 - shift) = 2 ^ (64 - (shift + 7)) * 128"
      using shift power_add [of "2 :: nat" "57 - shift" 7] by simp
    then have "unat (drop_bit 7 num) < 2 ^ (64 - (shift + 7))"
      using "2.prems"(3) by (simp add: unat_drop_7 less_mult_imp_div_less)
    from "2.IH" [OF refl refl False cs(2) shift this]
    show ?thesis using cs(1) gt "2.prems"(2) group_low [of num True] group_flag [of num True] group_split [of shift num]
      by (auto simp: Let_def or.assoc less_Suc_eq_0_disj)
  qed
qed simp

lemma enc_size: "unat num < 128 ^ n \<Longrightarrow> 0 < n \<Longrightarrow> \<exists>bs. rd_uvarint_enc_u64 n num = Some bs \<and> bs \<noteq> [] \<and> length bs \<le> n"
proof (induction n num rule: rd_uvarint_enc_u64.induct)
  case (2 n num)
  show ?case
  proof (cases "drop_bit 7 num = 0")
    case False
    have "unat (drop_bit 7 num) < 128 ^ n" using "2.prems"(1) by (simp add: unat_drop_7 less_mult_imp_div_less mult.commute)
    moreover have "0 < n" using False calculation by (cases n) (simp_all add: unat_eq_0)
    ultimately show ?thesis using "2.IH" [OF refl refl False] False by (auto simp: Let_def)
  qed (simp add: Let_def)
qed simp

lemma enc_more_space: "rd_uvarint_enc_u64 n num = Some bs \<Longrightarrow> n \<le> m \<Longrightarrow> rd_uvarint_enc_u64 m num = Some bs"
proof (induction n num arbitrary: bs m rule: rd_uvarint_enc_u64.induct)
  case (2 n num)
  obtain m' where m': "m = Suc m'" "n \<le> m'" using "2.prems"(2) by (cases m) auto
  show ?case
  proof (cases "drop_bit 7 num = 0")
    case False
    then obtain cs where cs: "rd_uvarint_enc_u64 n (drop_bit 7 num) = Some cs" using "2.prems"(1) by (auto simp: Let_def)
    from "2.IH" [OF refl refl False cs m'(2)] show ?thesis using "2.prems"(1) False cs m'(1) by (simp add: Let_def)
  qed (use "2.prems"(1) m'(1) in \<open>simp add: Let_def\<close>)
qed simp

text \<open>
  C40 (roundtrip): decoding an encoded number gives it back. Every 64-bit signed number is encoded, in
  a buffer of at least \<open>RD_UVARINT_ENC_SIZEOF(int64_t)\<close> bytes, to between one and that many bytes; decoding
  them, whatever follows, reads exactly those bytes, passes the failure check and returns the
  number; and decoding any proper prefix reports an underflow.
\<close>

theorem varint_roundtrip:
  assumes "RD_UVARINT_ENC_SIZEOF 8 \<le> dstsize"
  shows "\<exists>bs. rd_uvarint_enc_i64 dstsize num = Some bs \<and> 0 < length bs \<and> length bs \<le> RD_UVARINT_ENC_SIZEOF 8 \<and>
    rd_varint_dec_i64 (bs @ rest) = Some (length bs, Some num) \<and> \<not> RD_UVARINT_DEC_FAILED (length bs) \<and>
    (\<forall>n < length bs. rd_varint_dec_i64 (take n bs) = Some (0, None))"
proof -
  let ?n = "push_bit 1 num XOR signed_drop_bit 63 num"
  have n: "unat ?n < 2 ^ 64" using unsigned_less [of ?n, where ?'a = nat] by simp
  have "RD_UVARINT_ENC_SIZEOF 8 = 10" by (simp add: RD_UVARINT_ENC_SIZEOF_def)
  moreover have "unat ?n < 128 ^ 10" using n by simp
  ultimately obtain bs where bs: "rd_uvarint_enc_u64 dstsize ?n = Some bs" "bs \<noteq> []" "length bs \<le> RD_UVARINT_ENC_SIZEOF 8"
    using enc_size [of ?n 10] enc_more_space [of 10 ?n _ dstsize] assms by auto
  have ok: "\<not> RD_UVARINT_DEC_FAILED (length bs)"
    using bs(2,3) by (simp add: RD_UVARINT_DEC_FAILED_def RD_UVARINT_UNDERFLOW_def RD_UVARINT_OVERFLOW_def RD_UVARINT_ENC_SIZEOF_def)
  have "uvarint_dec_loop (bs @ rest) 0 0 0 = Some (length bs, Some ?n)"
    "\<forall>n < length bs. uvarint_dec_loop (take n bs) 0 0 0 = Some (0, None)"
    using dec_enc [OF bs(1), of 0 rest 0 0] n by auto
  then show ?thesis using bs ok zigzag_inverse [of num]
    by (auto simp: rd_uvarint_enc_i64_def rd_varint_dec_i64_def rd_uvarint_dec_def)
qed

theorem varint_roundtrip_witness:
  "RD_UVARINT_ENC_SIZEOF 8 \<le> 16 \<and> rd_uvarint_enc_i64 16 253 = Some [0xfa, 3] \<and>
     rd_varint_dec_i64 ([0xfa, 3] @ [0xff]) = Some (2, Some 253) \<and> rd_varint_dec_i64 [0xfa] = Some (0, None)"
proof -
  have l: "RD_UVARINT_ENC_SIZEOF 8 \<le> 16" and e: "rd_uvarint_enc_i64 16 253 = Some [0xfa, 3]" by code_simp+
  from varint_roundtrip [OF l, of 253 "[0xff]"] e
  have "rd_varint_dec_i64 ([0xfa, 3] @ [0xff]) = Some (2, Some 253)" "rd_varint_dec_i64 (take 1 [0xfa, 3]) = Some (0, None)"
    by fastforce+
  then show ?thesis using l e by simp
qed

end
