(* ===== verification/Rdbuf.thy ===== *)
theory Rdbuf
  imports Prelude Varint
begin

text \<open>
  Byte buffers (\<open>src/src/rdbuf.c\<close>, \<open>src/src/rdbuf.h\<close>): a buffer is a list of segments of memory, written
  at its write position and read through slices. A pointer to a segment is its index in the list.

  \<open>size_t\<close> is a natural number: a buffer is smaller than the address space. \<open>rbuf_erased\<close> is an
  integer, since \<open>rd_buf_erase\<close> subtracts from it before it adds. Where memory comes from
  (\<open>rbuf_extra\<close>, \<open>seg_free\<close>) is left out: an allocation that fails aborts, and the contents of new
  memory, which the functions here never read before writing them, are zeroes. \<open>None\<close> is an \<open>rd_assert\<close>
  that fails, a null pointer or a loop that does not end.
\<close>

section \<open>Segments and buffers\<close>

record rd_segment_t =
  seg_p :: "8 word list"
  seg_of :: nat
  seg_size :: nat
  seg_absof :: nat
  seg_rdonly :: bool
  seg_erased :: nat

record rd_buf_t =
  rbuf_segments :: "rd_segment_t list"
  rbuf_segment_cnt :: nat
  rbuf_wpos :: "nat option"
  rbuf_len :: nat
  rbuf_erased :: int
  rbuf_size :: nat

record rd_slice_t =
  sl_seg :: "nat option"
  sl_rof :: nat
  sl_start :: nat
  sl_end :: nat

abbreviation (input) SIZEOF_SEGMENT :: nat where "SIZEOF_SEGMENT \<equiv> 72"

definition rd_buf_len :: "rd_buf_t \<Rightarrow> nat" where
  "rd_buf_len rbuf = rbuf_len rbuf"

definition rd_buf_write_pos :: "rd_buf_t \<Rightarrow> nat" where
  "rd_buf_write_pos rbuf =
     (case rbuf_wpos rbuf of None \<Rightarrow> 0
      | Some i \<Rightarrow> seg_absof (rbuf_segments rbuf ! i) + seg_of (rbuf_segments rbuf ! i))"

text \<open>A negative number of remaining bytes is, as the \<open>size_t\<close> it is in the code, larger than every size.\<close>

definition rd_buf_write_remains :: "rd_buf_t \<Rightarrow> int" where
  "rd_buf_write_remains rbuf = int (rbuf_size rbuf) - (int (rbuf_len rbuf) + rbuf_erased rbuf)"

definition rd_segment_write_remains :: "rd_segment_t \<Rightarrow> nat" where
  "rd_segment_write_remains seg = (if seg_rdonly seg then 0 else seg_size seg - seg_of seg)"

definition rd_segment_init :: "8 word list \<Rightarrow> nat \<Rightarrow> rd_segment_t" where
  "rd_segment_init mem sz =
     \<lparr>seg_p = mem, seg_of = 0, seg_size = sz, seg_absof = 0, seg_rdonly = False, seg_erased = 0\<rparr>"

definition rd_buf_init :: rd_buf_t where
  "rd_buf_init = \<lparr>rbuf_segments = [], rbuf_segment_cnt = 0, rbuf_wpos = None, rbuf_len = 0, rbuf_erased = 0, rbuf_size = 0\<rparr>"

text \<open>Changing the segment at an index.\<close>

definition upd_seg :: "nat \<Rightarrow> (rd_segment_t \<Rightarrow> rd_segment_t) \<Rightarrow> rd_buf_t \<Rightarrow> rd_buf_t" where
  "upd_seg i f rbuf = rbuf\<lparr>rbuf_segments := (rbuf_segments rbuf)[i := f (rbuf_segments rbuf ! i)]\<rparr>"

section \<open>Writing\<close>

text \<open>The first segment with room, from the write position on: the room and the buffer, whose write
  position is then the last segment looked at.\<close>

fun get_writable_loop :: "rd_segment_t list \<Rightarrow> nat \<Rightarrow> rd_buf_t \<Rightarrow> nat \<times> rd_buf_t" where
  "get_writable_loop [] i rbuf = (0, rbuf)"
| "get_writable_loop (seg # segs) i rbuf =
     (let len = rd_segment_write_remains seg; rbuf = rbuf\<lparr>rbuf_wpos := Some i\<rparr> in
      if len = 0 then get_writable_loop segs (i + 1) rbuf
      else (len, if seg_of seg = 0 \<and> seg_absof seg < rbuf_len rbuf
                 then upd_seg i (\<lambda>seg. seg\<lparr>seg_absof := rbuf_len rbuf\<rparr>) rbuf else rbuf))"

definition rd_buf_get_writable0 :: "rd_buf_t \<Rightarrow> nat \<times> rd_buf_t" where
  "rd_buf_get_writable0 rbuf =
     (case rbuf_wpos rbuf of None \<Rightarrow> (0, rbuf)
      | Some i \<Rightarrow> get_writable_loop (drop i (rbuf_segments rbuf)) i rbuf)"

definition rd_buf_append_segment :: "rd_segment_t \<Rightarrow> rd_buf_t \<Rightarrow> rd_buf_t" where
  "rd_buf_append_segment seg rbuf =
     (let i = length (rbuf_segments rbuf);
          rbuf = rbuf\<lparr>rbuf_segments := rbuf_segments rbuf @ [seg\<lparr>seg_absof := rbuf_len rbuf\<rparr>],
                      rbuf_segment_cnt := rbuf_segment_cnt rbuf + 1, rbuf_len := rbuf_len rbuf + seg_of seg,
                      rbuf_size := rbuf_size rbuf + seg_size seg\<rparr>
      in if rbuf_wpos rbuf = None then rbuf\<lparr>rbuf_wpos := Some i\<rparr> else snd (rd_buf_get_writable0 rbuf))"

definition rd_buf_alloc_segment0 :: "nat \<Rightarrow> rd_segment_t" where
  "rd_buf_alloc_segment0 sz = rd_segment_init (replicate sz 0) sz"

text \<open>The new segment is the last one.\<close>

definition rd_buf_alloc_segment :: "nat \<Rightarrow> nat \<Rightarrow> rd_buf_t \<Rightarrow> rd_buf_t" where
  "rd_buf_alloc_segment min_size max_size rbuf =
     (let max_size = (if min_size \<noteq> max_size \<or> max_size = 0
                      then max (SIZEOF_SEGMENT * 4) (max (min_size * 2) (rbuf_size rbuf div 2)) else max_size)
      in rd_buf_append_segment (rd_buf_alloc_segment0 max_size) rbuf)"

definition rd_buf_write_ensure_contig :: "nat \<Rightarrow> rd_buf_t \<Rightarrow> rd_buf_t" where
  "rd_buf_write_ensure_contig sz rbuf =
     (let alloc = (let rbuf = rd_buf_alloc_segment sz sz rbuf
                   in rbuf\<lparr>rbuf_wpos := Some (length (rbuf_segments rbuf) - 1)\<rparr>)
      in case rbuf_wpos rbuf of None \<Rightarrow> alloc
         | Some i \<Rightarrow> if rd_segment_write_remains (rbuf_segments rbuf ! i) \<ge> sz then rbuf else alloc)"

lemma get_writable_loop_sizes [simp]:
  "rbuf_size (snd (get_writable_loop segs i rbuf)) = rbuf_size rbuf"
  "rbuf_len (snd (get_writable_loop segs i rbuf)) = rbuf_len rbuf"
  "rbuf_erased (snd (get_writable_loop segs i rbuf)) = rbuf_erased rbuf"
  "rbuf_segment_cnt (snd (get_writable_loop segs i rbuf)) = rbuf_segment_cnt rbuf"
  by (induction segs i rbuf rule: get_writable_loop.induct) (simp_all add: Let_def upd_seg_def)

lemma append_segment_sizes [simp]:
  "rbuf_size (rd_buf_append_segment seg rbuf) = rbuf_size rbuf + seg_size seg"
  "rbuf_len (rd_buf_append_segment seg rbuf) = rbuf_len rbuf + seg_of seg"
  "rbuf_erased (rd_buf_append_segment seg rbuf) = rbuf_erased rbuf"
  by (simp_all add: rd_buf_append_segment_def rd_buf_get_writable0_def Let_def split: option.splits)

lemma alloc_segment_remains:
  "rd_buf_write_remains rbuf + int min_size \<le> rd_buf_write_remains (rd_buf_alloc_segment min_size max_size rbuf)"
  by (auto simp: rd_buf_write_remains_def rd_buf_alloc_segment_def rd_buf_alloc_segment0_def rd_segment_init_def Let_def)

function rd_buf_write_ensure :: "nat \<Rightarrow> nat \<Rightarrow> rd_buf_t \<Rightarrow> rd_buf_t" where
  "rd_buf_write_ensure min_size max_size rbuf =
     (let remains = rd_buf_write_remains rbuf in
      if 0 \<le> remains \<and> remains < int min_size
      then rd_buf_write_ensure min_size max_size
             (rd_buf_alloc_segment (nat (int min_size - remains))
               (if max_size \<noteq> 0 then nat (int max_size - remains) else 0) rbuf)
      else rbuf)"
  by pat_completeness auto
termination
proof (relation "measure (\<lambda>(min_size, max_size, rbuf). nat (int min_size - rd_buf_write_remains rbuf))")
  fix min_size max_size :: nat and rbuf x
  assume x: "x = rd_buf_write_remains rbuf" "0 \<le> x \<and> x < int min_size"
  show "((min_size, max_size, rd_buf_alloc_segment (nat (int min_size - x)) (if max_size \<noteq> 0 then nat (int max_size - x) else 0) rbuf),
      min_size, max_size, rbuf) \<in> measure (\<lambda>(min_size, max_size, rbuf). nat (int min_size - rd_buf_write_remains rbuf))"
    using alloc_segment_remains [of rbuf "nat (int min_size - x)" "if max_size \<noteq> 0 then nat (int max_size - x) else 0"] x
    by simp
qed simp

declare rd_buf_write_ensure.simps [simp del]

text \<open>The loop of \<open>rd_buf_write\<close>; without a payload only the write position moves.\<close>

partial_function (option) buf_write_loop :: "8 word list option \<Rightarrow> nat \<Rightarrow> rd_buf_t \<Rightarrow> rd_buf_t option" where
  "buf_write_loop psrc remains rbuf =
     (if remains = 0 then Some rbuf
      else
        let (segremains, rbuf) = rd_buf_get_writable0 rbuf; wlen = min remains segremains
        in case rbuf_wpos rbuf of None \<Rightarrow> None
           | Some i \<Rightarrow>
               let rbuf = upd_seg i (\<lambda>seg.
                 (case psrc of None \<Rightarrow> seg
                  | Some src \<Rightarrow> seg\<lparr>seg_p := take (seg_of seg) (seg_p seg) @ take wlen src @ drop (seg_of seg + wlen) (seg_p seg)\<rparr>)
                 \<lparr>seg_of := seg_of seg + wlen\<rparr>) rbuf
               in buf_write_loop (map_option (drop wlen) psrc) (remains - wlen) (rbuf\<lparr>rbuf_len := rbuf_len rbuf + wlen\<rparr>))"

declare buf_write_loop.simps [code]

definition rd_buf_write0 :: "8 word list option \<Rightarrow> nat \<Rightarrow> rd_buf_t \<Rightarrow> (nat \<times> rd_buf_t) option" where
  "rd_buf_write0 payload sz rbuf =
     map_option (Pair (rbuf_len rbuf)) (buf_write_loop payload sz (rd_buf_write_ensure sz 0 rbuf))"

abbreviation rd_buf_write :: "8 word list \<Rightarrow> rd_buf_t \<Rightarrow> (nat \<times> rd_buf_t) option" where
  "rd_buf_write payload rbuf \<equiv> rd_buf_write0 (Some payload) (length payload) rbuf"

section \<open>Updating what was written\<close>

fun find_segment :: "rd_segment_t list \<Rightarrow> nat \<Rightarrow> nat \<Rightarrow> nat option" where
  "find_segment [] i absof = None"
| "find_segment (seg # segs) i absof =
     (if seg_absof seg \<le> absof \<and> absof < seg_absof seg + seg_of seg then Some i else find_segment segs (i + 1) absof)"

definition rd_buf_get_segment_at_offset :: "rd_buf_t \<Rightarrow> nat option \<Rightarrow> nat \<Rightarrow> nat option" where
  "rd_buf_get_segment_at_offset rbuf hint absof =
     (if rbuf_len rbuf \<le> absof then None
      else
        let i = (case hint of None \<Rightarrow> 0 | Some i \<Rightarrow> if absof < seg_absof (rbuf_segments rbuf ! i) then 0 else i)
        in find_segment (drop i (rbuf_segments rbuf)) i absof)"

definition rd_segment_write_update :: "rd_segment_t \<Rightarrow> nat \<Rightarrow> 8 word list \<Rightarrow> (nat \<times> rd_segment_t) option" where
  "rd_segment_write_update seg absof payload =
     (let relof = absof - seg_absof seg; wlen = min (length payload) (seg_of seg - relof) in
      if absof < seg_absof seg \<or> seg_of seg < relof then None
      else Some (wlen, seg\<lparr>seg_p := take relof (seg_p seg) @ take wlen payload @ drop (relof + wlen) (seg_p seg)\<rparr>))"

text \<open>The segments from the current one on, and the length of the buffer.\<close>

fun write_update_loop :: "nat \<Rightarrow> rd_segment_t list \<Rightarrow> nat \<Rightarrow> 8 word list \<Rightarrow> rd_segment_t list option" where
  "write_update_loop len segs absof [] = Some segs"
| "write_update_loop len [] absof (b # bs) = None"
| "write_update_loop len (seg # segs) absof (b # bs) =
     (if len < seg_absof seg then None
      else do {
        (wlen, seg) \<leftarrow> rd_segment_write_update seg absof (b # bs);
        segs \<leftarrow> write_update_loop len segs (absof + wlen) (drop wlen (b # bs));
        Some (seg # segs)
      })"

definition rd_buf_write_update :: "nat \<Rightarrow> 8 word list \<Rightarrow> rd_buf_t \<Rightarrow> rd_buf_t option" where
  "rd_buf_write_update absof payload rbuf = do {
     i \<leftarrow> rd_buf_get_segment_at_offset rbuf (rbuf_wpos rbuf) absof;
     segs \<leftarrow> write_update_loop (rbuf_len rbuf) (drop i (rbuf_segments rbuf)) absof payload;
     Some (rbuf\<lparr>rbuf_segments := take i (rbuf_segments rbuf) @ segs\<rparr>)
   }"

section \<open>Pushing foreign memory\<close>

definition rd_segment_split :: "nat \<Rightarrow> nat \<Rightarrow> rd_buf_t \<Rightarrow> (rd_segment_t \<times> rd_buf_t) option" where
  "rd_segment_split i absof rbuf =
     (let seg = rbuf_segments rbuf ! i; relof = absof - seg_absof seg in
      if rbuf_wpos rbuf \<noteq> Some i \<or> absof < seg_absof seg \<or> seg_absof seg + seg_of seg < absof then None
      else
        let newseg = (rd_buf_alloc_segment0 0)
              \<lparr>seg_p := drop relof (seg_p seg), seg_of := seg_of seg - relof, seg_size := seg_size seg - relof,
               seg_absof := 2 ^ 64 - 1, seg_rdonly := seg_rdonly seg\<rparr>
        in Some (newseg, (upd_seg i (\<lambda>seg. seg\<lparr>seg_p := take relof (seg_p seg), seg_of := relof, seg_size := relof\<rparr>) rbuf)
             \<lparr>rbuf_len := rbuf_len rbuf - seg_of newseg, rbuf_size := rbuf_size rbuf - seg_size newseg\<rparr>))"

definition rd_buf_push0 :: "8 word list \<Rightarrow> bool \<Rightarrow> rd_buf_t \<Rightarrow> rd_buf_t option" where
  "rd_buf_push0 payload writable rbuf = do {
     (tailseg, rbuf) \<leftarrow>
       (case rbuf_wpos rbuf of
          Some i \<Rightarrow>
            let prevseg = rbuf_segments rbuf ! i in
            if rd_segment_write_remains prevseg > 0
            then map_option (\<lambda>(tailseg, rbuf). (Some tailseg, rbuf))
                   (rd_segment_split i (seg_absof prevseg + seg_of prevseg) rbuf)
            else Some (None, rbuf)
        | None \<Rightarrow> Some (None, rbuf));
     let seg = (rd_buf_alloc_segment0 0)
       \<lparr>seg_p := payload, seg_size := length payload, seg_of := length payload, seg_rdonly := \<not> writable\<rparr>;
     let rbuf = rd_buf_append_segment seg rbuf;
     Some (case tailseg of Some tailseg \<Rightarrow> rd_buf_append_segment tailseg rbuf | None \<Rightarrow> rbuf)
   }"

abbreviation rd_buf_push :: "8 word list \<Rightarrow> rd_buf_t \<Rightarrow> rd_buf_t option" where
  "rd_buf_push payload rbuf \<equiv> rd_buf_push0 payload False rbuf"

section \<open>Erasing and seeking\<close>

definition rd_buf_destroy_segment :: "nat \<Rightarrow> rd_buf_t \<Rightarrow> rd_buf_t option" where
  "rd_buf_destroy_segment i rbuf =
     (let seg = rbuf_segments rbuf ! i in
      if rbuf_segment_cnt rbuf > 0 \<and> rbuf_len rbuf \<ge> seg_of seg \<and> rbuf_size rbuf \<ge> seg_size seg
      then Some (rbuf\<lparr>rbuf_segments := take i (rbuf_segments rbuf) @ drop (i + 1) (rbuf_segments rbuf),
             rbuf_segment_cnt := rbuf_segment_cnt rbuf - 1, rbuf_len := rbuf_len rbuf - seg_of seg,
             rbuf_size := rbuf_size rbuf - seg_size seg,
             rbuf_wpos := (case rbuf_wpos rbuf of None \<Rightarrow> None
                           | Some w \<Rightarrow> if w = i then None else if i < w then Some (w - 1) else Some w)\<rparr>)
      else None)"

text \<open>
  One round of the loop of \<open>rd_buf_erase\<close> on the segment at index \<open>i\<close>, with \<open>off\<close> bytes erased so far: the index
  of the next segment and the bytes erased then. An offset outside of the segment would wrap around
  in the subtractions of the loop and lead to wild memory accesses: it is an abort.
\<close>

definition erase_segment :: "nat \<Rightarrow> nat \<Rightarrow> nat \<Rightarrow> nat \<Rightarrow> rd_buf_t \<Rightarrow> (nat \<times> nat \<times> rd_buf_t) option" where
  "erase_segment absof sz i off rbuf =
     (let seg = rbuf_segments rbuf ! i;
          rof = absof + off - seg_absof seg;
          toerase = min (seg_of seg - rof) (sz - off);
          segremains = seg_of seg - (rof + toerase);
          rbuf = upd_seg i (\<lambda>seg. seg\<lparr>seg_absof := seg_absof seg - off\<rparr>) rbuf
      in if absof + off < seg_absof seg \<or> seg_of seg < rof \<or> seg_absof seg < off then None
         else if toerase = 0 then Some (i + 1, off, rbuf)
         else if seg_rdonly seg then None
         else
           let rbuf = (upd_seg i (\<lambda>seg. seg
                 \<lparr>seg_p := take rof (seg_p seg) @ take segremains (drop (rof + toerase) (seg_p seg)) @ drop (rof + segremains) (seg_p seg),
                  seg_of := seg_of seg - toerase, seg_erased := seg_erased seg + toerase\<rparr>) rbuf)
                 \<lparr>rbuf_len := rbuf_len rbuf - toerase\<rparr>
           in if seg_of (rbuf_segments rbuf ! i) = 0
              then map_option (\<lambda>rbuf. (i, off + toerase, rbuf))
                     (rd_buf_destroy_segment i
                       (rbuf\<lparr>rbuf_erased := rbuf_erased rbuf - int (seg_erased (rbuf_segments rbuf ! i))\<rparr>))
              else Some (i + 1, off + toerase, rbuf))"

text \<open>\<open>n\<close> is the number of segments left to look at.\<close>

fun erase_loop :: "nat \<Rightarrow> nat \<Rightarrow> nat \<Rightarrow> nat \<Rightarrow> nat \<Rightarrow> rd_buf_t \<Rightarrow> (nat \<times> nat \<times> rd_buf_t) option" where
  "erase_loop absof sz 0 i off rbuf = Some (i, off, rbuf)"
| "erase_loop absof sz (Suc n) i off rbuf =
     (if sz \<le> off then Some (i, off, rbuf)
      else do {
        (i, off, rbuf) \<leftarrow> erase_segment absof sz i off rbuf;
        erase_loop absof sz n i off rbuf
      })"

definition rd_buf_erase :: "nat \<Rightarrow> nat \<Rightarrow> rd_buf_t \<Rightarrow> (nat \<times> rd_buf_t) option" where
  "rd_buf_erase absof sz rbuf =
     (case rd_buf_get_segment_at_offset rbuf None absof of
        None \<Rightarrow> Some (0, rbuf)
      | Some i \<Rightarrow> do {
          (i, off, rbuf) \<leftarrow> erase_loop absof sz (length (rbuf_segments rbuf) - i) i 0 rbuf;
          if \<exists>seg \<in> set (drop i (rbuf_segments rbuf)). seg_absof seg < off then None
          else Some (off, rbuf\<lparr>rbuf_segments := take i (rbuf_segments rbuf) @
                             map (\<lambda>seg. seg\<lparr>seg_absof := seg_absof seg - off\<rparr>) (drop i (rbuf_segments rbuf)),
                           rbuf_erased := rbuf_erased rbuf + int off\<rparr>)
        })"

text \<open>Destroying the last \<open>n\<close> segments.\<close>

fun seek_destroy_loop :: "nat \<Rightarrow> rd_buf_t \<Rightarrow> rd_buf_t option" where
  "seek_destroy_loop 0 rbuf = Some rbuf"
| "seek_destroy_loop (Suc n) rbuf = do {
     let i = length (rbuf_segments rbuf) - 1;
     rbuf \<leftarrow> rd_buf_destroy_segment i (rbuf\<lparr>rbuf_erased := rbuf_erased rbuf - int (seg_erased (rbuf_segments rbuf ! i))\<rparr>);
     seek_destroy_loop n rbuf
   }"

definition rd_buf_write_seek :: "nat \<Rightarrow> rd_buf_t \<Rightarrow> (int \<times> rd_buf_t) option" where
  "rd_buf_write_seek absof rbuf =
     (case rd_buf_get_segment_at_offset rbuf (rbuf_wpos rbuf) absof of
        None \<Rightarrow> Some (- 1, rbuf)
      | Some i \<Rightarrow>
          let seg = rbuf_segments rbuf ! i; relof = absof - seg_absof seg in
          if relof > seg_of seg then Some (- 1, rbuf)
          else do {
            rbuf \<leftarrow> seek_destroy_loop (length (rbuf_segments rbuf) - 1 - i) rbuf;
            let rbuf = (upd_seg i (\<lambda>seg. seg\<lparr>seg_of := relof\<rparr>) rbuf)\<lparr>rbuf_wpos := Some i, rbuf_len := seg_absof seg + relof\<rparr>;
            if rbuf_len rbuf = absof then Some (0, rbuf) else None
          })"

section \<open>Slices\<close>

definition rd_slice_abs_offset :: "rd_buf_t \<Rightarrow> rd_slice_t \<Rightarrow> nat" where
  "rd_slice_abs_offset rbuf sl =
     (case sl_seg sl of None \<Rightarrow> sl_end sl | Some i \<Rightarrow> seg_absof (rbuf_segments rbuf ! i) + sl_rof sl)"

definition rd_slice_remains :: "rd_buf_t \<Rightarrow> rd_slice_t \<Rightarrow> nat" where
  "rd_slice_remains rbuf sl = sl_end sl - rd_slice_abs_offset rbuf sl"

definition rd_slice_size :: "rd_slice_t \<Rightarrow> nat" where
  "rd_slice_size sl = sl_end sl - sl_start sl"

definition rd_slice_pos :: "rd_buf_t \<Rightarrow> rd_slice_t \<Rightarrow> rd_slice_t" where
  "rd_slice_pos rbuf sl =
     (case sl_seg sl of None \<Rightarrow> sl | Some i \<Rightarrow> sl\<lparr>sl_start := seg_absof (rbuf_segments rbuf ! i) + sl_rof sl\<rparr>)"

definition rd_slice_offset :: "rd_buf_t \<Rightarrow> rd_slice_t \<Rightarrow> nat" where
  "rd_slice_offset rbuf sl =
     (case sl_seg sl of None \<Rightarrow> rd_slice_size sl
      | Some i \<Rightarrow> seg_absof (rbuf_segments rbuf ! i) + sl_rof sl - sl_start sl)"

text \<open>\<open>Inl ()\<close> is -1.\<close>

definition rd_slice_init_seg :: "rd_buf_t \<Rightarrow> nat \<Rightarrow> nat \<Rightarrow> nat \<Rightarrow> unit + rd_slice_t" where
  "rd_slice_init_seg rbuf i rof sz =
     (let absof = seg_absof (rbuf_segments rbuf ! i) in
      if rbuf_len rbuf < absof + rof + sz then Inl ()
      else Inr \<lparr>sl_seg = Some i, sl_rof = rof, sl_start = absof + rof, sl_end = absof + rof + sz\<rparr>)"

definition rd_slice_init :: "rd_buf_t \<Rightarrow> nat \<Rightarrow> nat \<Rightarrow> unit + rd_slice_t" where
  "rd_slice_init rbuf absof sz =
     (case rd_buf_get_segment_at_offset rbuf None absof of
        None \<Rightarrow> Inl ()
      | Some i \<Rightarrow> rd_slice_init_seg rbuf i (absof - seg_absof (rbuf_segments rbuf ! i)) sz)"

definition rd_slice_init_full :: "rd_buf_t \<Rightarrow> rd_slice_t option" where
  "rd_slice_init_full rbuf = (case rd_slice_init rbuf 0 (rd_buf_len rbuf) of Inl _ \<Rightarrow> None | Inr sl \<Rightarrow> Some sl)"

fun reader_find :: "rd_segment_t list \<Rightarrow> nat \<Rightarrow> nat \<Rightarrow> nat \<Rightarrow> (nat \<times> nat) option" where
  "reader_find [] i rof e = None"
| "reader_find (seg # segs) i rof e =
     (if seg_absof seg + rof < e \<and> seg_of seg = rof then reader_find segs (i + 1) 0 e else Some (i, rof))"

text \<open>The bytes that can be read in one go (none at the end of the slice) and the slice after them.\<close>

definition rd_slice_reader :: "rd_buf_t \<Rightarrow> rd_slice_t \<Rightarrow> (8 word list \<times> rd_slice_t) option" where
  "rd_slice_reader rbuf sl =
     (case (case sl_seg sl of None \<Rightarrow> None
            | Some i \<Rightarrow> reader_find (drop i (rbuf_segments rbuf)) i (sl_rof sl) (sl_end sl)) of
        None \<Rightarrow> Some ([], sl)
      | Some (i, rof) \<Rightarrow>
          let seg = rbuf_segments rbuf ! i in
          if seg_absof seg + rof \<ge> sl_end sl then Some ([], sl)
          else
            let rlen = min (seg_of seg - rof) (rd_slice_remains rbuf sl); bytes = take rlen (drop rof (seg_p seg))
            in if sl_seg sl \<noteq> Some i
               then if seg_absof seg + rof \<ge> sl_start sl \<and> seg_absof seg + rof + rlen \<le> sl_end sl
                    then Some (bytes, sl\<lparr>sl_seg := Some i, sl_rof := rlen\<rparr>) else None
               else Some (bytes, sl\<lparr>sl_rof := sl_rof sl + rlen\<rparr>))"

partial_function (option) slice_read_loop :: "rd_buf_t \<Rightarrow> rd_slice_t \<Rightarrow> (8 word list \<times> rd_slice_t) option" where
  "slice_read_loop rbuf sl = do {
     (bytes, sl) \<leftarrow> rd_slice_reader rbuf sl;
     if bytes = [] then Some ([], sl)
     else do {
       (rest, sl) \<leftarrow> slice_read_loop rbuf sl;
       Some (bytes @ rest, sl)
     }
   }"

declare slice_read_loop.simps [code]

text \<open>The sum of what \<open>rd_buf_write\<close> returns, the slice and the buffer written to.\<close>

partial_function (option) write_slice_loop ::
  "rd_buf_t \<Rightarrow> rd_slice_t \<Rightarrow> nat \<Rightarrow> rd_buf_t \<Rightarrow> (nat \<times> rd_slice_t \<times> rd_buf_t) option" where
  "write_slice_loop src sl n rbuf = do {
     (bytes, sl) \<leftarrow> rd_slice_reader src sl;
     if bytes = [] then Some (n, sl, rbuf)
     else do {
       (r, rbuf) \<leftarrow> rd_buf_write bytes rbuf;
       write_slice_loop src sl (n + r) rbuf
     }
   }"

declare write_slice_loop.simps [code]

definition rd_buf_write_slice :: "rd_buf_t \<Rightarrow> rd_slice_t \<Rightarrow> rd_buf_t \<Rightarrow> (nat \<times> rd_slice_t \<times> rd_buf_t) option" where
  "rd_buf_write_slice src sl rbuf = write_slice_loop src sl 0 rbuf"

text \<open>The bytes read; \<open>Inl ()\<close> when there are fewer than asked for.\<close>

definition rd_slice_read :: "rd_buf_t \<Rightarrow> rd_slice_t \<Rightarrow> nat \<Rightarrow> (unit + 8 word list \<times> rd_slice_t) option" where
  "rd_slice_read rbuf sl sz =
     (if rd_slice_remains rbuf sl < sz then Some (Inl ())
      else do {
        (bytes, sl') \<leftarrow> slice_read_loop rbuf (sl\<lparr>sl_end := rd_slice_abs_offset rbuf sl + sz\<rparr>);
        Some (Inr (bytes, sl'\<lparr>sl_end := sl_end sl\<rparr>))
      })"

definition rd_slice_seek :: "rd_buf_t \<Rightarrow> rd_slice_t \<Rightarrow> nat \<Rightarrow> (unit + rd_slice_t) option" where
  "rd_slice_seek rbuf sl offset =
     (let absof = sl_start sl + offset in
      if absof \<ge> sl_end sl then Some (Inl ())
      else
        case rd_buf_get_segment_at_offset rbuf (sl_seg sl) absof of
          None \<Rightarrow> None
        | Some i \<Rightarrow> Some (Inr (sl\<lparr>sl_seg := Some i, sl_rof := absof - seg_absof (rbuf_segments rbuf ! i)\<rparr>)))"

definition rd_slice_peek :: "rd_buf_t \<Rightarrow> rd_slice_t \<Rightarrow> nat \<Rightarrow> nat \<Rightarrow> (unit + 8 word list) option" where
  "rd_slice_peek rbuf sl offset sz = do {
     sub \<leftarrow> rd_slice_seek rbuf sl offset;
     case sub of
       Inl _ \<Rightarrow> Some (Inl ())
     | Inr sub \<Rightarrow> map_option (map_sum id fst) (rd_slice_read rbuf sub sz)
   }"

definition rd_slice_ensure_contig :: "rd_buf_t \<Rightarrow> rd_slice_t \<Rightarrow> nat \<Rightarrow> (unit + 8 word list \<times> rd_slice_t) option" where
  "rd_slice_ensure_contig rbuf sl sz =
     (if rd_slice_remains rbuf sl < sz then Some (Inl ())
      else case sl_seg sl of
        None \<Rightarrow> None
      | Some i \<Rightarrow>
          let seg = rbuf_segments rbuf ! i in
          if sl_rof sl + sz > seg_of seg then Some (Inl ())
          else map_option (map_sum id (\<lambda>(_, sl'). (take sz (drop (sl_rof sl) (seg_p seg)), sl')))
                 (rd_slice_read rbuf sl sz))"

definition rd_slice_narrow :: "rd_buf_t \<Rightarrow> rd_slice_t \<Rightarrow> nat \<Rightarrow> (unit + rd_slice_t) option" where
  "rd_slice_narrow rbuf sl sz =
     (if sl_start sl + sz > sl_end sl then Some (Inl ())
      else
        let sl = sl\<lparr>sl_end := sl_start sl + sz\<rparr>
        in if rd_slice_abs_offset rbuf sl \<le> sl_end sl then Some (Inr sl) else None)"

definition rd_slice_narrow_relative :: "rd_buf_t \<Rightarrow> rd_slice_t \<Rightarrow> nat \<Rightarrow> (unit + rd_slice_t) option" where
  "rd_slice_narrow_relative rbuf sl relsize = rd_slice_narrow rbuf sl (rd_slice_offset rbuf sl + relsize)"

definition rd_slice_widen :: "rd_slice_t \<Rightarrow> rd_slice_t \<Rightarrow> rd_slice_t" where
  "rd_slice_widen sl save = sl\<lparr>sl_end := sl_end save\<rparr>"

text \<open>
  The varint decoder of slices, over the bytes of a segment and over the segments. It stops with the
  number and the number of bytes, at the end of the slice, or at the end of the segment with what it
  has so far.
\<close>

datatype uvarint_res = UV_DONE nat nat "64 word" | UV_UNDERFLOW | UV_MORE nat "64 word"

fun slice_uvarint_seg :: "8 word list \<Rightarrow> nat \<Rightarrow> nat \<Rightarrow> nat \<Rightarrow> nat \<Rightarrow> 64 word \<Rightarrow> uvarint_res option" where
  "slice_uvarint_seg [] absof rof e shift num = Some (UV_MORE shift num)"
| "slice_uvarint_seg (oct # octs) absof rof e shift num =
     (if absof + rof \<ge> e then Some UV_UNDERFLOW
      else if shift \<ge> 64 then None
      else
        let num = num OR push_bit shift (ucast (oct AND 0x7f))
        in if oct AND 0x80 = 0 then Some (UV_DONE rof (shift + 7) num)
           else slice_uvarint_seg octs absof (rof + 1) e (shift + 7) num)"

fun slice_uvarint_loop ::
  "rd_segment_t list \<Rightarrow> nat \<Rightarrow> nat \<Rightarrow> nat \<Rightarrow> nat \<Rightarrow> 64 word \<Rightarrow> (nat \<times> nat \<times> nat \<times> 64 word) option option" where
  "slice_uvarint_loop [] i rof e shift num = Some None"
| "slice_uvarint_loop (seg # segs) i rof e shift num =
     (case slice_uvarint_seg (drop rof (take (seg_of seg) (seg_p seg))) (seg_absof seg) rof e shift num of
        None \<Rightarrow> None
      | Some (UV_DONE rof shift num) \<Rightarrow> Some (Some (i, rof, shift, num))
      | Some UV_UNDERFLOW \<Rightarrow> Some None
      | Some (UV_MORE shift num) \<Rightarrow> slice_uvarint_loop segs (i + 1) 0 e shift num)"

text \<open>The number of bytes read (0 on underflow), the number and the slice.\<close>

definition rd_slice_read_uvarint :: "rd_buf_t \<Rightarrow> rd_slice_t \<Rightarrow> (nat \<times> 64 word option \<times> rd_slice_t) option" where
  "rd_slice_read_uvarint rbuf sl = do {
     r \<leftarrow> (case sl_seg sl of None \<Rightarrow> Some None
           | Some i \<Rightarrow> slice_uvarint_loop (drop i (rbuf_segments rbuf)) i (sl_rof sl) (sl_end sl) 0 0);
     case r of
       None \<Rightarrow> Some (0, None, sl)
     | Some (i, rof, shift, num) \<Rightarrow> Some (shift div 7, Some num, sl\<lparr>sl_seg := Some i, sl_rof := rof + 1\<rparr>)
   }"

definition rd_slice_read_varint :: "rd_buf_t \<Rightarrow> rd_slice_t \<Rightarrow> (nat \<times> 64 word option \<times> rd_slice_t) option" where
  "rd_slice_read_varint rbuf sl =
     map_option (\<lambda>(r, unum, sl). (r, if r > 0 then map_option (\<lambda>unum. drop_bit 1 unum XOR - (unum AND 1)) unum else None, sl))
       (rd_slice_read_uvarint rbuf sl)"

end
