(* ===== verification/Rdbuf_Content.thy ===== *)
theory Rdbuf_Content
  imports Rdbuf
begin

text \<open>
  The contract of buffers: what a buffer holds is a list of bytes, writing appends to it, updating
  overwrites a part, erasing removes one, seeking truncates it, pushing appends memory by reference, and
  a slice reads it.
\<close>

section \<open>Content and invariant\<close>

definition seg_data :: "rd_segment_t \<Rightarrow> 8 word list" where
  "seg_data seg = take (seg_of seg) (seg_p seg)"

definition content :: "rd_buf_t \<Rightarrow> 8 word list" where
  "content rbuf = concat (map seg_data (rbuf_segments rbuf))"

definition seg_ok :: "rd_segment_t \<Rightarrow> bool" where
  "seg_ok seg \<longleftrightarrow> length (seg_p seg) = seg_size seg \<and> seg_of seg \<le> seg_size seg \<and> (seg_rdonly seg \<longrightarrow> seg_of seg = seg_size seg)"

fun offs_ok :: "nat \<Rightarrow> rd_segment_t list \<Rightarrow> bool" where
  "offs_ok n [] = True"
| "offs_ok n (seg # segs) \<longleftrightarrow> seg_absof seg = n \<and> offs_ok (n + seg_of seg) segs"

definition seg_full :: "rd_segment_t \<Rightarrow> bool" where
  "seg_full seg \<longleftrightarrow> seg_size seg \<le> seg_of seg + seg_erased seg"

definition seg_spare :: "nat \<Rightarrow> rd_segment_t \<Rightarrow> bool" where
  "seg_spare len seg \<longleftrightarrow> seg_of seg = 0 \<and> \<not> seg_rdonly seg \<and> 0 < seg_size seg \<and> seg_erased seg = 0 \<and> seg_absof seg \<le> len"

definition stats_ok :: "rd_buf_t \<Rightarrow> bool" where
  "stats_ok rbuf \<longleftrightarrow> rbuf_segment_cnt rbuf = length (rbuf_segments rbuf) \<and>
     rbuf_len rbuf = (\<Sum>seg\<leftarrow>rbuf_segments rbuf. seg_of seg) \<and> rbuf_size rbuf = (\<Sum>seg\<leftarrow>rbuf_segments rbuf. seg_size seg) \<and>
     rbuf_erased rbuf = (\<Sum>seg\<leftarrow>rbuf_segments rbuf. int (seg_erased seg)) \<and>
     (\<forall>seg \<in> set (rbuf_segments rbuf). seg_ok seg) \<and> 0 \<le> rd_buf_write_remains rbuf"

text \<open>The segments before the write position, the one at it and those after it.\<close>

definition buf_view :: "rd_segment_t list \<Rightarrow> rd_segment_t \<Rightarrow> rd_segment_t list \<Rightarrow> rd_buf_t \<Rightarrow> bool" where
  "buf_view A seg C rbuf \<longleftrightarrow> rbuf_segments rbuf = A @ seg # C \<and> rbuf_wpos rbuf = Some (length A) \<and> stats_ok rbuf \<and>
     offs_ok 0 (A @ [seg]) \<and> (\<forall>x \<in> set A. seg_full x) \<and> (\<forall>x \<in> set C. seg_spare (rbuf_len rbuf) x)"

text \<open>A buffer without a write position: a new one, and one whose last segment was erased.\<close>

definition buf_closed :: "rd_buf_t \<Rightarrow> bool" where
  "buf_closed rbuf \<longleftrightarrow> rbuf_wpos rbuf = None \<and> stats_ok rbuf \<and> offs_ok 0 (rbuf_segments rbuf) \<and>
     (\<forall>x \<in> set (rbuf_segments rbuf). seg_full x)"

definition buf_inv :: "rd_buf_t \<Rightarrow> bool" where
  "buf_inv rbuf \<longleftrightarrow> buf_closed rbuf \<or> (\<exists>A seg C. buf_view A seg C rbuf)"

lemma buf_invE [consumes 1, case_names closed view]:
  assumes "buf_inv rbuf"
  obtains "buf_closed rbuf" | A seg C where "buf_view A seg C rbuf"
  using assms by (auto simp: buf_inv_def)

lemma buf_inv_init [simp]: "buf_inv rd_buf_init"
  by (simp add: buf_inv_def buf_closed_def rd_buf_init_def stats_ok_def rd_buf_write_remains_def)

lemma inv_stats: "buf_inv rbuf \<Longrightarrow> stats_ok rbuf"
  by (auto simp: buf_inv_def buf_closed_def buf_view_def)

lemma content_init [simp]: "content rd_buf_init = []"
  by (simp add: content_def rd_buf_init_def)

lemma offs_ok_append: "offs_ok n (xs @ ys) \<longleftrightarrow> offs_ok n xs \<and> offs_ok (n + (\<Sum>seg\<leftarrow>xs. seg_of seg)) ys"
  by (induction xs arbitrary: n) (auto simp: add.assoc)

lemma length_seg_data [simp]: "seg_ok seg \<Longrightarrow> length (seg_data seg) = seg_of seg"
  by (simp add: seg_data_def seg_ok_def)

lemma length_data:
  "\<forall>seg \<in> set segs. seg_ok seg \<Longrightarrow> length (concat (map seg_data segs)) = (\<Sum>seg\<leftarrow>segs. seg_of seg)"
  by (induction segs) auto

lemma spare_data: "\<forall>x \<in> set C. seg_spare n x \<Longrightarrow> concat (map seg_data C) = []"
  "\<forall>x \<in> set C. seg_spare n x \<Longrightarrow> (\<Sum>seg\<leftarrow>C. seg_of seg) = 0"
  by (induction C) (auto simp: seg_spare_def seg_data_def)

lemma view_content: "buf_view A seg C rbuf \<Longrightarrow> content rbuf = concat (map seg_data A) @ seg_data seg"
  using spare_data(1) by (fastforce simp: buf_view_def content_def)

lemma view_len:
  assumes "buf_view A seg C rbuf"
  shows "rbuf_len rbuf = (\<Sum>seg\<leftarrow>A. seg_of seg) + seg_of seg" "seg_absof seg + seg_of seg = rbuf_len rbuf"
  using assms spare_data(2) [of C] by (auto simp: buf_view_def stats_ok_def offs_ok_append)

lemma content_len: "buf_inv rbuf \<Longrightarrow> length (content rbuf) = rbuf_len rbuf"
  using inv_stats by (fastforce simp: content_def length_data stats_ok_def)

section \<open>Writing\<close>

lemma room_zero: "seg_ok seg \<Longrightarrow> rd_segment_write_remains seg = 0 \<Longrightarrow> seg_size seg = seg_of seg"
  by (auto simp: seg_ok_def rd_segment_write_remains_def split: if_splits)

text \<open>The segment that can be written to is the one at the write position, or else the next one.\<close>

lemma get_writable_view:
  assumes "buf_view A seg C rbuf"
  shows "rd_segment_write_remains seg > 0 \<Longrightarrow> rd_buf_get_writable0 rbuf = (rd_segment_write_remains seg, rbuf)"
    "rd_segment_write_remains seg = 0 \<Longrightarrow> C = [] \<Longrightarrow> rd_buf_get_writable0 rbuf = (0, rbuf)"
    "rd_segment_write_remains seg = 0 \<Longrightarrow> C = c # C' \<Longrightarrow>
      rd_buf_get_writable0 rbuf = (seg_size c, rbuf\<lparr>rbuf_wpos := Some (length A + 1),
        rbuf_segments := A @ seg # c\<lparr>seg_absof := rbuf_len rbuf\<rparr> # C'\<rparr>)"
proof -
  have s: "rbuf_segments rbuf = A @ seg # C" "rbuf_wpos rbuf = Some (length A)" "rbuf\<lparr>rbuf_wpos := Some (length A)\<rparr> = rbuf"
    using assms by (auto simp: buf_view_def)
  note l = view_len [OF assms]
  show "rd_segment_write_remains seg > 0 \<Longrightarrow> rd_buf_get_writable0 rbuf = (rd_segment_write_remains seg, rbuf)"
    using l s by (auto simp: rd_buf_get_writable0_def Let_def)
  show "rd_segment_write_remains seg = 0 \<Longrightarrow> C = [] \<Longrightarrow> rd_buf_get_writable0 rbuf = (0, rbuf)"
    using s by (simp add: rd_buf_get_writable0_def Let_def)
  show "rd_buf_get_writable0 rbuf = (seg_size c, rbuf\<lparr>rbuf_wpos := Some (length A + 1),
        rbuf_segments := A @ seg # c\<lparr>seg_absof := rbuf_len rbuf\<rparr> # C'\<rparr>)"
    if "rd_segment_write_remains seg = 0" "C = c # C'"
  proof -
    have c: "seg_spare (rbuf_len rbuf) c" using assms that by (simp add: buf_view_def)
    then have "rd_segment_write_remains c = seg_size c" "seg_size c > 0" "seg_of c = 0" "seg_absof c \<le> rbuf_len rbuf"
      by (auto simp: seg_spare_def rd_segment_write_remains_def)
    moreover have "c\<lparr>seg_absof := rbuf_len rbuf\<rparr> = c" if "\<not> seg_absof c < rbuf_len rbuf"
      using that calculation by simp
    ultimately show ?thesis using s that
      by (auto simp: rd_buf_get_writable0_def Let_def upd_seg_def nth_append list_update_append)
  qed
qed


lemma sum_list_remains:
  "rd_buf_write_remains rbuf = (\<Sum>seg\<leftarrow>rbuf_segments rbuf. int (seg_size seg) - int (seg_of seg) - int (seg_erased seg))"
  if "stats_ok rbuf"
proof -
  have "int (\<Sum>seg\<leftarrow>xs. seg_size seg) - (int (\<Sum>seg\<leftarrow>xs. seg_of seg) + (\<Sum>seg\<leftarrow>xs. int (seg_erased seg))) =
     (\<Sum>seg\<leftarrow>xs. int (seg_size seg) - int (seg_of seg) - int (seg_erased seg))" for xs
    by (induction xs) auto
  then show ?thesis using that by (simp add: stats_ok_def rd_buf_write_remains_def)
qed

lemma full_room: "\<forall>x \<in> set A. seg_full x \<Longrightarrow> (\<Sum>seg\<leftarrow>A. int (seg_size seg) - int (seg_of seg) - int (seg_erased seg)) \<le> 0"
  by (induction A) (auto simp: seg_full_def)

lemma closed_remains: "buf_closed rbuf \<Longrightarrow> rd_buf_write_remains rbuf \<le> 0"
  using full_room sum_list_remains by (simp add: buf_closed_def)

text \<open>At most one segment is behind the write position, and \<open>n\<close> bytes will reach it.\<close>

definition buf_snug :: "nat \<Rightarrow> rd_buf_t \<Rightarrow> bool" where
  "buf_snug n rbuf = (case rbuf_wpos rbuf of None \<Rightarrow> True
     | Some w \<Rightarrow> length (rbuf_segments rbuf) = w + 1 \<or>
         length (rbuf_segments rbuf) = w + 2 \<and> rd_segment_write_remains (rbuf_segments rbuf ! w) < n)"

text \<open>Where the buffer has room, a segment with room is found; it is then at the write position.\<close>

lemma writable_found:
  assumes "buf_view A seg C rbuf" "0 < rd_buf_write_remains rbuf"
  obtains A' seg' C' rbuf' where "rd_buf_get_writable0 rbuf = (rd_segment_write_remains seg', rbuf')"
    "buf_view A' seg' C' rbuf'" "0 < rd_segment_write_remains seg'" "content rbuf' = content rbuf"
    "rbuf_erased rbuf' = rbuf_erased rbuf" "rd_buf_write_remains rbuf' = rd_buf_write_remains rbuf"
    "\<forall>n. buf_snug n rbuf \<longrightarrow> buf_snug n rbuf'"
proof (cases "rd_segment_write_remains seg = 0")
  case False
  then show ?thesis using that get_writable_view(1) [OF assms(1)] assms(1) by blast
next
  case True
  have ok: "seg_ok seg" "stats_ok rbuf" "\<forall>x \<in> set A. seg_full x" "rbuf_segments rbuf = A @ seg # C"
    using assms(1) by (auto simp: buf_view_def stats_ok_def)
  have f: "seg_full seg" using room_zero [OF ok(1) True] by (simp add: seg_full_def)
  have "C \<noteq> []" using full_room [of "A @ [seg]"] f ok assms(2) sum_list_remains [OF ok(2)] by auto
  then obtain c C' where C: "C = c # C'" by (cases C) auto
  have c: "seg_spare (rbuf_len rbuf) c" using assms(1) C by (simp add: buf_view_def)
  let ?c = "c\<lparr>seg_absof := rbuf_len rbuf\<rparr>"
  let ?b = "rbuf\<lparr>rbuf_wpos := Some (length A + 1), rbuf_segments := A @ seg # ?c # C'\<rparr>"
  show ?thesis
  proof (rule that)
    show "rd_buf_get_writable0 rbuf = (rd_segment_write_remains ?c, ?b)"
      using get_writable_view(3) [OF assms(1) True C] c by (simp add: rd_segment_write_remains_def seg_spare_def)
    show "0 < rd_segment_write_remains ?c" using c by (simp add: rd_segment_write_remains_def seg_spare_def)
    show "content ?b = content rbuf" using ok C by (simp add: content_def seg_data_def)
    show "rd_buf_write_remains ?b = rd_buf_write_remains rbuf" by (simp add: rd_buf_write_remains_def)
    have "seg_ok ?c" using ok C by (simp add: stats_ok_def seg_ok_def)
    then have "stats_ok ?b" using ok C by (simp add: stats_ok_def rd_buf_write_remains_def)
    then show "buf_view (A @ [seg]) ?c C' ?b"
      using assms(1) C f view_len [OF assms(1)] by (auto simp: buf_view_def offs_ok_append)
    show "\<forall>n. buf_snug n rbuf \<longrightarrow> buf_snug n ?b"
      using ok(4) C assms(1) by (auto simp: buf_snug_def buf_view_def)
  qed simp
qed

text \<open>One round of \<open>rd_buf_write\<close>.\<close>

lemma write_chunk:
  assumes "buf_view A seg C rbuf" "length xs \<le> rd_segment_write_remains seg" "int (length xs) \<le> rd_buf_write_remains rbuf"
  defines "seg' \<equiv> seg\<lparr>seg_p := take (seg_of seg) (seg_p seg) @ xs @ drop (seg_of seg + length xs) (seg_p seg),
    seg_of := seg_of seg + length xs\<rparr>"
  defines "rbuf' \<equiv> rbuf\<lparr>rbuf_segments := A @ seg' # C, rbuf_len := rbuf_len rbuf + length xs\<rparr>"
  shows "buf_view A seg' C rbuf'" "content rbuf' = content rbuf @ xs"
    "rd_buf_write_remains rbuf' = rd_buf_write_remains rbuf - int (length xs)"
proof -
  have ok: "seg_ok seg" "rbuf_segments rbuf = A @ seg # C" using assms(1) by (auto simp: buf_view_def stats_ok_def)
  have "seg_of seg + length xs \<le> seg_size seg" "seg_rdonly seg \<Longrightarrow> xs = []"
    using assms(2) ok by (auto simp: rd_segment_write_remains_def seg_ok_def split: if_splits)
  then have ok': "seg_ok seg'" "seg_data seg' = seg_data seg @ xs"
    using ok(1) by (auto simp: seg_ok_def seg'_def seg_data_def)
  show r: "rd_buf_write_remains rbuf' = rd_buf_write_remains rbuf - int (length xs)"
    by (simp add: rd_buf_write_remains_def rbuf'_def)
  have f: "seg_size seg' = seg_size seg" "seg_erased seg' = seg_erased seg" "seg_absof seg' = seg_absof seg"
    "seg_of seg' = seg_of seg + length xs"
    by (simp_all add: seg'_def)
  have "stats_ok rbuf'"
    using assms(1,3) ok' r ok(2) f by (auto simp: buf_view_def stats_ok_def rbuf'_def)
  then show v: "buf_view A seg' C rbuf'"
    using assms(1) f by (auto simp: buf_view_def offs_ok_append rbuf'_def seg_spare_def)
  show "content rbuf' = content rbuf @ xs"
    using view_content [OF assms(1)] view_content [OF v] ok' by simp
qed

lemma write_loop_appends:
  "buf_inv rbuf \<Longrightarrow> int (length xs) \<le> rd_buf_write_remains rbuf \<Longrightarrow>
    \<exists>rbuf'. buf_write_loop (Some xs) (length xs) rbuf = Some rbuf' \<and> buf_inv rbuf' \<and> content rbuf' = content rbuf @ xs \<and>
      rbuf_erased rbuf' = rbuf_erased rbuf \<and> (buf_snug (length xs) rbuf \<longrightarrow> buf_snug 0 rbuf')"
proof (induction xs arbitrary: rbuf rule: length_induct)
  case (1 xs)
  show ?case
  proof (cases "xs = []")
    case True
    then show ?thesis using "1.prems" by (simp add: buf_write_loop.simps)
  next
    case False
    then have pos: "0 < rd_buf_write_remains rbuf" using "1.prems"(2) by (cases xs) auto
    then have "\<not> buf_closed rbuf" using closed_remains by fastforce
    then obtain A seg C where v: "buf_view A seg C rbuf" using "1.prems"(1) by (auto simp: buf_inv_def)
    obtain A' seg' C' b where b: "rd_buf_get_writable0 rbuf = (rd_segment_write_remains seg', b)"
      "buf_view A' seg' C' b" "0 < rd_segment_write_remains seg'" "content b = content rbuf"
      "rbuf_erased b = rbuf_erased rbuf" "rd_buf_write_remains b = rd_buf_write_remains rbuf"
      "\<forall>n. buf_snug n rbuf \<longrightarrow> buf_snug n b"
      by (rule writable_found [OF v pos])
    let ?n = "min (length xs) (rd_segment_write_remains seg')"
    have s: "rbuf_segments b = A' @ seg' # C'" "rbuf_wpos b = Some (length A')" using b(2) by (auto simp: buf_view_def)
    define b' where "b' = b\<lparr>rbuf_segments := A' @ seg'\<lparr>seg_p := take (seg_of seg') (seg_p seg') @ take ?n xs @
      drop (seg_of seg' + length (take ?n xs)) (seg_p seg'), seg_of := seg_of seg' + length (take ?n xs)\<rparr> # C',
      rbuf_len := rbuf_len b + length (take ?n xs)\<rparr>"
    have c: "buf_inv b'" "content b' = content b @ take ?n xs"
      "rd_buf_write_remains b' = rd_buf_write_remains b - int (length (take ?n xs))"
      using write_chunk [OF b(2), of "take ?n xs"] "1.prems"(2) b(6) unfolding b'_def buf_inv_def by fastforce+
    have g: "buf_snug (length (drop ?n xs)) b'" if "buf_snug (length xs) rbuf"
      using b(7) that s by (auto simp: buf_snug_def b'_def rd_segment_write_remains_def nth_append split: if_splits)
    have "length (drop ?n xs) < length xs" using False b(3) by simp
    moreover have "int (length (drop ?n xs)) \<le> rd_buf_write_remains b'" using c(3) "1.prems"(2) b(6) by simp
    ultimately obtain r where r: "buf_write_loop (Some (drop ?n xs)) (length (drop ?n xs)) b' = Some r" "buf_inv r"
      "content r = content b' @ drop ?n xs" "rbuf_erased r = rbuf_erased b'" "buf_snug (length (drop ?n xs)) b' \<longrightarrow> buf_snug 0 r"
      using "1.IH" c(1) by blast
    have "buf_write_loop (Some xs) (length xs) rbuf = buf_write_loop (Some (drop ?n xs)) (length (drop ?n xs)) b'"
      using False b(1) s
      by (subst buf_write_loop.simps) (simp add: Let_def upd_seg_def b'_def min_def list_update_append)
    then have "buf_write_loop (Some xs) (length xs) rbuf = Some r" using r(1) by simp
    moreover have "content r = content rbuf @ xs" using r(3) c(2) b(4) by simp
    moreover have "rbuf_erased r = rbuf_erased rbuf" using r(4) b(5) by (simp add: b'_def)
    ultimately show ?thesis using r(2,5) g by blast
  qed
qed


section \<open>Allocating\<close>

lemma seg0 [simp]: "seg_of (rd_buf_alloc_segment0 n) = 0" "seg_size (rd_buf_alloc_segment0 n) = n"
  "seg_erased (rd_buf_alloc_segment0 n) = 0" "seg_rdonly (rd_buf_alloc_segment0 n) = False"
  "seg_p (rd_buf_alloc_segment0 n) = replicate n 0"
  by (simp_all add: rd_buf_alloc_segment0_def rd_segment_init_def)

lemma append_remains [simp]:
  "rd_buf_write_remains (rd_buf_append_segment seg rbuf) = rd_buf_write_remains rbuf + int (seg_size seg) - int (seg_of seg)"
  by (simp add: rd_buf_write_remains_def)

lemma append_stats:
  assumes "stats_ok rbuf" "seg_ok seg" "seg_erased seg = 0"
  shows "stats_ok (rbuf\<lparr>rbuf_segments := rbuf_segments rbuf @ [seg\<lparr>seg_absof := n\<rparr>],
    rbuf_segment_cnt := rbuf_segment_cnt rbuf + 1, rbuf_len := rbuf_len rbuf + seg_of seg,
    rbuf_size := rbuf_size rbuf + seg_size seg\<rparr>)"
  using assms by (auto simp: stats_ok_def seg_ok_def rd_buf_write_remains_def)

text \<open>An empty segment, which is behind the write position or becomes it.\<close>

lemma append_spare:
  assumes "buf_inv rbuf" "0 < n"
  defines "rbuf' \<equiv> rd_buf_append_segment (rd_buf_alloc_segment0 n) rbuf"
  shows "buf_inv rbuf'" "content rbuf' = content rbuf"
proof -
  let ?seg = "rd_buf_alloc_segment0 n"
  let ?b = "rbuf\<lparr>rbuf_segments := rbuf_segments rbuf @ [?seg\<lparr>seg_absof := rbuf_len rbuf\<rparr>],
      rbuf_segment_cnt := rbuf_segment_cnt rbuf + 1, rbuf_len := rbuf_len rbuf + seg_of ?seg,
      rbuf_size := rbuf_size rbuf + seg_size ?seg\<rparr>"
  have st: "stats_ok ?b" using inv_stats [OF assms(1)] by (intro append_stats) (simp_all add: seg_ok_def)
  have co: "content ?b = content rbuf" by (simp add: content_def seg_data_def)
  show "buf_inv rbuf'" "content rbuf' = content rbuf"
  proof (atomize (full), cases rule: buf_invE [OF assms(1)])
    case 1
    then have "rbuf' = ?b\<lparr>rbuf_wpos := Some (length (rbuf_segments rbuf))\<rparr>"
      by (simp add: rbuf'_def rd_buf_append_segment_def Let_def buf_closed_def)
    moreover have "buf_view (rbuf_segments rbuf) (?seg\<lparr>seg_absof := rbuf_len rbuf\<rparr>) [] (?b\<lparr>rbuf_wpos := Some (length (rbuf_segments rbuf))\<rparr>)"
      using 1 st by (auto simp: buf_view_def buf_closed_def offs_ok_append stats_ok_def rd_buf_write_remains_def)
    ultimately show "buf_inv rbuf' \<and> content rbuf' = content rbuf" using co by (auto simp: buf_inv_def content_def)
  next
    case (2 A seg C)
    then have v: "buf_view A seg (C @ [?seg\<lparr>seg_absof := rbuf_len rbuf\<rparr>]) ?b"
      using st assms(2) by (auto simp: buf_view_def seg_spare_def)
    have r: "rbuf' = snd (rd_buf_get_writable0 ?b)" using 2 by (simp add: rbuf'_def rd_buf_append_segment_def Let_def buf_view_def)
    have "0 < rd_buf_write_remains ?b"
      using inv_stats [OF assms(1)] assms(2) by (simp add: stats_ok_def rd_buf_write_remains_def)
    then obtain m b' A' seg' C' where "rd_buf_get_writable0 ?b = (m, b')" "buf_view A' seg' C' b'" "content b' = content ?b"
      by (rule writable_found [OF v])
    then show "buf_inv rbuf' \<and> content rbuf' = content rbuf" using co r by (auto simp: buf_inv_def)
  qed
qed

lemma alloc_ok:
  assumes "buf_inv rbuf"
  shows "buf_inv (rd_buf_alloc_segment m n rbuf)" "content (rd_buf_alloc_segment m n rbuf) = content rbuf"
  using append_spare [OF assms] by (auto simp: rd_buf_alloc_segment_def Let_def)

lemma write_ensure_ok:
  "buf_inv rbuf \<Longrightarrow> buf_inv (rd_buf_write_ensure m n rbuf) \<and> content (rd_buf_write_ensure m n rbuf) = content rbuf \<and>
    int m \<le> rd_buf_write_remains (rd_buf_write_ensure m n rbuf)"
proof (induction m n rbuf rule: rd_buf_write_ensure.induct)
  case (1 m n rbuf)
  show ?case
  proof (cases "rd_buf_write_remains rbuf < int m")
    case True
    moreover have "0 \<le> rd_buf_write_remains rbuf" using inv_stats [OF "1.prems"] by (simp add: stats_ok_def)
    ultimately have True: "0 \<le> rd_buf_write_remains rbuf \<and> rd_buf_write_remains rbuf < int m" by simp
    show ?thesis using "1.IH" [OF refl True alloc_ok(1) [OF "1.prems"]] alloc_ok(2) [OF "1.prems"] True
      by (subst (1 2 3) rd_buf_write_ensure.simps) (simp add: Let_def)
  next
    case False
    then show ?thesis using "1.prems" by (subst (1 2 3) rd_buf_write_ensure.simps) (simp add: Let_def)
  qed
qed

lemma write_appends:
  assumes "buf_inv rbuf"
  obtains rbuf' where "rd_buf_write xs rbuf = Some (rbuf_len rbuf, rbuf')" "buf_inv rbuf'" "content rbuf' = content rbuf @ xs"
proof -
  have e: "buf_inv (rd_buf_write_ensure (length xs) 0 rbuf)" "content (rd_buf_write_ensure (length xs) 0 rbuf) = content rbuf"
    "int (length xs) \<le> rd_buf_write_remains (rd_buf_write_ensure (length xs) 0 rbuf)"
    using write_ensure_ok [OF assms] by blast+
  from write_loop_appends [OF e(1,3)] show ?thesis using that e(2) by (auto simp: rd_buf_write0_def)
qed


section \<open>Clean buffers\<close>

text \<open>Nothing was erased and the last segment is the one at the write position.\<close>

definition buf_clean :: "rd_buf_t \<Rightarrow> bool" where
  "buf_clean rbuf \<longleftrightarrow> buf_inv rbuf \<and> rbuf_erased rbuf = 0 \<and> buf_snug 0 rbuf"

lemma buf_clean_init [simp]: "buf_clean rd_buf_init"
  by (simp add: buf_clean_def) (simp add: rd_buf_init_def buf_snug_def)

lemma snug_view: "buf_view A seg C rbuf \<Longrightarrow> buf_snug 0 rbuf \<longleftrightarrow> C = []"
  by (auto simp: buf_view_def buf_snug_def)

lemma none_erased: "(\<Sum>x\<leftarrow>xs. int (seg_erased x)) = 0 \<Longrightarrow> x \<in> set xs \<Longrightarrow> seg_erased x = 0"
proof -
  assume "(\<Sum>x\<leftarrow>xs. int (seg_erased x)) = 0" "x \<in> set xs"
  moreover have "(\<Sum>x\<leftarrow>xs. int (seg_erased x)) = int (\<Sum>x\<leftarrow>xs. seg_erased x)" by (induction xs) simp_all
  ultimately show "seg_erased x = 0" by (simp add: sum_list_eq_0_iff)
qed

lemma clean_room:
  assumes "buf_view A seg C rbuf" "rbuf_erased rbuf = 0"
  shows "int (rd_segment_write_remains seg) \<le> rd_buf_write_remains rbuf"
proof -
  have s: "stats_ok rbuf" "rbuf_segments rbuf = A @ seg # C" using assms by (simp_all add: buf_view_def)
  then have "(\<Sum>x\<leftarrow>A @ seg # C. int (seg_erased x)) = 0" using assms(2) by (simp add: stats_ok_def)
  then have "\<forall>x \<in> set (A @ seg # C). seg_erased x = 0" using none_erased by blast
  then have "0 \<le> (\<Sum>x\<leftarrow>A. int (seg_size x) - int (seg_of x) - int (seg_erased x))"
    "0 \<le> (\<Sum>x\<leftarrow>C. int (seg_size x) - int (seg_of x) - int (seg_erased x))" "seg_erased seg = 0"
    using s by (auto intro!: sum_list_nonneg simp: stats_ok_def seg_ok_def)
  then show ?thesis using sum_list_remains [OF s(1)] s by (simp add: rd_segment_write_remains_def stats_ok_def seg_ok_def)
qed

lemma ensure_snug:
  assumes "buf_clean rbuf"
  shows "buf_snug n (rd_buf_write_ensure n 0 rbuf)" "rbuf_erased (rd_buf_write_ensure n 0 rbuf) = 0"
proof -
  have i: "buf_inv rbuf" "rbuf_erased rbuf = 0" "buf_snug 0 rbuf" using assms by (simp_all add: buf_clean_def)
  show "buf_snug n (rd_buf_write_ensure n 0 rbuf)" "rbuf_erased (rd_buf_write_ensure n 0 rbuf) = 0"
  proof (atomize (full), cases "rd_buf_write_remains rbuf < int n")
    case False
    then have "rd_buf_write_ensure n 0 rbuf = rbuf" by (subst rd_buf_write_ensure.simps) simp
    then show "buf_snug n (rd_buf_write_ensure n 0 rbuf) \<and> rbuf_erased (rd_buf_write_ensure n 0 rbuf) = 0"
      using i by (auto simp: buf_snug_def split: option.splits)
  next
    case True
    let ?r = "rd_buf_alloc_segment (nat (int n - rd_buf_write_remains rbuf)) 0 rbuf"
    have "int n \<le> rd_buf_write_remains ?r" using alloc_segment_remains [of rbuf "nat (int n - rd_buf_write_remains rbuf)" 0] True by simp
    moreover have "0 \<le> rd_buf_write_remains rbuf" using inv_stats [OF i(1)] by (simp add: stats_ok_def)
    ultimately have e: "rd_buf_write_ensure n 0 rbuf = ?r" using True by (subst rd_buf_write_ensure.simps, subst rd_buf_write_ensure.simps) (simp add: Let_def)
    obtain k where k: "0 < k" "?r = rd_buf_append_segment (rd_buf_alloc_segment0 k) rbuf"
      by (rule that [of "max 288 (max (nat (int n - rd_buf_write_remains rbuf) * 2) (rbuf_size rbuf div 2))"])
        (simp_all add: rd_buf_alloc_segment_def Let_def)
    have "buf_snug n ?r"
    proof (cases rule: buf_invE [OF i(1)])
      case 1
      then show ?thesis using k by (simp add: rd_buf_append_segment_def Let_def buf_closed_def buf_snug_def)
    next
      case (2 A seg C)
      let ?b = "rbuf\<lparr>rbuf_segments := rbuf_segments rbuf @ [(rd_buf_alloc_segment0 k)\<lparr>seg_absof := rbuf_len rbuf\<rparr>],
        rbuf_segment_cnt := rbuf_segment_cnt rbuf + 1, rbuf_size := rbuf_size rbuf + k\<rparr>"
      have "C = []" using snug_view [OF 2] i by simp
      then have s: "rbuf_segments rbuf = A @ [seg]" "rbuf_wpos rbuf = Some (length A)" using 2 by (simp_all add: buf_view_def)
      have "rd_segment_write_remains seg < n" using clean_room [OF 2 i(2)] True by simp
      then have g: "buf_snug n ?b" using s by (simp add: buf_snug_def)
      have "stats_ok ?b" using append_stats [OF inv_stats [OF i(1)], of "rd_buf_alloc_segment0 k" "rbuf_len rbuf"] by (simp add: seg_ok_def)
      then have v: "buf_view A seg [(rd_buf_alloc_segment0 k)\<lparr>seg_absof := rbuf_len rbuf\<rparr>] ?b"
        using 2 k(1) s by (simp add: buf_view_def seg_spare_def)
      have "0 < rd_buf_write_remains ?b" using inv_stats [OF i(1)] k(1) by (simp add: stats_ok_def rd_buf_write_remains_def)
      then obtain r b' where "rd_buf_get_writable0 ?b = (r, b')" "\<forall>n. buf_snug n ?b \<longrightarrow> buf_snug n b'"
        by (rule writable_found [OF v])
      then have "buf_snug n (snd (rd_buf_get_writable0 ?b))" using g by simp
      then show ?thesis using k(2) s by (simp add: rd_buf_append_segment_def Let_def)
    qed
    then show "buf_snug n (rd_buf_write_ensure n 0 rbuf) \<and> rbuf_erased (rd_buf_write_ensure n 0 rbuf) = 0"
      using e k(2) i(2) by simp
  qed
qed

lemma write_clean:
  assumes "buf_clean rbuf" "rd_buf_write xs rbuf = Some (n, rbuf')"
  shows "buf_clean rbuf'"
proof -
  have i: "buf_inv rbuf" using assms by (simp add: buf_clean_def)
  have e: "buf_inv (rd_buf_write_ensure (length xs) 0 rbuf)"
    "int (length xs) \<le> rd_buf_write_remains (rd_buf_write_ensure (length xs) 0 rbuf)"
    using write_ensure_ok [OF i] by blast+
  from write_loop_appends [OF this] ensure_snug [OF assms(1)] assms(2) show ?thesis
    by (auto simp: rd_buf_write0_def buf_clean_def)
qed

end
