(* ===== verification/Rdbuf_Ops.thy ===== *)
theory Rdbuf_Ops
  imports Rdbuf_Content
begin

text \<open>
  The contract of buffers, continued: pushing memory by reference, updating, erasing and seeking.
\<close>

section \<open>Pushing\<close>

lemma stats_wpos [simp]: "stats_ok (rbuf\<lparr>rbuf_wpos := w\<rparr>) = stats_ok rbuf"
  by (simp add: stats_ok_def rd_buf_write_remains_def)

lemma closed_append:
  assumes "buf_closed rbuf" "seg_ok seg" "seg_erased seg = 0"
  shows "buf_view (rbuf_segments rbuf) (seg\<lparr>seg_absof := rbuf_len rbuf\<rparr>) [] (rd_buf_append_segment seg rbuf)"
proof -
  have "stats_ok (rd_buf_append_segment seg rbuf)"
    using append_stats [OF _ assms(2,3), of rbuf "rbuf_len rbuf"] assms(1)
    by (simp add: rd_buf_append_segment_def Let_def buf_closed_def stats_ok_def rd_buf_write_remains_def)
  then show ?thesis using assms(1)
    by (auto simp: buf_view_def rd_buf_append_segment_def Let_def buf_closed_def offs_ok_append stats_ok_def)
qed

text \<open>A segment behind the last one, which is full: it becomes the one at the write position.\<close>

lemma full_append:
  assumes "buf_view A seg [] rbuf" "rd_segment_write_remains seg = 0" "seg_ok s" "seg_erased s = 0" "seg_of s = seg_size s \<or> seg_of s = 0"
  shows "buf_view (A @ [seg]) (s\<lparr>seg_absof := rbuf_len rbuf\<rparr>) [] (rd_buf_append_segment s rbuf)"
proof -
  let ?s = "s\<lparr>seg_absof := rbuf_len rbuf\<rparr>"
  let ?b = "rbuf\<lparr>rbuf_segments := rbuf_segments rbuf @ [?s], rbuf_segment_cnt := rbuf_segment_cnt rbuf + 1,
    rbuf_len := rbuf_len rbuf + seg_of s, rbuf_size := rbuf_size rbuf + seg_size s\<rparr>"
  have a: "rbuf_segments rbuf = A @ [seg]" "rbuf_wpos rbuf = Some (length A)" "stats_ok rbuf" "seg_ok seg"
    using assms(1) by (auto simp: buf_view_def stats_ok_def)
  have st: "stats_ok (?b\<lparr>rbuf_wpos := Some (length A + 1)\<rparr>)" unfolding stats_wpos by (rule append_stats [OF a(3) assms(3,4)])
  have "seg_of s = 0 \<Longrightarrow> \<not> seg_absof ?s < rbuf_len rbuf + seg_of s" by simp
  moreover have "rd_segment_write_remains ?s = 0" if "seg_of s \<noteq> 0"
    using that assms(5) by (simp add: rd_segment_write_remains_def)
  ultimately have e: "rd_buf_append_segment s rbuf = ?b\<lparr>rbuf_wpos := Some (length A + 1)\<rparr>"
    using a assms(2) by (auto simp: rd_buf_append_segment_def Let_def rd_buf_get_writable0_def)
  have "seg_full seg" using room_zero [OF a(4) assms(2)] by (simp add: seg_full_def)
  then show ?thesis unfolding e using assms(1) st a view_len [OF assms(1)] by (auto simp: buf_view_def offs_ok_append)
qed

lemma split_view:
  assumes "buf_view A seg [] rbuf" "rd_segment_write_remains seg > 0" "rbuf_erased rbuf = 0"
  obtains s t rbuf' where "rd_segment_split (length A) (seg_absof seg + seg_of seg) rbuf = Some (t, rbuf')"
    "buf_view A s [] rbuf'" "rd_segment_write_remains s = 0" "seg_data s = seg_data seg" "rbuf_erased rbuf' = 0"
    "seg_of t = 0" "seg_erased t = 0" "seg_ok t"
proof -
  let ?s = "seg\<lparr>seg_p := take (seg_of seg) (seg_p seg), seg_of := seg_of seg, seg_size := seg_of seg\<rparr>"
  let ?t = "(rd_buf_alloc_segment0 0)\<lparr>seg_p := drop (seg_of seg) (seg_p seg), seg_of := 0, seg_size := seg_size seg - seg_of seg,
    seg_absof := 2 ^ 64 - 1, seg_rdonly := seg_rdonly seg\<rparr>"
  let ?b = "rbuf\<lparr>rbuf_segments := A @ [?s], rbuf_len := rbuf_len rbuf, rbuf_size := rbuf_size rbuf - (seg_size seg - seg_of seg)\<rparr>"
  have a: "rbuf_segments rbuf = A @ [seg]" "rbuf_wpos rbuf = Some (length A)" "stats_ok rbuf" "seg_ok seg" "\<not> seg_rdonly seg"
    using assms(1,2) by (auto simp: buf_view_def stats_ok_def rd_segment_write_remains_def)
  have "int (seg_size seg - seg_of seg) \<le> rd_buf_write_remains rbuf"
    using clean_room [OF assms(1,3)] a by (simp add: rd_segment_write_remains_def)
  then have "stats_ok ?b" using a by (auto simp: stats_ok_def seg_ok_def rd_buf_write_remains_def)
  then have v: "buf_view A ?s [] ?b" using assms(1) by (auto simp: buf_view_def offs_ok_append)
  show ?thesis
    by (rule that [of ?t ?b ?s])
      (use a assms(3) v in \<open>simp_all add: rd_segment_split_def upd_seg_def Let_def seg_ok_def rd_segment_write_remains_def seg_data_def\<close>)
qed

lemma push_appends:
  assumes "buf_clean rbuf"
  obtains rbuf' where "rd_buf_push0 xs w rbuf = Some rbuf'" "buf_clean rbuf'" "content rbuf' = content rbuf @ xs"
proof -
  let ?s = "(rd_buf_alloc_segment0 0)\<lparr>seg_p := xs, seg_size := length xs, seg_of := length xs, seg_rdonly := \<not> w\<rparr>"
  have s: "seg_ok ?s" "seg_erased ?s = 0" "seg_of ?s = seg_size ?s" "seg_data (?s\<lparr>seg_absof := n\<rparr>) = xs"
    "rd_segment_write_remains (?s\<lparr>seg_absof := n\<rparr>) = 0" for n
    by (auto simp: seg_ok_def seg_data_def rd_segment_write_remains_def)
  have i: "buf_inv rbuf" "rbuf_erased rbuf = 0" "buf_snug 0 rbuf" using assms by (simp_all add: buf_clean_def)
  have cl: "buf_clean r" if "buf_view A x [] r" "rbuf_erased r = 0" for A x r
    using that snug_view [OF that(1)] by (auto simp: buf_clean_def buf_inv_def)
  from i(1) show ?thesis
  proof (cases rule: buf_invE)
    case closed
    note v = closed_append [OF closed s(1,2)]
    show ?thesis
      by (rule that [of "rd_buf_append_segment ?s rbuf"])
        (use closed i(2) cl [OF v] view_content [OF v] s in \<open>simp_all add: rd_buf_push0_def buf_closed_def content_def\<close>)
  next
    case (view A seg C)
    then have v: "buf_view A seg [] rbuf" using snug_view [OF view] i by simp
    have a: "rbuf_segments rbuf = A @ [seg]" "rbuf_wpos rbuf = Some (length A)" using v by (auto simp: buf_view_def)
    show ?thesis
    proof (cases "rd_segment_write_remains seg > 0")
      case False
      then have v': "buf_view (A @ [seg]) (?s\<lparr>seg_absof := rbuf_len rbuf\<rparr>) [] (rd_buf_append_segment ?s rbuf)"
        using full_append [OF v _ s(1,2)] by simp
      show ?thesis
        by (rule that [of "rd_buf_append_segment ?s rbuf"])
          (use False a i(2) cl [OF v'] view_content [OF v'] view_content [OF v] s in \<open>simp_all add: rd_buf_push0_def\<close>)
    next
      case True
      obtain h t b where h: "rd_segment_split (length A) (seg_absof seg + seg_of seg) rbuf = Some (t, b)"
        "buf_view A h [] b" "rd_segment_write_remains h = 0" "seg_data h = seg_data seg" "rbuf_erased b = 0"
        "seg_of t = 0" "seg_erased t = 0" "seg_ok t"
        by (rule split_view [OF v True i(2)])
      have v1: "buf_view (A @ [h]) (?s\<lparr>seg_absof := rbuf_len b\<rparr>) [] (rd_buf_append_segment ?s b)"
        using full_append [OF h(2,3) s(1,2)] by simp
      let ?r = "rd_buf_append_segment t (rd_buf_append_segment ?s b)"
      have v2: "buf_view ((A @ [h]) @ [?s\<lparr>seg_absof := rbuf_len b\<rparr>]) (t\<lparr>seg_absof := rbuf_len (rd_buf_append_segment ?s b)\<rparr>) [] ?r"
        using full_append [OF v1 s(5) h(8,7)] h(6) by blast
      have "seg_data (t\<lparr>seg_absof := n\<rparr>) = []" for n using h(6) by (simp add: seg_data_def)
      then have "content ?r = content rbuf @ xs"
        using view_content [OF v2] view_content [OF v] s(4) h(4) by simp
      moreover have "rd_buf_push0 xs w rbuf = Some ?r" using True a h(1) by (simp add: rd_buf_push0_def Let_def)
      moreover have "buf_clean ?r" using cl [OF v2] h(5) by simp
      ultimately show ?thesis using that by blast
    qed
  qed
qed

section \<open>Finding a segment\<close>

lemma find_ok:
  "offs_ok n segs \<Longrightarrow> n \<le> absof \<Longrightarrow> absof < n + (\<Sum>seg\<leftarrow>segs. seg_of seg) \<Longrightarrow>
    \<exists>k < length segs. find_segment (segs @ rest) i absof = Some (i + k) \<and> seg_absof (segs ! k) \<le> absof \<and>
      absof < seg_absof (segs ! k) + seg_of (segs ! k)"
proof (induction segs arbitrary: n i)
  case (Cons seg segs)
  show ?case
  proof (cases "absof < n + seg_of seg")
    case True
    then show ?thesis using Cons.prems by (intro exI [of _ 0]) simp
  next
    case False
    then obtain k where "k < length segs" "find_segment (segs @ rest) (i + 1) absof = Some (i + 1 + k)"
      "seg_absof (segs ! k) \<le> absof" "absof < seg_absof (segs ! k) + seg_of (segs ! k)"
      using Cons.IH [of "n + seg_of seg" "i + 1"] Cons.prems by auto
    then show ?thesis using False Cons.prems by (intro exI [of _ "Suc k"]) auto
  qed
qed simp

lemma inv_split:
  assumes "buf_inv rbuf"
  obtains B C where "rbuf_segments rbuf = B @ C" "offs_ok 0 B" "rbuf_len rbuf = (\<Sum>seg\<leftarrow>B. seg_of seg)"
    "\<forall>x \<in> set C. seg_spare (rbuf_len rbuf) x" "content rbuf = concat (map seg_data B)" "\<forall>x \<in> set (B @ C). seg_ok x"
    "\<forall>w. rbuf_wpos rbuf = Some w \<longrightarrow> length B = w + 1" "\<forall>x \<in> set (butlast B). seg_full x"
proof (cases rule: buf_invE [OF assms])
  case 1
  then show ?thesis using that [of "rbuf_segments rbuf" "[]"] by (auto simp: buf_closed_def stats_ok_def content_def dest: in_set_butlastD)
next
  case (2 A seg C)
  then have "\<forall>x \<in> set (A @ seg # C). seg_ok x" by (auto simp: buf_view_def stats_ok_def)
  then show ?thesis
    by (intro that [of "A @ [seg]" C]) (use 2 view_len(1) [OF 2] view_content [OF 2] in \<open>auto simp: buf_view_def\<close>)
qed

text \<open>The segment found, with or without the write position as a hint.\<close>

lemma get_segment_ok:
  assumes "buf_inv rbuf" "absof < rbuf_len rbuf" "hint = None \<or> hint = rbuf_wpos rbuf"
  obtains P seg Q C where "rd_buf_get_segment_at_offset rbuf hint absof = Some (length P)" "rbuf_segments rbuf = P @ seg # Q @ C"
    "offs_ok 0 (P @ seg # Q)" "rbuf_len rbuf = (\<Sum>seg\<leftarrow>P @ seg # Q. seg_of seg)" "\<forall>x \<in> set C. seg_spare (rbuf_len rbuf) x"
    "content rbuf = concat (map seg_data (P @ seg # Q))" "\<forall>x \<in> set (P @ seg # Q @ C). seg_ok x"
    "seg_absof seg \<le> absof" "absof < seg_absof seg + seg_of seg"
    "\<forall>w. rbuf_wpos rbuf = Some w \<longrightarrow> length P + length Q = w" "\<forall>x \<in> set (butlast (P @ seg # Q)). seg_full x"
proof -
  obtain B C where b: "rbuf_segments rbuf = B @ C" "offs_ok 0 B" "rbuf_len rbuf = (\<Sum>seg\<leftarrow>B. seg_of seg)"
    "\<forall>x \<in> set C. seg_spare (rbuf_len rbuf) x" "content rbuf = concat (map seg_data B)" "\<forall>x \<in> set (B @ C). seg_ok x"
    "\<forall>w. rbuf_wpos rbuf = Some w \<longrightarrow> length B = w + 1" "\<forall>x \<in> set (butlast B). seg_full x"
    by (rule inv_split [OF assms(1)])
  have "\<exists>k < length B. rd_buf_get_segment_at_offset rbuf hint absof = Some k \<and> seg_absof (B ! k) \<le> absof \<and>
      absof < seg_absof (B ! k) + seg_of (B ! k)"
  proof (cases "\<exists>w. hint = Some w \<and> \<not> absof < seg_absof (rbuf_segments rbuf ! w)")
    case False
    then have "rd_buf_get_segment_at_offset rbuf hint absof = find_segment (B @ C) 0 absof"
      using assms(2) b(1) by (auto simp: rd_buf_get_segment_at_offset_def Let_def split: option.splits)
    then show ?thesis using find_ok [OF b(2), of absof C 0] assms(2) b(3) by auto
  next
    case True
    then obtain w where w: "hint = Some w" "\<not> absof < seg_absof (rbuf_segments rbuf ! w)" by blast
    then have l: "length B = w + 1" using b(7) assms(3) by auto
    then obtain P x where B: "B = P @ [x]" "length P = w" by (cases B rule: rev_cases) auto
    then have "offs_ok (\<Sum>seg\<leftarrow>P. seg_of seg) [x]" "rbuf_len rbuf = (\<Sum>seg\<leftarrow>P. seg_of seg) + seg_of x"
      using b(2,3) offs_ok_append [of 0 P "[x]"] by simp_all
    then have "absof < seg_absof x + seg_of x" using assms(2) by simp
    then show ?thesis using w B assms(2) b(1) by (intro exI [of _ w]) (auto simp: rd_buf_get_segment_at_offset_def nth_append)
  qed
  then obtain k where k: "k < length B" "rd_buf_get_segment_at_offset rbuf hint absof = Some k" "seg_absof (B ! k) \<le> absof"
      "absof < seg_absof (B ! k) + seg_of (B ! k)" by blast
  obtain P seg Q where B: "B = P @ seg # Q" "length P = k" "B ! k = seg"
    by (rule that [OF id_take_nth_drop [OF k(1)]]) (use k(1) in simp_all)
  show ?thesis
    by (rule that [of P seg Q C]) (use k b B in simp_all)
qed

section \<open>Updating\<close>

text \<open>Segments that differ in the bytes of their memory only.\<close>

definition same_meta :: "rd_segment_t \<Rightarrow> rd_segment_t \<Rightarrow> bool" where
  "same_meta s s' \<longleftrightarrow> s' = s\<lparr>seg_p := seg_p s'\<rparr> \<and> length (seg_p s') = length (seg_p s)"

lemma same_metaD:
  assumes "same_meta s s'"
  shows "seg_of s' = seg_of s" "seg_size s' = seg_size s" "seg_absof s' = seg_absof s" "seg_erased s' = seg_erased s"
    "seg_ok s' = seg_ok s" "seg_full s' = seg_full s" "seg_spare n s' = seg_spare n s"
proof -
  show a: "seg_of s' = seg_of s" "seg_size s' = seg_size s" "seg_absof s' = seg_absof s" "seg_erased s' = seg_erased s"
    using assms unfolding same_meta_def by (cases s; cases s'; simp)+
  have "seg_rdonly s' = seg_rdonly s" using assms unfolding same_meta_def by (cases s; cases s'; simp)
  then show "seg_ok s' = seg_ok s" "seg_full s' = seg_full s" "seg_spare n s' = seg_spare n s"
    using a assms by (simp_all add: seg_ok_def seg_full_def seg_spare_def same_meta_def)
qed

lemma same_meta_refl [simp]: "same_meta s s"
  by (simp add: same_meta_def)

lemma same_metas_refl [simp]: "list_all2 same_meta segs segs"
  by (simp add: list.rel_refl)

lemma same_metas:
  assumes "list_all2 same_meta xs ys"
  shows "map seg_of ys = map seg_of xs" "map seg_size ys = map seg_size xs" "map (int \<circ> seg_erased) ys = map (int \<circ> seg_erased) xs"
    "offs_ok n ys = offs_ok n xs" "(\<forall>y \<in> set ys. seg_ok y) = (\<forall>y \<in> set xs. seg_ok y)"
    "(\<forall>y \<in> set ys. seg_full y) = (\<forall>y \<in> set xs. seg_full y)" "(\<forall>y \<in> set ys. seg_spare m y) = (\<forall>y \<in> set xs. seg_spare m y)"
  using assms by (induction arbitrary: n rule: list_all2_induct) (simp_all add: same_metaD)

lemma update_inv:
  assumes "buf_inv rbuf" "list_all2 same_meta (rbuf_segments rbuf) segs"
  shows "buf_inv (rbuf\<lparr>rbuf_segments := segs\<rparr>)"
proof -
  let ?b = "rbuf\<lparr>rbuf_segments := segs\<rparr>"
  have st: "stats_ok ?b" using inv_stats [OF assms(1)] same_metas(1,2,3,5) [OF assms(2)] list_all2_lengthD [OF assms(2)]
    by (simp add: stats_ok_def comp_def rd_buf_write_remains_def)
  show ?thesis
  proof (cases rule: buf_invE [OF assms(1)])
    case 1
    then show ?thesis using st same_metas(4,6) [OF assms(2)] by (simp add: buf_inv_def buf_closed_def)
  next
    case (2 A seg C)
    then obtain A' s' C' where e: "segs = A' @ s' # C'" "list_all2 same_meta A A'" "same_meta seg s'" "list_all2 same_meta C C'"
      using assms(2) by (auto simp: buf_view_def list_all2_append1 list_all2_Cons1)
    then have "buf_view A' s' C' ?b"
      using 2 st same_metas(1,4,6) [OF e(2)] same_metas(7) [OF e(4)] same_metaD [OF e(3)] list_all2_lengthD [OF e(2)]
      by (simp add: buf_view_def offs_ok_append)
    then show ?thesis by (auto simp: buf_inv_def)
  qed
qed

definition overwrite :: "nat \<Rightarrow> 'a list \<Rightarrow> 'a list \<Rightarrow> 'a list" where
  "overwrite n xs ys = take n ys @ xs @ drop (n + length xs) ys"

lemma overwrite_Nil [simp]: "overwrite n [] ys = ys"
  by (simp add: overwrite_def)

lemma update_loop_ok:
  "offs_ok n segs \<Longrightarrow> n \<le> absof \<Longrightarrow> \<forall>x \<in> set segs. seg_ok x \<Longrightarrow> (xs \<noteq> [] \<Longrightarrow> absof \<le> n + seg_of (hd segs)) \<Longrightarrow>
    absof + length xs \<le> n + (\<Sum>seg\<leftarrow>segs. seg_of seg) \<Longrightarrow> n + (\<Sum>seg\<leftarrow>segs. seg_of seg) \<le> len \<Longrightarrow>
    \<exists>segs'. write_update_loop len (segs @ C) absof xs = Some (segs' @ C) \<and> list_all2 same_meta segs segs' \<and>
      concat (map seg_data segs') = overwrite (absof - n) xs (concat (map seg_data segs))"
proof (induction segs arbitrary: n absof xs)
  case Nil
  then show ?case by (cases xs) (auto simp: overwrite_def)
next
  case (Cons seg segs)
  show ?case
  proof (cases "xs = []")
    case True
    then show ?thesis by (intro exI [of _ "seg # segs"]) simp
  next
    case False
    then obtain b bs where xs: "xs = b # bs" by (cases xs) auto
    define r where "r = absof - n"
    define k where "k = min (length xs) (seg_of seg - r)"
    let ?s = "seg\<lparr>seg_p := take r (seg_p seg) @ take k xs @ drop (r + k) (seg_p seg)\<rparr>"
    have ok: "seg_ok seg" "seg_absof seg = n" "r \<le> seg_of seg" "absof = n + r" using Cons.prems False by (auto simp: r_def)
    have w: "rd_segment_write_update seg absof xs = Some (k, ?s)"
      using ok by (simp add: rd_segment_write_update_def Let_def k_def)
    have m: "same_meta seg ?s" using ok by (auto simp: same_meta_def seg_ok_def k_def)
    have d: "seg_data ?s = overwrite r (take k xs) (seg_data seg)"
    proof -
      have "k \<le> length xs" "r + k \<le> seg_of seg" "seg_of seg \<le> length (seg_p seg)" using ok by (auto simp: k_def seg_ok_def)
      then show ?thesis by (simp add: seg_data_def overwrite_def drop_take)
    qed
    have l: "length (seg_data seg) = seg_of seg" using ok by simp
    have n: "drop k xs \<noteq> [] \<Longrightarrow> absof + k = n + seg_of seg" using ok by (auto simp: k_def)
    obtain segs' where s: "write_update_loop len (segs @ C) (absof + k) (drop k xs) = Some (segs' @ C)" "list_all2 same_meta segs segs'"
      "concat (map seg_data segs') = overwrite (absof + k - (n + seg_of seg)) (drop k xs) (concat (map seg_data segs))"
    proof (cases "drop k xs = []")
      case True
      then show ?thesis using that [of segs] by simp
    next
      case False
      have "absof + k + length (drop k xs) \<le> n + seg_of seg + (\<Sum>seg\<leftarrow>segs. seg_of seg)"
        using n [OF False] Cons.prems(5) False by simp
      then show ?thesis using that Cons.IH [of "n + seg_of seg" "absof + k" "drop k xs"] n [OF False] Cons.prems by auto
    qed
    have "overwrite r (take k xs) (seg_data seg) @ overwrite (absof + k - (n + seg_of seg)) (drop k xs) (concat (map seg_data segs)) =
      overwrite r xs (seg_data seg @ concat (map seg_data segs))"
    proof (cases "drop k xs = []")
      case True
      then show ?thesis using l ok by (auto simp: overwrite_def k_def)
    next
      case False
      then have "r + k = seg_of seg" using n [OF False] ok by simp
      then have "absof + k - (n + seg_of seg) = 0" "r + length (take k xs) = seg_of seg" "length (drop k xs) = r + length xs - seg_of seg"
        using ok(4) False by simp_all
      moreover have "take k xs @ drop k xs @ zs = xs @ zs" for zs by (simp flip: append_assoc)
      ultimately show ?thesis using l ok(3) False by (simp add: overwrite_def)
    qed
    then have "concat (map seg_data (?s # segs')) = overwrite (absof - n) xs (concat (map seg_data (seg # segs)))"
      using s(3) d r_def by simp
    moreover have "write_update_loop len ((seg # segs) @ C) absof xs = Some ((?s # segs') @ C)"
      using w s(1) Cons.prems(6) ok(2) unfolding xs by simp
    ultimately show ?thesis using s(2) m by blast
  qed
qed

lemma update_overwrites:
  assumes "buf_inv rbuf" "absof < rbuf_len rbuf" "absof + length xs \<le> rbuf_len rbuf"
  obtains rbuf' where "rd_buf_write_update absof xs rbuf = Some rbuf'" "buf_inv rbuf'"
    "content rbuf' = overwrite absof xs (content rbuf)" "rbuf_len rbuf' = rbuf_len rbuf" "rbuf_erased rbuf' = rbuf_erased rbuf"
    "rbuf_wpos rbuf' = rbuf_wpos rbuf" "list_all2 same_meta (rbuf_segments rbuf) (rbuf_segments rbuf')"
proof -
  obtain P seg Q C where g: "rd_buf_get_segment_at_offset rbuf (rbuf_wpos rbuf) absof = Some (length P)"
    "rbuf_segments rbuf = P @ seg # Q @ C" "offs_ok 0 (P @ seg # Q)" "rbuf_len rbuf = (\<Sum>seg\<leftarrow>P @ seg # Q. seg_of seg)"
    "\<forall>x \<in> set C. seg_spare (rbuf_len rbuf) x" "content rbuf = concat (map seg_data (P @ seg # Q))"
    "\<forall>x \<in> set (P @ seg # Q @ C). seg_ok x" "seg_absof seg \<le> absof" "absof < seg_absof seg + seg_of seg"
    by (rule get_segment_ok [OF assms(1,2), of "rbuf_wpos rbuf"]) simp
  let ?n = "\<Sum>seg\<leftarrow>P. seg_of seg"
  have n: "offs_ok ?n (seg # Q)" "seg_absof seg = ?n" using g(3) by (simp_all add: offs_ok_append)
  obtain segs where s: "write_update_loop (rbuf_len rbuf) ((seg # Q) @ C) absof xs = Some (segs @ C)" "list_all2 same_meta (seg # Q) segs"
    "concat (map seg_data segs) = overwrite (absof - ?n) xs (concat (map seg_data (seg # Q)))"
    using update_loop_ok [OF n(1), of absof xs "rbuf_len rbuf" C] g n(2) assms(3) by auto
  let ?b = "rbuf\<lparr>rbuf_segments := P @ segs @ C\<rparr>"
  have m: "list_all2 same_meta (rbuf_segments rbuf) (rbuf_segments ?b)"
    using s(2) g(2) by (simp add: list_all2_appendI flip: append_Cons)
  have i: "buf_inv ?b" using update_inv [OF assms(1)] m by simp
  have "concat (map seg_data C) = []" by (rule spare_data(1) [OF g(5)])
  moreover have "length (concat (map seg_data P)) = ?n" using g(7) by (simp add: length_data)
  ultimately have "content ?b = overwrite absof xs (content rbuf)"
    using s(3) g(6,8) n(2) by (simp add: content_def overwrite_def)
  then show ?thesis using that [of ?b] s(1) g(1,2) i m by (simp add: rd_buf_write_update_def)
qed

lemma update_clean:
  assumes "buf_clean rbuf" "buf_inv rbuf'" "rbuf_erased rbuf' = rbuf_erased rbuf" "rbuf_wpos rbuf' = rbuf_wpos rbuf"
    "list_all2 same_meta (rbuf_segments rbuf) (rbuf_segments rbuf')"
  shows "buf_clean rbuf'"
  using assms list_all2_lengthD [OF assms(5)] by (auto simp: buf_clean_def buf_snug_def split: option.splits)

section \<open>Erasing\<close>

abbreviation seg_sum :: "rd_segment_t list \<Rightarrow> nat" where
  "seg_sum segs \<equiv> \<Sum>seg\<leftarrow>segs. seg_of seg"

text \<open>
  In the loop of \<open>rd_buf_erase\<close>: the segments it is done with, those it has still to look at, up to the one at the
  write position, and those behind it; \<open>n\<close> bytes are erased. The offsets of the former are right, those
  of the latter are \<open>n\<close> too high.
\<close>

definition erase_inv :: "rd_segment_t list \<Rightarrow> rd_segment_t list \<Rightarrow> rd_segment_t list \<Rightarrow> nat \<Rightarrow> rd_buf_t \<Rightarrow> bool" where
  "erase_inv P Q C n rbuf \<longleftrightarrow> rbuf_segments rbuf = P @ Q @ C \<and> rbuf_wpos rbuf = Some (length P + length Q - 1) \<and> P @ Q \<noteq> [] \<and>
     stats_ok (rbuf\<lparr>rbuf_erased := rbuf_erased rbuf + int n\<rparr>) \<and> offs_ok 0 P \<and> offs_ok (seg_sum P + n) Q \<and>
     (\<forall>x \<in> set (butlast (P @ Q)). seg_full x)"

lemma erase_segment_ok:
  assumes E: "erase_inv P (q # Q) C n rbuf" and n: "n < sz" and P: "seg_sum P \<le> absof" "absof \<le> seg_sum P + seg_of q"
    and rd: "\<not> seg_rdonly q"
    and last: "Q = [] \<Longrightarrow> seg_of q \<noteq> 0 \<and> (seg_sum P < absof \<or> absof - seg_sum P + (sz - n) < seg_of q)"
  defines "r \<equiv> absof - seg_sum P"
  defines "t \<equiv> min (seg_of q - r) (sz - n)"
  obtains R rbuf' where "erase_segment absof sz (length P) n rbuf = Some (length (P @ R), n + t, rbuf')"
    "erase_inv (P @ R) Q C (n + t) rbuf'"
    "concat (map seg_data R) = take r (seg_data q) @ drop (r + t) (seg_data q)" "seg_sum R + t = seg_of q"
proof -
  let ?p = "take r (seg_p q) @ take (seg_of q - (r + t)) (drop (r + t) (seg_p q)) @ drop (r + (seg_of q - (r + t))) (seg_p q)"
  let ?q = "q\<lparr>seg_absof := seg_absof q - n\<rparr>"
  let ?q' = "?q\<lparr>seg_p := ?p, seg_of := seg_of q - t, seg_erased := seg_erased q + t\<rparr>"
  have s: "rbuf_segments rbuf = P @ q # Q @ C" "seg_absof q = seg_sum P + n" "seg_ok q"
    using E by (auto simp: erase_inv_def stats_ok_def)
  have r: "r \<le> seg_of q" "r + t \<le> seg_of q" "seg_of q \<le> length (seg_p q)" using P s(3) by (auto simp: r_def t_def seg_ok_def)
  have len: "length ?p = length (seg_p q)" using r by simp
  have "seg_of q - t \<le> seg_size q" using s(3) by (auto simp: seg_ok_def)
  then have ok: "seg_ok ?q'" "seg_ok ?q" using s(3) len rd by (simp_all add: seg_ok_def del: length_append)
  have d: "seg_data ?q' = take r (seg_data q) @ drop (r + t) (seg_data q)"
  proof -
    obtain u where u: "seg_of q = r + t + u" using r(2) le_Suc_ex by blast
    then have "seg_of q - (r + t) = u" "seg_of q - t = r + u" "min (r + u) r = r" by simp_all
    then show ?thesis using r(3) u by (simp add: seg_data_def drop_take)
  qed
  have h: "absof + n - seg_absof q = r" "min (seg_of q - r) (sz - n) = t" "\<not> absof + n < seg_absof q" "\<not> seg_absof q < n"
    using s(2) P by (simp_all add: r_def t_def)
  show ?thesis
  proof (cases "t = 0")
    case True
    show ?thesis
    proof (rule that)
      show "erase_segment absof sz (length P) n rbuf = Some (length (P @ [?q]), n + t, rbuf\<lparr>rbuf_segments := P @ ?q # Q @ C\<rparr>)"
        using True s(1) h r(1) by (simp add: erase_segment_def Let_def upd_seg_def)
      show "erase_inv (P @ [?q]) Q C (n + t) (rbuf\<lparr>rbuf_segments := P @ ?q # Q @ C\<rparr>)"
        using True E ok(2) s
        by (auto simp: erase_inv_def stats_ok_def offs_ok_append butlast_append seg_full_def rd_buf_write_remains_def ac_simps split: if_splits)
      have "seg_data ?q = seg_data q" by (simp add: seg_data_def)
      then show "concat (map seg_data [?q]) = take r (seg_data q) @ drop (r + t) (seg_data q)" using True by simp
    qed (use True in simp)
  next
    case False
    note t = this
    let ?b = "rbuf\<lparr>rbuf_segments := P @ ?q' # Q @ C, rbuf_len := rbuf_len rbuf - t\<rparr>"
    have e: "erase_segment absof sz (length P) n rbuf =
      (if seg_of q - t = 0
       then map_option (\<lambda>rbuf. (length P, n + t, rbuf)) (rd_buf_destroy_segment (length P) (?b\<lparr>rbuf_erased := rbuf_erased ?b - int (seg_erased q + t)\<rparr>))
       else Some (length P + 1, n + t, ?b))"
      using False s(1) h r(1,2) rd by (auto simp: erase_segment_def Let_def upd_seg_def)
    show ?thesis
    proof (cases "seg_of q - t = 0")
      case False
      show ?thesis
      proof (rule that)
        show "erase_segment absof sz (length P) n rbuf = Some (length (P @ [?q']), n + t, ?b)" using e False by simp
        have "stats_ok (?b\<lparr>rbuf_erased := rbuf_erased ?b + int (n + t)\<rparr>)"
          using E ok(1) r by (auto simp: erase_inv_def stats_ok_def rd_buf_write_remains_def)
        then show "erase_inv (P @ [?q']) Q C (n + t) ?b"
          using E s r by (auto simp: erase_inv_def offs_ok_append butlast_append seg_full_def ac_simps split: if_splits)
      qed (use d r False in simp_all)
    next
      case True
      then have z: "t = seg_of q" "r = 0" using r by simp_all
      have Q: "Q \<noteq> []" using last z n by (auto simp: r_def t_def)
      then have f: "seg_full q" using E by (auto simp: erase_inv_def butlast_append)
      let ?b' = "?b\<lparr>rbuf_erased := rbuf_erased ?b - int (seg_erased q + t), rbuf_segments := P @ Q @ C,
        rbuf_segment_cnt := rbuf_segment_cnt rbuf - 1, rbuf_size := rbuf_size rbuf - seg_size q, rbuf_wpos := Some (length P + length Q - 1)\<rparr>"
      show ?thesis
      proof (rule that [of "[]"])
        show "erase_segment absof sz (length P) n rbuf = Some (length (P @ []), n + t, ?b')"
          using e True E Q s by (auto simp: rd_buf_destroy_segment_def Let_def erase_inv_def stats_ok_def)
        have "stats_ok (?b'\<lparr>rbuf_erased := rbuf_erased ?b' + int (n + t)\<rparr>)"
          using E f z by (auto simp: erase_inv_def stats_ok_def rd_buf_write_remains_def seg_full_def)
        then show "erase_inv (P @ []) Q C (n + t) ?b'"
          using E s z Q by (auto simp: erase_inv_def offs_ok_append butlast_append ac_simps split: if_splits)
      qed (use d r z s(3) in \<open>simp_all add: seg_data_def seg_ok_def\<close>)
    qed
  qed
qed

lemma erase_loop_ok:
  assumes "erase_inv P Q C n rbuf" "n < sz" "Q \<noteq> []" "seg_sum P \<le> absof" "absof \<le> seg_sum P + seg_of (hd Q)"
    "absof - seg_sum P + (sz - n) \<le> seg_sum Q" "\<forall>x \<in> set Q. seg_rdonly x \<longrightarrow> absof + sz \<le> seg_absof x"
    "absof - seg_sum P + (sz - n) < seg_sum Q \<or> length Q = 1 \<and> seg_sum P < absof"
  shows "\<exists>P' Q' rbuf'. erase_loop absof sz (length Q + length C) (length P) n rbuf = Some (length P', sz, rbuf') \<and>
    erase_inv P' Q' C sz rbuf' \<and>
    concat (map seg_data (P' @ Q')) = concat (map seg_data P) @ take (absof - seg_sum P) (concat (map seg_data Q)) @
      drop (absof - seg_sum P + (sz - n)) (concat (map seg_data Q))"
  using assms
proof (induction Q arbitrary: P n rbuf)
  case (Cons q Q)
  define r where "r = absof - seg_sum P"
  define t where "t = min (seg_of q - r) (sz - n)"
  have q: "seg_absof q = seg_sum P + n" "seg_ok q" using Cons.prems(1) by (auto simp: erase_inv_def stats_ok_def)
  have rd: "\<not> seg_rdonly q" using Cons.prems(2,4,7) q(1) by auto
  have last: "Q = [] \<Longrightarrow> seg_of q \<noteq> 0 \<and> (seg_sum P < absof \<or> absof - seg_sum P + (sz - n) < seg_of q)"
    using Cons.prems(2,5,6,8) by auto
  obtain R b where R: "erase_segment absof sz (length P) n rbuf = Some (length (P @ R), n + t, b)"
    "erase_inv (P @ R) Q C (n + t) b" "concat (map seg_data R) = take r (seg_data q) @ drop (r + t) (seg_data q)"
    "seg_sum R + t = seg_of q"
    using Cons.prems(5) by (auto intro: erase_segment_ok [OF Cons.prems(1,2,4) _ rd last, folded r_def, folded t_def])
  have l: "length (seg_data q) = seg_of q" "r \<le> seg_of q" using q Cons.prems(5) by (auto simp: r_def)
  have e: "erase_loop absof sz (length (q # Q) + length C) (length P) n rbuf = erase_loop absof sz (length Q + length C) (length (P @ R)) (n + t) b"
    using Cons.prems(2) R(1) by simp
  show ?case
  proof (cases "n + t < sz")
    case False
    then have t: "t = sz - n" using Cons.prems(2) by (simp add: t_def)
    then have "r + t \<le> seg_of q" using l by (simp add: t_def)
    then have "concat (map seg_data ((P @ R) @ Q)) = concat (map seg_data P) @ take r (concat (map seg_data (q # Q))) @
      drop (r + (sz - n)) (concat (map seg_data (q # Q)))"
      using R(3) l t by simp
    moreover have "erase_loop absof sz (length Q + length C) (length (P @ R)) (n + t) b = Some (length (P @ R), sz, b)"
      using t Cons.prems(2) by (cases "length Q + length C") auto
    moreover have "erase_inv (P @ R) Q C sz b" using R(2) t Cons.prems(2) by simp
    ultimately show ?thesis unfolding e r_def by blast
  next
    case True
    then have t: "t = seg_of q - r" by (simp add: t_def)
    then have P: "seg_sum (P @ R) = absof" using R(4) l Cons.prems(4) by (simp add: r_def)
    have s: "r + (sz - n) - seg_of q = sz - (n + t)" "seg_of q \<le> r + (sz - n)" "r + t = seg_of q" using True t l by simp_all
    have Q: "Q \<noteq> []" using Cons.prems(6) True t by (auto simp: r_def)
    have lt: "sz - (n + t) < seg_sum Q" using Cons.prems(8) Q True t l by (auto simp: r_def)
    have "\<exists>P' Q' rbuf'. erase_loop absof sz (length Q + length C) (length (P @ R)) (n + t) b = Some (length P', sz, rbuf') \<and>
      erase_inv P' Q' C sz rbuf' \<and>
      concat (map seg_data (P' @ Q')) = concat (map seg_data (P @ R)) @ take (absof - seg_sum (P @ R)) (concat (map seg_data Q)) @
        drop (absof - seg_sum (P @ R) + (sz - (n + t))) (concat (map seg_data Q))"
      by (rule Cons.IH [OF R(2) True Q]) (use P lt Cons.prems(7) in simp_all)
    moreover have "concat (map seg_data (P @ R)) @ take (absof - seg_sum (P @ R)) (concat (map seg_data Q)) @
        drop (absof - seg_sum (P @ R) + (sz - (n + t))) (concat (map seg_data Q)) =
      concat (map seg_data P) @ take r (concat (map seg_data (q # Q))) @ drop (r + (sz - n)) (concat (map seg_data (q # Q)))"
      using P R(3) l s by simp
    ultimately show ?thesis unfolding e r_def by simp
  qed
qed simp

lemma offs_ok_lower:
  "offs_ok (n + k) segs \<Longrightarrow> offs_ok n (map (\<lambda>seg. seg\<lparr>seg_absof := seg_absof seg - k\<rparr>) segs) \<and> (\<forall>seg \<in> set segs. k \<le> seg_absof seg)"
proof (induction segs arbitrary: n)
  case (Cons a segs)
  then show ?case using Cons.IH [of "n + seg_of a"] by (auto simp: ac_simps)
qed simp

text \<open>
  A range can be erased if it is not in foreign memory, if the segment at the write position keeps
  something, and if the range is not larger than the offset a segment behind it was given.
\<close>

definition erase_ok :: "nat \<Rightarrow> nat \<Rightarrow> rd_buf_t \<Rightarrow> bool" where
  "erase_ok absof sz rbuf \<longleftrightarrow> absof + sz \<le> rbuf_len rbuf \<and>
     (\<forall>seg \<in> set (rbuf_segments rbuf). seg_rdonly seg \<longrightarrow> absof + sz \<le> seg_absof seg \<or> seg_absof seg + seg_of seg \<le> absof) \<and>
     (case rbuf_wpos rbuf of None \<Rightarrow> False
      | Some w \<Rightarrow> (absof + sz < rbuf_len rbuf \<or> seg_absof (rbuf_segments rbuf ! w) < absof) \<and>
          (\<forall>seg \<in> set (drop (w + 1) (rbuf_segments rbuf)). sz \<le> seg_absof seg))"

lemma erase_removes:
  assumes "buf_inv rbuf" "erase_ok absof sz rbuf" "0 < sz"
  obtains rbuf' where "rd_buf_erase absof sz rbuf = Some (sz, rbuf')" "buf_inv rbuf'"
    "content rbuf' = take absof (content rbuf) @ drop (absof + sz) (content rbuf)"
proof -
  obtain w where w: "rbuf_wpos rbuf = Some w" using assms(2) by (auto simp: erase_ok_def split: option.splits)
  have lt: "absof < rbuf_len rbuf" using assms(2,3) by (simp add: erase_ok_def)
  obtain P q Q C where g: "rd_buf_get_segment_at_offset rbuf None absof = Some (length P)"
    "rbuf_segments rbuf = P @ q # Q @ C" "offs_ok 0 (P @ q # Q)" "rbuf_len rbuf = seg_sum (P @ q # Q)"
    "\<forall>x \<in> set C. seg_spare (rbuf_len rbuf) x" "content rbuf = concat (map seg_data (P @ q # Q))"
    "\<forall>x \<in> set (P @ q # Q @ C). seg_ok x" "seg_absof q \<le> absof" "absof < seg_absof q + seg_of q"
    "\<forall>w. rbuf_wpos rbuf = Some w \<longrightarrow> length P + length Q = w" "\<forall>x \<in> set (butlast (P @ q # Q)). seg_full x"
    by (rule get_segment_ok [OF assms(1) lt, of None]) simp
  have w': "w = length P + length Q" using g(10) w by simp
  have E: "erase_inv P (q # Q) C 0 rbuf"
    using inv_stats [OF assms(1)] g(2,3,11) w w' by (simp add: erase_inv_def offs_ok_append)
  have q: "seg_absof q = seg_sum P" "offs_ok (seg_sum P + seg_of q) Q" using g(3) by (simp_all add: offs_ok_append)
  have low: "seg_sum P + seg_of q \<le> seg_absof x" if "x \<in> set Q" for x
    using offs_ok_lower [of 0 "seg_sum P + seg_of q" Q] q(2) that by simp
  have "rbuf_segments rbuf ! w = last (q # Q)" using g(2) w' by (cases Q rule: rev_cases) (simp_all add: nth_append)
  then have last: "absof - seg_sum P + sz < seg_sum (q # Q) \<or> length (q # Q) = 1 \<and> seg_sum P < absof"
    using assms(2) w low [of "last Q"] g(4,8,9) q(1) by (cases "Q = []") (auto simp: erase_ok_def)
  have rd: "\<forall>x \<in> set (q # Q). seg_rdonly x \<longrightarrow> absof + sz \<le> seg_absof x"
    using assms(2) g(2,9) low q(1) by (fastforce simp: erase_ok_def)
  have "absof - seg_sum P + sz \<le> seg_sum (q # Q)" using assms(2) g(4,8) q(1) by (auto simp: erase_ok_def)
  then obtain P' Q' b where b: "erase_loop absof sz (length (q # Q) + length C) (length P) 0 rbuf = Some (length P', sz, b)"
    "erase_inv P' Q' C sz b" "concat (map seg_data (P' @ Q')) = concat (map seg_data P) @
      take (absof - seg_sum P) (concat (map seg_data (q # Q))) @ drop (absof - seg_sum P + sz) (concat (map seg_data (q # Q)))"
    using erase_loop_ok [OF E assms(3) _ _ _ _ rd] last g(8,9) q(1) by auto
  have lP: "length (concat (map seg_data P)) = seg_sum P" using g(7) by (intro length_data) auto
  then have c: "concat (map seg_data (P' @ Q')) = take absof (content rbuf) @ drop (absof + sz) (content rbuf)"
    using b(3) g(6,8) q(1) by simp
  let ?low = "\<lambda>seg. seg\<lparr>seg_absof := seg_absof seg - sz\<rparr>"
  let ?b = "b\<lparr>rbuf_segments := P' @ map ?low (Q' @ C), rbuf_erased := rbuf_erased b + int sz\<rparr>"
  have s: "rbuf_segments b = P' @ Q' @ C" "stats_ok (b\<lparr>rbuf_erased := rbuf_erased b + int sz\<rparr>)" "offs_ok (seg_sum P' + sz) Q'"
    "offs_ok 0 P'" "rbuf_wpos b = Some (length P' + length Q' - 1)" "P' @ Q' \<noteq> []" "\<forall>x \<in> set (butlast (P' @ Q')). seg_full x"
    using b(2) by (simp_all add: erase_inv_def)
  have C: "\<forall>x \<in> set C. sz \<le> seg_absof x" using assms(2) w w' g(2) by (auto simp: erase_ok_def)
  then have "\<forall>x \<in> set (drop (length P') (rbuf_segments b)). \<not> seg_absof x < sz"
    using s(1) offs_ok_lower [OF s(3)] by (auto simp: not_less)
  then have r: "rd_buf_erase absof sz rbuf = Some (sz, ?b)"
    using g(1,2) b(1) s(1) by (auto simp: rd_buf_erase_def)
  have d: "seg_data (?low x) = seg_data x" "seg_ok (?low x) = seg_ok x" "seg_full (?low x) = seg_full x" for x
    by (simp_all add: seg_data_def seg_ok_def seg_full_def)
  have st: "stats_ok ?b" using s(1,2) by (auto simp: stats_ok_def comp_def rd_buf_write_remains_def d)
  obtain A' x where A': "P' @ map ?low Q' = A' @ [x]" using s(6) by (cases "P' @ map ?low Q'" rule: rev_cases) auto
  have "A' = butlast (P' @ map ?low Q')" using A' by simp
  then have full: "\<forall>y \<in> set A'. seg_full y" using s(7) by (auto simp: butlast_append d simp flip: map_butlast split: if_splits)
  have "length (concat (map seg_data (P' @ Q'))) = seg_sum (P' @ Q')"
    using s(1,2) by (intro length_data) (auto simp: stats_ok_def)
  then have "seg_sum (P' @ Q') = rbuf_len rbuf - sz" using content_len [OF assms(1)] lt assms(2) unfolding c by (simp add: erase_ok_def)
  moreover have "rbuf_len b = seg_sum (P' @ Q')" using s(1,2) spare_data(2) [OF g(5)] by (simp add: stats_ok_def)
  ultimately have "\<forall>y \<in> set (map ?low C). seg_spare (rbuf_len ?b) y" using g(5) by (auto simp: seg_spare_def diff_le_mono)
  moreover have "offs_ok 0 (A' @ [x])" using offs_ok_lower [OF s(3)] s(4) by (simp add: offs_ok_append flip: A')
  moreover have "rbuf_segments ?b = A' @ x # map ?low C" using A' by simp
  moreover have "length P' + length Q' = length A' + 1" using arg_cong [OF A', of length] by simp
  ultimately have "buf_view A' x (map ?low C) ?b" using st full s(5) by (simp add: buf_view_def)
  moreover have "concat (map seg_data (map ?low Q')) = concat (map seg_data Q')" by (simp add: comp_def d)
  ultimately show ?thesis
    using that [of ?b] r c spare_data(1) [OF g(5)] by (auto simp: buf_inv_def content_def comp_def d)
qed

section \<open>Seeking\<close>

lemma clean_remains:
  assumes "rbuf_erased rbuf = 0" "rbuf_len rbuf = seg_sum (rbuf_segments rbuf)" "\<forall>x \<in> set (rbuf_segments rbuf). seg_ok x"
    "rbuf_size rbuf = (\<Sum>seg\<leftarrow>rbuf_segments rbuf. seg_size seg)"
  shows "0 \<le> rd_buf_write_remains rbuf"
proof -
  have "\<forall>x \<in> set xs. seg_ok x \<Longrightarrow> seg_sum xs \<le> (\<Sum>seg\<leftarrow>xs. seg_size seg)" for xs
    by (intro sum_list_mono) (simp add: seg_ok_def)
  then show ?thesis using assms by (simp add: rd_buf_write_remains_def)
qed

lemma seek_destroy_ok:
  "stats_ok rbuf \<Longrightarrow> rbuf_erased rbuf = 0 \<Longrightarrow> rbuf_segments rbuf = B @ D \<Longrightarrow>
    \<exists>rbuf'. seek_destroy_loop (length D) rbuf = Some rbuf' \<and> rbuf_segments rbuf' = B \<and> stats_ok rbuf' \<and> rbuf_erased rbuf' = 0"
proof (induction D arbitrary: rbuf rule: rev_induct)
  case (snoc x D)
  have e: "seg_erased x = 0" using snoc.prems none_erased [of "B @ D @ [x]" x] by (simp add: stats_ok_def)
  obtain b where b: "rd_buf_destroy_segment (length B + length D) (rbuf\<lparr>rbuf_erased := 0\<rparr>) = Some b" "rbuf_segments b = B @ D" "rbuf_erased b = 0"
      "rbuf_len b = seg_sum (B @ D)" "rbuf_size b = (\<Sum>seg\<leftarrow>B @ D. seg_size seg)" "rbuf_segment_cnt b = length (B @ D)"
    using snoc.prems by (simp add: rd_buf_destroy_segment_def Let_def stats_ok_def nth_append)
  have "\<forall>y \<in> set (B @ D). seg_ok y" "(\<Sum>seg\<leftarrow>B @ D. int (seg_erased seg)) = 0"
    using snoc.prems e by (auto simp: stats_ok_def)
  then have "stats_ok b" using b clean_remains [of b] by (simp add: stats_ok_def)
  then show ?case using snoc.IH [of b] b snoc.prems e by (simp add: Let_def nth_append)
qed simp

lemma seek_truncates:
  assumes "buf_clean rbuf" "absof < rbuf_len rbuf"
    "\<forall>seg \<in> set (rbuf_segments rbuf). seg_rdonly seg \<longrightarrow> absof < seg_absof seg \<or> seg_absof seg + seg_of seg \<le> absof"
  obtains rbuf' where "rd_buf_write_seek absof rbuf = Some (0, rbuf')" "buf_clean rbuf'" "content rbuf' = take absof (content rbuf)"
proof -
  have i: "buf_inv rbuf" "rbuf_erased rbuf = 0" using assms(1) by (simp_all add: buf_clean_def)
  obtain P q Q C where g: "rd_buf_get_segment_at_offset rbuf (rbuf_wpos rbuf) absof = Some (length P)"
    "rbuf_segments rbuf = P @ q # Q @ C" "offs_ok 0 (P @ q # Q)" "rbuf_len rbuf = seg_sum (P @ q # Q)"
    "content rbuf = concat (map seg_data (P @ q # Q))" "\<forall>x \<in> set (P @ q # Q @ C). seg_ok x"
    "seg_absof q \<le> absof" "absof < seg_absof q + seg_of q" "\<forall>x \<in> set (butlast (P @ q # Q)). seg_full x"
    by (rule get_segment_ok [OF i(1) assms(2), of "rbuf_wpos rbuf"]) simp
  obtain b where b: "seek_destroy_loop (length (Q @ C)) rbuf = Some b" "rbuf_segments b = P @ [q]" "stats_ok b" "rbuf_erased b = 0"
    using seek_destroy_ok [OF inv_stats [OF i(1)] i(2), of "P @ [q]" "Q @ C"] g(2) by auto
  have q: "seg_absof q = seg_sum P" "offs_ok 0 P" "seg_ok q" "\<not> seg_rdonly q"
    using g(2,3,6,7,8) assms(3) by (auto simp: offs_ok_append)
  have P: "\<forall>x \<in> set P. seg_full x" using g(9) by (simp add: butlast_append)
  let ?q = "q\<lparr>seg_of := absof - seg_absof q\<rparr>"
  let ?b = "b\<lparr>rbuf_segments := P @ [?q], rbuf_wpos := Some (length P), rbuf_len := absof\<rparr>"
  have "seg_ok ?q" using q(3,4) g(7,8) by (auto simp: seg_ok_def)
  then have "stats_ok ?b" using b q(1) g(7) clean_remains [of ?b] by (auto simp: stats_ok_def)
  then have v: "buf_view P ?q [] ?b" using P q by (simp add: buf_view_def offs_ok_append)
  then have "buf_clean ?b" using snug_view [OF v] b(4) by (auto simp: buf_clean_def buf_inv_def)
  moreover have "content ?b = take absof (content rbuf)"
  proof -
    have "length (concat (map seg_data P)) = seg_sum P" using g(6) by (intro length_data) auto
    moreover have "seg_data ?q = take (absof - seg_absof q) (seg_data q)" using g(7,8) by (simp add: seg_data_def)
    ultimately show ?thesis using view_content [OF v] g(5,7,8) q(1,3) by simp
  qed
  moreover have "rd_buf_write_seek absof rbuf = Some (0, ?b)"
    using g(1,2,7,8) b(1,2) by (simp add: rd_buf_write_seek_def Let_def upd_seg_def)
  ultimately show ?thesis using that by blast
qed

end
