(* ===== verification/Rdbuf_Slice.thy ===== *)
theory Rdbuf_Slice
  imports Rdbuf_Ops
begin

text \<open>
  The contract of slices: reading through a slice, whatever the segments of the buffer, is reading the list of
  bytes that is left of it.
\<close>

section \<open>What is left of a slice\<close>

definition slice_at :: "rd_segment_t list \<Rightarrow> rd_segment_t \<Rightarrow> rd_segment_t list \<Rightarrow> rd_segment_t list \<Rightarrow> rd_buf_t \<Rightarrow> rd_slice_t \<Rightarrow> bool" where
  "slice_at P s S C rbuf sl \<longleftrightarrow> rbuf_segments rbuf = P @ s # S @ C \<and> offs_ok 0 (P @ s # S) \<and> rbuf_len rbuf = seg_sum (P @ s # S) \<and>
     content rbuf = concat (map seg_data (P @ s # S)) \<and> (\<forall>x \<in> set (P @ s # S). seg_ok x) \<and> (\<forall>x \<in> set C. seg_of x = 0) \<and>
     sl_seg sl = Some (length P) \<and> sl_rof sl \<le> seg_of s \<and> sl_start sl \<le> seg_absof s + sl_rof sl \<and>
     seg_absof s + sl_rof sl \<le> sl_end sl \<and> sl_end sl \<le> rbuf_len rbuf"

definition slice_ok :: "rd_buf_t \<Rightarrow> rd_slice_t \<Rightarrow> bool" where
  "slice_ok rbuf sl \<longleftrightarrow> (\<exists>P s S C. slice_at P s S C rbuf sl)"

definition slice_rest :: "rd_buf_t \<Rightarrow> rd_slice_t \<Rightarrow> 8 word list" where
  "slice_rest rbuf sl = take (sl_end sl - rd_slice_abs_offset rbuf sl) (drop (rd_slice_abs_offset rbuf sl) (content rbuf))"

lemma slice_at_abs: "slice_at P s S C rbuf sl \<Longrightarrow> rd_slice_abs_offset rbuf sl = seg_absof s + sl_rof sl"
  by (simp add: slice_at_def rd_slice_abs_offset_def)

lemma slice_at_pos:
  assumes "slice_at P s S C rbuf sl"
  shows "seg_absof s = seg_sum P" "length (concat (map seg_data P)) = seg_sum P" "length (seg_data s) = seg_of s"
    "drop (rd_slice_abs_offset rbuf sl) (content rbuf) = drop (sl_rof sl) (seg_data s) @ concat (map seg_data S)"
proof -
  show a: "seg_absof s = seg_sum P" using assms by (simp add: slice_at_def offs_ok_append)
  show b: "length (concat (map seg_data P)) = seg_sum P" using assms by (intro length_data) (simp add: slice_at_def)
  show c: "length (seg_data s) = seg_of s" using assms by (simp add: slice_at_def)
  show "drop (rd_slice_abs_offset rbuf sl) (content rbuf) = drop (sl_rof sl) (seg_data s) @ concat (map seg_data S)"
    using assms a b c slice_at_abs [OF assms] by (simp add: slice_at_def)
qed

lemma slice_facts:
  assumes "slice_ok rbuf sl"
  shows "sl_start sl \<le> rd_slice_abs_offset rbuf sl" "rd_slice_abs_offset rbuf sl \<le> sl_end sl" "sl_end sl \<le> rbuf_len rbuf"
    "length (content rbuf) = rbuf_len rbuf" "length (slice_rest rbuf sl) = rd_slice_remains rbuf sl"
proof -
  obtain P s S C where a: "slice_at P s S C rbuf sl" using assms by (auto simp: slice_ok_def)
  show f: "sl_start sl \<le> rd_slice_abs_offset rbuf sl" "rd_slice_abs_offset rbuf sl \<le> sl_end sl" "sl_end sl \<le> rbuf_len rbuf"
    using a by (simp_all add: slice_at_abs [OF a]) (simp_all add: slice_at_def)
  have "length (concat (map seg_data (P @ s # S))) = seg_sum (P @ s # S)" using a by (intro length_data) (simp add: slice_at_def)
  then show l: "length (content rbuf) = rbuf_len rbuf" using a by (simp add: slice_at_def)
  then show "length (slice_rest rbuf sl) = rd_slice_remains rbuf sl" using f by (simp add: slice_rest_def rd_slice_remains_def)
qed

text \<open>Moving a slice to another end keeps it right.\<close>

lemma slice_end:
  assumes "slice_ok rbuf sl" "rd_slice_abs_offset rbuf sl \<le> e" "e \<le> rbuf_len rbuf"
  shows "slice_ok rbuf (sl\<lparr>sl_end := e\<rparr>)" "rd_slice_abs_offset rbuf (sl\<lparr>sl_end := e\<rparr>) = rd_slice_abs_offset rbuf sl"
proof -
  obtain P s S C where a: "slice_at P s S C rbuf sl" using assms by (auto simp: slice_ok_def)
  then have b: "slice_at P s S C rbuf (sl\<lparr>sl_end := e\<rparr>)" using assms(2,3) slice_at_abs [OF a] by (simp add: slice_at_def)
  then show "slice_ok rbuf (sl\<lparr>sl_end := e\<rparr>)" by (auto simp: slice_ok_def)
  show "rd_slice_abs_offset rbuf (sl\<lparr>sl_end := e\<rparr>) = rd_slice_abs_offset rbuf sl" using slice_at_abs [OF a] slice_at_abs [OF b] by simp
qed

section \<open>Creating a slice\<close>

lemma slice_init_ok:
  assumes "buf_inv rbuf" "absof < rbuf_len rbuf" "absof + sz \<le> rbuf_len rbuf"
  obtains sl where "rd_slice_init rbuf absof sz = Inr sl" "slice_ok rbuf sl" "slice_rest rbuf sl = take sz (drop absof (content rbuf))"
    "rd_slice_abs_offset rbuf sl = absof" "sl_start sl = absof" "sl_end sl = absof + sz"
proof -
  obtain P s S C where g: "rd_buf_get_segment_at_offset rbuf None absof = Some (length P)"
    "rbuf_segments rbuf = P @ s # S @ C" "offs_ok 0 (P @ s # S)" "rbuf_len rbuf = seg_sum (P @ s # S)"
    "content rbuf = concat (map seg_data (P @ s # S))" "\<forall>x \<in> set (P @ s # S @ C). seg_ok x" "\<forall>x \<in> set C. seg_spare (rbuf_len rbuf) x"
    "seg_absof s \<le> absof" "absof < seg_absof s + seg_of s"
    by (rule get_segment_ok [OF assms(1,2), of None]) simp
  let ?sl = "\<lparr>sl_seg = Some (length P), sl_rof = absof - seg_absof s, sl_start = absof, sl_end = absof + sz\<rparr>"
  have a: "slice_at P s S C rbuf ?sl" using g assms(3) by (auto simp: slice_at_def seg_spare_def)
  show ?thesis
  proof (rule that)
    show "rd_slice_init rbuf absof sz = Inr ?sl" using g assms(3) by (simp add: rd_slice_init_def rd_slice_init_seg_def Let_def)
    show "slice_ok rbuf ?sl" using a by (auto simp: slice_ok_def)
    show "rd_slice_abs_offset rbuf ?sl = absof" using slice_at_abs [OF a] g by simp
    then show "slice_rest rbuf ?sl = take sz (drop absof (content rbuf))" by (simp add: slice_rest_def)
  qed simp_all
qed

section \<open>Reading\<close>

lemma reader_find_ok:
  "offs_ok n (s # S) \<Longrightarrow> rof \<le> seg_of s \<Longrightarrow> n + rof \<le> e \<Longrightarrow> e \<le> n + seg_sum (s # S) \<Longrightarrow>
    \<exists>P s' S' r. s # S = P @ s' # S' \<and> reader_find ((s # S) @ C) i rof e = Some (i + length P, r) \<and> r \<le> seg_of s' \<and>
      seg_absof s' + r = n + rof \<and> (P = [] \<longrightarrow> r = rof) \<and> (P \<noteq> [] \<longrightarrow> r = 0) \<and> (n + rof < e \<longrightarrow> r < seg_of s')"
proof (induction S arbitrary: s n i rof)
  case Nil
  then show ?case by (intro exI [of _ "[]"] exI [of _ s] exI [of _ rof]) auto
next
  case (Cons x S)
  show ?case
  proof (cases "n + rof < e \<and> seg_of s = rof")
    case False
    then show ?thesis using Cons.prems by (intro exI [of _ "[]"] exI [of _ s] exI [of _ "x # S"] exI [of _ rof]) auto
  next
    case True
    have "\<exists>P s' S' r. x # S = P @ s' # S' \<and> reader_find ((x # S) @ C) (i + 1) 0 e = Some (i + 1 + length P, r) \<and> r \<le> seg_of s' \<and>
      seg_absof s' + r = n + seg_of s + 0 \<and> (P = [] \<longrightarrow> r = 0) \<and> (P \<noteq> [] \<longrightarrow> r = 0) \<and> (n + seg_of s + 0 < e \<longrightarrow> r < seg_of s')"
      by (rule Cons.IH) (use Cons.prems True in auto)
    then obtain P s' S' r where h: "x # S = P @ s' # S'" "reader_find ((x # S) @ C) (i + 1) 0 e = Some (i + 1 + length P, r)"
      "r \<le> seg_of s'" "seg_absof s' + r = n + seg_of s + 0" "r = 0" "n + seg_of s + 0 < e \<longrightarrow> r < seg_of s'"
      by blast
    have "reader_find ((s # x # S) @ C) i rof e = reader_find ((x # S) @ C) (i + 1) 0 e" using True Cons.prems by simp
    then have "s # x # S = (s # P) @ s' # S' \<and> reader_find ((s # x # S) @ C) i rof e = Some (i + length (s # P), r)" using h(1,2) by simp
    moreover have "seg_absof s' + r = n + rof" "n + rof < e \<longrightarrow> r < seg_of s'" using h(4,6) True by auto
    ultimately show ?thesis using h(3,5) by blast
  qed
qed

lemma reader_ok:
  assumes "slice_ok rbuf sl"
  obtains bytes sl' where "rd_slice_reader rbuf sl = Some (bytes, sl')" "slice_ok rbuf sl'"
    "slice_rest rbuf sl = bytes @ slice_rest rbuf sl'" "bytes = [] \<longleftrightarrow> slice_rest rbuf sl = []"
    "rd_slice_abs_offset rbuf sl' = rd_slice_abs_offset rbuf sl + length bytes" "sl_end sl' = sl_end sl" "sl_start sl' = sl_start sl"
proof -
  obtain P s S C where a: "slice_at P s S C rbuf sl" using assms by (auto simp: slice_ok_def)
  note p = slice_at_pos [OF a] slice_at_abs [OF a]
  have o: "offs_ok (seg_sum P) (s # S)" "sl_rof sl \<le> seg_of s" "seg_sum P + sl_rof sl \<le> sl_end sl" "sl_end sl \<le> seg_sum P + seg_sum (s # S)"
    "rbuf_segments rbuf = P @ s # S @ C" "sl_seg sl = Some (length P)" "sl_start sl \<le> seg_sum P + sl_rof sl"
    using a p(1) by (auto simp: slice_at_def offs_ok_append)
  obtain D s' S' r where f: "s # S = D @ s' # S'" "reader_find ((s # S) @ C) (length P) (sl_rof sl) (sl_end sl) = Some (length P + length D, r)"
    "r \<le> seg_of s'" "seg_absof s' + r = seg_sum P + sl_rof sl" "D = [] \<longrightarrow> r = sl_rof sl" "D \<noteq> [] \<longrightarrow> r = 0"
    "seg_sum P + sl_rof sl < sl_end sl \<longrightarrow> r < seg_of s'"
    using reader_find_ok [OF o(1-4), of C "length P"] by blast
  have fd: "reader_find (drop (length P) (rbuf_segments rbuf)) (length P) (sl_rof sl) (sl_end sl) = Some (length P + length D, r)"
    using f(2) o(5) by simp
  have n: "rbuf_segments rbuf ! (length P + length D) = s'" using o(5) f(1) by (simp add: nth_append flip: append_Cons)
  show ?thesis
  proof (cases "seg_sum P + sl_rof sl < sl_end sl")
    case False
    then have "rd_slice_reader rbuf sl = Some ([], sl)" using f(4) fd o(6) n by (simp add: rd_slice_reader_def Let_def)
    moreover have "slice_rest rbuf sl = []" using False p by (simp add: slice_rest_def)
    ultimately show ?thesis using that assms by simp
  next
    case True
    define m where "m = min (seg_of s' - r) (sl_end sl - (seg_sum P + sl_rof sl))"
    define sl' where "sl' = sl\<lparr>sl_seg := Some (length P + length D), sl_rof := r + m\<rparr>"
    have m: "0 < m" "r + m \<le> seg_of s'" "seg_absof s' + (r + m) \<le> sl_end sl" "rd_slice_remains rbuf sl = sl_end sl - (seg_sum P + sl_rof sl)"
      using True f p by (auto simp: m_def rd_slice_remains_def)
    have b: "slice_at (P @ D) s' S' C rbuf sl'" using a f m o(7) by (auto simp: slice_at_def sl'_def)
    note p' = slice_at_pos [OF b] slice_at_abs [OF b]
    have bytes: "take m (drop r (seg_p s')) = take m (drop r (seg_data s'))" using m by (simp add: seg_data_def drop_take)
    have "sl_seg sl \<noteq> Some (length P + length D) \<longleftrightarrow> D \<noteq> []" using o(6) by simp
    then have "rd_slice_reader rbuf sl = Some (take m (drop r (seg_p s')), sl')"
      using True f(4-6) fd o(6,7) m n by (auto simp: rd_slice_reader_def Let_def sl'_def simp flip: m_def)
    then have e: "rd_slice_reader rbuf sl = Some (take m (drop r (seg_data s')), sl')" unfolding bytes .
    have l: "length (take m (drop r (seg_data s'))) = m" using p'(3) m by simp
    have q: "rd_slice_abs_offset rbuf sl = seg_sum P + sl_rof sl" "rd_slice_abs_offset rbuf sl' = seg_sum P + sl_rof sl + m"
      using p p' f(4) by (simp_all add: sl'_def)
    have "drop (seg_sum P + sl_rof sl) (content rbuf) = drop r (seg_data s') @ concat (map seg_data S')"
      using b f(4) p'(1,2,3) m(2) by (simp add: slice_at_def flip: f(4))
    then have t: "take m (drop (seg_sum P + sl_rof sl) (content rbuf)) = take m (drop r (seg_data s'))" using l by simp
    have "sl_end sl - (seg_sum P + sl_rof sl) = m + (sl_end sl - (seg_sum P + sl_rof sl + m))" using m f(4) by simp
    then have "slice_rest rbuf sl = take m (drop r (seg_data s')) @ slice_rest rbuf sl'"
      unfolding slice_rest_def q using take_add [of m "sl_end sl - (seg_sum P + sl_rof sl + m)" "drop (seg_sum P + sl_rof sl) (content rbuf)"]
      by (simp add: sl'_def add.commute t [unfolded add.commute [of "seg_sum P"]])
    then show ?thesis using that [OF e] b l m p p' f by (auto simp: slice_ok_def sl'_def)
  qed
qed

lemma read_loop_ok:
  "slice_ok rbuf sl \<Longrightarrow> \<exists>sl'. slice_read_loop rbuf sl = Some (slice_rest rbuf sl, sl') \<and> slice_ok rbuf sl' \<and>
    rd_slice_abs_offset rbuf sl' = sl_end sl \<and> sl_end sl' = sl_end sl \<and> sl_start sl' = sl_start sl"
proof (induction "length (slice_rest rbuf sl)" arbitrary: sl rule: less_induct)
  case less
  obtain bytes s1 where r: "rd_slice_reader rbuf sl = Some (bytes, s1)" "slice_ok rbuf s1" "slice_rest rbuf sl = bytes @ slice_rest rbuf s1"
    "bytes = [] \<longleftrightarrow> slice_rest rbuf sl = []" "rd_slice_abs_offset rbuf s1 = rd_slice_abs_offset rbuf sl + length bytes"
    "sl_end s1 = sl_end sl" "sl_start s1 = sl_start sl"
    by (rule reader_ok [OF less.prems])
  show ?case
  proof (cases "bytes = []")
    case True
    then have "slice_rest rbuf sl = []" using r(4) by simp
    then have "sl_end sl = rd_slice_abs_offset rbuf sl"
      using slice_facts [OF less.prems] by (simp add: rd_slice_remains_def)
    then show ?thesis using r True by (subst slice_read_loop.simps) auto
  next
    case False
    then have "length (slice_rest rbuf s1) < length (slice_rest rbuf sl)" using r(3) by simp
    from less.hyps [OF this r(2)] obtain s2 where "slice_read_loop rbuf s1 = Some (slice_rest rbuf s1, s2)" "slice_ok rbuf s2"
      "rd_slice_abs_offset rbuf s2 = sl_end s1" "sl_end s2 = sl_end s1" "sl_start s2 = sl_start s1" by blast
    then show ?thesis using r False by (subst slice_read_loop.simps) simp
  qed
qed

text \<open>Reading \<open>sz\<close> bytes: those of the list, or none when there are fewer.\<close>

lemma read_ok:
  assumes "slice_ok rbuf sl" "sz \<le> length (slice_rest rbuf sl)"
  obtains sl' where "rd_slice_read rbuf sl sz = Some (Inr (take sz (slice_rest rbuf sl), sl'))" "slice_ok rbuf sl'"
    "slice_rest rbuf sl' = drop sz (slice_rest rbuf sl)" "rd_slice_abs_offset rbuf sl' = rd_slice_abs_offset rbuf sl + sz"
    "sl_end sl' = sl_end sl" "sl_start sl' = sl_start sl"
proof -
  note f = slice_facts [OF assms(1)]
  let ?a = "rd_slice_abs_offset rbuf sl"
  let ?s = "sl\<lparr>sl_end := ?a + sz\<rparr>"
  have sz: "?a + sz \<le> sl_end sl" using assms(2) f by (simp add: rd_slice_remains_def)
  have s: "slice_ok rbuf ?s" "rd_slice_abs_offset rbuf ?s = ?a" using slice_end [OF assms(1), of "?a + sz"] f sz by simp_all
  obtain s1 where s1: "slice_read_loop rbuf ?s = Some (slice_rest rbuf ?s, s1)" "slice_ok rbuf s1"
    "rd_slice_abs_offset rbuf s1 = ?a + sz" "sl_end s1 = ?a + sz" "sl_start s1 = sl_start sl"
    using read_loop_ok [OF s(1)] by auto
  have s2: "slice_ok rbuf (s1\<lparr>sl_end := sl_end sl\<rparr>)" "rd_slice_abs_offset rbuf (s1\<lparr>sl_end := sl_end sl\<rparr>) = ?a + sz"
    using slice_end [OF s1(2), of "sl_end sl"] s1 sz f by simp_all
  have "slice_rest rbuf ?s = take sz (slice_rest rbuf sl)" using s(2) sz by (simp add: slice_rest_def min_def)
  moreover have "slice_rest rbuf (s1\<lparr>sl_end := sl_end sl\<rparr>) = drop sz (slice_rest rbuf sl)"
    using s2 by (simp add: slice_rest_def drop_take add.commute)
  ultimately show ?thesis
    using that [of "s1\<lparr>sl_end := sl_end sl\<rparr>"] s1 s2 assms(2) f(5) by (simp add: rd_slice_read_def)
qed

lemma read_short: "slice_ok rbuf sl \<Longrightarrow> length (slice_rest rbuf sl) < sz \<Longrightarrow> rd_slice_read rbuf sl sz = Some (Inl ())"
  using slice_facts(5) by (simp add: rd_slice_read_def)

text \<open>Copying a slice to a buffer.\<close>

lemma write_slice_loop_ok:
  "slice_ok src sl \<Longrightarrow> buf_inv rbuf \<Longrightarrow> \<exists>n sl' rbuf'. write_slice_loop src sl m rbuf = Some (n, sl', rbuf') \<and> buf_inv rbuf' \<and>
    content rbuf' = content rbuf @ slice_rest src sl"
proof (induction "length (slice_rest src sl)" arbitrary: sl m rbuf rule: less_induct)
  case less
  obtain bytes s1 where r: "rd_slice_reader src sl = Some (bytes, s1)" "slice_ok src s1" "slice_rest src sl = bytes @ slice_rest src s1"
    "bytes = [] \<longleftrightarrow> slice_rest src sl = []"
    by (rule reader_ok [OF less.prems(1)])
  show ?case
  proof (cases "bytes = []")
    case True
    then have "write_slice_loop src sl m rbuf = Some (m, s1, rbuf)" using r(1) by (subst write_slice_loop.simps) simp
    then show ?thesis using r(4) True less.prems(2) by auto
  next
    case False
    obtain b where b: "rd_buf_write bytes rbuf = Some (rbuf_len rbuf, b)" "buf_inv b" "content b = content rbuf @ bytes"
      by (rule write_appends [OF less.prems(2)])
    have "length (slice_rest src s1) < length (slice_rest src sl)" using r(3) False by simp
    from less.hyps [OF this r(2) b(2), of "m + rbuf_len rbuf"] obtain n sl' b' where
      "write_slice_loop src s1 (m + rbuf_len rbuf) b = Some (n, sl', b')" "buf_inv b'" "content b' = content b @ slice_rest src s1" by blast
    moreover have "write_slice_loop src sl m rbuf = write_slice_loop src s1 (m + rbuf_len rbuf) b"
      using r(1) b(1) False by (subst write_slice_loop.simps) simp
    ultimately show ?thesis using b(3) r(3) by simp
  qed
qed

section \<open>Narrowing\<close>

lemma narrow_ok:
  assumes "slice_ok rbuf sl" "sz \<le> length (slice_rest rbuf sl)"
  shows "rd_slice_narrow_relative rbuf sl sz = Some (Inr (sl\<lparr>sl_end := rd_slice_abs_offset rbuf sl + sz\<rparr>))"
    "slice_ok rbuf (sl\<lparr>sl_end := rd_slice_abs_offset rbuf sl + sz\<rparr>)"
    "slice_rest rbuf (sl\<lparr>sl_end := rd_slice_abs_offset rbuf sl + sz\<rparr>) = take sz (slice_rest rbuf sl)"
proof -
  note f = slice_facts [OF assms(1)]
  obtain P s S C where a: "slice_at P s S C rbuf sl" using assms(1) by (auto simp: slice_ok_def)
  have o: "sl_start sl + rd_slice_offset rbuf sl = rd_slice_abs_offset rbuf sl"
    using a f slice_at_abs [OF a] by (simp add: rd_slice_offset_def slice_at_def)
  have sz: "rd_slice_abs_offset rbuf sl + sz \<le> sl_end sl" using assms(2) f by (simp add: rd_slice_remains_def)
  show b: "slice_ok rbuf (sl\<lparr>sl_end := rd_slice_abs_offset rbuf sl + sz\<rparr>)" using slice_end(1) [OF assms(1)] sz f by simp
  have c: "rd_slice_abs_offset rbuf (sl\<lparr>sl_end := rd_slice_abs_offset rbuf sl + sz\<rparr>) = rd_slice_abs_offset rbuf sl"
    using slice_end(2) [OF assms(1)] sz f by simp
  show "rd_slice_narrow_relative rbuf sl sz = Some (Inr (sl\<lparr>sl_end := rd_slice_abs_offset rbuf sl + sz\<rparr>))"
    using o sz c by (simp add: rd_slice_narrow_relative_def rd_slice_narrow_def Let_def flip: o add.assoc)
  show "slice_rest rbuf (sl\<lparr>sl_end := rd_slice_abs_offset rbuf sl + sz\<rparr>) = take sz (slice_rest rbuf sl)"
    using c sz by (simp add: slice_rest_def min_def)
qed

section \<open>Variable-length integers\<close>

text \<open>Decoding in a slice is decoding the list of bytes that is left of it.\<close>

lemma uvarint_seg:
  fixes xs zs absof rof e k shift num
  defines "dec \<equiv> uvarint_dec_loop (take (e - (absof + rof)) (xs @ zs)) k shift num"
  assumes "absof + rof \<le> e"
  shows "case slice_uvarint_seg xs absof rof e shift num of
      None \<Rightarrow> dec = None
    | Some (UV_DONE r sh v) \<Rightarrow> dec = Some (k + (r + 1 - rof), Some v) \<and> rof \<le> r \<and> r < rof + length xs \<and> sh = shift + 7 * (r + 1 - rof) \<and>
        absof + r < e
    | Some UV_UNDERFLOW \<Rightarrow> dec = Some (0, None)
    | Some (UV_MORE sh v) \<Rightarrow> sh = shift + 7 * length xs \<and> absof + rof + length xs \<le> e \<and>
        dec = uvarint_dec_loop (take (e - (absof + (rof + length xs))) zs) (k + length xs) sh v"
  using assms(2) unfolding dec_def
proof (induction xs arbitrary: rof k shift num)
  case (Cons x xs)
  show ?case
  proof (cases "absof + rof < e \<and> shift < 64 \<and> x AND 0x80 \<noteq> 0")
    case False
    then show ?thesis using Cons.prems by (cases "e - (absof + rof)") (auto simp: Let_def)
  next
    case True
    then have "e - (absof + rof) = Suc (e - (absof + (rof + 1)))" by (simp add: Suc_diff_Suc)
    then show ?thesis
      using True Cons.IH [of "rof + 1" "k + 1" "shift + 7" "num OR push_bit shift (ucast (x AND 0x7f))"]
      by (auto simp: Let_def split: option.splits uvarint_res.splits)
  qed
qed simp

lemma uvarint_spare: "\<forall>x \<in> set C. seg_of x = 0 \<Longrightarrow> slice_uvarint_loop C i 0 e shift num = Some None"
  by (induction C arbitrary: i) auto

lemma uvarint_weaken:
  "(case R of None \<Rightarrow> A | Some None \<Rightarrow> B | Some (Some (j, r, sh, v)) \<Rightarrow> Q j r sh v) \<Longrightarrow> (\<And>j r sh v. Q j r sh v \<Longrightarrow> Q' j r sh v) \<Longrightarrow>
    (case R of None \<Rightarrow> A | Some None \<Rightarrow> B | Some (Some (j, r, sh, v)) \<Rightarrow> Q' j r sh v)"
  by (auto split: option.splits)

lemma uvarint_loop:
  fixes s S e n rof k shift num
  defines "dec \<equiv> uvarint_dec_loop (take (e - (n + rof)) (drop rof (seg_data s) @ concat (map seg_data S))) k shift num"
  assumes "offs_ok n (s # S)" "rof \<le> seg_of s" "n + rof \<le> e" "e \<le> n + seg_sum (s # S)" "\<forall>x \<in> set (s # S). seg_ok x" "\<forall>x \<in> set C. seg_of x = 0"
  shows "case slice_uvarint_loop ((s # S) @ C) i rof e shift num of
      None \<Rightarrow> dec = None
    | Some None \<Rightarrow> dec = Some (0, None)
    | Some (Some (j, r, sh, v)) \<Rightarrow> \<exists>P s' S' m. s # S = P @ s' # S' \<and> j = i + length P \<and> r < seg_of s' \<and> dec = Some (k + m, Some v) \<and> 0 < m \<and>
        sh = shift + 7 * m \<and> seg_absof s' + r + 1 = n + rof + m \<and> n + rof + m \<le> e"
  using assms(2-) unfolding dec_def
proof (induction S arbitrary: s i n rof k shift num)
  case Nil
  let ?xs = "drop rof (seg_data s)"
  have s: "length ?xs = seg_of s - rof" "seg_absof s = n" using Nil.prems by simp_all
  show ?case
    using uvarint_seg [of n rof e ?xs "[]" k shift num] Nil.prems(2,3,6) s uvarint_spare [of C]
    by (auto simp: seg_data_def split: option.splits uvarint_res.splits intro!: exI [of _ "[]"])
next
  case (Cons x S)
  let ?xs = "drop rof (seg_data s)" and ?zs = "concat (map seg_data (x # S))"
  let ?seg = "slice_uvarint_seg ?xs n rof e shift num"
  have s: "length ?xs = seg_of s - rof" "seg_absof s = n" using Cons.prems by simp_all
  have e: "slice_uvarint_loop ((s # x # S) @ C) i rof e shift num = (case ?seg of
        None \<Rightarrow> None
      | Some (UV_DONE rof shift num) \<Rightarrow> Some (Some (i, rof, shift, num))
      | Some UV_UNDERFLOW \<Rightarrow> Some None
      | Some (UV_MORE shift num) \<Rightarrow> slice_uvarint_loop ((x # S) @ C) (i + 1) 0 e shift num)"
    using s(2) by (simp add: seg_data_def split: option.splits uvarint_res.splits)
  note u = uvarint_seg [of n rof e ?xs ?zs k shift num, OF Cons.prems(3)]
  show ?case
  proof (cases ?seg)
    case None
    then show ?thesis using u e by simp
  next
    case (Some r)
    show ?thesis
    proof (cases r)
      case (UV_DONE rof' sh v)
      then show ?thesis using u e Some s Cons.prems(2)
        by (auto intro!: exI [of _ "[]"] exI [of _ s] exI [of _ "rof' + 1 - rof"])
    next
      case UV_UNDERFLOW
      then show ?thesis using u e Some by simp
    next
      case (UV_MORE sh v)
      have n: "n + seg_of s \<le> e" "rof + length ?xs = seg_of s" using u Some UV_MORE s Cons.prems(2) by auto
      have ih: "case slice_uvarint_loop ((x # S) @ C) (i + 1) 0 e sh v of
          None \<Rightarrow> uvarint_dec_loop (take (e - (n + seg_of s + 0)) (drop 0 (seg_data x) @ concat (map seg_data S))) (k + length ?xs) sh v = None
        | Some None \<Rightarrow> uvarint_dec_loop (take (e - (n + seg_of s + 0)) (drop 0 (seg_data x) @ concat (map seg_data S))) (k + length ?xs) sh v = Some (0, None)
        | Some (Some (j, r, sh', v')) \<Rightarrow> \<exists>P s' S' m. x # S = P @ s' # S' \<and> j = i + 1 + length P \<and> r < seg_of s' \<and>
            uvarint_dec_loop (take (e - (n + seg_of s + 0)) (drop 0 (seg_data x) @ concat (map seg_data S))) (k + length ?xs) sh v = Some (k + length ?xs + m, Some v') \<and> 0 < m \<and>
            sh' = sh + 7 * m \<and> seg_absof s' + r + 1 = n + seg_of s + 0 + m \<and> n + seg_of s + 0 + m \<le> e"
        by (rule Cons.IH) (use Cons.prems n in auto)
      have d: "uvarint_dec_loop (take (e - (n + rof)) (?xs @ ?zs)) k shift num =
          uvarint_dec_loop (take (e - (n + seg_of s + 0)) (drop 0 (seg_data x) @ concat (map seg_data S))) (k + length ?xs) sh v"
        "sh = shift + 7 * length ?xs"
        using u unfolding Some UV_MORE option.case uvarint_res.case n(2) by (simp_all only: add_0_right drop_0 list.map concat.simps)
      have "slice_uvarint_loop ((s # x # S) @ C) i rof e shift num = slice_uvarint_loop ((x # S) @ C) (i + 1) 0 e sh v"
        using e Some UV_MORE by simp
      then show ?thesis unfolding d(1)
        by (rule ssubst, intro uvarint_weaken [OF ih], elim exE conjE)
          (rule exI [of _ "s # _"], rule exI, rule exI, rule exI [of _ "length ?xs + _"], use d(2) n(2) in \<open>auto simp: add.assoc\<close>)
    qed
  qed
qed

lemma uvarint_slice:
  assumes "slice_at P s S C rbuf sl"
  shows "case slice_uvarint_loop (drop (length P) (rbuf_segments rbuf)) (length P) (sl_rof sl) (sl_end sl) 0 0 of
      None \<Rightarrow> rd_uvarint_dec (slice_rest rbuf sl) = None
    | Some None \<Rightarrow> rd_uvarint_dec (slice_rest rbuf sl) = Some (0, None)
    | Some (Some (j, r, sh, v)) \<Rightarrow> \<exists>D s' S' m. s # S = D @ s' # S' \<and> j = length P + length D \<and> r < seg_of s' \<and>
        rd_uvarint_dec (slice_rest rbuf sl) = Some (0 + m, Some v) \<and> 0 < m \<and> sh = 0 + 7 * m \<and>
        seg_absof s' + r + 1 = seg_sum P + sl_rof sl + m \<and> seg_sum P + sl_rof sl + m \<le> sl_end sl"
proof -
  note p = slice_at_pos [OF assms] slice_at_abs [OF assms]
  have o: "offs_ok (seg_sum P) (s # S)" "sl_rof sl \<le> seg_of s" "seg_sum P + sl_rof sl \<le> sl_end sl" "sl_end sl \<le> seg_sum P + seg_sum (s # S)"
    "\<forall>x \<in> set (s # S). seg_ok x" "\<forall>x \<in> set C. seg_of x = 0" "rbuf_segments rbuf = P @ s # S @ C"
    using assms p(1) by (auto simp: slice_at_def offs_ok_append)
  have "rd_uvarint_dec (slice_rest rbuf sl) =
      uvarint_dec_loop (take (sl_end sl - (seg_sum P + sl_rof sl)) (drop (sl_rof sl) (seg_data s) @ concat (map seg_data S))) 0 0 0"
    using p by (simp add: slice_rest_def rd_uvarint_dec_def)
  moreover have "drop (length P) (rbuf_segments rbuf) = (s # S) @ C" using o(7) by simp
  ultimately show ?thesis using uvarint_loop [OF o(1-6), where i = "length P" and k = 0 and shift = 0 and num = 0] by (simp only:)
qed

lemma read_uvarint_ok:
  assumes "slice_ok rbuf sl" "rd_uvarint_dec (slice_rest rbuf sl) = Some (n, Some v)"
  obtains sl' where "rd_slice_read_uvarint rbuf sl = Some (n, Some v, sl')" "slice_ok rbuf sl'" "slice_rest rbuf sl' = drop n (slice_rest rbuf sl)"
    "rd_slice_abs_offset rbuf sl' = rd_slice_abs_offset rbuf sl + n" "sl_end sl' = sl_end sl" "sl_start sl' = sl_start sl" "0 < n"
proof -
  obtain P s S C where a: "slice_at P s S C rbuf sl" using assms by (auto simp: slice_ok_def)
  note p = slice_at_pos(1) [OF a] slice_at_abs [OF a]
  from uvarint_slice [OF a] assms(2) obtain D s' S' r where
    r: "slice_uvarint_loop (drop (length P) (rbuf_segments rbuf)) (length P) (sl_rof sl) (sl_end sl) 0 0 = Some (Some (length P + length D, r, 7 * n, v))"
      "s # S = D @ s' # S'" "r < seg_of s'" "0 < n"
      "seg_absof s' + r + 1 = seg_sum P + sl_rof sl + n" "seg_sum P + sl_rof sl + n \<le> sl_end sl"
    by (auto split: option.splits)
  let ?sl = "sl\<lparr>sl_seg := Some (length P + length D), sl_rof := r + 1\<rparr>"
  have b: "slice_at (P @ D) s' S' C rbuf ?sl" using a r(2,3,5,6) p by (auto simp: slice_at_def)
  then have q: "rd_slice_abs_offset rbuf ?sl = rd_slice_abs_offset rbuf sl + n" using slice_at_abs [OF b] p r(5) by simp
  have "sl_seg sl = Some (length P)" using a by (simp add: slice_at_def)
  then have e: "rd_slice_read_uvarint rbuf sl = Some (n, Some v, ?sl)" using r(1) by (simp add: rd_slice_read_uvarint_def)
  have "slice_rest rbuf ?sl = drop n (slice_rest rbuf sl)" using q by (simp add: slice_rest_def drop_take add.commute)
  moreover have "slice_ok rbuf ?sl" using b by (auto simp: slice_ok_def)
  ultimately show ?thesis using that [OF e] q r(4) by simp
qed

lemma read_uvarint_underflow:
  assumes "slice_ok rbuf sl" "rd_uvarint_dec (slice_rest rbuf sl) = Some (0, None)"
  shows "rd_slice_read_uvarint rbuf sl = Some (0, None, sl)"
proof -
  obtain P s S C where a: "slice_at P s S C rbuf sl" using assms by (auto simp: slice_ok_def)
  then have "sl_seg sl = Some (length P)" by (simp add: slice_at_def)
  then show ?thesis using uvarint_slice [OF a] assms(2) by (auto simp: rd_slice_read_uvarint_def split: option.splits)
qed

lemma read_varint_ok:
  assumes "slice_ok rbuf sl" "rd_varint_dec_i64 (slice_rest rbuf sl) = Some (n, Some v)"
  obtains sl' where "rd_slice_read_varint rbuf sl = Some (n, Some v, sl')" "slice_ok rbuf sl'" "slice_rest rbuf sl' = drop n (slice_rest rbuf sl)"
    "rd_slice_abs_offset rbuf sl' = rd_slice_abs_offset rbuf sl + n" "sl_end sl' = sl_end sl" "sl_start sl' = sl_start sl" "0 < n"
proof -
  obtain u where u: "rd_uvarint_dec (slice_rest rbuf sl) = Some (n, Some u)" "drop_bit 1 u XOR - (u AND 1) = v"
    using assms(2) by (auto simp: rd_varint_dec_i64_def bind_eq_Some_conv split: if_splits)
  obtain sl' where r: "rd_slice_read_uvarint rbuf sl = Some (n, Some u, sl')" "slice_ok rbuf sl'" "slice_rest rbuf sl' = drop n (slice_rest rbuf sl)"
    "rd_slice_abs_offset rbuf sl' = rd_slice_abs_offset rbuf sl + n" "sl_end sl' = sl_end sl" "sl_start sl' = sl_start sl" "0 < n"
    by (rule read_uvarint_ok [OF assms(1) u(1)])
  then show ?thesis using that [of sl'] u(2) by (simp add: rd_slice_read_varint_def)
qed

section \<open>Seeking and peeking\<close>

lemma slice_seek_ok:
  assumes "slice_ok rbuf sl" "sl_start sl + off < sl_end sl"
  obtains sl' where "rd_slice_seek rbuf sl off = Some (Inr sl')" "slice_ok rbuf sl'" "rd_slice_abs_offset rbuf sl' = sl_start sl + off"
    "sl_start sl' = sl_start sl" "sl_end sl' = sl_end sl"
proof -
  obtain P s S C where a: "slice_at P s S C rbuf sl" using assms by (auto simp: slice_ok_def)
  note p = slice_at_pos [OF a]
  let ?a = "sl_start sl + off"
  have o: "offs_ok 0 (P @ s # S)" "rbuf_len rbuf = seg_sum (P @ s # S)" "rbuf_segments rbuf = P @ s # S @ C" "sl_seg sl = Some (length P)"
    "sl_end sl \<le> rbuf_len rbuf" using a by (auto simp: slice_at_def)
  have "\<exists>k < length (P @ s # S). rd_buf_get_segment_at_offset rbuf (sl_seg sl) ?a = Some k \<and> seg_absof ((P @ s # S) ! k) \<le> ?a \<and>
      ?a < seg_absof ((P @ s # S) ! k) + seg_of ((P @ s # S) ! k)"
  proof (cases "?a < seg_absof s")
    case True
    then show ?thesis using find_ok [OF o(1), of ?a C 0] assms(2) o by (auto simp: rd_buf_get_segment_at_offset_def)
  next
    case False
    have "offs_ok (seg_sum P) (s # S)" using o(1) by (simp add: offs_ok_append)
    then obtain k where k: "k < length (s # S)" "find_segment ((s # S) @ C) (length P) ?a = Some (length P + k)"
      "seg_absof ((s # S) ! k) \<le> ?a" "?a < seg_absof ((s # S) ! k) + seg_of ((s # S) ! k)"
      using find_ok [of "seg_sum P" "s # S" ?a C "length P"] False p(1) assms(2) o(2,5) by auto
    have "drop (length P) (rbuf_segments rbuf) = (s # S) @ C" using o(3) by simp
    then have "rd_buf_get_segment_at_offset rbuf (sl_seg sl) ?a = Some (length P + k)"
      using k(2) False o assms(2) by (simp add: rd_buf_get_segment_at_offset_def Let_def del: find_segment.simps)
    then show ?thesis using k by (intro exI [of _ "length P + k"]) (simp add: nth_append)
  qed
  then obtain k where k: "k < length (P @ s # S)" "rd_buf_get_segment_at_offset rbuf (sl_seg sl) ?a = Some k"
    "seg_absof ((P @ s # S) ! k) \<le> ?a" "?a < seg_absof ((P @ s # S) ! k) + seg_of ((P @ s # S) ! k)" by blast
  obtain P' s' S' where B: "P @ s # S = P' @ s' # S'" "length P' = k" "(P @ s # S) ! k = s'"
    by (rule that [OF id_take_nth_drop [OF k(1)]]) (use k(1) in simp_all)
  have n: "rbuf_segments rbuf = P' @ s' # S' @ C" using o(3) B(1) by (metis append.assoc append_Cons)
  let ?sl = "sl\<lparr>sl_seg := Some k, sl_rof := ?a - seg_absof s'\<rparr>"
  have b: "slice_at P' s' S' C rbuf ?sl" using a n k B assms(2) by (auto simp: slice_at_def)
  show ?thesis
    by (rule that [of ?sl]) (use b slice_at_abs [OF b] k B n assms(2) in \<open>auto simp: slice_ok_def rd_slice_seek_def Let_def nth_append\<close>)
qed

lemma peek_ok:
  assumes "slice_ok rbuf sl" "0 < sz" "sl_start sl + off + sz \<le> sl_end sl"
  shows "rd_slice_peek rbuf sl off sz = Some (Inr (take sz (drop (sl_start sl + off) (content rbuf))))"
proof -
  obtain s1 where s1: "rd_slice_seek rbuf sl off = Some (Inr s1)" "slice_ok rbuf s1" "rd_slice_abs_offset rbuf s1 = sl_start sl + off"
    "sl_end s1 = sl_end sl"
    using slice_seek_ok [OF assms(1), of off] assms(2,3) by auto
  then have l: "length (slice_rest rbuf s1) = sl_end sl - (sl_start sl + off)" using slice_facts(5) [OF s1(2)] by (simp add: rd_slice_remains_def)
  then have "sz \<le> length (slice_rest rbuf s1)" using assms(3) by simp
  then obtain s2 where "rd_slice_read rbuf s1 sz = Some (Inr (take sz (slice_rest rbuf s1), s2))"
    by (rule read_ok [OF s1(2)])
  moreover have "take sz (slice_rest rbuf s1) = take sz (drop (sl_start sl + off) (content rbuf))"
    using s1 assms(3) by (simp add: slice_rest_def min_def)
  ultimately show ?thesis using s1 by (simp add: rd_slice_peek_def)
qed

end
