(* ===== verification/Spec2Isabelle.thy ===== *)
theory Spec2Isabelle
  imports Pid_Theorems Produce_Theorems Batch_Theorems Rdbuf_Slice
begin

text \<open>
  A verification of the exactly-once producer of librdkafka, the Kafka client library in C under
  \<open>src/src\<close>: the transactional and the idempotent producer, the way a message takes from
  \<open>rd_kafka_producev\<close> to its delivery report, and the engines both stand on.

  \<^bold>\<open>The program.\<close> The application calls the transactional API (\<open>rdkafka_txnmgr.c\<close>), whose calls
  send ops to the main thread and wait for the answer. The main thread runs the transaction
  manager and the producer id state machine (\<open>rdkafka_idempotence.c\<close>): state in \<open>rk->rk_eos\<close>, requests to the
  transaction coordinator, a response handler for each, and timers (\<open>rdkafka_timer.c\<close>) that retry. Messages are
  put in the message queue of their partition (\<open>rdkafka_msg.c\<close>, \<open>rdkafka_partition.c\<close>); a broker thread moves
  them to the transmit queue, batches them into ProduceRequests (\<open>rdkafka_broker.c\<close>,
  \<open>rdkafka_msgset_writer.c\<close>), and the response (\<open>rdkafka_request.c\<close>) acknowledges, retries or fails them. The two sides
  meet in the producer id, in the number of partitions in flight, which the drain before a new
  epoch waits for, and in the errors of deliveries, which decide whether a transaction may
  commit.

  \<^bold>\<open>How the code is modelled.\<close> A C struct is a record, an enum a datatype, a function of the same name
  returns the changed state. A failing \<open>rd_assert\<close> or \<open>RD_BUG\<close>, signed overflow and a null
  pointer are \<open>None\<close> in the option monad, so a theorem that an operation returns \<open>Some\<close> says that it does
  not abort. Error codes are the integers of \<open>rdkafka.h\<close>. Integers that may wrap are reduced or are words at
  their width; message ids and byte counters, which the code itself never lets wrap, are
  integers. What an operation reads of the rest of the library is an argument: the clock, the
  jitter, which brokers are up, what versions they support (record \<open>rd_env\<close> of \<open>Eos_State\<close>,
  \<open>produce_env\<close> of \<open>Produce\<close>), the parsed response. What it does to the rest is kept in the state: the ops sent
  (\<open>rk_ops\<close>), the requests (\<open>rk_reqs\<close>), other effects in order (\<open>rk_fx\<close>, \<open>ps_fx\<close>), delivery reports (\<open>ps_dr\<close>). Log
  lines and the texts of errors are left out.

  \<^bold>\<open>The theories.\<close>
  \<^item> \<open>Prelude\<close>: C integers, \<open>RD_CMP\<close>, lemmas on lists and the predicate \<open>rd_returns\<close> for total correctness.
  \<^item> \<open>Sysqueue\<close> (\<open>rdsysqueue.h\<close>): sorted insertion and concatenation; the locale \<open>rd_comparator\<close> is the contract
    of a comparison function, interpreted on each comparator of the code where it is defined.
  \<^item> \<open>Rd_Time\<close> (\<open>rdtime.h\<close>), \<open>Errors\<close> (\<open>rdkafka_error.c\<close>), \<open>Varint\<close> (\<open>rdvarint.h\<close>).
  \<^item> \<open>Timers\<close> (\<open>rdkafka_timer.c\<close>): every operation on timers. \<open>rd_timer_callbacks\<close> is the contract of the callbacks, which
    \<open>Eos_Dispatch\<close> proves for the timers of the producer; \<open>rd_timer_service\<close> is what the engine promises its
    clients.
  \<^item> \<open>Eos_State\<close>, \<open>Eos_Core\<close>: the state of the exactly-once producer (\<open>rk_eos\<close>, the fatal error) and the primitives of
    \<open>rdkafka.c\<close>, \<open>rdkafka_txnmgr.h\<close> and \<open>rdkafka_txnmgr.c\<close>; \<open>Txn_Requests\<close> (\<open>rdkafka_request.c\<close>): the request senders;
    \<open>Idempotence\<close> (\<open>rdkafka_idempotence.c\<close>), \<open>Txn_Manager\<close> (ops and response handlers of \<open>rdkafka_txnmgr.c\<close>),
    \<open>Txn_Api\<close> (its public functions).
  \<^item> \<open>Eos_Actions\<close>: the abstract protocol, a step relation with the guard and the permission of each change.
    \<open>Eos_Refinement\<close>, \<open>Txn_Refinement\<close>: every function is a sequence of protocol actions. The locales \<open>eos_invariant\<close> and
    \<open>eos_evolution\<close> carry facts from actions to functions; \<open>Eos_Invariants\<close> interprets them.
  \<^item> \<open>Eos_System\<close>: the step relation \<open>eos_step\<close>, one step for every call into the producer in any order, its reachable
    states, and the locale \<open>eos_safety\<close> for invariants of them; \<open>Eos_Exec\<close> runs it for the witnesses.
  \<^item> \<open>Msgq\<close> (\<open>rdkafka_msg.h\<close>, \<open>rdkafka_msg.c\<close>): message queues; the locale \<open>msg_order\<close> has the lemmas on ordered queues for the FIFO
    and the LIFO order. \<open>Produce\<close>: the produce path of \<open>rdkafka_partition.c\<close>, \<open>rdkafka_broker.c\<close>, \<open>rdkafka_request.c\<close>,
    \<open>rdkafka_msgset_writer.c\<close>; \<open>Produce_Conf\<close> (\<open>rdkafka_conf.c\<close>): how a producer and its topics are configured.
  \<^item> \<open>Produce_Inv\<close>, \<open>Produce_Ops\<close>: the invariant of the produce path and that every operation keeps it.
    \<open>Produce_System\<close>: the composition with \<open>Eos_System\<close>; \<open>Produce_Exec\<close> runs it.

  \<^bold>\<open>The theorems.\<close>
  \<^item> \<open>Eos_Theorems\<close> (C1 to C8): in every reachable state and on every step, the transaction state machine is
    obeyed, EndTxn is sent only to end a transaction, the partition lists are consistent, messages
    are accepted only in a transaction, a fatal error is final, the producer id changes only by
    a response, and the steps refine the protocol.
  \<^item> \<open>Txn_Theorems\<close> (C9 to C14): what committing, failing and being fenced do; no op aborts; API calls exclude
    each other.
  \<^item> \<open>Timer_Theorems\<close> (C15 to C21): the timer engine, backoffs, timeouts and sorted lists.
  \<^item> \<open>Pid_Theorems\<close> (C22 to C28): API calls return, acquiring and bumping producer ids, and three errors of the
    code: an abort that skips EndTxn, a stale result reported as success, a reference released
    twice.
  \<^item> \<open>Produce_Theorems\<close> (C29 to C33): no message is lost or duplicated, counters and order of the queues, at most
    five requests with whole batches, refinement to the instance, responses never abort.
  \<^item> \<open>Batch_Theorems\<close> (C34 to C39): retries, merging queues, the limits of a request, and three errors of the
    code: the overflow of the retry backoff, record errors overwritten, sequence numbers compared
    across the wrap-around.
  \<^item> \<open>Varint\<close> (C40): decoding inverts encoding.

  \<^bold>\<open>Fuel and termination.\<close> No definition uses fuel. Loops over queues are structural; the dispatcher loop of the
  timers, which ends only when the clock passes its end, is a partial function and C15 proves
  that it returns for every clock that does not go back.

  \<^bold>\<open>What the steps assume.\<close> A step runs to its end before another starts: the code serves ops, timers and responses
  on the main thread and takes \<open>rd_kafka_wrlock\<close> or the partition lock around what others touch.
  A response is delivered only for a request that was sent, though possibly twice or late, with
  any error and any content. A response to AddOffsetsToTxn is delivered while the transaction is
  open, since \<open>rd_kafka_send_offsets_to_transaction\<close> waits for it and no other call may run meanwhile. In
  \<open>Produce_System\<close> the steps of the main thread leave the number of partitions in flight alone, since the
  produce path itself counts them, and messages are enqueued on partitions of the topic, not on
  the unassigned partition -1. C33 and C34 have hypotheses on the environment, which their texts
  state and their witnesses satisfy.

  \<^bold>\<open>Not modelled.\<close> Sockets, TLS and SASL, threads and condition variables, which have no semantics here; the
  encoding of requests to bytes and compression, so the size of a message in a request is an argument of the
  writer; the consumer, the Admin API, metadata, telemetry, the mock cluster and the C++ wrapper,
  which the producer does not depend on; the table of configuration properties and its parser; vendored
  libraries. Of the API, \<open>rd_kafka_send_offsets_to_transaction\<close> is modelled up to the request to the
  group coordinator, whose lookup is an effect.
\<close>

end
